(* ===== verification/Prelude.thy ===== *)
theory Prelude
  imports Complex_Main "HOL-Library.Word" "HOL-Library.List_Lexorder" "HOL-Library.Char_ord"
begin

text \<open>
  Shared ground of the development: the machine integers of the code (\<open>uint\<close>, \<open>quint16\<close>,
  \<open>quint64\<close>), the decimal text of a number (\<open>QString::number\<close>, \<open>QString::toUInt\<close>), the IEEE
  comparisons of \<open>double\<close>, and the collections of rewrite rules the component theories fill.
\<close>

named_theorems qt_simps \<open>equations of the Qt containers\<close>
named_theorems inv_intros \<open>preservation of component invariants\<close>
named_theorems ctl_defs \<open>definitions of the database controller operations\<close>

section \<open>Machine integers\<close>

type_synonym u8 = "8 word"
type_synonym u16 = "16 word"
type_synonym u32 = "32 word"
type_synonym u64 = "64 word"

text \<open>A value of type \<open>int\<close> stored into a \<open>uint\<close> field wraps modulo \<open>2 ^ 32\<close>.\<close>

definition to_uint :: "int \<Rightarrow> u32" where
  "to_uint i = word_of_int i"

lemma uint_to_uint: "0 \<le> i \<Longrightarrow> i < 2 ^ 32 \<Longrightarrow> uint (to_uint i) = i"
  by (simp add: to_uint_def uint_word_of_int)

lemma to_uint_minus_one: "to_uint (- 1) = 4294967295"
  by (simp add: to_uint_def)

section \<open>Decimal text of numbers\<close>

text \<open>\<open>QString::number\<close> of an unsigned value: decimal digits, most significant first.\<close>

definition digit_char :: "nat \<Rightarrow> char" where
  "digit_char d = char_of (48 + d)"

fun decimal :: "nat \<Rightarrow> string" where
  "decimal n = (if n < 10 then [digit_char n] else decimal (n div 10) @ [digit_char (n mod 10)])"

declare decimal.simps [simp del]

definition qnumber :: "u32 \<Rightarrow> string" where
  "qnumber w = decimal (unat w)"

text \<open>Reading decimal digits back; \<open>None\<close> on a character that is not a digit.\<close>

definition char_digit :: "char \<Rightarrow> nat option" where
  "char_digit c = (let n = of_char c in if 48 \<le> n \<and> n \<le> (57::nat) then Some (n - 48) else None)"

fun read_digits :: "nat \<Rightarrow> string \<Rightarrow> nat option" where
  "read_digits acc [] = Some acc"
| "read_digits acc (c # cs) =
     (case char_digit c of None \<Rightarrow> None | Some d \<Rightarrow> read_digits (acc * 10 + d) cs)"

text \<open>
  \<open>QString::toUInt\<close>: 0 for a text that is not a decimal number or does not fit in 32 bits.
\<close>

definition toUInt :: "string \<Rightarrow> u32" where
  "toUInt s = (if s = [] then 0
     else case read_digits 0 s of
       None \<Rightarrow> 0
     | Some n \<Rightarrow> if n < 2 ^ 32 then word_of_nat n else 0)"

lemma char_digit_digit_char: "d < 10 \<Longrightarrow> char_digit (digit_char d) = Some d"
  by (simp add: char_digit_def digit_char_def Let_def of_char_of)

lemma decimal_nonempty [simp]: "decimal n \<noteq> []"
  by (subst decimal.simps) simp

lemma decimal_no_underscore: "CHR 0x5F \<notin> set (decimal n)"
proof (induction n rule: decimal.induct)
  case (1 n)
  have "digit_char d \<noteq> CHR 0x5F" if "d < 10" for d
    using char_digit_digit_char [OF that] by (auto simp: char_digit_def)
  then have "digit_char n \<noteq> CHR 0x5F" if "n < 10" using that .
  moreover have "digit_char (n mod 10) \<noteq> CHR 0x5F" using \<open>\<And>d. d < 10 \<Longrightarrow> digit_char d \<noteq> CHR 0x5F\<close> by simp
  ultimately show ?case using 1 by (subst decimal.simps) auto
qed

lemma read_digits_append:
  "read_digits acc (xs @ ys) =
     (case read_digits acc xs of None \<Rightarrow> None | Some a \<Rightarrow> read_digits a ys)"
  by (induction acc xs rule: read_digits.induct) (auto split: option.splits)

lemma read_digits_decimal: "read_digits 0 (decimal n) = Some n"
proof (induction n rule: decimal.induct)
  case (1 n)
  show ?case
  proof (cases "n < 10")
    case True
    then show ?thesis by (subst decimal.simps) (simp add: char_digit_digit_char)
  next
    case False
    with 1 have "read_digits 0 (decimal (n div 10)) = Some (n div 10)" by simp
    moreover have "char_digit (digit_char (n mod 10)) = Some (n mod 10)"
      by (rule char_digit_digit_char) simp
    ultimately show ?thesis
      using False by (subst decimal.simps) (simp add: read_digits_append)
  qed
qed

lemma toUInt_qnumber [simp]: "toUInt (qnumber w) = w"
proof -
  have "unat w < 2 ^ 32" using unsigned_less [of w] by simp
  then show ?thesis by (simp add: toUInt_def qnumber_def read_digits_decimal)
qed

lemma qnumber_inject [simp]: "qnumber v = qnumber w \<longleftrightarrow> v = w"
  by (metis toUInt_qnumber)

lemma qnumber_nonempty [simp]: "qnumber w \<noteq> []"
  by (simp add: qnumber_def)

text \<open>The number in front of the first underscore can be read back.\<close>

lemma qnumber_prefix_inject:
  "qnumber v @ CHR 0x5F # xs = qnumber w @ CHR 0x5F # ys \<Longrightarrow> v = w"
proof -
  assume *: "qnumber v @ CHR 0x5F # xs = qnumber w @ CHR 0x5F # ys"
  have "takeWhile (\<lambda>c. c \<noteq> CHR 0x5F) (qnumber u @ CHR 0x5F # zs) = qnumber u" for u zs
    using decimal_no_underscore [of "unat u"] by (auto simp: qnumber_def takeWhile_append)
  with * show "v = w" by (metis qnumber_inject)
qed

section \<open>Floating point values\<close>

text \<open>
  The code only stores and compares most of its \<open>double\<close> values. A finite double is a rational
  number; the comparisons of IEEE 754 on it are exact, and every comparison with a NaN is false.
\<close>

datatype double = Fin rat | PosInf | NegInf | NaN

fun d_less :: "double \<Rightarrow> double \<Rightarrow> bool" where
  "d_less NaN _ = False"
| "d_less _ NaN = False"
| "d_less (Fin a) (Fin b) = (a < b)"
| "d_less NegInf y = (y \<noteq> NegInf)"
| "d_less x PosInf = (x \<noteq> PosInf)"
| "d_less _ _ = False"

fun d_eq :: "double \<Rightarrow> double \<Rightarrow> bool" where
  "d_eq NaN _ = False"
| "d_eq x y = (x = y)"

definition d_le :: "double \<Rightarrow> double \<Rightarrow> bool" where
  "d_le x y \<longleftrightarrow> d_less x y \<or> d_eq x y"

lemma d_eq_refl_iff: "d_eq x x \<longleftrightarrow> x \<noteq> NaN"
  by (cases x) simp_all

text \<open>Conversion of a finite double to an integer type truncates towards zero.\<close>

definition rat_trunc :: "rat \<Rightarrow> int" where
  "rat_trunc q = (if q < 0 then - \<lfloor>- q\<rfloor> else \<lfloor>q\<rfloor>)"

lemma rat_trunc_of_int [simp]: "rat_trunc (of_int i) = i"
  by (simp add: rat_trunc_def flip: of_int_minus)

lemma rat_trunc_numeral [simp]: "rat_trunc (numeral n) = numeral n"
  using rat_trunc_of_int [of "numeral n"] by simp

lemma rat_trunc_zero_one [simp]: "rat_trunc 0 = 0" "rat_trunc 1 = 1"
  using rat_trunc_of_int [of 0] rat_trunc_of_int [of 1] by simp_all

lemma rat_trunc_neg_numeral [simp]: "rat_trunc (- numeral n) = - numeral n"
  using rat_trunc_of_int [of "- numeral n"] by simp

end
