(* ===== verification/QtContainers.thy ===== *)
theory QtContainers
  imports Prelude
begin

text \<open>
  The Qt containers the code is written with: \<open>QMap\<close> (kept sorted by key, so that
  \<open>keys()\<close>, \<open>values()\<close> and iteration run in key order) and the operations of \<open>QList\<close> and
  \<open>QVector\<close> the components use. The locale \<open>ordered_map\<close> is the interface of a map; the lemmas
  about pairs of maps that mirror each other are proved in it once.
\<close>

section \<open>QMap\<close>

type_synonym ('k, 'v) qmap = "('k \<times> 'v) list"

abbreviation qempty :: "('k, 'v) qmap" where
  "qempty \<equiv> []"

fun qinsert :: "'k::linorder \<Rightarrow> 'v \<Rightarrow> ('k, 'v) qmap \<Rightarrow> ('k, 'v) qmap" where
  "qinsert k v [] = [(k, v)]"
| "qinsert k v ((a, b) # m) =
     (if k < a then (k, v) # (a, b) # m
      else if k = a then (k, v) # m
      else (a, b) # qinsert k v m)"

definition qremove :: "'k \<Rightarrow> ('k, 'v) qmap \<Rightarrow> ('k, 'v) qmap" where
  "qremove k m = filter (\<lambda>(a, b). a \<noteq> k) m"

definition qlookup :: "('k, 'v) qmap \<Rightarrow> 'k \<Rightarrow> 'v option" where
  "qlookup m = map_of m"

definition qcontains :: "('k, 'v) qmap \<Rightarrow> 'k \<Rightarrow> bool" where
  "qcontains m k \<longleftrightarrow> qlookup m k \<noteq> None"

text \<open>\<open>value(key, default)\<close>.\<close>

definition qvalue :: "('k, 'v) qmap \<Rightarrow> 'v \<Rightarrow> 'k \<Rightarrow> 'v" where
  "qvalue m d k = (case qlookup m k of None \<Rightarrow> d | Some v \<Rightarrow> v)"

definition qkeys :: "('k, 'v) qmap \<Rightarrow> 'k list" where
  "qkeys m = map fst m"

definition qvalues :: "('k, 'v) qmap \<Rightarrow> 'v list" where
  "qvalues m = map snd m"

text \<open>\<open>key(value, default)\<close>: the first key, in key order, that maps to the value.\<close>

definition qkey :: "('k, 'v) qmap \<Rightarrow> 'k \<Rightarrow> 'v \<Rightarrow> 'k" where
  "qkey m d v = (case filter (\<lambda>(a, b). b = v) m of [] \<Rightarrow> d | p # _ \<Rightarrow> fst p)"

definition qsorted :: "('k::linorder, 'v) qmap \<Rightarrow> bool" where
  "qsorted m \<longleftrightarrow> sorted_wrt (<) (map fst m)"

lemma qlookup_empty [simp]: "qlookup [] = Map.empty"
  by (simp add: qlookup_def)

lemma qlookup_Cons [simp]: "qlookup ((a, b) # m) k = (if k = a then Some b else qlookup m k)"
  by (simp add: qlookup_def)

lemma qlookup_insert [simp]: "qlookup (qinsert k v m) = (qlookup m)(k \<mapsto> v)"
  unfolding qlookup_def by (induction k v m rule: qinsert.induct) (auto simp: fun_eq_iff)

lemma qlookup_remove [simp]: "qlookup (qremove k m) = (qlookup m)(k := None)"
  unfolding qlookup_def qremove_def by (induction m) (auto simp: fun_eq_iff)

lemma qsorted_empty [simp]: "qsorted []"
  by (simp add: qsorted_def)

lemma set_keys_qinsert: "fst ` set (qinsert k v m) = insert k (fst ` set m)"
  by (induction k v m rule: qinsert.induct) auto

lemma qsorted_insert [simp]: "qsorted m \<Longrightarrow> qsorted (qinsert k v m)"
  unfolding qsorted_def
proof (induction k v m rule: qinsert.induct)
  case (1 k v)
  then show ?case by simp
next
  case (2 k v a b m)
  have "\<forall>x \<in> fst ` set (qinsert k v m). a < x" if "\<not> k < a" "k \<noteq> a"
    using that 2 by (auto simp: set_keys_qinsert)
  with 2 show ?case by auto
qed

lemma qsorted_remove [simp]: "qsorted m \<Longrightarrow> qsorted (qremove k m)"
  unfolding qsorted_def qremove_def by (induction m) auto

lemma set_qkeys [simp]: "set (qkeys m) = dom (qlookup m)"
  unfolding qkeys_def qlookup_def by (simp add: dom_map_of_conv_image_fst)

lemma qcontains_iff: "qcontains m k \<longleftrightarrow> k \<in> dom (qlookup m)"
  by (auto simp: qcontains_def)

lemma qsorted_distinct: "qsorted m \<Longrightarrow> distinct (map fst m)"
  unfolding qsorted_def by (simp add: strict_sorted_iff)

lemma set_qvalues: "qsorted m \<Longrightarrow> set (qvalues m) = ran (qlookup m)"
  unfolding qvalues_def qlookup_def by (simp add: qsorted_distinct ran_distinct)

lemma qlookup_qkey:
  assumes "qsorted m" "v \<in> set (qvalues m)"
  shows "qlookup m (qkey m d v) = Some v"
proof -
  from assms(2) have "filter (\<lambda>(a, b). b = v) m \<noteq> []"
    by (auto simp: qvalues_def filter_empty_conv)
  then obtain p ps where eq: "filter (\<lambda>(a, b). b = v) m = p # ps"
    by (cases "filter (\<lambda>(a, b). b = v) m") auto
  then have "p \<in> set (filter (\<lambda>(a, b). b = v) m)" by simp
  then have "p \<in> set m" "snd p = v" by auto
  moreover have "qkey m d v = fst p" by (simp add: qkey_def eq)
  ultimately show ?thesis
    using assms(1) by (auto simp: qlookup_def qsorted_distinct intro!: map_of_is_SomeI)
qed

lemma qlookup_eq_empty_iff: "qlookup m = Map.empty \<longleftrightarrow> m = []"
  by (simp add: qlookup_def map_of_eq_empty_iff)

lemma qsize_eq_card: "qsorted m \<Longrightarrow> length m = card (dom (qlookup m))"
  unfolding qlookup_def
  by (metis distinct_card dom_map_of_conv_image_fst length_map list.set_map qsorted_distinct)

lemma qmap_ext:
  assumes "qsorted m" "qsorted n" "qlookup m = qlookup n"
  shows "m = n"
proof (rule map_sorted_distinct_set_unique [where f = fst])
  show eq: "set m = set n"
    using assms by (simp add: qlookup_def qsorted_distinct flip: map_of_inject_set)
  show "inj_on fst (set m \<union> set n)"
    using qsorted_distinct [OF assms(1)] eq by (simp add: distinct_map)
qed (use assms(1,2) in \<open>simp_all add: qsorted_def strict_sorted_iff\<close>)

lemmas qmap_laws [qt_simps] =
  qlookup_empty qlookup_insert qlookup_remove qsorted_empty qsorted_insert qsorted_remove

section \<open>The map interface\<close>

locale ordered_map =
  fixes look :: "'m \<Rightarrow> 'k \<Rightarrow> 'v option"
    and ins :: "'k \<Rightarrow> 'v \<Rightarrow> 'm \<Rightarrow> 'm"
    and rem :: "'k \<Rightarrow> 'm \<Rightarrow> 'm"
    and wf :: "'m \<Rightarrow> bool"
  assumes look_ins: "look (ins k v m) = (look m)(k \<mapsto> v)"
    and look_rem: "look (rem k m) = (look m)(k := None)"
    and wf_ins: "wf m \<Longrightarrow> wf (ins k v m)"
    and wf_rem: "wf m \<Longrightarrow> wf (rem k m)"
begin

lemma dom_ins: "dom (look (ins k v m)) = insert k (dom (look m))"
  by (simp add: look_ins)

lemma dom_rem: "dom (look (rem k m)) = dom (look m) - {k}"
  by (simp add: look_rem)

lemma rem_absent: "look m k = None \<Longrightarrow> look (rem k m) = look m"
  by (auto simp: look_rem)

end

text \<open>
  Two maps that mirror each other: a key leads to a value in one exactly when the value leads
  back to the key in the other.
\<close>

definition mirror :: "('a \<Rightarrow> 'b option) \<Rightarrow> ('b \<Rightarrow> 'a option) \<Rightarrow> bool" where
  "mirror f g \<longleftrightarrow> (\<forall>x y. f x = Some y \<longleftrightarrow> g y = Some x)"

lemma mirrorD1: "mirror f g \<Longrightarrow> f x = Some y \<Longrightarrow> g y = Some x"
  by (simp add: mirror_def)

lemma mirrorD2: "mirror f g \<Longrightarrow> g y = Some x \<Longrightarrow> f x = Some y"
  by (simp add: mirror_def)

lemma mirror_dom_ran: "mirror f g \<Longrightarrow> dom g = ran f"
  by (auto simp: mirror_def ran_def)

lemma mirror_ran_dom: "mirror f g \<Longrightarrow> dom f = ran g"
  by (auto simp: mirror_def ran_def)

lemma mirror_inj: "mirror f g \<Longrightarrow> f x = Some y \<Longrightarrow> f x' = Some y \<Longrightarrow> x = x'"
  by (metis mirrorD1 option.inject)

lemma mirror_unique: "mirror f g \<Longrightarrow> mirror f g' \<Longrightarrow> g = g'"
  unfolding mirror_def by (metis ext not_None_eq)

locale mirrored_maps =
  L: ordered_map lookL insL remL wfL + R: ordered_map lookR insR remR wfR
  for lookL :: "'l \<Rightarrow> 'a \<Rightarrow> 'b option" and insL remL wfL
    and lookR :: "'r \<Rightarrow> 'b \<Rightarrow> 'a option" and insR remR wfR
begin

lemma mirror_insert:
  assumes m: "mirror (lookL l) (lookR r)" and "lookL l x = None" "lookR r y = None"
  shows "mirror (lookL (insL x y l)) (lookR (insR y x r))"
  using assms(2,3) unfolding mirror_def L.look_ins R.look_ins
  by (auto dest: mirrorD1 [OF m] mirrorD2 [OF m])

lemma mirror_remove:
  assumes m: "mirror (lookL l) (lookR r)" and "lookL l x = Some y"
  shows "mirror (lookL (remL x l)) (lookR (remR y r))"
  using assms(2) unfolding mirror_def L.look_rem R.look_rem
  by (auto dest: mirrorD1 [OF m] mirrorD2 [OF m] mirror_inj [OF m])

end

interpretation qm: ordered_map qlookup qinsert qremove qsorted
  by unfold_locales simp_all

interpretation qmm: mirrored_maps qlookup qinsert qremove qsorted qlookup qinsert qremove qsorted
  by unfold_locales

section \<open>QList and QVector\<close>

text \<open>\<open>QList::at\<close> and \<open>operator[]\<close> are undefined out of range: \<open>None\<close>.\<close>

definition list_at :: "'a list \<Rightarrow> nat \<Rightarrow> 'a option" where
  "list_at xs i = (if i < length xs then Some (xs ! i) else None)"

text \<open>\<open>QVector::remove(i)\<close> for an index in range.\<close>

definition remove_at :: "nat \<Rightarrow> 'a list \<Rightarrow> 'a list" where
  "remove_at i xs = take i xs @ drop (Suc i) xs"

text \<open>\<open>indexOf\<close> of an element that occurs.\<close>

fun index_of :: "'a \<Rightarrow> 'a list \<Rightarrow> nat" where
  "index_of x [] = 0"
| "index_of x (y # ys) = (if x = y then 0 else Suc (index_of x ys))"

lemma index_of_less: "x \<in> set xs \<Longrightarrow> index_of x xs < length xs"
  by (induction xs) auto

lemma remove_at_index_of: "remove_at (index_of x xs) xs = remove1 x xs"
  by (induction xs) (auto simp: remove_at_def)

lemma length_remove_at: "i < length xs \<Longrightarrow> length (remove_at i xs) = length xs - 1"
  by (simp add: remove_at_def)

end
