(* ===== verification/Database.thy ===== *)
theory Database
  imports QtContainers "HOL-Library.Multiset"
begin

text \<open>
  The database as the code sees it through \<open>QSqlDatabase\<close> and \<open>QSqlQuery\<close>. The server is not part of
  the repository: it is the record \<open>server\<close>, an argument of every operation that talks to it. What the
  code relies on is the locale \<open>sql_server\<close>: the documented behaviour of the statements the program
  sends, over an abstract view of the tables. The columns, foreign keys and time columns come from
  \<open>sql/arm_od_uav_tables.sql\<close> and \<open>sql/updates\<close>.
\<close>

section \<open>Values\<close>

text \<open>
  \<open>QTime\<close>: milliseconds since midnight, negative for a null time. \<open>QDateTime\<close>: the day and the time.
\<close>

type_synonym qtime = int
type_synonym qdatetime = "int \<times> qtime"

datatype variant =
    VInvalid
  | VInt int
  | VUInt u32
  | VDouble double
  | VText string
  | VTime qtime
  | VDateTime qdatetime

fun number_of :: "variant \<Rightarrow> int option" where
  "number_of (VInt i) = Some i"
| "number_of (VUInt w) = Some (uint w)"
| "number_of _ = None"

text \<open>\<open>QVariant::toInt\<close>, \<open>toUInt\<close> and \<open>toDouble\<close>: a conversion that is not possible gives 0.\<close>

fun v_int :: "variant \<Rightarrow> int" where
  "v_int (VInt i) = i"
| "v_int (VUInt w) = sint w"
| "v_int _ = 0"

fun v_uint :: "variant \<Rightarrow> u32" where
  "v_uint (VInt i) = to_uint i"
| "v_uint (VUInt w) = w"
| "v_uint _ = 0"

fun v_double :: "variant \<Rightarrow> double" where
  "v_double (VDouble d) = d"
| "v_double (VInt i) = Fin (of_int i)"
| "v_double (VUInt w) = Fin (of_int (uint w))"
| "v_double _ = Fin 0"

section \<open>Statements\<close>

text \<open>
  The statements the program prepares, with the placeholders as written. \<open>InsertInto t cs ds\<close> is
  \<open>INSERT INTO t (columns) VALUES (placeholders)\<close> with \<open>ON DUPLICATE KEY UPDATE ds\<close> when \<open>ds\<close> is
  not empty; \<open>SelectFrom t cs w\<close> is \<open>SELECT cs FROM t WHERE w\<close>, with \<open>[]\<close> for \<open>*\<close>;
  \<open>CountWhere t c k u d p\<close> is \<open>SELECT COUNT(*) FROM t WHERE c = (SELECT k FROM u WHERE d = p)\<close>.
\<close>

datatype sql =
    InsertInto string "(string \<times> string) list" "(string \<times> string) list"
  | SelectFrom string "string list" "(string \<times> string) list"
  | CountWhere string string string string string string
  | DeleteFrom string "(string \<times> string) list"

type_synonym bindings = "(string \<times> variant) list"

record sql_result =
  res_ok :: bool
  res_rows :: "variant list list"
  res_last :: variant

text \<open>\<open>QSqlQuery::next\<close> finds no row when the execution failed.\<close>

definition fetched :: "sql_result \<Rightarrow> variant list list" where
  "fetched r = (if res_ok r then res_rows r else [])"

text \<open>\<open>value(i)\<close> of a record: an invalid variant out of range.\<close>

definition rec_value :: "variant list \<Rightarrow> nat \<Rightarrow> variant" where
  "rec_value r i = (if i < length r then r ! i else VInvalid)"

record connection_params =
  cp_host :: string
  cp_port :: u16
  cp_login :: string
  cp_password :: string
  cp_dbName :: string

text \<open>
  The last five fields are not the server: the conversions of Qt between times and text, and the
  values of local variables the code leaves uninitialised, by the variable's name.
\<close>

record 's server =
  srv_is_open :: "'s \<Rightarrow> bool"
  srv_open :: "connection_params \<Rightarrow> 's \<Rightarrow> bool \<times> 's"
  srv_close :: "'s \<Rightarrow> 's"
  srv_prepare :: "sql \<Rightarrow> 's \<Rightarrow> bool"
  srv_exec :: "sql \<Rightarrow> bindings \<Rightarrow> 's \<Rightarrow> sql_result \<times> 's"
  srv_begin :: "'s \<Rightarrow> bool \<times> 's"
  srv_commit :: "'s \<Rightarrow> bool \<times> 's"
  fmt_time :: "qtime \<Rightarrow> string"
  fmt_datetime :: "qdatetime \<Rightarrow> string"
  reread_time :: "variant \<Rightarrow> qtime"
  reread_datetime :: "variant \<Rightarrow> qdatetime"
  junk :: "string \<Rightarrow> int"

definition v_string :: "variant \<Rightarrow> string" where
  "v_string v = (case v of VText s \<Rightarrow> s | VUInt w \<Rightarrow> qnumber w | _ \<Rightarrow> [])"

section \<open>Rows and the view of the tables\<close>

type_synonym row = "(string \<times> variant) list"
type_synonym tables = "string \<Rightarrow> row list"

text \<open>Names of tables and columns are compared without case.\<close>

text \<open>An upper-case ASCII letter is 65 to 90; its lower-case form has bit 5 set.\<close>

fun lower_char :: "char \<Rightarrow> char" where
  "lower_char (Char b0 b1 b2 b3 b4 b5 b6 b7) =
     Char b0 b1 b2 b3 b4
       (b5 \<or> \<not> b7 \<and> b6 \<and> (b0 \<or> b1 \<or> b2 \<or> b3 \<or> b4) \<and> \<not> (b4 \<and> b3 \<and> (b2 \<or> b1 \<and> b0)))
       b6 b7"

definition lower :: "string \<Rightarrow> string" where
  "lower s = map lower_char s"

definition cell :: "row \<Rightarrow> string \<Rightarrow> variant" where
  "cell r c = (case map_of r (lower c) of None \<Rightarrow> VInvalid | Some v \<Rightarrow> v)"

definition bound :: "bindings \<Rightarrow> string \<Rightarrow> variant" where
  "bound b p = (case map_of b p of None \<Rightarrow> VInvalid | Some v \<Rightarrow> v)"

record db_view =
  vw_open :: bool
  vw_rows :: tables
  vw_durable :: tables
  vw_intx :: bool

text \<open>A statement outside a transaction is committed at once.\<close>

definition write_table :: "string \<Rightarrow> row list \<Rightarrow> db_view \<Rightarrow> db_view" where
  "write_table t rs v =
     (let rows = (vw_rows v)(lower t := rs)
      in v\<lparr>vw_rows := rows, vw_durable := (if vw_intx v then vw_durable v else rows)\<rparr>)"

text \<open>The columns of type \<open>TIME\<close> and \<open>DATETIME\<close>, and the foreign keys, of the schema.\<close>

definition time_column :: "string \<Rightarrow> string \<Rightarrow> bool" where
  "time_column t c \<longleftrightarrow> (lower t, lower c) \<in>
     {(''info'', ''resttime''), (''info'', ''datetime''), (''uavmission'', ''timetotarget'')}"

definition foreign_keys :: "(string \<times> string \<times> string) list" where
  "foreign_keys =
     [(''uav'', ''uavtypeid'', ''uavtypes''), (''uav'', ''roleid'', ''uavroles''),
      (''devices'', ''devicetypeid'', ''devicetypes''), (''sources'', ''sourcetypeid'', ''sourcetypes''),
      (''info'', ''device'', ''devices''), (''info'', ''source'', ''sources''),
      (''info'', ''uavid'', ''uav''), (''info'', ''statustypeid'', ''statustypes''),
      (''target'', ''targettypeid'', ''targettypes''), (''target'', ''uavid'', ''uav''),
      (''uavmission'', ''uavid'', ''uav''), (''uavmission'', ''targetid'', ''target'')]"

definition columns :: "string \<Rightarrow> string list" where
  "columns t = (let u = lower t in
     if u = ''uav'' then
       [''id'', ''uavid'', ''ip'', ''uavtypeid'', ''roleid'', ''name'', ''freqid'']
     else if u = ''uavroles'' then [''id'', ''code'', ''name'']
     else if u = ''info'' then
       [''id'', ''uavid'', ''device'', ''source'', ''latitude'', ''longitude'', ''altitude'',
        ''latitudestddev'', ''longitudestddev'', ''altidudestddev'', ''speed'', ''yaw'', ''resttime'',
        ''statustypeid'', ''datetime'']
     else if u = ''devices'' then [''id'', ''devicetypeid'', ''port'', ''uavid'']
     else if u = ''sources'' then [''id'', ''sourcetypeid'', ''sourceid'']
     else if u = ''target'' then [''id'', ''uavid'', ''ip'', ''port'', ''targettypeid'']
     else if u = ''uavmission'' then
       [''id'', ''uavid'', ''targetid'', ''regioncenterlatitude'', ''regioncenterlongitude'',
        ''regioncenteraltitude'', ''regionradius'', ''timetotarget'']
     else if u \<in> {''uavtypes'', ''devicetypes'', ''sourcetypes'', ''statustypes'', ''targettypes''} then
       [''id'', ''name'']
     else [])"

text \<open>What a column holds after a value was stored in it without an error.\<close>

definition keeps :: "string \<Rightarrow> string \<Rightarrow> variant \<Rightarrow> variant \<Rightarrow> bool" where
  "keeps t c v w = (case v of
       VInt i \<Rightarrow> number_of w = Some i
     | VUInt u \<Rightarrow> number_of w = Some (uint u)
     | VDouble d \<Rightarrow> w = VDouble d
     | VText s \<Rightarrow> time_column t c \<or> w = VText s
     | _ \<Rightarrow> True)"

definition refers :: "tables \<Rightarrow> string \<Rightarrow> row \<Rightarrow> bool" where
  "refers T t r \<longleftrightarrow> (\<forall>(u, c, p) \<in> set foreign_keys. u = lower t \<longrightarrow>
     (case number_of (cell r c) of None \<Rightarrow> True
      | Some n \<Rightarrow> \<exists>q \<in> set (T p). cell q ''id'' = VInt n))"

text \<open>The primary key: every row has an id of its own.\<close>

definition keyed :: "row list \<Rightarrow> bool" where
  "keyed rs \<longleftrightarrow> distinct (map (\<lambda>r. cell r ''id'') rs)
     \<and> (\<forall>r \<in> set rs. \<exists>i. cell r ''id'' = VInt i \<and> 0 < i \<and> i < 2 ^ 31)"

lemma keyed_unique:
  "keyed rs \<Longrightarrow> q \<in> set rs \<Longrightarrow> r \<in> set rs \<Longrightarrow> cell q ''id'' = cell r ''id'' \<Longrightarrow> q = r"
  unfolding keyed_def distinct_map by (meson inj_onD)

definition well_formed_tables :: "tables \<Rightarrow> bool" where
  "well_formed_tables T \<longleftrightarrow> (\<forall>t. keyed (T (lower t)) \<and> (\<forall>r \<in> set (T (lower t)). map fst r = columns t))"

definition new_row :: "tables \<Rightarrow> string \<Rightarrow> (string \<times> string) list \<Rightarrow> bindings \<Rightarrow> row \<Rightarrow> bool" where
  "new_row T t cs b r \<longleftrightarrow> map fst r = columns t
     \<and> keyed (T (lower t) @ [r]) \<and> refers T t r
     \<and> (\<forall>(c, p) \<in> set cs. keeps t c (bound b p) (cell r c))"

text \<open>\<open>ON DUPLICATE KEY UPDATE\<close> changes the columns it names in the row that has the same key.\<close>

definition updated_row ::
  "tables \<Rightarrow> string \<Rightarrow> (string \<times> string) list \<Rightarrow> bindings \<Rightarrow> row \<Rightarrow> row \<Rightarrow> bool" where
  "updated_row T t ds b r r' \<longleftrightarrow> map fst r' = columns t \<and> refers T t r'
     \<and> (\<forall>(c, p) \<in> set ds. keeps t c (bound b p) (cell r' c))
     \<and> (\<forall>c. lower c \<notin> (lower \<circ> fst) ` set ds \<longrightarrow> cell r' c = cell r c)"

definition same_key :: "string list \<Rightarrow> string \<Rightarrow> (string \<times> string) list \<Rightarrow> bindings \<Rightarrow> row \<Rightarrow> bool" where
  "same_key ks t cs b r \<longleftrightarrow>
     (\<forall>(c, p) \<in> set cs. lower c \<in> set ks \<longrightarrow> keeps t c (bound b p) (cell r c))"

definition info_key :: "string list" where
  "info_key = [''uavid'', ''device'', ''source'', ''datetime'']"

definition selected :: "(variant \<Rightarrow> variant \<Rightarrow> bool) \<Rightarrow> (string \<times> string) list \<Rightarrow> bindings \<Rightarrow> row \<Rightarrow> bool" where
  "selected same w b r \<longleftrightarrow> (\<forall>(c, p) \<in> set w. same (cell r c) (bound b p))"

definition project :: "string list \<Rightarrow> row \<Rightarrow> variant list" where
  "project cs r = (if cs = [] then map snd r else map (cell r) cs)"

definition matching ::
  "(variant \<Rightarrow> variant \<Rightarrow> bool) \<Rightarrow> string \<Rightarrow> (string \<times> string) list \<Rightarrow> bindings \<Rightarrow> db_view \<Rightarrow> row list" where
  "matching same t w b v = filter (selected same w b) (vw_rows v (lower t))"

lemma columns_shape: "columns t = [] \<or> columns t = ''id'' # tl (columns t)"
  by (simp add: columns_def Let_def)

lemma distinct_columns [simp]: "distinct (columns t)"
  by (simp add: columns_def Let_def)

lemma lower_char_idem: "lower_char (lower_char c) = lower_char c"
  by (cases c) simp

lemma lower_idem [simp]: "lower (lower s) = lower s"
  by (simp add: lower_def lower_char_idem)

lemma columns_lower [simp]: "columns (lower t) = columns t"
  by (simp add: columns_def)

lemma cell_lower [simp]: "cell r (lower c) = cell r c"
  by (simp add: cell_def)

lemma columns_cong: "lower t = lower u \<Longrightarrow> columns t = columns u"
  by (metis columns_lower)

lemma wf_tables_update:
  assumes "well_formed_tables T" "keyed rs" "\<forall>r \<in> set rs. map fst r = columns t"
  shows "well_formed_tables (T(lower t := rs))"
  unfolding well_formed_tables_def
proof
  fix u
  show "keyed ((T(lower t := rs)) (lower u)) \<and> (\<forall>r \<in> set ((T(lower t := rs)) (lower u)). map fst r = columns u)"
  proof (cases "lower u = lower t")
    case True
    with columns_cong [OF True] assms(2,3) show ?thesis by simp
  next
    case False
    with assms(1) show ?thesis by (simp add: well_formed_tables_def)
  qed
qed

lemma lower_columns: "c \<in> set (columns t) \<Longrightarrow> lower c = c"
  by (auto simp: columns_def Let_def lower_def split: if_splits)

lemma lower_names [simp]:
  "lower ''info'' = ''info''"
  "lower ''uav'' = ''uav''"
  "lower ''uavroles'' = ''uavroles''"
  "lower ''devices'' = ''devices''"
  "lower ''sources'' = ''sources''"
  "lower ''target'' = ''target''"
  "lower ''uavmission'' = ''uavmission''"
  "lower ''uavtypes'' = ''uavtypes''"
  "lower ''devicetypes'' = ''devicetypes''"
  "lower ''sourcetypes'' = ''sourcetypes''"
  "lower ''statustypes'' = ''statustypes''"
  "lower ''targettypes'' = ''targettypes''"
  "lower ''UAV'' = ''uav''"
  "lower ''UAVROLES'' = ''uavroles''"
  "lower ''ID'' = ''id''"
  "lower ''id'' = ''id''"
  "lower ''uavId'' = ''uavid''"
  "lower ''uavID'' = ''uavid''"
  "lower ''ip'' = ''ip''"
  "lower ''uavTypeId'' = ''uavtypeid''"
  "lower ''roleId'' = ''roleid''"
  "lower ''name'' = ''name''"
  "lower ''freqId'' = ''freqid''"
  "lower ''code'' = ''code''"
  "lower ''device'' = ''device''"
  "lower ''source'' = ''source''"
  "lower ''latitude'' = ''latitude''"
  "lower ''longitude'' = ''longitude''"
  "lower ''altitude'' = ''altitude''"
  "lower ''latitudeStdDev'' = ''latitudestddev''"
  "lower ''longitudeStdDev'' = ''longitudestddev''"
  "lower ''speed'' = ''speed''"
  "lower ''yaw'' = ''yaw''"
  "lower ''restTime'' = ''resttime''"
  "lower ''statusTypeId'' = ''statustypeid''"
  "lower ''datetime'' = ''datetime''"
  "lower ''deviceTypeId'' = ''devicetypeid''"
  "lower ''port'' = ''port''"
  "lower ''sourceTypeId'' = ''sourcetypeid''"
  "lower ''sourceId'' = ''sourceid''"
  "lower ''targetID'' = ''targetid''"
  "lower ''targetTypeId'' = ''targettypeid''"
  "lower ''regionCenterLatitude'' = ''regioncenterlatitude''"
  "lower ''regionCenterLongitude'' = ''regioncenterlongitude''"
  "lower ''regionCenterAltitude'' = ''regioncenteraltitude''"
  "lower ''regionRadius'' = ''regionradius''"
  "lower ''timeToTarget'' = ''timetotarget''"
  "lower ''uavid'' = ''uavid''"
  "lower ''uavtypeid'' = ''uavtypeid''"
  "lower ''roleid'' = ''roleid''"
  "lower ''freqid'' = ''freqid''"
  "lower ''latitudestddev'' = ''latitudestddev''"
  "lower ''longitudestddev'' = ''longitudestddev''"
  "lower ''altidudestddev'' = ''altidudestddev''"
  "lower ''resttime'' = ''resttime''"
  "lower ''statustypeid'' = ''statustypeid''"
  "lower ''devicetypeid'' = ''devicetypeid''"
  "lower ''sourcetypeid'' = ''sourcetypeid''"
  "lower ''sourceid'' = ''sourceid''"
  "lower ''targetid'' = ''targetid''"
  "lower ''targettypeid'' = ''targettypeid''"
  "lower ''regioncenterlatitude'' = ''regioncenterlatitude''"
  "lower ''regioncenterlongitude'' = ''regioncenterlongitude''"
  "lower ''regioncenteraltitude'' = ''regioncenteraltitude''"
  "lower ''regionradius'' = ''regionradius''"
  "lower ''timetotarget'' = ''timetotarget''"
  by (simp_all add: lower_def)

lemma rec_value_project:
  assumes "map fst r = columns t" "i < length (columns t)"
  shows "rec_value (project [] r) i = cell r (columns t ! i)"
proof -
  from assms have i: "i < length r" by (metis length_map)
  have "(columns t ! i, snd (r ! i)) \<in> set r"
    using i assms(1) by (metis nth_map nth_mem prod.collapse)
  moreover have "distinct (map fst r)" by (simp add: assms(1))
  ultimately have "map_of r (columns t ! i) = Some (snd (r ! i))" by simp
  moreover have "lower (columns t ! i) = columns t ! i" by (rule lower_columns [of _ t]) (simp add: assms(2))
  ultimately show ?thesis using i by (simp add: rec_value_def project_def cell_def)
qed

section \<open>What the program relies on\<close>

text \<open>
  The laws are the documented behaviour of MySQL in strict mode, of the schema above and of Qt's
  driver: a statement that fails changes nothing; a \<open>SELECT\<close> lists the matching rows, in no
  particular order; an \<open>INSERT\<close> adds one row with a fresh id, whose references exist, and reports
  the id; \<open>ON DUPLICATE KEY UPDATE\<close> may instead change the row with the same unique key; a
  \<open>DELETE\<close> removes the matching rows; a transaction that begins commits the one that was open.
\<close>

locale sql_server =
  fixes srv :: "'s server"
    and view :: "'s \<Rightarrow> db_view"
    and valid :: "'s \<Rightarrow> bool"
    and same :: "variant \<Rightarrow> variant \<Rightarrow> bool"
  assumes is_open: "valid s \<Longrightarrow> srv_is_open srv s = vw_open (view s)"
    and tables_wf: "valid s \<Longrightarrow> well_formed_tables (vw_rows (view s))"
    and autocommit: "valid s \<Longrightarrow> \<not> vw_intx (view s) \<Longrightarrow> vw_durable (view s) = vw_rows (view s)"
    and same_number: "number_of a = Some m \<Longrightarrow> number_of a' = Some m' \<Longrightarrow> same a a' \<longleftrightarrow> m = m'"
    and same_text: "same (VText y) (VText y)"
    and exec_fails: "valid s \<Longrightarrow> srv_exec srv q b s = (r, s') \<Longrightarrow> \<not> res_ok r \<Longrightarrow> view s' = view s"
    and exec_open: "valid s \<Longrightarrow> srv_exec srv q b s = (r, s') \<Longrightarrow> vw_open (view s') = vw_open (view s)"
    and exec_select: "valid s \<Longrightarrow> srv_exec srv (SelectFrom t ps w) b s = (r, s') \<Longrightarrow> view s' = view s"
    and exec_rows: "valid s \<Longrightarrow> srv_exec srv (SelectFrom t ps w) b s = (r, s') \<Longrightarrow> res_ok r \<Longrightarrow>
      mset (res_rows r) = mset (map (project ps) (matching same t w b (view s)))"
    and exec_count: "valid s \<Longrightarrow> srv_exec srv (CountWhere t c k u d p) b s = (r, s') \<Longrightarrow> view s' = view s"
    and exec_counted: "valid s \<Longrightarrow> srv_exec srv (CountWhere t c k u d p) b s = (r, s') \<Longrightarrow> res_ok r \<Longrightarrow>
      length (matching same u [(d, p)] b (view s)) \<le> 1 \<and>
      (\<exists>n. res_rows r = [[n]] \<and> number_of n = Some (int (length (filter (\<lambda>row.
         \<exists>q \<in> set (matching same u [(d, p)] b (view s)). same (cell row c) (cell q k))
       (vw_rows (view s) (lower t))))))"
    and exec_insert: "valid s \<Longrightarrow> srv_exec srv (InsertInto t cs []) b s = (r, s') \<Longrightarrow> res_ok r \<Longrightarrow>
      \<exists>z. new_row (vw_rows (view s)) t cs b z \<and> number_of (res_last r) = number_of (cell z ''id'')
        \<and> view s' = write_table t (vw_rows (view s) (lower t) @ [z]) (view s)"
    and exec_upsert: "valid s \<Longrightarrow> srv_exec srv (InsertInto ''info'' cs ds) b s = (r, s') \<Longrightarrow> res_ok r \<Longrightarrow> ds \<noteq> [] \<Longrightarrow>
      (\<exists>z. new_row (vw_rows (view s)) ''info'' cs b z \<and> number_of (res_last r) = number_of (cell z ''id'')
        \<and> view s' = write_table ''info'' (vw_rows (view s) ''info'' @ [z]) (view s)) \<or>
      (\<exists>i < length (vw_rows (view s) ''info''). \<exists>z.
          same_key info_key ''info'' cs b (vw_rows (view s) ''info'' ! i)
        \<and> updated_row (vw_rows (view s)) ''info'' ds b (vw_rows (view s) ''info'' ! i) z
        \<and> view s' = write_table ''info'' ((vw_rows (view s) ''info'')[i := z]) (view s))"
    and exec_delete: "valid s \<Longrightarrow> srv_exec srv (DeleteFrom t w) b s = (r, s') \<Longrightarrow> res_ok r \<Longrightarrow>
      view s' = write_table t (filter (\<lambda>x. \<not> selected same w b x) (vw_rows (view s) (lower t))) (view s)"
    and begin_ok: "valid s \<Longrightarrow> srv_begin srv s = (True, s') \<Longrightarrow>
      view s' = (view s)\<lparr>vw_durable := vw_rows (view s), vw_intx := True\<rparr>"
    and begin_fails: "valid s \<Longrightarrow> srv_begin srv s = (False, s') \<Longrightarrow> view s' = view s"
    and commit_ok: "valid s \<Longrightarrow> srv_commit srv s = (True, s') \<Longrightarrow>
      view s' = (view s)\<lparr>vw_durable := vw_rows (view s), vw_intx := False\<rparr>"
    and commit_fails: "valid s \<Longrightarrow> srv_commit srv s = (False, s') \<Longrightarrow> view s' = view s"
    and closed: "valid s \<Longrightarrow> view (srv_close srv s) = (view s)\<lparr>vw_open := False, vw_rows := vw_durable (view s), vw_intx := False\<rparr>"
    and valid_exec: "valid s \<Longrightarrow> srv_exec srv q b s = (r, s') \<Longrightarrow> valid s'"
    and valid_begin: "valid s \<Longrightarrow> srv_begin srv s = (x, s') \<Longrightarrow> valid s'"
    and valid_commit: "valid s \<Longrightarrow> srv_commit srv s = (x, s') \<Longrightarrow> valid s'"
    and valid_close: "valid s \<Longrightarrow> valid (srv_close srv s)"
    and valid_open: "valid s \<Longrightarrow> srv_open srv cp s = (x, s') \<Longrightarrow> valid s'"
    and open_ok: "valid s \<Longrightarrow> srv_open srv cp s = (x, s') \<Longrightarrow> \<not> vw_open (view s) \<Longrightarrow>
      view s' = (view s)\<lparr>vw_open := x\<rparr>"
begin

end

end
