(* ===== verification/UavTables.thy ===== *)
theory UavTables
  imports Database
begin

text \<open>
  The records of the UAV database (\<open>view/core/Tabs/DbBla/Defines.h\<close>), one per table, and their
  translation from the rows of a query. A field of type \<open>int\<close> is an \<open>int\<close>, a field of type \<open>uint\<close> a
  32-bit word. A local variable the code leaves uninitialised has the value \<open>junk\<close> gives it.
\<close>

definition INVALID_INDEX :: int where
  "INVALID_INDEX = - 1"

definition OUR_UAV_ROLE :: string where
  "OUR_UAV_ROLE = ''ourUavRole''"

definition ENEMY_UAV_ROLE :: string where
  "ENEMY_UAV_ROLE = ''enemyUavRole''"

definition ENEMY_UAV_ID_OFFSET :: int where
  "ENEMY_UAV_ID_OFFSET = 50"

record Uav =
  uav_id :: int
  uav_uavId :: u32
  uav_ip :: string
  uav_typeId :: u32
  uav_roleId :: u32
  uav_name :: string
  uav_freqId :: int
  uav_historical :: bool

record UavRole =
  role_id :: int
  role_code :: string
  role_name :: string

record UavInfo =
  info_id :: int
  info_uavId :: u32
  info_device :: u32
  info_source :: u32
  info_lat :: double
  info_lon :: double
  info_latStddev :: double
  info_lonStddev :: double
  info_alt :: double
  info_speed :: double
  info_yaw :: double
  info_restTime :: qtime
  info_statusId :: u32
  info_dateTime :: qdatetime
  info_historical :: bool

record Devices =
  device_id :: int
  device_typeId :: u32
  device_port :: u32
  device_uavId :: u32

record Source =
  source_id :: int
  source_typeId :: u32
  source_sourceId :: u32

record UavMission =
  mission_id :: int
  mission_uavId :: u32
  mission_targetId :: u32
  mission_lat :: double
  mission_lon :: double
  mission_alt :: double
  mission_radius :: double
  mission_time :: qtime

record Target =
  target_id :: int
  target_uavId :: int
  target_ip :: string
  target_port :: u32
  target_type :: int

section \<open>Rows to records\<close>

text \<open>\<open>value(i).toUInt()\<close> stored into an \<open>int\<close>, and \<open>value(i).toInt()\<close> stored into a \<open>uint\<close>.\<close>

definition uint_as_int :: "variant \<Rightarrow> int" where
  "uint_as_int v = sint (v_uint v)"

definition int_as_uint :: "variant \<Rightarrow> u32" where
  "int_as_uint v = to_uint (v_int v)"

definition blank_uav :: "'s server \<Rightarrow> Uav" where
  "blank_uav srv = \<lparr>uav_id = INVALID_INDEX, uav_uavId = to_uint (junk srv ''uav.uavId''), uav_ip = [],
     uav_typeId = to_uint (junk srv ''uav.uavTypeId''), uav_roleId = to_uint (junk srv ''uav.roleId''),
     uav_name = [], uav_freqId = 0, uav_historical = False\<rparr>"

definition uav_of_row :: "variant list \<Rightarrow> Uav" where
  "uav_of_row r = \<lparr>uav_id = uint_as_int (rec_value r 0), uav_uavId = v_uint (rec_value r 1),
     uav_ip = v_string (rec_value r 2), uav_typeId = v_uint (rec_value r 3),
     uav_roleId = v_uint (rec_value r 4), uav_name = v_string (rec_value r 5),
     uav_freqId = uint_as_int (rec_value r 6), uav_historical = False\<rparr>"

definition blank_role :: UavRole where
  "blank_role = \<lparr>role_id = INVALID_INDEX, role_code = [], role_name = []\<rparr>"

definition role_of_row :: "variant list \<Rightarrow> UavRole" where
  "role_of_row r = \<lparr>role_id = uint_as_int (rec_value r 0), role_code = v_string (rec_value r 1),
     role_name = v_string (rec_value r 2)\<rparr>"

definition info_of_row :: "'s server \<Rightarrow> variant list \<Rightarrow> UavInfo" where
  "info_of_row srv r = \<lparr>info_id = v_int (rec_value r 0), info_uavId = int_as_uint (rec_value r 1),
     info_device = int_as_uint (rec_value r 2), info_source = int_as_uint (rec_value r 3),
     info_lat = v_double (rec_value r 4), info_lon = v_double (rec_value r 5),
     info_latStddev = v_double (rec_value r 7), info_lonStddev = v_double (rec_value r 8),
     info_alt = v_double (rec_value r 6), info_speed = v_double (rec_value r 10),
     info_yaw = v_double (rec_value r 11), info_restTime = reread_time srv (rec_value r 12),
     info_statusId = int_as_uint (rec_value r 13),
     info_dateTime = reread_datetime srv (rec_value r 14), info_historical = False\<rparr>"

definition device_of_row :: "variant list \<Rightarrow> Devices" where
  "device_of_row r = \<lparr>device_id = uint_as_int (rec_value r 0), device_typeId = v_uint (rec_value r 1),
     device_port = v_uint (rec_value r 2), device_uavId = v_uint (rec_value r 3)\<rparr>"

definition blank_source :: "'s server \<Rightarrow> Source" where
  "blank_source srv = \<lparr>source_id = - 1, source_typeId = to_uint (junk srv ''source.sourceTypeId''),
     source_sourceId = to_uint (junk srv ''source.sourceId'')\<rparr>"

definition source_of_row :: "variant list \<Rightarrow> Source" where
  "source_of_row r = \<lparr>source_id = uint_as_int (rec_value r 0), source_typeId = v_uint (rec_value r 1),
     source_sourceId = v_uint (rec_value r 2)\<rparr>"

definition mission_of_row :: "'s server \<Rightarrow> variant list \<Rightarrow> UavMission" where
  "mission_of_row srv r = \<lparr>mission_id = uint_as_int (rec_value r 0),
     mission_uavId = v_uint (rec_value r 1), mission_targetId = v_uint (rec_value r 2),
     mission_lat = v_double (rec_value r 3), mission_lon = v_double (rec_value r 4),
     mission_alt = v_double (rec_value r 5), mission_radius = v_double (rec_value r 6),
     mission_time = reread_time srv (rec_value r 7)\<rparr>"

definition target_of_row :: "variant list \<Rightarrow> Target" where
  "target_of_row r = \<lparr>target_id = v_int (rec_value r 0), target_uavId = v_int (rec_value r 1),
     target_ip = v_string (rec_value r 2), target_port = int_as_uint (rec_value r 3),
     target_type = v_int (rec_value r 4)\<rparr>"

section \<open>Conversions of column values\<close>

lemma sint_to_uint: "- (2 ^ 31) \<le> i \<Longrightarrow> i < 2 ^ 31 \<Longrightarrow> sint (to_uint i) = i"
  unfolding to_uint_def by (simp add: int_word_sint)

lemma to_uint_uint [simp]: "to_uint (uint w) = w"
  by (simp add: to_uint_def)

lemma v_uint_number: "number_of v = Some i \<Longrightarrow> v_uint v = to_uint i"
  by (cases v) auto

lemma uint_as_int_number:
  "number_of v = Some i \<Longrightarrow> - (2 ^ 31) \<le> i \<Longrightarrow> i < 2 ^ 31 \<Longrightarrow> uint_as_int v = i"
  using sint_to_uint by (simp add: uint_as_int_def v_uint_number)

lemma v_string_text [simp]: "v_string (VText x) = x"
  by (simp add: v_string_def)

lemma v_string_invalid [simp]: "v_string VInvalid = []"
  by (simp add: v_string_def)

lemma rec_value_nth [simp]: "i < length r \<Longrightarrow> rec_value r i = r ! i"
  by (simp add: rec_value_def)

end
