(* ===== verification/Subjects.thy ===== *)
theory Subjects
  imports QtContainers
begin

text \<open>
  The observer templates of \<open>CISCommonLib/src/Templates\<close>: \<open>BaseSubject\<close> keeps one list of
  receivers, \<open>BaseSubjectEx\<close> two lists of different receiver types. A receiver is the value of
  its pointer. \<open>registerReceiver\<close> appends without looking for duplicates; \<open>deregisterReceiver\<close>
  removes every occurrence (\<open>QList::removeAll\<close>).
\<close>

section \<open>BaseSubject\<close>

type_synonym 'r subject = "'r list"

definition registerReceiver :: "'r \<Rightarrow> 'r subject \<Rightarrow> 'r subject" where
  "registerReceiver r rs = rs @ [r]"

definition deregisterReceiver :: "'r \<Rightarrow> 'r subject \<Rightarrow> 'r subject" where
  "deregisterReceiver r rs = removeAll r rs"

text \<open>\<open>foreach (receiver, m_receiversList) receiver->call(...)\<close>: the calls made, in order.\<close>

definition notify :: "('r \<Rightarrow> 'e) \<Rightarrow> 'r subject \<Rightarrow> 'e list" where
  "notify call rs = map call rs"

section \<open>BaseSubjectEx\<close>

record ('r1, 'r2) subject_ex =
  receivers1 :: "'r1 list"
  receivers2 :: "'r2 list"

definition registerReceiver1 :: "'r1 \<Rightarrow> ('r1, 'r2) subject_ex \<Rightarrow> ('r1, 'r2) subject_ex" where
  "registerReceiver1 r s = s\<lparr>receivers1 := receivers1 s @ [r]\<rparr>"

definition deregisterReceiver1 :: "'r1 \<Rightarrow> ('r1, 'r2) subject_ex \<Rightarrow> ('r1, 'r2) subject_ex" where
  "deregisterReceiver1 r s = s\<lparr>receivers1 := removeAll r (receivers1 s)\<rparr>"

definition registerReceiver2 :: "'r2 \<Rightarrow> ('r1, 'r2) subject_ex \<Rightarrow> ('r1, 'r2) subject_ex" where
  "registerReceiver2 r s = s\<lparr>receivers2 := receivers2 s @ [r]\<rparr>"

definition deregisterReceiver2 :: "'r2 \<Rightarrow> ('r1, 'r2) subject_ex \<Rightarrow> ('r1, 'r2) subject_ex" where
  "deregisterReceiver2 r s = s\<lparr>receivers2 := removeAll r (receivers2 s)\<rparr>"

section \<open>The observer contract\<close>

text \<open>
  What the clients of a subject rely on: a registration adds one delivery at the end, a
  deregistration stops every delivery to that receiver and to no other.
\<close>

locale observer =
  fixes reg :: "'r \<Rightarrow> 's \<Rightarrow> 's"
    and dereg :: "'r \<Rightarrow> 's \<Rightarrow> 's"
    and targets :: "'s \<Rightarrow> 'r list"
  assumes targets_reg: "targets (reg r s) = targets s @ [r]"
    and targets_dereg: "targets (dereg r s) = removeAll r (targets s)"
begin

lemma dereg_silences: "r \<notin> set (targets (dereg r s))"
  by (simp add: targets_dereg)

lemma dereg_reg: "targets (dereg r (reg r s)) = targets (dereg r s)"
  by (simp add: targets_dereg targets_reg)

lemma dereg_others: "q \<noteq> r \<Longrightarrow> count_list (targets (dereg r s)) q = count_list (targets s) q"
proof -
  assume "q \<noteq> r"
  then have "count_list (removeAll r xs) q = count_list xs q" for xs by (induction xs) auto
  then show ?thesis by (simp add: targets_dereg)
qed

lemma reg_twice: "count_list (targets (reg r (reg r s))) r = count_list (targets s) r + 2"
  by (simp add: targets_reg)

end

interpretation subj: observer registerReceiver deregisterReceiver "\<lambda>rs. rs"
  by unfold_locales (simp_all add: registerReceiver_def deregisterReceiver_def)

interpretation subj1: observer registerReceiver1 deregisterReceiver1 receivers1
  by unfold_locales (simp_all add: registerReceiver1_def deregisterReceiver1_def)

interpretation subj2: observer registerReceiver2 deregisterReceiver2 receivers2
  by unfold_locales (simp_all add: registerReceiver2_def deregisterReceiver2_def)

end
