(* ===== verification/UavManager.thy ===== *)
theory UavManager
  imports UavTables Subjects
begin

text \<open>
  \<open>DbUavManager\<close> (\<open>view/core/Tabs/DbBla/DbUavManager.cpp\<close>): the UAVs on display, their life timers,
  the storing of the samples that arrive by RPC and the notification of the listeners. The manager
  talks to an \<open>IDbUavController\<close>, here the record \<open>uav_db\<close> of its operations over the controller's
  state. The calls of the listeners and of the life timers are the events an operation returns.
\<close>

section \<open>Interfaces and state\<close>

record 'c uav_db =
  db_addUav :: "Uav \<Rightarrow> 'c \<Rightarrow> int \<times> 'c"
  db_getUavByUavId :: "u32 \<Rightarrow> 'c \<Rightarrow> Uav \<times> 'c"
  db_getUav :: "u32 \<Rightarrow> 'c \<Rightarrow> Uav \<times> 'c"
  db_getUavsByRole :: "string \<Rightarrow> Uav list \<Rightarrow> 'c \<Rightarrow> bool \<times> Uav list \<times> 'c"
  db_addUavInfo :: "UavInfo \<Rightarrow> 'c \<Rightarrow> int \<times> 'c"
  db_getUavInfoByUavId :: "u32 \<Rightarrow> UavInfo list \<Rightarrow> 'c \<Rightarrow> bool \<times> UavInfo list \<times> 'c"
  db_addDevice :: "Devices \<Rightarrow> 'c \<Rightarrow> int \<times> 'c"
  db_getDevicesByType :: "u32 \<Rightarrow> Devices list \<Rightarrow> 'c \<Rightarrow> bool \<times> Devices list \<times> 'c"
  db_addSource :: "Source \<Rightarrow> 'c \<Rightarrow> int \<times> 'c"
  db_getSourceId :: "u32 \<Rightarrow> u32 \<Rightarrow> 'c \<Rightarrow> int \<times> 'c"
  db_getSourceByType :: "u32 \<Rightarrow> Source list \<Rightarrow> 'c \<Rightarrow> bool \<times> Source list \<times> 'c"
  db_getSource :: "u32 \<Rightarrow> 'c \<Rightarrow> Source \<times> 'c"
  db_addUavMission :: "UavMission \<Rightarrow> 'c \<Rightarrow> int \<times> 'c"
  db_getUavMissionsByUavId :: "u32 \<Rightarrow> UavMission list \<Rightarrow> 'c \<Rightarrow> bool \<times> UavMission list \<times> 'c"
  db_deleteUavMissionsByUavId :: "u32 \<Rightarrow> 'c \<Rightarrow> bool \<times> 'c"
  db_deleteUavMissionsByTargetId :: "u32 \<Rightarrow> 'c \<Rightarrow> bool \<times> 'c"
  db_addTarget :: "Target \<Rightarrow> 'c \<Rightarrow> int \<times> 'c"
  db_getTargetsByType :: "u32 \<Rightarrow> Target list \<Rightarrow> 'c \<Rightarrow> bool \<times> Target list \<times> 'c"
  db_getTargetsByUavId :: "u32 \<Rightarrow> Target list \<Rightarrow> 'c \<Rightarrow> bool \<times> Target list \<times> 'c"
  db_getTargetsByMission :: "u32 \<Rightarrow> Target list \<Rightarrow> 'c \<Rightarrow> bool \<times> Target list \<times> 'c"
  db_deleteTargetsByUavId :: "u32 \<Rightarrow> 'c \<Rightarrow> bool \<times> 'c"
  db_deleteTargetsById :: "u32 \<Rightarrow> 'c \<Rightarrow> bool \<times> 'c"
  db_addTargetType :: "string \<Rightarrow> 'c \<Rightarrow> int \<times> 'c"
  db_getTargetTypeByName :: "string \<Rightarrow> 'c \<Rightarrow> int \<times> 'c"
  db_addUavType :: "string \<Rightarrow> 'c \<Rightarrow> int \<times> 'c"
  db_getUavTypeByName :: "string \<Rightarrow> 'c \<Rightarrow> int \<times> 'c"
  db_addDeviceType :: "string \<Rightarrow> 'c \<Rightarrow> int \<times> 'c"
  db_getDeviceTypeByName :: "string \<Rightarrow> 'c \<Rightarrow> int \<times> 'c"
  db_addSourceType :: "string \<Rightarrow> 'c \<Rightarrow> int \<times> 'c"
  db_getSourceTypeByName :: "string \<Rightarrow> 'c \<Rightarrow> int \<times> 'c"
  db_addStatus :: "string \<Rightarrow> 'c \<Rightarrow> int \<times> 'c"
  db_getStatusByName :: "string \<Rightarrow> 'c \<Rightarrow> int \<times> 'c"
  db_addUavRole :: "UavRole \<Rightarrow> 'c \<Rightarrow> int \<times> 'c"
  db_getUavRole :: "u32 \<Rightarrow> 'c \<Rightarrow> UavRole \<times> 'c"
  db_getUavRoleByName :: "string \<Rightarrow> 'c \<Rightarrow> UavRole \<times> 'c"
  db_getUavRoleByCode :: "string \<Rightarrow> 'c \<Rightarrow> UavRole \<times> 'c"
  db_beginTransaction :: "'c \<Rightarrow> bool \<times> 'c"
  db_commit :: "'c \<Rightarrow> bool \<times> 'c"

text \<open>
  What the code takes from outside: the current date and time, the values of the uninitialised
  fields, and the result of a conversion of a \<open>double\<close> that does not fit the integer type.
\<close>

record environment =
  en_now :: qdatetime
  en_junk :: "string \<Rightarrow> int"
  en_overflow :: "double \<Rightarrow> int"

type_synonym point = "double \<times> double"

datatype 'l manager_event =
    UavAdded 'l Uav string
  | UavInfoChanged 'l UavInfo string "point list" "point list"
  | UavRemoved 'l Uav string
  | HistoryLifeTime int

text \<open>A life timer is the value of its map: \<open>None\<close> until it is started, then its interval.\<close>

record ('c, 'l) manager =
  um_db :: 'c
  um_known :: "(u32, Uav) qmap"
  um_timers :: "(string, int option) qmap"
  um_lifeTime :: int
  um_history :: bool
  um_listeners :: "'l subject"

definition LIFETIME_1 :: int where
  "LIFETIME_1 = 20000"

definition MAX_LIFE_TIME :: int where
  "MAX_LIFE_TIME = 30000"

text \<open>Run an operation of the controller, with one result or with a flag and a list.\<close>

definition run_db :: "('c \<Rightarrow> 'a \<times> 'c) \<Rightarrow> ('c, 'l) manager \<Rightarrow> 'a \<times> ('c, 'l) manager" where
  "run_db f m = (let (x, c) = f (um_db m) in (x, m\<lparr>um_db := c\<rparr>))"

definition run_db2 :: "('c \<Rightarrow> 'a \<times> 'b \<times> 'c) \<Rightarrow> ('c, 'l) manager \<Rightarrow> 'a \<times> 'b \<times> ('c, 'l) manager" where
  "run_db2 f m = (let (x, y, c) = f (um_db m) in (x, y, m\<lparr>um_db := c\<rparr>))"

section \<open>Life time and history\<close>

definition setLifeTime :: "int \<Rightarrow> ('c, 'l) manager \<Rightarrow> 'l manager_event list \<times> ('c, 'l) manager" where
  "setLifeTime msecs m =
     (let m = m\<lparr>um_lifeTime := if msecs < 1 then MAX_LIFE_TIME else msecs\<rparr>
      in (if um_history m then [HistoryLifeTime (um_lifeTime m)] else [], m))"

definition um_getUavHistory :: "('c, 'l) manager \<Rightarrow> 'l manager_event list \<times> ('c, 'l) manager" where
  "um_getUavHistory m =
     (if um_history m then ([], m) else ([HistoryLifeTime (um_lifeTime m)], m\<lparr>um_history := True\<rparr>))"

definition um_init :: "'c \<Rightarrow> int \<Rightarrow> ('c, 'l) manager" where
  "um_init c lifeTime = snd (setLifeTime lifeTime
     \<lparr>um_db = c, um_known = [], um_timers = [], um_lifeTime = 0, um_history = False, um_listeners = []\<rparr>)"

section \<open>Delegated operations\<close>

definition um_addUav where "um_addUav db uav = run_db (db_addUav db uav)"
definition um_getUavByUavId where "um_getUavByUavId db uavId = run_db (db_getUavByUavId db uavId)"
definition um_getUav where "um_getUav db i = run_db (db_getUav db i)"
definition um_getUavsByRole where "um_getUavsByRole db role uavs = run_db2 (db_getUavsByRole db role uavs)"
definition um_getUavInfoByUavId where "um_getUavInfoByUavId db i out = run_db2 (db_getUavInfoByUavId db i out)"
definition um_addDevice where "um_addDevice db d = run_db (db_addDevice db d)"
definition um_getDevicesByType where "um_getDevicesByType db t out = run_db2 (db_getDevicesByType db t out)"
definition um_addSource where "um_addSource db x = run_db (db_addSource db x)"
definition um_getSourceId where "um_getSourceId db i t = run_db (db_getSourceId db i t)"
definition um_getSourcesByType where "um_getSourcesByType db t out = run_db2 (db_getSourceByType db t out)"
definition um_getSource where "um_getSource db i = run_db (db_getSource db i)"
definition um_addUavMission where "um_addUavMission db x = run_db (db_addUavMission db x)"
definition um_getUavMissionsByUavId where
  "um_getUavMissionsByUavId db i out = run_db2 (db_getUavMissionsByUavId db i out)"
definition um_deleteUavMissionsByUavId where
  "um_deleteUavMissionsByUavId db i = run_db (db_deleteUavMissionsByUavId db i)"
definition um_deleteUavMissionsByTargetId where
  "um_deleteUavMissionsByTargetId db i = run_db (db_deleteUavMissionsByTargetId db i)"
definition um_addTarget where "um_addTarget db x = run_db (db_addTarget db x)"
definition um_getTargetsByType where "um_getTargetsByType db t out = run_db2 (db_getTargetsByType db t out)"
definition um_getTargetsByUavId where "um_getTargetsByUavId db i out = run_db2 (db_getTargetsByUavId db i out)"
definition um_deleteTargetsByUavId where "um_deleteTargetsByUavId db i = run_db (db_deleteTargetsByUavId db i)"
definition um_deleteTargetsById where "um_deleteTargetsById db i = run_db (db_deleteTargetsById db i)"
definition um_addTargetType where "um_addTargetType db n = run_db (db_addTargetType db n)"
definition um_getTargetTypeByName where "um_getTargetTypeByName db n = run_db (db_getTargetTypeByName db n)"
definition um_addUavType where "um_addUavType db n = run_db (db_addUavType db n)"
definition um_getUavTypeByName where "um_getUavTypeByName db n = run_db (db_getUavTypeByName db n)"
definition um_addDeviceType where "um_addDeviceType db n = run_db (db_addDeviceType db n)"
definition um_getDeviceTypeByName where "um_getDeviceTypeByName db n = run_db (db_getDeviceTypeByName db n)"
definition um_addSourceType where "um_addSourceType db n = run_db (db_addSourceType db n)"
definition um_getSourceTypeByName where "um_getSourceTypeByName db n = run_db (db_getSourceTypeByName db n)"
definition um_addStatus where "um_addStatus db n = run_db (db_addStatus db n)"
definition um_getStatusByName where "um_getStatusByName db n = run_db (db_getStatusByName db n)"
definition um_addUavRole where "um_addUavRole db r = run_db (db_addUavRole db r)"
definition um_getUavRole where "um_getUavRole db i = run_db (db_getUavRole db i)"
definition um_getUavRoleByName where "um_getUavRoleByName db n = run_db (db_getUavRoleByName db n)"
definition um_getUavRoleByCode where "um_getUavRoleByCode db n = run_db (db_getUavRoleByCode db n)"

lemmas delegations = um_addUav_def um_getUavByUavId_def um_getUav_def um_getUavsByRole_def
  um_getUavInfoByUavId_def um_addDevice_def um_getDevicesByType_def um_addSource_def um_getSourceId_def
  um_getSourcesByType_def um_getSource_def um_addUavMission_def um_getUavMissionsByUavId_def
  um_deleteUavMissionsByUavId_def um_deleteUavMissionsByTargetId_def um_addTarget_def
  um_getTargetsByType_def um_getTargetsByUavId_def um_deleteTargetsByUavId_def um_deleteTargetsById_def
  um_addTargetType_def um_getTargetTypeByName_def um_addUavType_def um_getUavTypeByName_def
  um_addDeviceType_def um_getDeviceTypeByName_def um_addSourceType_def um_getSourceTypeByName_def
  um_addStatus_def um_getStatusByName_def um_addUavRole_def um_getUavRole_def um_getUavRoleByName_def
  um_getUavRoleByCode_def

text \<open>The targets of one type over all the missions of a UAV; the type is looked up for every target.\<close>

fun keep_targets ::
  "'c uav_db \<Rightarrow> string \<Rightarrow> Target list \<Rightarrow> Target list \<Rightarrow> 'c \<Rightarrow> Target list \<times> 'c" where
  "keep_targets db ty [] out c = (out, c)"
| "keep_targets db ty (t # ts) out c =
     (let (k, c) = db_getTargetTypeByName db ty c
      in keep_targets db ty ts (if target_type t = k then out @ [t] else out) c)"

fun mission_targets ::
  "'c uav_db \<Rightarrow> string \<Rightarrow> UavMission list \<Rightarrow> Target list \<Rightarrow> 'c \<Rightarrow> Target list \<times> 'c" where
  "mission_targets db ty [] out c = (out, c)"
| "mission_targets db ty (x # xs) out c =
     (let (_, ts, c) = db_getTargetsByMission db (to_uint (mission_id x)) [] c;
          (out, c) = keep_targets db ty ts out c
      in mission_targets db ty xs out c)"

definition getTargetsByUavIdAndTargetType ::
  "'c uav_db \<Rightarrow> u32 \<Rightarrow> string \<Rightarrow> Target list \<Rightarrow> ('c, 'l) manager \<Rightarrow> bool \<times> Target list \<times> ('c, 'l) manager" where
  "getTargetsByUavIdAndTargetType db uavId ty out m =
     (let (_, xs, c) = db_getUavMissionsByUavId db uavId [] (um_db m);
          (out, c) = mission_targets db ty xs out c
      in (True, out, m\<lparr>um_db := c\<rparr>))"

section \<open>Storing a sample\<close>

definition track_uav ::
  "Uav \<Rightarrow> string \<Rightarrow> ('c, 'l) manager \<Rightarrow> 'l manager_event list \<times> ('c, 'l) manager" where
  "track_uav uav role m =
     (let key = qnumber (uav_uavId uav);
          (es, m) =
            (if \<not> qcontains (um_known m) (uav_uavId uav) \<and> \<not> qcontains (um_timers m) key
             then (notify (\<lambda>l. UavAdded l uav role) (um_listeners m),
                   m\<lparr>um_known := qinsert (uav_uavId uav) uav (um_known m),
                     um_timers := qinsert key None (um_timers m)\<rparr>)
             else ([], m))
      in (es, if qcontains (um_timers m) key
              then m\<lparr>um_timers := qinsert key (Some LIFETIME_1) (um_timers m)\<rparr> else m))"

definition um_addUavInfo ::
  "'c uav_db \<Rightarrow> UavInfo \<Rightarrow> bool \<Rightarrow> point list \<Rightarrow> point list \<Rightarrow> ('c, 'l) manager
     \<Rightarrow> int \<times> 'l manager_event list \<times> ('c, 'l) manager" where
  "um_addUavInfo db info actual tail tailStdDev m =
     (let (uav, m) = um_getUav db (info_uavId info) m
      in if uav_id uav < 0 then (- 1, [], m)
         else
           let uav = (if uav_name uav = [] then uav\<lparr>uav_name := qnumber (uav_uavId uav)\<rparr> else uav)
           in if \<not> actual then (- 1, [], m)
              else
                let (recordIndex, m) = run_db (db_addUavInfo db info) m;
                    (role, m) = um_getUavRole db (uav_roleId uav) m;
                    (es, m) = track_uav uav (role_code role) m;
                    (source, m) = um_getSource db (info_source info) m;
                    shown = info\<lparr>info_uavId := uav_uavId uav, info_source := source_sourceId source\<rparr>;
                    es' = (if recordIndex \<noteq> INVALID_INDEX
                           then notify (\<lambda>l. UavInfoChanged l shown (role_code role) tail tailStdDev) (um_listeners m)
                           else [])
                in (recordIndex, es @ es', m))"

section \<open>The end of a UAV\<close>

definition default_uav :: "environment \<Rightarrow> Uav" where
  "default_uav en = \<lparr>uav_id = en_junk en ''id'', uav_uavId = to_uint (en_junk en ''uavId''), uav_ip = [],
     uav_typeId = to_uint (en_junk en ''uavTypeId''), uav_roleId = to_uint (en_junk en ''roleId''),
     uav_name = [], uav_freqId = 0, uav_historical = False\<rparr>"

definition timeoutSlot ::
  "'c uav_db \<Rightarrow> environment \<Rightarrow> string \<Rightarrow> ('c, 'l) manager \<Rightarrow> 'l manager_event list \<times> ('c, 'l) manager" where
  "timeoutSlot db en key m =
     (let uav = qvalue (um_known m) (default_uav en) (toUInt key);
          m = m\<lparr>um_known := qremove (toUInt key) (um_known m), um_timers := qremove key (um_timers m)\<rparr>;
          (role, m) = um_getUavRole db (uav_roleId uav) m
      in (notify (\<lambda>l. UavRemoved l uav (role_code role)) (um_listeners m), m))"

fun timeout_all ::
  "'c uav_db \<Rightarrow> environment \<Rightarrow> string list \<Rightarrow> ('c, 'l) manager \<Rightarrow> 'l manager_event list \<times> ('c, 'l) manager" where
  "timeout_all db en [] m = ([], m)"
| "timeout_all db en (k # ks) m =
     (let (es, m) = timeoutSlot db en k m; (es', m) = timeout_all db en ks m in (es @ es', m))"

definition deleteAllUav ::
  "'c uav_db \<Rightarrow> environment \<Rightarrow> ('c, 'l) manager \<Rightarrow> 'l manager_event list \<times> ('c, 'l) manager" where
  "deleteAllUav db en m =
     (let (es, m) = timeout_all db en (qkeys (um_timers m)) m
      in (es, m\<lparr>um_known := [], um_timers := []\<rparr>))"

end
