(* ===== verification/Dictionary.thy ===== *)
theory Dictionary
  imports UavTables
begin

text \<open>
  The contract of a dictionary table as its clients see it: adding an entry and looking an id up by
  name. \<open>DbUavManager\<close> finds an entry or adds it; that pattern is specified here once.
\<close>

section \<open>The contract\<close>

type_synonym entries = "(int \<times> variant) set"

locale dictionary =
  fixes valid :: "'s \<Rightarrow> bool"
    and entries :: "'s \<Rightarrow> entries"
    and add :: "string \<Rightarrow> 's \<Rightarrow> int \<times> 's"
    and get :: "string \<Rightarrow> 's \<Rightarrow> int \<times> 's"
    and same :: "variant \<Rightarrow> variant \<Rightarrow> bool"
  assumes add_valid: "valid s \<Longrightarrow> add n s = (i, s') \<Longrightarrow> valid s'"
    and add_entry: "valid s \<Longrightarrow> add n s = (i, s') \<Longrightarrow>
      entries s' = (if i = INVALID_INDEX then entries s else insert (i, VText n) (entries s))"
    and add_fresh: "valid s \<Longrightarrow> add n s = (i, s') \<Longrightarrow> i \<noteq> INVALID_INDEX \<Longrightarrow> 0 < i \<and> i \<notin> fst ` entries s"
    and get_valid: "valid s \<Longrightarrow> get n s = (i, s') \<Longrightarrow> valid s' \<and> entries s' = entries s"
    and get_found: "valid s \<Longrightarrow> get n s = (i, s') \<Longrightarrow> i \<noteq> INVALID_INDEX \<Longrightarrow>
      0 < i \<and> (\<exists>v. (i, v) \<in> entries s \<and> same v (VText n))"
    and same_refl: "same (VText n) (VText n)"

text \<open>Look the name up and add it when the lookup gave a negative id.\<close>

definition find_or_add ::
  "(string \<Rightarrow> 's \<Rightarrow> int \<times> 's) \<Rightarrow> (string \<Rightarrow> 's \<Rightarrow> int \<times> 's) \<Rightarrow> string \<Rightarrow> 's \<Rightarrow> int \<times> 's" where
  "find_or_add get add n s = (let (i, s) = get n s in if i < 0 then add n s else (i, s))"

context dictionary
begin

lemma find_or_add_spec:
  assumes v: "valid s" and e: "find_or_add get add n s = (i, s')"
  shows "valid s' \<and> (i \<noteq> INVALID_INDEX \<longrightarrow> 0 < i \<and> (\<exists>v. (i, v) \<in> entries s' \<and> same v (VText n)))
    \<and> (entries s' = entries s \<or> i \<notin> fst ` entries s \<and> entries s' = insert (i, VText n) (entries s))"
proof -
  obtain j s1 where g: "get n s = (j, s1)" by force
  note gv = get_valid [OF v g]
  then have v1: "valid s1" by blast
  show ?thesis
  proof (cases "j < 0")
    case True
    with e g have a: "add n s1 = (i, s')" by (simp add: find_or_add_def)
    show ?thesis
      using add_valid [OF v1 a] add_entry [OF v1 a] add_fresh [OF v1 a] gv same_refl
      by (cases "i = INVALID_INDEX") auto
  next
    case False
    with e g have "i = j" "s' = s1" by (auto simp: find_or_add_def)
    with False gv get_found [OF v g] show ?thesis by (auto simp: INVALID_INDEX_def)
  qed
qed

end

end
