(* ===== verification/UavSamples.thy ===== *)
theory UavSamples
  imports UavManager Dictionary
begin

text \<open>
  The samples that reach \<open>DbUavManager\<close> by RPC: \<open>addUavInfoToDb\<close>, which finds or creates the records
  a sample refers to and stores it, and \<open>sendEnemyUavPoints\<close>, which stores the points of a solver in
  one transaction. A serialised argument is decoded by \<open>QDataStream\<close>, a parameter of the model.
\<close>

section \<open>Positions\<close>

record UAVPositionData =
  pd_boardID :: u16
  pd_latitude :: double
  pd_longitude :: double
  pd_altitude :: double
  pd_latitudeStddev :: double
  pd_longitudeStddev :: double
  pd_speed :: double
  pd_course :: double
  pd_frequency :: double
  pd_state :: u32
  pd_dateTime :: qdatetime
  pd_sourceType :: u32

record UAVPositionDataEnemy =
  en_altitude :: double
  en_speed :: double
  en_course :: double
  en_state :: int
  en_frequency :: double
  en_time :: qtime
  en_latLonStdDev :: point
  en_latLon :: point
  en_sourceType :: u32

definition UAV_SOLVER_AUTO_SOURCE :: u32 where "UAV_SOLVER_AUTO_SOURCE = 100"
definition UAV_SOLVER_MANUAL_SOURCE :: u32 where "UAV_SOLVER_MANUAL_SOURCE = 101"
definition UAV_SOLVER_SINGLE_1_SOURCE :: u32 where "UAV_SOLVER_SINGLE_1_SOURCE = 102"
definition UAV_SOLVER_SINGLE_2_SOURCE :: u32 where "UAV_SOLVER_SINGLE_2_SOURCE = 103"

lemmas solver_sources = UAV_SOLVER_AUTO_SOURCE_def UAV_SOLVER_MANUAL_SOURCE_def
  UAV_SOLVER_SINGLE_1_SOURCE_def UAV_SOLVER_SINGLE_2_SOURCE_def

text \<open>
  Conversion of a \<open>double\<close> to an integer type with bounds: the truncated value when it fits, otherwise
  the behaviour is undefined and the environment gives the value.
\<close>

definition d_to_int :: "environment \<Rightarrow> int \<Rightarrow> int \<Rightarrow> double \<Rightarrow> int" where
  "d_to_int en lo hi d = (case d of
       Fin q \<Rightarrow> if lo \<le> rat_trunc q \<and> rat_trunc q \<le> hi then rat_trunc q else en_overflow en d
     | _ \<Rightarrow> en_overflow en d)"

section \<open>Find or create\<close>

definition find_or_add_role :: "'c uav_db \<Rightarrow> string \<Rightarrow> 'c \<Rightarrow> int \<times> 'c" where
  "find_or_add_role db role c =
     (let (r, c) = db_getUavRoleByCode db role c
      in if role_id r < 0 then db_addUavRole db (r\<lparr>role_code := role, role_name := role\<rparr>) c
         else (role_id r, c))"

definition find_or_add_uav ::
  "'c uav_db \<Rightarrow> environment \<Rightarrow> UAVPositionData \<Rightarrow> string \<Rightarrow> string \<Rightarrow> 'c \<Rightarrow> int \<times> 'c" where
  "find_or_add_uav db en pd role uavType c =
     (let (uav, c) = db_getUavByUavId db (ucast (pd_boardID pd)) c
      in if uav_id uav < 0
         then
           let (ty, c) = find_or_add (db_getUavTypeByName db) (db_addUavType db) uavType c;
               (roleId, c) = find_or_add_role db role c
           in db_addUav db \<lparr>uav_id = en_junk en ''uav.id'', uav_uavId = ucast (pd_boardID pd),
                uav_ip = ''127.0.0.1'', uav_typeId = to_uint ty, uav_roleId = to_uint roleId,
                uav_name = [], uav_freqId = d_to_int en (- (2 ^ 31)) (2 ^ 31 - 1) (pd_frequency pd),
                uav_historical = False\<rparr> c
         else (uav_id uav, c))"

definition find_or_add_device ::
  "'c uav_db \<Rightarrow> environment \<Rightarrow> UAVPositionData \<Rightarrow> string \<Rightarrow> 'c \<Rightarrow> int \<times> 'c" where
  "find_or_add_device db en pd deviceType c =
     (let (ty, c) = find_or_add (db_getDeviceTypeByName db) (db_addDeviceType db) deviceType c;
          (_, devices, c) = db_getDevicesByType db (to_uint ty) [] c
      in case devices of
           [] \<Rightarrow> db_addDevice db \<lparr>device_id = en_junk en ''device.id'', device_typeId = to_uint ty,
                   device_port = 0, device_uavId = ucast (pd_boardID pd)\<rparr> c
         | d # _ \<Rightarrow> (device_id d, c))"

text \<open>The source is added when it is not found, but the id of the new source is not used.\<close>

definition find_source ::
  "'c uav_db \<Rightarrow> environment \<Rightarrow> UAVPositionData \<Rightarrow> string \<Rightarrow> 'c \<Rightarrow> int \<times> 'c" where
  "find_source db en pd sourceType c =
     (let (ty, c) = find_or_add (db_getSourceTypeByName db) (db_addSourceType db) sourceType c;
          (i, c) = db_getSourceId db (pd_sourceType pd) (to_uint ty) c
      in if i < 0
         then (i, snd (db_addSource db \<lparr>source_id = en_junk en ''source.id'', source_typeId = to_uint ty,
                        source_sourceId = pd_sourceType pd\<rparr> c))
         else (i, c))"

section \<open>Storing a position\<close>

definition checked_altitude :: "double \<Rightarrow> double" where
  "checked_altitude a =
     (if \<not> d_eq a a then Fin 0
      else if d_less a (Fin 100) \<or> d_less (Fin 10000) a then Fin 0 else a)"

definition checked_course :: "double \<Rightarrow> double" where
  "checked_course c =
     (if \<not> d_eq c c then Fin 0
      else if d_less c (Fin 0) \<or> d_less (Fin 359) c then Fin 0 else c)"

definition sample_of ::
  "environment \<Rightarrow> UAVPositionData \<Rightarrow> int \<Rightarrow> int \<Rightarrow> int \<Rightarrow> int \<Rightarrow> UavInfo" where
  "sample_of en pd uavId device source status =
     \<lparr>info_id = en_junk en ''uavInfo.id'', info_uavId = to_uint uavId, info_device = to_uint device,
      info_source = to_uint source, info_lat = pd_latitude pd, info_lon = pd_longitude pd,
      info_latStddev = pd_latitudeStddev pd, info_lonStddev = pd_longitudeStddev pd,
      info_alt = checked_altitude (pd_altitude pd), info_speed = pd_speed pd,
      info_yaw = checked_course (pd_course pd), info_restTime = 3600000,
      info_statusId = to_uint status, info_dateTime = pd_dateTime pd, info_historical = False\<rparr>"

definition sample_references ::
  "'c uav_db \<Rightarrow> environment \<Rightarrow> UAVPositionData \<Rightarrow> string \<Rightarrow> string \<Rightarrow> string \<Rightarrow> string \<Rightarrow> string \<Rightarrow> 'c
     \<Rightarrow> UavInfo \<times> 'c" where
  "sample_references db en pd role uavType status deviceType sourceType c =
     (let (uavId, c) = find_or_add_uav db en pd role uavType c;
          (statusId, c) = find_or_add (db_getStatusByName db) (db_addStatus db) status c;
          (device, c) = find_or_add_device db en pd deviceType c;
          (source, c) = find_source db en pd sourceType c
      in (sample_of en pd uavId device source statusId, c))"

definition addUavInfoToDb ::
  "'c uav_db \<Rightarrow> environment \<Rightarrow> UAVPositionData \<Rightarrow> string \<Rightarrow> string \<Rightarrow> string \<Rightarrow> string \<Rightarrow> string \<Rightarrow> bool
     \<Rightarrow> point list \<Rightarrow> point list \<Rightarrow> ('c, 'l) manager \<Rightarrow> 'l manager_event list \<times> ('c, 'l) manager" where
  "addUavInfoToDb db en pd role uavType status deviceType sourceType actual tail tailStdDev m =
     (let (info, m) = run_db (sample_references db en pd role uavType status deviceType sourceType) m
      in snd (um_addUavInfo db info actual tail tailStdDev m))"

section \<open>Points of a solver\<close>

definition set_time :: "qdatetime \<Rightarrow> qtime \<Rightarrow> qdatetime" where
  "set_time dt t = (fst dt, if t < 0 then 0 else t)"

definition later :: "qdatetime \<Rightarrow> qdatetime \<Rightarrow> bool" where
  "later a b \<longleftrightarrow> fst b < fst a \<or> fst a = fst b \<and> snd b < snd a"

definition enemy_position :: "environment \<Rightarrow> UAVPositionDataEnemy \<Rightarrow> UAVPositionData" where
  "enemy_position en e =
     (let dt = set_time (en_now en) (en_time e)
      in \<lparr>pd_boardID = (if d_less (en_frequency e) (Fin 0) then 50
                        else word_of_int (d_to_int en 0 65535 (en_frequency e))),
          pd_latitude = fst (en_latLon e), pd_longitude = snd (en_latLon e), pd_altitude = en_altitude e,
          pd_latitudeStddev = fst (en_latLonStdDev e), pd_longitudeStddev = snd (en_latLonStdDev e),
          pd_speed = en_speed e, pd_course = en_course e, pd_frequency = en_frequency e,
          pd_state = to_uint (en_state e), pd_dateTime = (if later dt (en_now en) then en_now en else dt),
          pd_sourceType = en_sourceType e\<rparr>)"

definition addEnemyInfoToDb ::
  "'c uav_db \<Rightarrow> environment \<Rightarrow> UAVPositionDataEnemy \<Rightarrow> string \<Rightarrow> string \<Rightarrow> string \<Rightarrow> string \<Rightarrow> string \<Rightarrow> bool
     \<Rightarrow> point list \<Rightarrow> point list \<Rightarrow> ('c, 'l) manager \<Rightarrow> 'l manager_event list \<times> ('c, 'l) manager" where
  "addEnemyInfoToDb db en e role uavType status deviceType sourceType actual tail tailStdDev m =
     addUavInfoToDb db en (enemy_position en e) role uavType status deviceType sourceType actual tail tailStdDev m"

definition getEnemySourceTypeName :: "u32 \<Rightarrow> string" where
  "getEnemySourceTypeName t =
     (if t = UAV_SOLVER_MANUAL_SOURCE then ''Solver Manual''
      else if t = UAV_SOLVER_AUTO_SOURCE then ''Solver Auto''
      else if t = UAV_SOLVER_SINGLE_1_SOURCE then ''Solver Single 1''
      else if t = UAV_SOLVER_SINGLE_2_SOURCE then ''Solver Single 2''
      else ''UnknownSourceType'')"

definition single_source :: "u32 \<Rightarrow> bool" where
  "single_source src \<longleftrightarrow> src = UAV_SOLVER_SINGLE_1_SOURCE \<or> src = UAV_SOLVER_SINGLE_2_SOURCE"

definition point_source :: "u32 \<Rightarrow> nat \<Rightarrow> u32" where
  "point_source src i =
     (if src = UAV_SOLVER_SINGLE_1_SOURCE \<and> i mod 2 = 1 then UAV_SOLVER_SINGLE_2_SOURCE else src)"

text \<open>
  One turn of the loop, for the point \<open>i\<close> of \<open>n\<close> with the tails that end in it: the last point is the
  current one, and with a single-point solver every point is.
\<close>

definition enemy_turn ::
  "'c uav_db \<Rightarrow> environment \<Rightarrow> u32 \<Rightarrow> nat \<Rightarrow> nat \<Rightarrow> point list \<Rightarrow> point list \<Rightarrow> UAVPositionDataEnemy
     \<Rightarrow> ('c, 'l) manager \<Rightarrow> 'l manager_event list \<times> ('c, 'l) manager" where
  "enemy_turn db en src i n tail tailStdDev u m =
     (let u = u\<lparr>en_sourceType := point_source src i\<rparr>;
          actual = (i + 1 = n \<or> single_source src);
          shown = (actual \<and> \<not> single_source src)
      in addEnemyInfoToDb db en u ENEMY_UAV_ROLE ''UnknownUavType'' ''UnknownStatus''
           ''UnknownDeviceType'' (getEnemySourceTypeName (en_sourceType u)) actual
           (if shown then tail else []) (if shown then tailStdDev else []) m)"

fun enemy_loop ::
  "'c uav_db \<Rightarrow> environment \<Rightarrow> u32 \<Rightarrow> nat \<Rightarrow> nat \<Rightarrow> point list \<Rightarrow> point list \<Rightarrow> UAVPositionDataEnemy list
     \<Rightarrow> ('c, 'l) manager \<Rightarrow> 'l manager_event list \<times> ('c, 'l) manager" where
  "enemy_loop db en src i n tail tailStdDev [] m = ([], m)"
| "enemy_loop db en src i n tail tailStdDev (u # us) m =
     (let tail = tail @ [en_latLon u]; tailStdDev = tailStdDev @ [en_latLonStdDev u];
          (es, m) = enemy_turn db en src i n tail tailStdDev u m;
          (es', m) = enemy_loop db en src (i + 1) n tail tailStdDev us m
      in (es @ es', m))"

definition sendEnemyUavPoints ::
  "'c uav_db \<Rightarrow> environment \<Rightarrow> UAVPositionDataEnemy list \<Rightarrow> u32 \<Rightarrow> ('c, 'l) manager
     \<Rightarrow> 'l manager_event list \<times> ('c, 'l) manager" where
  "sendEnemyUavPoints db en us src m =
     (let (_, m) = run_db (db_beginTransaction db) m;
          (es, m) = enemy_loop db en src 0 (length us) [] [] us m;
          (_, m) = run_db (db_commit db) m
      in (es, m))"

definition onMethodCalled ::
  "'c uav_db \<Rightarrow> environment \<Rightarrow> ('d \<Rightarrow> UAVPositionData list) \<Rightarrow> ('d \<Rightarrow> UAVPositionDataEnemy list)
     \<Rightarrow> string \<Rightarrow> 'd \<Rightarrow> ('c, 'l) manager \<Rightarrow> 'l manager_event list \<times> ('c, 'l) manager" where
  "onMethodCalled db en positions enemies method data m =
     (if method = ''rpc_slot_server_send_bla_points''
      then (case positions data of
              [] \<Rightarrow> ([], m)
            | pd # _ \<Rightarrow> addUavInfoToDb db en pd OUR_UAV_ROLE ''UnknownUavType'' ''UnknownStatus''
                          ''UnknownDeviceType'' ''UnknownSourceType'' True [] [] m)
      else if method = ''rpc_slot_server_send_bpla_point_from_arm_r''
      then sendEnemyUavPoints db en (enemies data) UAV_SOLVER_MANUAL_SOURCE m
      else if method = ''rpc_slot_server_send_bpla_point_from_arm_r_auto''
      then sendEnemyUavPoints db en (enemies data) UAV_SOLVER_AUTO_SOURCE m
      else if method = ''rpc_slot_server_send_bpla_point_from_arm_r_single''
      then sendEnemyUavPoints db en (enemies data) UAV_SOLVER_SINGLE_1_SOURCE m
      else ([], m))"

end
