(* ===== verification/UavManagerProps.thy ===== *)
theory UavManagerProps
  imports UavSamples
begin

text \<open>
  What the listeners of \<open>DbUavManager\<close> see. The abstract specification is a display that knows a set of
  UAVs: it accepts a UAV it does not show, an update or a removal of one it shows, and nothing else.
  Every run of the manager drives the display of every listener exactly along its map of known UAVs.
\<close>

section \<open>The display\<close>

fun follows :: "'l \<Rightarrow> u32 set \<Rightarrow> 'l manager_event list \<Rightarrow> u32 set option" where
  "follows l S [] = Some S"
| "follows l S (UavAdded k u r # es) =
     (if k \<noteq> l then follows l S es
      else if uav_uavId u \<in> S then None else follows l (insert (uav_uavId u) S) es)"
| "follows l S (UavInfoChanged k i r t d # es) =
     (if k \<noteq> l then follows l S es
      else if info_uavId i \<in> S then follows l S es else None)"
| "follows l S (UavRemoved k u r # es) =
     (if k \<noteq> l then follows l S es
      else if uav_uavId u \<in> S then follows l (S - {uav_uavId u}) es else None)"
| "follows l S (HistoryLifeTime t # es) = follows l S es"

lemma follows_append:
  "follows l S (es @ es') = (case follows l S es of None \<Rightarrow> None | Some T \<Rightarrow> follows l T es')"
  by (induction l S es rule: follows.induct) auto

lemma follows_others:
  "l \<notin> set ls \<Longrightarrow> follows l S (notify (\<lambda>k. UavAdded k u r) ls) = Some S"
  "l \<notin> set ls \<Longrightarrow> follows l S (notify (\<lambda>k. UavInfoChanged k i r t d) ls) = Some S"
  "l \<notin> set ls \<Longrightarrow> follows l S (notify (\<lambda>k. UavRemoved k u r) ls) = Some S"
  by (induction ls) (auto simp: notify_def)

lemma follows_notify:
  assumes "distinct ls" "l \<in> set ls"
  shows "uav_uavId u \<notin> S \<Longrightarrow> follows l S (notify (\<lambda>k. UavAdded k u r) ls) = Some (insert (uav_uavId u) S)"
    and "info_uavId i \<in> S \<Longrightarrow> follows l S (notify (\<lambda>k. UavInfoChanged k i r t d) ls) = Some S"
    and "uav_uavId u \<in> S \<Longrightarrow> follows l S (notify (\<lambda>k. UavRemoved k u r) ls) = Some (S - {uav_uavId u})"
  using assms
proof (induction ls)
  case (Cons k ls)
  { case 1 then show ?case using Cons.IH(1) by (cases "k = l") (auto simp: notify_def follows_others [unfolded notify_def]) }
  { case 2 then show ?case using Cons.IH(2) by (cases "k = l") (auto simp: notify_def follows_others [unfolded notify_def]) }
  { case 3 then show ?case using Cons.IH(3) by (cases "k = l") (auto simp: notify_def follows_others [unfolded notify_def]) }
qed simp_all

section \<open>The invariant of the manager\<close>

definition um_inv :: "('c, 'l) manager \<Rightarrow> bool" where
  "um_inv m \<longleftrightarrow> qsorted (um_known m) \<and> qsorted (um_timers m)
     \<and> dom (qlookup (um_timers m)) = qnumber ` dom (qlookup (um_known m))
     \<and> (\<forall>i u. qlookup (um_known m) i = Some u \<longrightarrow> uav_uavId u = i)"

definition shown :: "('c, 'l) manager \<Rightarrow> u32 set" where
  "shown m = dom (qlookup (um_known m))"

text \<open>
  A step keeps the invariant and the listeners, and its events take the display of every listener
  from the UAVs known before to the UAVs known after.
\<close>

definition good_step :: "('c, 'l) manager \<Rightarrow> 'l manager_event list \<Rightarrow> ('c, 'l) manager \<Rightarrow> bool" where
  "good_step m es m' \<longleftrightarrow> (um_inv m \<longrightarrow> um_inv m' \<and> um_listeners m' = um_listeners m
     \<and> (\<forall>l. l \<in> set (um_listeners m) \<and> distinct (um_listeners m) \<longrightarrow> follows l (shown m) es = Some (shown m')))"

lemma good_refl [simp]: "good_step m [] m"
  by (simp add: good_step_def)

lemma good_trans: "good_step m es m1 \<Longrightarrow> good_step m1 es' m' \<Longrightarrow> good_step m (es @ es') m'"
  by (auto simp: good_step_def follows_append)

lemma good_silent_trans: "good_step m [] m1 \<Longrightarrow> good_step m1 es m' \<Longrightarrow> good_step m es m'"
  using good_trans by fastforce

lemma good_if: "(um_inv m \<Longrightarrow> good_step m es m') \<Longrightarrow> good_step m es m'"
  by (simp add: good_step_def)

lemma update_db [simp]:
  "um_inv (m\<lparr>um_db := c\<rparr>) = um_inv m" "shown (m\<lparr>um_db := c\<rparr>) = shown m"
  "um_inv (m\<lparr>um_lifeTime := t\<rparr>) = um_inv m" "shown (m\<lparr>um_lifeTime := t\<rparr>) = shown m"
  "um_inv (m\<lparr>um_history := b\<rparr>) = um_inv m" "shown (m\<lparr>um_history := b\<rparr>) = shown m"
  by (simp_all add: um_inv_def shown_def)

lemma good_run_db: "run_db f m = (x, m') \<Longrightarrow> good_step m [] m'"
  by (auto simp: run_db_def good_step_def split: prod.splits)

lemma good_run_db2: "run_db2 f m = (x, y, m') \<Longrightarrow> good_step m [] m'"
  by (auto simp: run_db2_def good_step_def split: prod.splits)

lemma track_good:
  assumes "track_uav uav role m = (es, m')"
  shows "good_step m es m'" and "um_inv m \<Longrightarrow> uav_uavId uav \<in> shown m'"
proof -
  let ?id = "uav_uavId uav" and ?key = "qnumber (uav_uavId uav)"
  define m1 where "m1 = (if \<not> qcontains (um_known m) ?id \<and> \<not> qcontains (um_timers m) ?key
    then m\<lparr>um_known := qinsert ?id uav (um_known m), um_timers := qinsert ?key None (um_timers m)\<rparr> else m)"
  from assms have m': "m' = (if qcontains (um_timers m1) ?key
      then m1\<lparr>um_timers := qinsert ?key (Some LIFETIME_1) (um_timers m1)\<rparr> else m1)"
    and es: "es = (if \<not> qcontains (um_known m) ?id \<and> \<not> qcontains (um_timers m) ?key
      then notify (\<lambda>l. UavAdded l uav role) (um_listeners m) else [])"
    by (auto simp: track_uav_def Let_def m1_def split: if_splits)
  have new: "?key \<in> dom (qlookup (um_timers m)) \<longleftrightarrow> ?id \<in> shown m" if "um_inv m"
    using that by (auto simp: um_inv_def shown_def)
  have inv1: "um_inv m1 \<and> shown m1 = insert ?id (shown m)" if "um_inv m"
    using that new [OF that] by (auto simp: um_inv_def shown_def m1_def qcontains_iff)
  have "um_inv m' \<and> shown m' = shown m1" if "um_inv m1"
    using that by (auto simp: um_inv_def shown_def m' qcontains_iff insert_absorb)
  moreover have "um_listeners m' = um_listeners m" by (simp add: m' m1_def)
  moreover have "follows l (shown m) es = Some (insert ?id (shown m))"
    if "um_inv m" "l \<in> set (um_listeners m)" "distinct (um_listeners m)" for l
    using that new [OF that(1)] follows_notify(1) [OF that(3,2)]
    by (auto simp: es qcontains_iff shown_def insert_absorb)
  ultimately show "good_step m es m'" and "um_inv m \<Longrightarrow> uav_uavId uav \<in> shown m'"
    using inv1 by (auto simp: good_step_def)
qed

lemma good_info_changed:
  assumes "um_inv m \<Longrightarrow> info_uavId i \<in> shown m"
  shows "good_step m (notify (\<lambda>l. UavInfoChanged l i r t d) (um_listeners m)) m"
  using assms by (simp add: good_step_def follows_notify)

lemma good_inv: "good_step m es m' \<Longrightarrow> um_inv m \<Longrightarrow> um_inv m'"
  by (simp add: good_step_def)

lemma shown_run_db: "run_db f m = (x, m') \<Longrightarrow> shown m' = shown m \<and> um_listeners m' = um_listeners m \<and> (um_inv m' \<longleftrightarrow> um_inv m)"
  by (auto simp: run_db_def split: prod.splits)

lemma addUavInfo_good:
  assumes "um_addUavInfo db info actual tail d m = (k, es, m')"
  shows "good_step m es m'"
proof -
  obtain uav m1 where 1: "um_getUav db (info_uavId info) m = (uav, m1)" by force
  note g1 = good_run_db [OF 1 [unfolded um_getUav_def]]
  define named where "named = (if uav_name uav = [] then uav\<lparr>uav_name := qnumber (uav_uavId uav)\<rparr> else uav)"
  obtain rec m2 where 2: "run_db (db_addUavInfo db info) m1 = (rec, m2)" by force
  obtain role m3 where 3: "um_getUavRole db (uav_roleId named) m2 = (role, m3)" by force
  obtain es4 m4 where 4: "track_uav named (role_code role) m3 = (es4, m4)" by force
  obtain source m5 where 5: "um_getSource db (info_source info) m4 = (source, m5)" by force
  let ?shown = "info\<lparr>info_uavId := uav_uavId named, info_source := source_sourceId source\<rparr>"
  let ?es = "if rec \<noteq> INVALID_INDEX then notify (\<lambda>l. UavInfoChanged l ?shown (role_code role) tail d) (um_listeners m5) else []"
  note g2 = good_run_db [OF 2] and g3 = good_run_db [OF 3 [unfolded um_getUavRole_def]]
    and g4 = track_good [OF 4] and g5 = good_run_db [OF 5 [unfolded um_getSource_def]]
    and s5 = shown_run_db [OF 5 [unfolded um_getSource_def]]
  show ?thesis
  proof (cases "uav_id uav < 0 \<or> \<not> actual")
    case True
    with assms 1 g1 show ?thesis by (auto simp: um_addUavInfo_def Let_def split: if_splits)
  next
    case False
    have "um_addUavInfo db info actual tail d m = (rec, es4 @ ?es, m5)"
      using False 1 2 3 4 5 by (simp add: um_addUavInfo_def Let_def flip: named_def)
    then have e: "(k, es, m') = (rec, es4 @ ?es, m5)" using assms by simp
    show ?thesis
    proof (rule good_if)
      assume "um_inv m"
      then have "um_inv m3" using g1 g2 g3 good_inv by blast
      then have "info_uavId ?shown \<in> shown m5" using s5 g4(2) by simp
      then have "good_step m5 ?es m5" by (cases "rec = INVALID_INDEX") (simp_all add: good_info_changed)
      with good_trans [OF g4(1) good_silent_trans [OF g5]] have "good_step m3 (es4 @ ?es) m5" by blast
      from good_silent_trans [OF g1 good_silent_trans [OF g2 good_silent_trans [OF g3 this]]] e
      show "good_step m es m'" by simp
    qed
  qed
qed

lemma addUavInfoToDb_good:
  assumes "addUavInfoToDb db en pd role ty st dv so actual tail d m = (es, m')"
  shows "good_step m es m'"
proof -
  obtain info m1 where 1: "run_db (sample_references db en pd role ty st dv so) m = (info, m1)" by force
  obtain k es1 m2 where 2: "um_addUavInfo db info actual tail d m1 = (k, es1, m2)" by (metis prod_cases3)
  from assms 1 2 have "es = es1" "m' = m2" by (auto simp: addUavInfoToDb_def)
  with good_silent_trans [OF good_run_db [OF 1] addUavInfo_good [OF 2]] show ?thesis by simp
qed

lemma enemy_loop_Cons:
  assumes "enemy_loop db en src i n t d (u # us) m = (es, m')"
  obtains es1 m1 es2 where "enemy_turn db en src i n (t @ [en_latLon u]) (d @ [en_latLonStdDev u]) u m = (es1, m1)"
    "enemy_loop db en src (i + 1) n (t @ [en_latLon u]) (d @ [en_latLonStdDev u]) us m1 = (es2, m')"
    "es = es1 @ es2"
  using assms by (auto simp: Let_def split: prod.splits)

lemma enemy_turn_good: "enemy_turn db en src i n t d u m = (es, m') \<Longrightarrow> good_step m es m'"
  unfolding enemy_turn_def Let_def addEnemyInfoToDb_def by (rule addUavInfoToDb_good)

lemma enemy_loop_good: "enemy_loop db en src i n t d us m = (es, m') \<Longrightarrow> good_step m es m'"
proof (induction us arbitrary: i t d m es)
  case (Cons u us)
  from Cons.prems show ?case
    by (rule enemy_loop_Cons) (auto intro: good_trans enemy_turn_good Cons.IH)
qed simp

lemma sendEnemy_good:
  assumes "sendEnemyUavPoints db en us src m = (es, m')"
  shows "good_step m es m'"
proof -
  obtain x m1 where 1: "run_db (db_beginTransaction db) m = (x, m1)" by force
  obtain es2 m2 where 2: "enemy_loop db en src 0 (length us) [] [] us m1 = (es2, m2)" by force
  obtain y m3 where 3: "run_db (db_commit db) m2 = (y, m3)" by force
  from assms 1 2 3 have e: "es = es2" "m' = m3" by (auto simp: sendEnemyUavPoints_def)
  from good_trans [OF enemy_loop_good [OF 2] good_run_db [OF 3]] have "good_step m1 es2 m3" by simp
  with e good_run_db [OF 1] show ?thesis by (blast intro: good_silent_trans)
qed

lemma onMethodCalled_good:
  "onMethodCalled db en pos enm method data m = (es, m') \<Longrightarrow> good_step m es m'"
  by (auto simp: onMethodCalled_def split: if_splits list.splits
      intro: sendEnemy_good addUavInfoToDb_good)

lemma timeout_good:
  assumes key: "key \<in> dom (qlookup (um_timers m))" and e: "timeoutSlot db en key m = (es, m')"
  shows "good_step m es m'" and "um_inv m \<Longrightarrow> qlookup (um_timers m') = (qlookup (um_timers m))(key := None)"
proof -
  define uav where "uav = qvalue (um_known m) (default_uav en) (toUInt key)"
  define m1 where "m1 = m\<lparr>um_known := qremove (toUInt key) (um_known m), um_timers := qremove key (um_timers m)\<rparr>"
  obtain role m2 where r: "um_getUavRole db (uav_roleId uav) m1 = (role, m2)" by force
  from e r have es: "es = notify (\<lambda>l. UavRemoved l uav (role_code role)) (um_listeners m2)" and m': "m' = m2"
    by (auto simp: timeoutSlot_def Let_def uav_def m1_def)
  note s = shown_run_db [OF r [unfolded um_getUavRole_def]]
  have t: "um_timers m2 = um_timers m1" using r by (auto simp: um_getUavRole_def run_db_def split: prod.splits)
  show "qlookup (um_timers m') = (qlookup (um_timers m))(key := None)"
    by (simp add: m' t m1_def)
  show "good_step m es m'"
  proof (rule good_if)
    assume inv: "um_inv m"
    from inv key obtain i where i: "key = qnumber i" "i \<in> dom (qlookup (um_known m))"
      unfolding um_inv_def by blast
    then obtain u where u: "qlookup (um_known m) i = Some u" by blast
    with inv i have uav: "uav = u" "uav_uavId u = i"
      by (auto simp: uav_def qvalue_def um_inv_def)
    have "um_inv m1" "shown m1 = shown m - {i}" "um_listeners m1 = um_listeners m"
      using inv i by (auto simp: um_inv_def shown_def m1_def)
    with s m' es uav i u follows_notify(3) [of "um_listeners m" _ u "shown m"] show "good_step m es m'"
      by (auto simp: good_step_def shown_def)
  qed
qed

lemma timeout_all_good:
  "timeout_all db en ks m = (es, m') \<Longrightarrow> um_inv m \<Longrightarrow> distinct ks \<Longrightarrow> set ks \<subseteq> dom (qlookup (um_timers m)) \<Longrightarrow>
    good_step m es m' \<and> dom (qlookup (um_timers m')) = dom (qlookup (um_timers m)) - set ks"
proof (induction ks arbitrary: m es)
  case Nil
  then show ?case by simp
next
  case (Cons k ks)
  obtain es1 m1 where 1: "timeoutSlot db en k m = (es1, m1)" by force
  obtain es2 m2 where 2: "timeout_all db en ks m1 = (es2, m2)" by force
  from Cons.prems 1 2 have e: "es = es1 @ es2" "m' = m2" by auto
  have k: "k \<in> dom (qlookup (um_timers m))" using Cons.prems by simp
  note g = timeout_good [OF k 1]
  have "um_inv m1" using g(1) Cons.prems good_inv by blast
  moreover have "set ks \<subseteq> dom (qlookup (um_timers m1))" using g(2) Cons.prems by auto
  ultimately have "good_step m1 es2 m2 \<and> dom (qlookup (um_timers m2)) = dom (qlookup (um_timers m1)) - set ks"
    using Cons.IH [of m1 es2] 2 e Cons.prems by simp
  with g Cons.prems e show ?case by (auto intro: good_trans)
qed

lemma deleteAll_good:
  assumes "deleteAllUav db en m = (es, m')"
  shows "good_step m es m'" and "shown m' = {}"
proof -
  obtain es1 m1 where 1: "timeout_all db en (qkeys (um_timers m)) m = (es1, m1)" by force
  from assms 1 have e: "es = es1" "m' = m1\<lparr>um_known := [], um_timers := []\<rparr>" by (auto simp: deleteAllUav_def)
  show "shown m' = {}" by (simp add: e shown_def)
  show "good_step m es m'"
  proof (rule good_if)
    assume inv: "um_inv m"
    have "distinct (qkeys (um_timers m))"
      using inv qsorted_distinct by (auto simp: um_inv_def qkeys_def)
    with timeout_all_good [OF 1 inv] have g: "good_step m es1 m1" and "dom (qlookup (um_timers m1)) = {}" by auto
    moreover have "um_inv m1" using g inv good_inv by blast
    ultimately have "shown m1 = {}" by (auto simp: um_inv_def shown_def)
    with g show "good_step m es m'" by (auto simp: good_step_def e um_inv_def shown_def)
  qed
qed

section \<open>Runs of the manager\<close>

text \<open>
  A run: samples of the autopilot, messages by RPC, life timers that elapse (only a timer of the map
  can), the removal of all UAVs, changes of the life time, and operations of the controller that are
  only passed on.
\<close>

inductive manager_step ::
  "'c uav_db \<Rightarrow> environment \<Rightarrow> ('d \<Rightarrow> UAVPositionData list) \<Rightarrow> ('d \<Rightarrow> UAVPositionDataEnemy list)
     \<Rightarrow> ('c, 'l) manager \<Rightarrow> 'l manager_event list \<Rightarrow> ('c, 'l) manager \<Rightarrow> bool"
  for db en positions enemies where
  Sample: "um_addUavInfo db info actual t d m = (k, es, m') \<Longrightarrow> manager_step db en positions enemies m es m'"
| Message: "onMethodCalled db en positions enemies method data m = (es, m') \<Longrightarrow>
    manager_step db en positions enemies m es m'"
| Timeout: "key \<in> dom (qlookup (um_timers m)) \<Longrightarrow> timeoutSlot db en key m = (es, m') \<Longrightarrow>
    manager_step db en positions enemies m es m'"
| DeleteAll: "deleteAllUav db en m = (es, m') \<Longrightarrow> manager_step db en positions enemies m es m'"
| LifeTime: "setLifeTime t m = (es, m') \<Longrightarrow> manager_step db en positions enemies m es m'"
| History: "um_getUavHistory m = (es, m') \<Longrightarrow> manager_step db en positions enemies m es m'"
| Targets: "getTargetsByUavIdAndTargetType db i ty out m = (ok, ts, m') \<Longrightarrow>
    manager_step db en positions enemies m [] m'"
| Delegate: "m' = m\<lparr>um_db := c\<rparr> \<Longrightarrow> manager_step db en positions enemies m [] m'"

inductive manager_run ::
  "'c uav_db \<Rightarrow> environment \<Rightarrow> ('d \<Rightarrow> UAVPositionData list) \<Rightarrow> ('d \<Rightarrow> UAVPositionDataEnemy list)
     \<Rightarrow> ('c, 'l) manager \<Rightarrow> 'l manager_event list \<Rightarrow> ('c, 'l) manager \<Rightarrow> bool"
  for db en positions enemies m where
  Start: "manager_run db en positions enemies m [] m"
| Next: "manager_run db en positions enemies m es m1 \<Longrightarrow> manager_step db en positions enemies m1 es' m' \<Longrightarrow>
    manager_run db en positions enemies m (es @ es') m'"

lemma good_update_db: "m' = m\<lparr>um_db := c\<rparr> \<Longrightarrow> good_step m [] m'"
  by (simp add: good_step_def)

lemma history_good:
  "setLifeTime t m = (es, m') \<Longrightarrow> good_step m es m'" "um_getUavHistory m = (es, m') \<Longrightarrow> good_step m es m'"
  by (auto simp: setLifeTime_def um_getUavHistory_def good_step_def Let_def split: if_splits)

lemma targets_good: "getTargetsByUavIdAndTargetType db i ty out m = (ok, ts, m') \<Longrightarrow> good_step m [] m'"
  by (auto simp: getTargetsByUavIdAndTargetType_def good_step_def split: prod.splits)

lemma manager_step_good: "manager_step db en positions enemies m es m' \<Longrightarrow> good_step m es m'"
  by (induction rule: manager_step.induct)
    (blast intro: addUavInfo_good onMethodCalled_good timeout_good(1) deleteAll_good(1) history_good targets_good
      good_update_db)+

lemma manager_run_good: "manager_run db en positions enemies m es m' \<Longrightarrow> good_step m es m'"
  by (induction rule: manager_run.induct) (auto intro: good_trans manager_step_good)

text \<open>
  C7: whatever samples, messages, time-outs and removals reach the manager, every listener is told
  consistently: a UAV is announced only while it is not on display, changed and removed only while it
  is, and after every step the UAVs a listener was told of are exactly the keys of the map of known
  UAVs, each of which has its life timer.
\<close>

theorem listeners_see_exactly_the_known_uavs:
  assumes "manager_run db en positions enemies (um_init c t\<lparr>um_listeners := ls\<rparr>) es m'"
    and "distinct ls" and "l \<in> set ls"
  shows "follows l {} es = Some (dom (qlookup (um_known m')))
    \<and> dom (qlookup (um_timers m')) = qnumber ` dom (qlookup (um_known m'))"
proof -
  have "um_inv (um_init c t\<lparr>um_listeners := ls\<rparr>)" "shown (um_init c t\<lparr>um_listeners := ls\<rparr>) = {}"
    "um_listeners (um_init c t\<lparr>um_listeners := ls\<rparr>) = ls"
    by (simp_all add: um_init_def setLifeTime_def um_inv_def shown_def Let_def)
  with manager_run_good [OF assms(1)] assms(2,3)
  have "um_inv m'" "follows l {} es = Some (shown m')" by (simp_all add: good_step_def)
  then show ?thesis unfolding um_inv_def shown_def by blast
qed

text \<open>A controller that knows the UAV 5 under any id, for the witness.\<close>

definition known_uav :: Uav where
  "known_uav = \<lparr>uav_id = 1, uav_uavId = 5, uav_ip = [], uav_typeId = 1, uav_roleId = 1, uav_name = [],
     uav_freqId = 0, uav_historical = False\<rparr>"

definition one_uav_db :: "unit uav_db" where
  "one_uav_db = \<lparr>db_addUav = (\<lambda>u c. (1, c)), db_getUavByUavId = (\<lambda>i c. (known_uav, c)),
     db_getUav = (\<lambda>i c. (known_uav, c)), db_getUavsByRole = (\<lambda>r us c. (True, us, c)),
     db_addUavInfo = (\<lambda>i c. (1, c)), db_getUavInfoByUavId = (\<lambda>i is c. (True, is, c)),
     db_addDevice = (\<lambda>d c. (1, c)), db_getDevicesByType = (\<lambda>t ds c. (True, ds, c)),
     db_addSource = (\<lambda>x c. (1, c)), db_getSourceId = (\<lambda>i t c. (1, c)),
     db_getSourceByType = (\<lambda>t xs c. (True, xs, c)),
     db_getSource = (\<lambda>i c. (\<lparr>source_id = 1, source_typeId = 1, source_sourceId = 101\<rparr>, c)),
     db_addUavMission = (\<lambda>x c. (1, c)), db_getUavMissionsByUavId = (\<lambda>i xs c. (True, xs, c)),
     db_deleteUavMissionsByUavId = (\<lambda>i c. (True, c)), db_deleteUavMissionsByTargetId = (\<lambda>i c. (True, c)),
     db_addTarget = (\<lambda>x c. (1, c)), db_getTargetsByType = (\<lambda>t xs c. (True, xs, c)),
     db_getTargetsByUavId = (\<lambda>t xs c. (True, xs, c)), db_getTargetsByMission = (\<lambda>t xs c. (True, xs, c)),
     db_deleteTargetsByUavId = (\<lambda>i c. (True, c)), db_deleteTargetsById = (\<lambda>i c. (True, c)),
     db_addTargetType = (\<lambda>n c. (1, c)), db_getTargetTypeByName = (\<lambda>n c. (1, c)),
     db_addUavType = (\<lambda>n c. (1, c)), db_getUavTypeByName = (\<lambda>n c. (1, c)),
     db_addDeviceType = (\<lambda>n c. (1, c)), db_getDeviceTypeByName = (\<lambda>n c. (1, c)),
     db_addSourceType = (\<lambda>n c. (1, c)), db_getSourceTypeByName = (\<lambda>n c. (1, c)),
     db_addStatus = (\<lambda>n c. (1, c)), db_getStatusByName = (\<lambda>n c. (1, c)),
     db_addUavRole = (\<lambda>r c. (1, c)), db_getUavRole = (\<lambda>i c. (blank_role, c)),
     db_getUavRoleByName = (\<lambda>n c. (blank_role, c)), db_getUavRoleByCode = (\<lambda>n c. (blank_role, c)),
     db_beginTransaction = (\<lambda>c. (True, c)), db_commit = (\<lambda>c. (True, c))\<rparr>"

definition some_environment :: environment where
  "some_environment = \<lparr>en_now = (100, 0), en_junk = (\<lambda>x. 7), en_overflow = (\<lambda>d. 0)\<rparr>"

definition some_position :: UAVPositionData where
  "some_position = \<lparr>pd_boardID = 5, pd_latitude = Fin 54, pd_longitude = Fin 48, pd_altitude = Fin 300,
     pd_latitudeStddev = Fin 0, pd_longitudeStddev = Fin 0, pd_speed = Fin 20, pd_course = Fin 90,
     pd_frequency = Fin 5, pd_state = 0, pd_dateTime = (100, 0), pd_sourceType = 101\<rparr>"

definition one_listener :: "(unit, nat) manager" where
  "one_listener = um_init () 5000\<lparr>um_listeners := [1]\<rparr>"

theorem listeners_see_exactly_the_known_uavs_witness:
  "dom (qlookup (um_known (snd (addUavInfoToDb one_uav_db some_environment some_position OUR_UAV_ROLE [] [] [] [] True [] [] one_listener))))
     = {5}
   \<and> follows 1 {} (fst (addUavInfoToDb one_uav_db some_environment some_position OUR_UAV_ROLE [] [] [] [] True [] [] one_listener))
     = Some {5}"
proof -
  let ?call = "onMethodCalled one_uav_db some_environment (\<lambda>d::unit. [some_position]) (\<lambda>d. []) ''rpc_slot_server_send_bla_points'' () one_listener"
  let ?r = "addUavInfoToDb one_uav_db some_environment some_position OUR_UAV_ROLE [] [] [] [] True [] [] one_listener"
  have same: "?call = ?r"
    by (simp add: onMethodCalled_def addUavInfoToDb_def sample_references_def find_or_add_uav_def
        find_or_add_device_def find_source_def find_or_add_def one_uav_db_def run_db_def known_uav_def)
  have "qkeys (um_known (snd ?r)) = [5]" by code_simp
  then have known: "dom (qlookup (um_known (snd ?r))) = {5}" by (metis set_qkeys list.set(1,2))
  have "manager_step one_uav_db some_environment (\<lambda>d::unit. [some_position]) (\<lambda>d. []) one_listener (fst ?r) (snd ?r)"
    by (rule manager_step.Message [of _ _ _ _ "''rpc_slot_server_send_bla_points''" "()"])
      (simp only: same prod.collapse)
  from manager_run.Next [OF manager_run.Start this]
  have "manager_run one_uav_db some_environment (\<lambda>d::unit. [some_position]) (\<lambda>d. [])
      (um_init () 5000\<lparr>um_listeners := [1::nat]\<rparr>) (fst ?r) (snd ?r)" by (simp add: one_listener_def)
  from listeners_see_exactly_the_known_uavs [OF this] known show ?thesis by simp
qed

section \<open>Bounds of the values shown\<close>

definition plausible :: "UavInfo \<Rightarrow> bool" where
  "plausible i \<longleftrightarrow> (info_alt i = Fin 0 \<or> d_le (Fin 100) (info_alt i) \<and> d_le (info_alt i) (Fin 10000))
     \<and> d_le (Fin 0) (info_yaw i) \<and> d_le (info_yaw i) (Fin 359)"

fun event_infos :: "'l manager_event list \<Rightarrow> UavInfo list" where
  "event_infos [] = []"
| "event_infos (UavInfoChanged l i r t d # es) = i # event_infos es"
| "event_infos (e # es) = event_infos es"

lemma event_infos_append [simp]: "event_infos (es @ es') = event_infos es @ event_infos es'"
  by (induction es rule: event_infos.induct) auto

lemma event_infos_notify [simp]:
  "event_infos (notify (\<lambda>l. UavAdded l u r) ls) = []"
  "event_infos (notify (\<lambda>l. UavInfoChanged l i r t d) ls) = replicate (length ls) i"
  by (induction ls) (auto simp: notify_def)

lemma not_less_le: "a \<noteq> NaN \<Longrightarrow> b \<noteq> NaN \<Longrightarrow> \<not> d_less a b \<Longrightarrow> d_le b a"
  by (cases a; cases b) (auto simp: d_le_def)

lemma checked_altitude_bounds:
  "checked_altitude a = Fin 0 \<or> d_le (Fin 100) (checked_altitude a) \<and> d_le (checked_altitude a) (Fin 10000)"
  by (auto simp: checked_altitude_def d_eq_refl_iff not_less_le)

lemma checked_course_bounds:
  "d_le (Fin 0) (checked_course c) \<and> d_le (checked_course c) (Fin 359)"
proof -
  have "d_le (Fin 0) (Fin 0)" "d_le (Fin 0) (Fin 359)" by (simp_all add: d_le_def)
  then show ?thesis by (auto simp: checked_course_def d_eq_refl_iff not_less_le)
qed

lemma sample_of_plausible: "plausible (sample_of en pd u d s st)"
  using checked_altitude_bounds checked_course_bounds by (simp add: plausible_def sample_of_def)

lemma track_infos: "track_uav uav role m = (es, m') \<Longrightarrow> event_infos es = []"
  by (auto simp: track_uav_def Let_def split: if_splits)

lemma addUavInfo_infos:
  assumes "um_addUavInfo db info actual t d m = (k, es, m')" and "i \<in> set (event_infos es)"
  shows "info_alt i = info_alt info \<and> info_yaw i = info_yaw info"
proof -
  obtain uav m1 where 1: "um_getUav db (info_uavId info) m = (uav, m1)" by force
  define named where "named = (if uav_name uav = [] then uav\<lparr>uav_name := qnumber (uav_uavId uav)\<rparr> else uav)"
  obtain rec m2 where 2: "run_db (db_addUavInfo db info) m1 = (rec, m2)" by force
  obtain role m3 where 3: "um_getUavRole db (uav_roleId named) m2 = (role, m3)" by force
  obtain es4 m4 where 4: "track_uav named (role_code role) m3 = (es4, m4)" by force
  obtain source m5 where 5: "um_getSource db (info_source info) m4 = (source, m5)" by force
  show ?thesis
  proof (cases "uav_id uav < 0 \<or> \<not> actual")
    case True
    with assms 1 show ?thesis by (auto simp: um_addUavInfo_def Let_def split: if_splits)
  next
    case False
    have "um_addUavInfo db info actual t d m = (rec, es4 @ (if rec \<noteq> INVALID_INDEX then
        notify (\<lambda>l. UavInfoChanged l (info\<lparr>info_uavId := uav_uavId named, info_source := source_sourceId source\<rparr>)
          (role_code role) t d) (um_listeners m5) else []), m5)"
      using False 1 2 3 4 5 by (simp add: um_addUavInfo_def Let_def flip: named_def)
    with assms track_infos [OF 4] show ?thesis by (auto split: if_splits)
  qed
qed

lemma addUavInfoToDb_plausible:
  assumes "addUavInfoToDb db en pd role ty st dv so actual t d m = (es, m')" and "i \<in> set (event_infos es)"
  shows "plausible i"
proof -
  obtain info m1 where 1: "run_db (sample_references db en pd role ty st dv so) m = (info, m1)" by force
  then have p: "plausible info"
    by (auto simp: run_db_def sample_references_def sample_of_plausible split: prod.splits)
  obtain k es1 m2 where 2: "um_addUavInfo db info actual t d m1 = (k, es1, m2)" by (metis prod_cases3)
  from assms 1 2 have "i \<in> set (event_infos es1)" by (auto simp: addUavInfoToDb_def)
  from addUavInfo_infos [OF 2 this] p show ?thesis by (auto simp: plausible_def)
qed

lemma enemy_loop_plausible:
  "enemy_loop db en src i n t d us m = (es, m') \<Longrightarrow> \<forall>x \<in> set (event_infos es). plausible x"
proof (induction us arbitrary: i t d m es)
  case (Cons u us)
  from Cons.prems show ?case
  proof (rule enemy_loop_Cons)
    fix es1 m1 es2
    assume "enemy_turn db en src i n (t @ [en_latLon u]) (d @ [en_latLonStdDev u]) u m = (es1, m1)"
      "enemy_loop db en src (i + 1) n (t @ [en_latLon u]) (d @ [en_latLonStdDev u]) us m1 = (es2, m')" "es = es1 @ es2"
    with Cons.IH show ?thesis
      unfolding enemy_turn_def Let_def addEnemyInfoToDb_def using addUavInfoToDb_plausible by fastforce
  qed
qed simp

text \<open>
  C8: no message that arrives by RPC makes a listener see an impossible value: the altitude of every
  sample shown is 0 or between 100 and 10000 and its course between 0 and 359, also when the message
  carries a NaN, an infinity or a value out of these ranges.
\<close>

theorem shown_values_are_plausible:
  assumes "onMethodCalled db en positions enemies method data m = (es, m')"
    and "i \<in> set (event_infos es)"
  shows "plausible i"
  using assms
  by (auto simp: onMethodCalled_def sendEnemyUavPoints_def Let_def split: if_splits list.splits prod.splits
      dest: addUavInfoToDb_plausible enemy_loop_plausible)

definition wild_position :: UAVPositionData where
  "wild_position = some_position\<lparr>pd_altitude := NaN, pd_course := Fin 400\<rparr>"

theorem shown_values_are_plausible_witness:
  "\<exists>i. event_infos (fst (onMethodCalled one_uav_db some_environment (\<lambda>d::unit. [wild_position]) (\<lambda>d. [])
       ''rpc_slot_server_send_bla_points'' () one_listener)) = [i] \<and> plausible i"
proof -
  let ?call = "onMethodCalled one_uav_db some_environment (\<lambda>d::unit. [wild_position]) (\<lambda>d. [])
       ''rpc_slot_server_send_bla_points'' () one_listener"
  have "length (event_infos (fst ?call)) = 1" by code_simp
  then obtain i where i: "event_infos (fst ?call) = [i]" by (auto simp: length_Suc_conv)
  have "plausible i"
    by (rule shown_values_are_plausible [of one_uav_db some_environment "\<lambda>d. [wild_position]" "\<lambda>d. []"
        "''rpc_slot_server_send_bla_points''" "()" one_listener "fst ?call" "snd ?call"]) (simp_all add: i)
  with i show ?thesis by blast
qed

end
