(* ===== verification/UavSolverProps.thy ===== *)
theory UavSolverProps
  imports UavManagerProps
begin

text \<open>
  The points of a solver (\<open>sendEnemyUavPoints\<close>): of the points of one message only the last one is
  shown, with the whole path as its tail, except for the single-point solver, whose points are all
  shown without a tail.
\<close>

fun changes :: "'l manager_event list \<Rightarrow> (UavInfo \<times> point list \<times> point list) list" where
  "changes [] = []"
| "changes (UavInfoChanged l i r t d # es) = (i, t, d) # changes es"
| "changes (e # es) = changes es"

lemma changes_append [simp]: "changes (es @ es') = changes es @ changes es'"
  by (induction es rule: changes.induct) auto

lemma changes_notify [simp]:
  "changes (notify (\<lambda>l. UavAdded l u r) ls) = []"
  "changes (notify (\<lambda>l. UavInfoChanged l i r t d) ls) = replicate (length ls) (i, t, d)"
  by (induction ls) (auto simp: notify_def)

lemma track_changes: "track_uav uav role m = (es, m') \<Longrightarrow> changes es = [] \<and> um_listeners m' = um_listeners m"
  by (auto simp: track_uav_def Let_def split: if_splits)

lemma addUavInfo_changes:
  assumes "um_addUavInfo db info actual t d m = (k, es, m')"
  shows "um_listeners m' = um_listeners m \<and> length (changes es) \<le> length (um_listeners m)
    \<and> (\<not> actual \<longrightarrow> changes es = [])
    \<and> (\<forall>(i, t', d') \<in> set (changes es). info_lat i = info_lat info \<and> info_lon i = info_lon info \<and> t' = t \<and> d' = d)"
proof -
  obtain uav m1 where 1: "um_getUav db (info_uavId info) m = (uav, m1)" by force
  define named where "named = (if uav_name uav = [] then uav\<lparr>uav_name := qnumber (uav_uavId uav)\<rparr> else uav)"
  obtain rec m2 where 2: "run_db (db_addUavInfo db info) m1 = (rec, m2)" by force
  obtain role m3 where 3: "um_getUavRole db (uav_roleId named) m2 = (role, m3)" by force
  obtain es4 m4 where 4: "track_uav named (role_code role) m3 = (es4, m4)" by force
  obtain source m5 where 5: "um_getSource db (info_source info) m4 = (source, m5)" by force
  note ls = shown_run_db [OF 1 [unfolded um_getUav_def]] shown_run_db [OF 2]
    shown_run_db [OF 3 [unfolded um_getUavRole_def]] shown_run_db [OF 5 [unfolded um_getSource_def]]
  show ?thesis
  proof (cases "uav_id uav < 0 \<or> \<not> actual")
    case True
    with assms 1 ls show ?thesis by (auto simp: um_addUavInfo_def Let_def split: if_splits)
  next
    case False
    have "um_addUavInfo db info actual t d m = (rec, es4 @ (if rec \<noteq> INVALID_INDEX then
        notify (\<lambda>l. UavInfoChanged l (info\<lparr>info_uavId := uav_uavId named, info_source := source_sourceId source\<rparr>)
          (role_code role) t d) (um_listeners m5) else []), m5)"
      using False 1 2 3 4 5 by (simp add: um_addUavInfo_def Let_def flip: named_def)
    then have "es = es4 @ (if rec \<noteq> INVALID_INDEX then
        notify (\<lambda>l. UavInfoChanged l (info\<lparr>info_uavId := uav_uavId named, info_source := source_sourceId source\<rparr>)
          (role_code role) t d) (um_listeners m5) else [])" and "m' = m5"
      using assms by simp_all
    with ls track_changes [OF 4] False show ?thesis by simp
  qed
qed

lemma sample_position:
  "run_db (sample_references db en pd role ty st dv so) m = (info, m1) \<Longrightarrow>
     info_lat info = pd_latitude pd \<and> info_lon info = pd_longitude pd \<and> um_listeners m1 = um_listeners m"
  by (auto simp: run_db_def sample_references_def sample_of_def split: prod.splits)

lemma enemy_turn_changes:
  assumes "enemy_turn db en src i n t d u m = (es, m')"
  shows "um_listeners m' = um_listeners m \<and> length (changes es) \<le> length (um_listeners m)
    \<and> (\<not> single_source src \<and> i + 1 \<noteq> n \<longrightarrow> changes es = [])
    \<and> (\<forall>(j, t', d') \<in> set (changes es). info_lat j = fst (en_latLon u) \<and> info_lon j = snd (en_latLon u)
         \<and> (if single_source src then t' = [] \<and> d' = [] else t' = t \<and> d' = d))"
proof -
  define v where "v = enemy_position en (u\<lparr>en_sourceType := point_source src i\<rparr>)"
  define actual where "actual = (i + 1 = n \<or> single_source src)"
  define t' where "t' = (if actual \<and> \<not> single_source src then t else [])"
  define d' where "d' = (if actual \<and> \<not> single_source src then d else [])"
  obtain info m1 where 1: "run_db (sample_references db en v ENEMY_UAV_ROLE ''UnknownUavType''
      ''UnknownStatus'' ''UnknownDeviceType'' (getEnemySourceTypeName (point_source src i))) m = (info, m1)" by force
  obtain k es1 m2 where 2: "um_addUavInfo db info actual t' d' m1 = (k, es1, m2)" by (metis prod_cases3)
  from assms 1 2 have e: "es = es1" "m' = m2"
    by (auto simp: enemy_turn_def addEnemyInfoToDb_def addUavInfoToDb_def Let_def v_def actual_def t'_def d'_def)
  have "info_lat info = fst (en_latLon u)" "info_lon info = snd (en_latLon u)"
    using sample_position [OF 1] by (simp_all add: v_def enemy_position_def Let_def)
  with addUavInfo_changes [OF 2] sample_position [OF 1] e show ?thesis
    by (auto simp: actual_def t'_def d'_def split: if_splits)
qed

lemma enemy_loop_changes:
  assumes "enemy_loop db en src i n t d us m = (es, m')" "\<not> single_source src" "n = i + length us"
  shows "um_listeners m' = um_listeners m \<and> length (changes es) \<le> length (um_listeners m)
    \<and> (\<forall>(j, t', d') \<in> set (changes es). us \<noteq> [] \<and> info_lat j = fst (en_latLon (last us)) \<and> info_lon j = snd (en_latLon (last us))
         \<and> t' = t @ map en_latLon us \<and> d' = d @ map en_latLonStdDev us)"
  using assms
proof (induction us arbitrary: i t d m es)
  case (Cons u us)
  from Cons.prems(1) obtain es1 m1 es2
    where turn: "enemy_turn db en src i n (t @ [en_latLon u]) (d @ [en_latLonStdDev u]) u m = (es1, m1)"
      and loop: "enemy_loop db en src (i + 1) n (t @ [en_latLon u]) (d @ [en_latLonStdDev u]) us m1 = (es2, m')"
      and es: "es = es1 @ es2" by (rule enemy_loop_Cons)
  note T = enemy_turn_changes [OF turn]
  have L: "um_listeners m' = um_listeners m1 \<and> length (changes es2) \<le> length (um_listeners m1)
    \<and> (\<forall>(j, t', d') \<in> set (changes es2). us \<noteq> [] \<and> info_lat j = fst (en_latLon (last us)) \<and> info_lon j = snd (en_latLon (last us))
         \<and> t' = (t @ [en_latLon u]) @ map en_latLon us \<and> d' = (d @ [en_latLonStdDev u]) @ map en_latLonStdDev us)"
    by (rule Cons.IH [OF loop]) (use Cons.prems in simp_all)
  show ?case
  proof (cases "us = []")
    case True
    then have "es2 = []" using loop by simp
    with T es Cons.prems True show ?thesis using L by auto
  next
    case False
    then have "changes es1 = []" using T Cons.prems by simp
    with L T es False show ?thesis by (fastforce)
  qed
qed simp

lemma single_loop_changes:
  assumes "enemy_loop db en src i n t d us m = (es, m')" "single_source src"
  shows "\<forall>(j, t', d') \<in> set (changes es). t' = [] \<and> d' = []
      \<and> (info_lat j, info_lon j) \<in> en_latLon ` set us"
  using assms
proof (induction us arbitrary: i t d m es)
  case (Cons u us)
  from Cons.prems(1) obtain es1 m1 es2
    where turn: "enemy_turn db en src i n (t @ [en_latLon u]) (d @ [en_latLonStdDev u]) u m = (es1, m1)"
      and loop: "enemy_loop db en src (i + 1) n (t @ [en_latLon u]) (d @ [en_latLonStdDev u]) us m1 = (es2, m')"
      and es: "es = es1 @ es2" by (rule enemy_loop_Cons)
  have "(info_lat j, info_lon j) = en_latLon u \<and> t' = [] \<and> d' = []" if "(j, t', d') \<in> set (changes es1)" for j t' d'
    using enemy_turn_changes [OF turn] that Cons.prems(2) by (auto simp: prod_eq_iff)
  with Cons.IH [OF loop Cons.prems(2)] es show ?case by (fastforce)
qed simp

text \<open>
  of the points of one message of a solver the listeners see at most one change each, at the last
  point of the message and with the points of the whole message as its tail; of a message of the
  single-point solver every change is at one of its points and has no tail.
\<close>

theorem solver_points_shown:
  assumes "sendEnemyUavPoints db en us src m = (es, m')" and "(j, t, d) \<in> set (changes es)"
  shows "if single_source src then t = [] \<and> d = [] \<and> (info_lat j, info_lon j) \<in> en_latLon ` set us
    else us \<noteq> [] \<and> (info_lat j, info_lon j) = en_latLon (last us)
      \<and> t = map en_latLon us \<and> d = map en_latLonStdDev us \<and> length (changes es) \<le> length (um_listeners m)"
proof -
  obtain x m1 where 1: "run_db (db_beginTransaction db) m = (x, m1)" by force
  obtain es2 m2 where 2: "enemy_loop db en src 0 (length us) [] [] us m1 = (es2, m2)" by force
  from assms(1) 1 2 have es: "es = es2" by (auto simp: sendEnemyUavPoints_def split: prod.splits)
  show ?thesis
  proof (cases "single_source src")
    case True
    with single_loop_changes [OF 2 True] assms(2) es show ?thesis by auto
  next
    case False
    with enemy_loop_changes [OF 2 False] shown_run_db [OF 1] assms(2) es show ?thesis
      by (auto simp: prod_eq_iff)
  qed
qed

definition enemy_at :: "rat \<Rightarrow> UAVPositionDataEnemy" where
  "enemy_at x = \<lparr>en_altitude = Fin 200, en_speed = Fin 10, en_course = Fin 45, en_state = 0,
     en_frequency = Fin 868, en_time = 1000, en_latLonStdDev = (Fin 1, Fin 1), en_latLon = (Fin x, Fin 40),
     en_sourceType = 0\<rparr>"

theorem solver_points_shown_witness:
  "\<exists>j t d. changes (fst (sendEnemyUavPoints one_uav_db some_environment [enemy_at 1, enemy_at 2] 100 one_listener)) = [(j, t, d)]
     \<and> info_lat j = Fin 2 \<and> t = [(Fin 1, Fin 40), (Fin 2, Fin 40)]"
proof -
  let ?r = "sendEnemyUavPoints one_uav_db some_environment [enemy_at 1, enemy_at 2] 100 one_listener"
  have one: "length (changes (fst ?r)) = 1" by code_simp
  obtain j t d where c: "changes (fst ?r) = [(j, t, d)]" using one
    by (metis One_nat_def length_0_conv length_Suc_conv prod_cases3)
  have "\<not> single_source 100" by (simp add: single_source_def solver_sources)
  with solver_points_shown [of one_uav_db some_environment "[enemy_at 1, enemy_at 2]" 100 one_listener "fst ?r" "snd ?r" j t d] c
  show ?thesis by (simp add: enemy_at_def)
qed

end
