(* ===== verification/UavController.thy ===== *)
theory UavController
  imports UavTables
begin

text \<open>
  \<open>DbUavController\<close> (\<open>view/core/Tabs/DbBla/DbUavController.cpp\<close>) and its base \<open>DbControllerBase\<close>: the
  access to the tables of the UAV database. Every operation takes the server record and threads the
  state of the connection; a list it fills through a reference is an argument and a result. The log
  lines and the mutexes, which every operation holds from its first line to its return, are left out.
\<close>

section \<open>Steps the operations share\<close>

text \<open>Prepare, bind and execute an \<open>INSERT\<close>; the last inserted id, or \<open>INVALID_INDEX\<close> on an error.\<close>

definition insert_record :: "'s server \<Rightarrow> sql \<Rightarrow> bindings \<Rightarrow> 's \<Rightarrow> int \<times> 's" where
  "insert_record srv q b s =
     (if \<not> srv_is_open srv s then (INVALID_INDEX, s)
      else if \<not> srv_prepare srv q s then (INVALID_INDEX, s)
      else let (r, s) = srv_exec srv q b s
           in (if res_ok r then uint_as_int (res_last r) else INVALID_INDEX, s))"

text \<open>Prepare, bind and execute a \<open>SELECT\<close> and append a record for every row.\<close>

definition select_records ::
  "'s server \<Rightarrow> sql \<Rightarrow> bindings \<Rightarrow> (variant list \<Rightarrow> 'r) \<Rightarrow> 'r list \<Rightarrow> 's \<Rightarrow> bool \<times> 'r list \<times> 's" where
  "select_records srv q b conv out s =
     (if \<not> srv_is_open srv s then (False, out, s)
      else if \<not> srv_prepare srv q s then (False, out, s)
      else let (r, s) = srv_exec srv q b s
           in (if \<not> res_ok r then (False, out, s) else (True, out @ map conv (fetched r), s)))"

text \<open>The first row of a \<open>SELECT\<close>; none when it can not be prepared, fails or finds nothing.\<close>

definition first_row :: "'s server \<Rightarrow> sql \<Rightarrow> bindings \<Rightarrow> 's \<Rightarrow> variant list option \<times> 's" where
  "first_row srv q b s =
     (if \<not> srv_prepare srv q s then (None, s)
      else let (r, s) = srv_exec srv q b s
           in (case fetched r of [] \<Rightarrow> (None, s) | row # _ \<Rightarrow> (Some row, s)))"

section \<open>UAV roles\<close>

definition addUavRole :: "'s server \<Rightarrow> UavRole \<Rightarrow> 's \<Rightarrow> int \<times> 's" where
  "addUavRole srv role s = insert_record srv
     (InsertInto ''uavroles'' [(''code'', '':code''), (''name'', '':name'')] [])
     [('':code'', VText (role_code role)), ('':name'', VText (role_name role))] s"

definition getUavRole :: "'s server \<Rightarrow> u32 \<Rightarrow> 's \<Rightarrow> UavRole \<times> 's" where
  "getUavRole srv roleId s =
     (if \<not> srv_is_open srv s then (blank_role, s)
      else case first_row srv (SelectFrom ''uavroles'' [] [(''id'', '':roleId'')])
                  [('':roleId'', VUInt roleId)] s of
        (None, s) \<Rightarrow> (blank_role, s)
      | (Some row, s) \<Rightarrow> (role_of_row row, s))"

definition getUavRoleByName :: "'s server \<Rightarrow> string \<Rightarrow> 's \<Rightarrow> UavRole \<times> 's" where
  "getUavRoleByName srv name s =
     (if \<not> srv_is_open srv s then (blank_role, s)
      else case first_row srv (SelectFrom ''uavroles'' [''id''] [(''name'', '':name'')])
                  [('':name'', VText name)] s of
        (None, s) \<Rightarrow> (blank_role, s)
      | (Some row, s) \<Rightarrow> (role_of_row row, s))"

definition getUavRoleByCode :: "'s server \<Rightarrow> string \<Rightarrow> 's \<Rightarrow> UavRole \<times> 's" where
  "getUavRoleByCode srv code s =
     (if \<not> srv_is_open srv s then (blank_role, s)
      else case first_row srv (SelectFrom ''uavroles'' [''id''] [(''code'', '':code'')])
                  [('':code'', VText code)] s of
        (None, s) \<Rightarrow> (blank_role, s)
      | (Some row, s) \<Rightarrow> (role_of_row row, s))"

section \<open>UAVs\<close>

definition stored_uav_id :: "string \<Rightarrow> Uav \<Rightarrow> variant" where
  "stored_uav_id code uav =
     (if code = ENEMY_UAV_ROLE
      then VInt (if uav_freqId uav < 0 then ENEMY_UAV_ID_OFFSET else uav_freqId uav)
      else VUInt (uav_uavId uav))"

definition insert_uav :: sql where
  "insert_uav = InsertInto ''uav'' [(''uavId'', '':uavId''), (''ip'', '':ip''), (''uavTypeId'', '':uavTypeId''),
     (''roleId'', '':roleId''), (''name'', '':name''), (''freqId'', '':freqId'')] []"

definition addUav :: "'s server \<Rightarrow> Uav \<Rightarrow> 's \<Rightarrow> int \<times> 's" where
  "addUav srv uav s =
     (if \<not> srv_is_open srv s then (INVALID_INDEX, s)
      else if \<not> srv_prepare srv insert_uav s then (INVALID_INDEX, s)
      else
        let (role, s) = getUavRole srv (uav_roleId uav) s;
            (r, s) = srv_exec srv insert_uav
              [('':uavId'', stored_uav_id (role_code role) uav), ('':ip'', VText (uav_ip uav)),
               ('':uavTypeId'', VUInt (uav_typeId uav)), ('':roleId'', VUInt (uav_roleId uav)),
               ('':name'', VText (uav_name uav)), ('':freqId'', VInt (uav_freqId uav))] s
        in (if res_ok r then uint_as_int (res_last r) else INVALID_INDEX, s))"

definition getUavByUavId :: "'s server \<Rightarrow> u32 \<Rightarrow> 's \<Rightarrow> Uav \<times> 's" where
  "getUavByUavId srv uavId s =
     (if \<not> srv_is_open srv s then (blank_uav srv, s)
      else
        let (_, s) = srv_begin srv s
        in case first_row srv (SelectFrom ''uav'' [] [(''uavId'', '':id'')]) [('':id'', VUInt uavId)] s of
             (None, s) \<Rightarrow> (blank_uav srv, s)
           | (Some row, s) \<Rightarrow> (uav_of_row row, s))"

definition getUav :: "'s server \<Rightarrow> u32 \<Rightarrow> 's \<Rightarrow> Uav \<times> 's" where
  "getUav srv i s =
     (if \<not> srv_is_open srv s then (blank_uav srv, s)
      else case first_row srv (SelectFrom ''uav'' [] [(''id'', '':id'')]) [('':id'', VUInt i)] s of
        (None, s) \<Rightarrow> (blank_uav srv, s)
      | (Some row, s) \<Rightarrow> (uav_of_row row, s))"

definition getUavsByRole :: "'s server \<Rightarrow> string \<Rightarrow> Uav list \<Rightarrow> 's \<Rightarrow> bool \<times> Uav list \<times> 's" where
  "getUavsByRole srv role uavs s =
     (if \<not> srv_is_open srv s then (False, uavs, s)
      else
        let (r, s) = getUavRoleByCode srv role s
        in if role_id r = INVALID_INDEX then (False, [], s)
           else if \<not> srv_prepare srv (SelectFrom ''uav'' [] [(''roleId'', '':roleId'')]) s then (False, [], s)
           else
             let (q, s) = srv_exec srv (SelectFrom ''uav'' [] [(''roleId'', '':roleId'')])
                            [('':roleId'', VInt (role_id r))] s
             in if \<not> res_ok q then (False, [], s) else (True, map uav_of_row (fetched q), s))"

definition getUavsCountByRole :: "'s server \<Rightarrow> string \<Rightarrow> 's \<Rightarrow> int \<times> 's" where
  "getUavsCountByRole srv role s =
     (if \<not> srv_is_open srv s then (INVALID_INDEX, s)
      else case first_row srv (CountWhere ''UAV'' ''roleId'' ''ID'' ''UAVROLES'' ''code'' '':roleCode'')
                  [('':roleCode'', VText role)] s of
        (None, s) \<Rightarrow> (INVALID_INDEX, s)
      | (Some row, s) \<Rightarrow> (uint_as_int (rec_value row 0), s))"

section \<open>UAV samples\<close>

definition info_columns :: "(string \<times> string) list" where
  "info_columns =
     [(''uavId'', '':uavId''), (''device'', '':device''), (''source'', '':source''), (''latitude'', '':lat''),
      (''longitude'', '':lon''), (''altitude'', '':alt''), (''latitudeStdDev'', '':latStdDev''),
      (''longitudeStdDev'', '':lonStdDev''), (''speed'', '':speed''), (''yaw'', '':yaw''),
      (''restTime'', '':restTime''), (''statusTypeId'', '':statusId''), (''datetime'', '':dateTime'')]"

definition info_updates :: "(string \<times> string) list" where
  "info_updates =
     [(''latitude'', '':lat2''), (''longitude'', '':lon2''), (''altitude'', '':alt2''),
      (''latitudeStdDev'', '':latStdDev2''), (''longitudeStdDev'', '':lonStdDev2''), (''speed'', '':speed2''),
      (''yaw'', '':yaw2''), (''restTime'', '':restTime2''), (''statusTypeId'', '':statusId2'')]"

definition insert_info :: sql where
  "insert_info = InsertInto ''info'' info_columns info_updates"

definition info_bindings :: "'s server \<Rightarrow> UavInfo \<Rightarrow> bindings" where
  "info_bindings srv i =
     [('':uavId'', VUInt (info_uavId i)), ('':device'', VUInt (info_device i)),
      ('':source'', VUInt (info_source i)),
      ('':lat'', VDouble (info_lat i)), ('':lat2'', VDouble (info_lat i)),
      ('':latStdDev'', VDouble (info_latStddev i)), ('':latStdDev2'', VDouble (info_latStddev i)),
      ('':lon'', VDouble (info_lon i)), ('':lon2'', VDouble (info_lon i)),
      ('':lonStdDev'', VDouble (info_lonStddev i)), ('':lonStdDev2'', VDouble (info_lonStddev i)),
      ('':alt'', VDouble (info_alt i)), ('':alt2'', VDouble (info_alt i)),
      ('':speed'', VDouble (info_speed i)), ('':speed2'', VDouble (info_speed i)),
      ('':yaw'', VDouble (info_yaw i)), ('':yaw2'', VDouble (info_yaw i)),
      ('':restTime'', VText (fmt_time srv (info_restTime i))),
      ('':restTime2'', VText (fmt_time srv (info_restTime i))),
      ('':statusId'', VUInt (info_statusId i)), ('':statusId2'', VUInt (info_statusId i)),
      ('':dateTime'', VText (fmt_datetime srv (info_dateTime i)))]"

definition addUavInfo :: "'s server \<Rightarrow> UavInfo \<Rightarrow> 's \<Rightarrow> int \<times> 's" where
  "addUavInfo srv info s = insert_record srv insert_info (info_bindings srv info) s"

definition getUavInfoByUavId :: "'s server \<Rightarrow> u32 \<Rightarrow> UavInfo list \<Rightarrow> 's \<Rightarrow> bool \<times> UavInfo list \<times> 's" where
  "getUavInfoByUavId srv uavId out s = select_records srv
     (SelectFrom ''info'' [] [(''uavId'', '':uavId'')]) [('':uavId'', VUInt uavId)] (info_of_row srv) out s"

section \<open>Devices and sources\<close>

definition addDevice :: "'s server \<Rightarrow> Devices \<Rightarrow> 's \<Rightarrow> int \<times> 's" where
  "addDevice srv d s = insert_record srv
     (InsertInto ''devices'' [(''deviceTypeId'', '':deviceTypeId''), (''port'', '':port''), (''uavId'', '':uavId'')] [])
     [('':deviceTypeId'', VUInt (device_typeId d)), ('':port'', VUInt (device_port d)),
      ('':uavId'', VUInt (device_uavId d))] s"

definition getDevicesByType :: "'s server \<Rightarrow> u32 \<Rightarrow> Devices list \<Rightarrow> 's \<Rightarrow> bool \<times> Devices list \<times> 's" where
  "getDevicesByType srv t out s = select_records srv
     (SelectFrom ''devices'' [] [(''deviceTypeId'', '':deviceTypeId'')]) [('':deviceTypeId'', VUInt t)]
     device_of_row out s"

definition addSource :: "'s server \<Rightarrow> Source \<Rightarrow> 's \<Rightarrow> int \<times> 's" where
  "addSource srv x s = insert_record srv
     (InsertInto ''sources'' [(''sourceTypeId'', '':sourceTypeId''), (''sourceId'', '':sourceId'')] [])
     [('':sourceTypeId'', VUInt (source_typeId x)), ('':sourceId'', VUInt (source_sourceId x))] s"

definition getSourceId :: "'s server \<Rightarrow> u32 \<Rightarrow> u32 \<Rightarrow> 's \<Rightarrow> int \<times> 's" where
  "getSourceId srv sourceId typeId s =
     (if \<not> srv_is_open srv s then (INVALID_INDEX, s)
      else case first_row srv (SelectFrom ''sources'' [''id'']
                    [(''sourceTypeId'', '':sourceTypeId''), (''sourceId'', '':sourceId'')])
                  [('':sourceId'', VUInt sourceId), ('':sourceTypeId'', VUInt typeId)] s of
        (None, s) \<Rightarrow> (INVALID_INDEX, s)
      | (Some row, s) \<Rightarrow> (v_int (rec_value row 0), s))"

definition getSourceByType :: "'s server \<Rightarrow> u32 \<Rightarrow> Source list \<Rightarrow> 's \<Rightarrow> bool \<times> Source list \<times> 's" where
  "getSourceByType srv t out s = select_records srv
     (SelectFrom ''sources'' [] [(''sourceTypeId'', '':sourceTypeId'')]) [('':sourceTypeId'', VUInt t)]
     source_of_row out s"

text \<open>The loop of \<open>getSource\<close> overwrites the result with every row: the last one stays.\<close>

definition getSource :: "'s server \<Rightarrow> u32 \<Rightarrow> 's \<Rightarrow> Source \<times> 's" where
  "getSource srv i s =
     (let q = SelectFrom ''sources'' [] [(''id'', '':sourceId'')]
      in if \<not> srv_is_open srv s then (blank_source srv, s)
         else if \<not> srv_prepare srv q s then (blank_source srv, s)
         else let (r, s) = srv_exec srv q [('':sourceId'', VUInt i)] s
              in if \<not> res_ok r then (blank_source srv, s)
                 else (fold (\<lambda>row _. source_of_row row) (fetched r) (blank_source srv), s))"

section \<open>Missions\<close>

definition addUavMission :: "'s server \<Rightarrow> UavMission \<Rightarrow> 's \<Rightarrow> int \<times> 's" where
  "addUavMission srv m s = insert_record srv
     (InsertInto ''uavmission''
        [(''uavId'', '':uavId''), (''targetID'', '':targetID''), (''regionCenterLatitude'', '':rcLat''),
         (''regionCenterLongitude'', '':rcLon''), (''regionCenterAltitude'', '':rcAlt''),
         (''regionRadius'', '':rRad''), (''timeToTarget'', '':timeToTarget'')] [])
     [('':uavId'', VUInt (mission_uavId m)), ('':targetID'', VUInt (mission_targetId m)),
      ('':rcLat'', VDouble (mission_lat m)), ('':rcLon'', VDouble (mission_lon m)),
      ('':rcAlt'', VDouble (mission_alt m)), ('':rRad'', VDouble (mission_radius m)),
      ('':timeToTarget'', VText (fmt_time srv (mission_time m)))] s"

definition getUavMissionsByUavId ::
  "'s server \<Rightarrow> u32 \<Rightarrow> UavMission list \<Rightarrow> 's \<Rightarrow> bool \<times> UavMission list \<times> 's" where
  "getUavMissionsByUavId srv uavId out s = select_records srv
     (SelectFrom ''uavmission'' [] [(''uavId'', '':uavId'')]) [('':uavId'', VUInt uavId)]
     (mission_of_row srv) out s"

text \<open>Execute a \<open>DELETE\<close> and commit, whether it succeeded or not.\<close>

definition delete_and_commit :: "'s server \<Rightarrow> sql \<Rightarrow> bindings \<Rightarrow> 's \<Rightarrow> bool \<times> 's" where
  "delete_and_commit srv q b s =
     (let (r, s) = srv_exec srv q b s; (_, s) = srv_commit srv s in (res_ok r, s))"

definition deleteUavMissionsByUavId :: "'s server \<Rightarrow> u32 \<Rightarrow> 's \<Rightarrow> bool \<times> 's" where
  "deleteUavMissionsByUavId srv uavId s =
     (let q = DeleteFrom ''uavmission'' [(''uavID'', '':uavId'')]
      in if \<not> srv_is_open srv s then (False, s)
         else
           let (ok, _, s) = getUavMissionsByUavId srv uavId [] s
           in if \<not> ok then (False, s)
              else if \<not> srv_prepare srv q s then (False, s)
              else delete_and_commit srv q [('':uavId'', VUInt uavId)] s)"

definition deleteUavMissionsByTargetId :: "'s server \<Rightarrow> u32 \<Rightarrow> 's \<Rightarrow> bool \<times> 's" where
  "deleteUavMissionsByTargetId srv targetId s =
     (let q = DeleteFrom ''uavmission'' [(''targetID'', '':targetId'')]
      in if \<not> srv_is_open srv s then (False, s)
         else if \<not> srv_prepare srv q s then (False, s)
         else delete_and_commit srv q [('':targetId'', VUInt targetId)] s)"

section \<open>Targets\<close>

definition addTarget :: "'s server \<Rightarrow> Target \<Rightarrow> 's \<Rightarrow> int \<times> 's" where
  "addTarget srv t s =
     (let q = InsertInto ''target'' [(''uavID'', '':uavId''), (''ip'', '':ip''), (''port'', '':port''),
                (''targetTypeId'', '':targetTypeId'')] []
      in if \<not> srv_is_open srv s then (INVALID_INDEX, s)
         else
           let (_, s) = srv_begin srv s
           in if \<not> srv_prepare srv q s then (INVALID_INDEX, snd (srv_commit srv s))
              else
                let (r, s) = srv_exec srv q
                      [('':uavId'', VInt (target_uavId t)), ('':ip'', VText (target_ip t)),
                       ('':port'', VUInt (target_port t)), ('':targetTypeId'', VInt (target_type t))] s;
                    (_, s) = srv_commit srv s
                in (if res_ok r then uint_as_int (res_last r) else INVALID_INDEX, s))"

definition getTargetsByType :: "'s server \<Rightarrow> u32 \<Rightarrow> Target list \<Rightarrow> 's \<Rightarrow> bool \<times> Target list \<times> 's" where
  "getTargetsByType srv t out s = select_records srv
     (SelectFrom ''target'' [] [(''targetTypeId'', '':targetTypeId'')]) [('':targetTypeId'', VUInt t)]
     target_of_row out s"

definition getTargetsByUavId :: "'s server \<Rightarrow> u32 \<Rightarrow> Target list \<Rightarrow> 's \<Rightarrow> bool \<times> Target list \<times> 's" where
  "getTargetsByUavId srv uavId out s =
     (let q = SelectFrom ''target'' [] [(''uavId'', '':uavId'')]
      in if \<not> srv_is_open srv s then (False, out, s)
         else
           let (uav, s) = getUavByUavId srv uavId s
           in if uav_id uav = INVALID_INDEX then (False, out, s)
              else if \<not> srv_prepare srv q s then (False, out, s)
              else
                let (r, s) = srv_exec srv q [('':uavId'', VInt (uav_id uav))] s
                in if \<not> res_ok r then (False, out, s)
                   else (True, out @ map target_of_row (fetched r), s))"

definition getTargetsByMission :: "'s server \<Rightarrow> u32 \<Rightarrow> Target list \<Rightarrow> 's \<Rightarrow> bool \<times> Target list \<times> 's" where
  "getTargetsByMission srv missionId out s =
     (let q0 = SelectFrom ''uavmission'' [''targetID''] [(''id'', '':missionID'')];
          q = SelectFrom ''target'' [] [(''id'', '':targetID'')]
      in if \<not> srv_is_open srv s then (False, out, s)
         else if \<not> srv_prepare srv q0 s then (False, out, s)
         else
           let (r, s) = srv_exec srv q0 [('':missionID'', VUInt missionId)] s
           in if \<not> res_ok r then (False, out, s)
              else
                let targetID = (case fetched r of [] \<Rightarrow> junk srv ''targetID'' | row # _ \<Rightarrow> v_int (rec_value row 0))
                in if \<not> srv_prepare srv q s then (False, out, s)
                   else
                     let (r, s) = srv_exec srv q [('':targetID'', VInt targetID)] s
                     in if \<not> res_ok r then (False, out, s)
                        else (True, out @ map target_of_row (fetched r), s))"

definition deleteTargetsByUavId :: "'s server \<Rightarrow> u32 \<Rightarrow> 's \<Rightarrow> bool \<times> 's" where
  "deleteTargetsByUavId srv uavId s =
     (let q = DeleteFrom ''target'' [(''uavID'', '':uavId'')]
      in if \<not> srv_is_open srv s then (False, s)
         else
           let (_, s) = srv_begin srv s;
               (uav, s) = getUavByUavId srv uavId s
           in if uav_id uav = INVALID_INDEX then (False, snd (srv_commit srv s))
              else if \<not> srv_prepare srv q s then (False, snd (srv_commit srv s))
              else delete_and_commit srv q [('':uavId'', VInt (uav_id uav))] s)"

definition deleteTargetsById :: "'s server \<Rightarrow> u32 \<Rightarrow> 's \<Rightarrow> bool \<times> 's" where
  "deleteTargetsById srv i s =
     (let q = DeleteFrom ''target'' [(''id'', '':id'')]
      in if \<not> srv_is_open srv s then (False, s)
         else
           let (_, s) = srv_begin srv s
           in if \<not> srv_prepare srv q s then (False, snd (srv_commit srv s))
              else delete_and_commit srv q [('':id'', VUInt i)] s)"

section \<open>Dictionaries\<close>

definition addDictionaryRecord :: "'s server \<Rightarrow> string \<Rightarrow> string \<Rightarrow> 's \<Rightarrow> int \<times> 's" where
  "addDictionaryRecord srv dictionary name s = insert_record srv
     (InsertInto dictionary [(''name'', '':name'')] []) [('':name'', VText name)] s"

definition getDictionaryRecord :: "'s server \<Rightarrow> string \<Rightarrow> string \<Rightarrow> 's \<Rightarrow> int \<times> 's" where
  "getDictionaryRecord srv dictionary name s =
     (if \<not> srv_is_open srv s then (INVALID_INDEX, s)
      else case first_row srv (SelectFrom dictionary [''id''] [(''name'', '':name'')])
                  [('':name'', VText name)] s of
        (None, s) \<Rightarrow> (INVALID_INDEX, s)
      | (Some row, s) \<Rightarrow> (uint_as_int (rec_value row 0), s))"

definition addTargetType where "addTargetType srv = addDictionaryRecord srv ''targettypes''"
definition getTargetTypeByName where "getTargetTypeByName srv = getDictionaryRecord srv ''targettypes''"
definition addUavType where "addUavType srv = addDictionaryRecord srv ''uavtypes''"
definition getUavTypeByName where "getUavTypeByName srv = getDictionaryRecord srv ''uavtypes''"
definition addDeviceType where "addDeviceType srv = addDictionaryRecord srv ''devicetypes''"
definition getDeviceTypeByName where "getDeviceTypeByName srv = getDictionaryRecord srv ''devicetypes''"
definition addSourceType where "addSourceType srv = addDictionaryRecord srv ''sourcetypes''"
definition getSourceTypeByName where "getSourceTypeByName srv = getDictionaryRecord srv ''sourcetypes''"
definition addStatus where "addStatus srv = addDictionaryRecord srv ''statustypes''"
definition getStatusByName where "getStatusByName srv = getDictionaryRecord srv ''statustypes''"

section \<open>Transactions and the connection\<close>

definition beginTransaction :: "'s server \<Rightarrow> 's \<Rightarrow> bool \<times> 's" where
  "beginTransaction srv s = srv_begin srv s"

definition commit :: "'s server \<Rightarrow> 's \<Rightarrow> bool \<times> 's" where
  "commit srv s = srv_commit srv s"

text \<open>
  The object around the connection: the reconnect timer (\<open>None\<close> for the constructor that makes none,
  otherwise whether it runs), the parameters of the last call and whether the history exists.
\<close>

record 's controller =
  ctl_db :: 's
  ctl_timer :: "bool option"
  ctl_params :: connection_params
  ctl_history :: bool

datatype controller_event = HistorySetDatabase

definition base_disconnect :: "'s server \<Rightarrow> 's \<Rightarrow> 's" where
  "base_disconnect srv s = (if srv_is_open srv s then srv_close srv s else s)"

definition base_connect :: "'s server \<Rightarrow> connection_params \<Rightarrow> 's \<Rightarrow> bool \<times> 's" where
  "base_connect srv cp s =
     (let s = (if srv_is_open srv s then srv_close srv s else s) in srv_open srv cp s)"

definition connectToDB ::
  "'s server \<Rightarrow> connection_params \<Rightarrow> 's controller \<Rightarrow> bool \<times> controller_event list \<times> 's controller" where
  "connectToDB srv cp c =
     (let c = c\<lparr>ctl_params := cp\<rparr>;
          (ok, s) = base_connect srv cp (ctl_db c);
          c = c\<lparr>ctl_db := s\<rparr>;
          c = (if ok then c else c\<lparr>ctl_timer := map_option (\<lambda>_. True) (ctl_timer c)\<rparr>)
      in (ok, if ctl_history c then [HistorySetDatabase] else [], c))"

definition disconnectFromDb :: "'s server \<Rightarrow> 's controller \<Rightarrow> 's controller" where
  "disconnectFromDb srv c =
     (if srv_is_open srv (ctl_db c) then c\<lparr>ctl_db := srv_close srv (ctl_db c)\<rparr> else c)"

definition slotReconnectDb :: "'s server \<Rightarrow> 's controller \<Rightarrow> controller_event list \<times> 's controller" where
  "slotReconnectDb srv c =
     (let c = c\<lparr>ctl_timer := map_option (\<lambda>_. False) (ctl_timer c)\<rparr>;
          c = disconnectFromDb srv c;
          (_, es, c) = connectToDB srv (ctl_params c) c
      in (es, c))"

definition getUavHistory :: "'s controller \<Rightarrow> 's controller" where
  "getUavHistory c = (if ctl_history c then c else c\<lparr>ctl_history := True\<rparr>)"

end
