(* ===== verification/DatabaseMemory.thy ===== *)
theory DatabaseMemory
  imports Database "HOL-Library.AList"
begin

text \<open>
  A server that satisfies the laws of \<open>sql_server\<close>: the tables of \<open>sql/arm_od_uav_tables.sql\<close> in
  memory, with the types, the \<open>NOT NULL\<close> columns, the foreign keys and the unique index of the
  schema. It shows that the laws can hold together and lets the operations be evaluated.
\<close>

record mem_db =
  mem_open :: bool
  mem_rows :: "(string \<times> row list) list"
  mem_durable :: "(string \<times> row list) list"
  mem_intx :: bool

definition rows_of :: "(string \<times> row list) list \<Rightarrow> tables" where
  "rows_of al t = (case map_of al t of None \<Rightarrow> [] | Some rs \<Rightarrow> rs)"

definition mem_view :: "mem_db \<Rightarrow> db_view" where
  "mem_view s = \<lparr>vw_open = mem_open s, vw_rows = rows_of (mem_rows s),
     vw_durable = rows_of (mem_durable s), vw_intx = mem_intx s\<rparr>"

definition mem_write :: "string \<Rightarrow> row list \<Rightarrow> mem_db \<Rightarrow> mem_db" where
  "mem_write t rs s =
     (let al = AList.update (lower t) rs (mem_rows s)
      in s\<lparr>mem_rows := al, mem_durable := (if mem_intx s then mem_durable s else al)\<rparr>)"

section \<open>Types of the columns\<close>

datatype column_type = Int_col | UInt_col | Medium_col | Double_col | Text_col | Varchar_col | Time_col

definition column_type :: "string \<Rightarrow> string \<Rightarrow> column_type" where
  "column_type t c = (let u = lower t; c = lower c in
     if time_column u c then Time_col
     else if c \<in> {''ip'', ''code''} then Text_col
     else if c = ''name'' then (if u \<in> {''devicetypes'', ''sourcetypes''} then Varchar_col else Text_col)
     else if u = ''uav'' \<and> c = ''uavid'' then UInt_col
     else if c = ''port'' then Medium_col
     else if c \<in> {''latitude'', ''longitude'', ''altitude'', ''latitudestddev'', ''longitudestddev'',
       ''altidudestddev'', ''speed'', ''yaw'', ''regioncenterlatitude'', ''regioncenterlongitude'',
       ''regioncenteraltitude'', ''regionradius''} then Double_col
     else Int_col)"

definition not_null :: "string \<Rightarrow> string \<Rightarrow> bool" where
  "not_null t c \<longleftrightarrow> (lower t, lower c) \<in>
     {(''uav'', ''uavid''), (''uav'', ''ip''), (''uavroles'', ''code''), (''uavroles'', ''name''),
      (''info'', ''latitude''), (''info'', ''longitude''), (''info'', ''datetime'')}"

definition store_int :: "int \<Rightarrow> int \<Rightarrow> variant \<Rightarrow> variant option" where
  "store_int lo hi v = (case number_of v of None \<Rightarrow> None
     | Some i \<Rightarrow> if lo \<le> i \<and> i \<le> hi then Some (VInt i) else None)"

definition store :: "string \<Rightarrow> string \<Rightarrow> variant \<Rightarrow> variant option" where
  "store t c v =
     (if v = VInvalid then (if not_null t c then None else Some VInvalid)
      else case column_type t c of
        Int_col \<Rightarrow> store_int (- (2 ^ 31)) (2 ^ 31 - 1) v
      | UInt_col \<Rightarrow> (case store_int 0 (2 ^ 32 - 1) v of None \<Rightarrow> None | Some w \<Rightarrow> Some (VUInt (to_uint (v_int w))))
      | Medium_col \<Rightarrow> store_int (- (2 ^ 23)) (2 ^ 23 - 1) v
      | Double_col \<Rightarrow> (case v of VDouble d \<Rightarrow> Some v | _ \<Rightarrow> None)
      | Text_col \<Rightarrow> (case v of VText x \<Rightarrow> Some v | _ \<Rightarrow> None)
      | Varchar_col \<Rightarrow> (case v of VText x \<Rightarrow> if length x \<le> 45 then Some v else None | _ \<Rightarrow> None)
      | Time_col \<Rightarrow> (case v of VText x \<Rightarrow> if x = [] then None else Some v | _ \<Rightarrow> None))"

lemma store_keeps: "store t c v = Some w \<Longrightarrow> keeps t c v w"
  by (auto simp: store_def keeps_def store_int_def uint_to_uint
      split: if_splits variant.splits column_type.splits option.splits)

section \<open>Statements\<close>

definition sql_same :: "variant \<Rightarrow> variant \<Rightarrow> bool" where
  "sql_same v w = (case (number_of v, number_of w) of
       (Some i, Some j) \<Rightarrow> i = j
     | (None, None) \<Rightarrow> v = w \<and> v \<noteq> VInvalid
     | _ \<Rightarrow> False)"

fun row_id :: "row \<Rightarrow> int" where
  "row_id r = v_int (cell r ''id'')"

definition next_id :: "row list \<Rightarrow> int" where
  "next_id rs = foldr max (map row_id rs) 0 + 1"

fun fill :: "(string \<Rightarrow> variant option) \<Rightarrow> string list \<Rightarrow> row option" where
  "fill f [] = Some []"
| "fill f (c # cs) = (case f c of None \<Rightarrow> None
     | Some w \<Rightarrow> (case fill f cs of None \<Rightarrow> None | Some r \<Rightarrow> Some ((c, w) # r)))"

definition assigned :: "(string \<times> string) list \<Rightarrow> bindings \<Rightarrow> (string \<times> variant) list" where
  "assigned cs b = map (\<lambda>(c, p). (lower c, bound b p)) cs"

definition known_columns :: "string \<Rightarrow> (string \<times> string) list \<Rightarrow> bool" where
  "known_columns t cs \<longleftrightarrow> distinct (map (lower \<circ> fst) cs)
     \<and> (\<forall>(c, p) \<in> set cs. lower c \<in> set (columns t) \<and> lower c \<noteq> ''id'')"

definition insert_row :: "mem_db \<Rightarrow> string \<Rightarrow> (string \<times> string) list \<Rightarrow> bindings \<Rightarrow> row option" where
  "insert_row s t cs b =
     (let rs = rows_of (mem_rows s) (lower t); i = next_id rs
      in if columns t = [] \<or> \<not> known_columns t cs \<or> 2 ^ 31 \<le> i then None
         else case fill (\<lambda>c. store t c (bound (assigned cs b) c)) (tl (columns t)) of
           None \<Rightarrow> None
         | Some r \<Rightarrow> (let r = (''id'', VInt i) # r
                       in if refers (rows_of (mem_rows s)) t r then Some r else None))"

text \<open>The rows that collide with a new one in the unique index of \<open>info\<close>.\<close>

definition collides :: "string \<Rightarrow> row \<Rightarrow> row \<Rightarrow> bool" where
  "collides t r q \<longleftrightarrow> lower t = ''info'' \<and> (\<forall>c \<in> set info_key. cell r c \<noteq> VInvalid \<and> cell q c = cell r c)"

fun find_index :: "('a \<Rightarrow> bool) \<Rightarrow> 'a list \<Rightarrow> nat option" where
  "find_index p [] = None"
| "find_index p (x # xs) = (if p x then Some 0 else map_option Suc (find_index p xs))"

definition update_row ::
  "mem_db \<Rightarrow> string \<Rightarrow> (string \<times> string) list \<Rightarrow> bindings \<Rightarrow> row \<Rightarrow> row option" where
  "update_row s t ds b q =
     (if columns t = [] \<or> \<not> known_columns t ds \<or> list_ex (\<lambda>(c, p). lower c \<in> set info_key) ds then None
      else case fill (\<lambda>c. case map_of (assigned ds b) c of None \<Rightarrow> Some (cell q c) | Some v \<Rightarrow> store t c v)
             (tl (columns t)) of
        None \<Rightarrow> None
      | Some r \<Rightarrow> (let r = (''id'', cell q ''id'') # r
                    in if refers (rows_of (mem_rows s)) t r then Some r else None))"

definition failed :: sql_result where
  "failed = \<lparr>res_ok = False, res_rows = [], res_last = VInvalid\<rparr>"

definition succeeded :: "variant list list \<Rightarrow> variant \<Rightarrow> sql_result" where
  "succeeded rs v = \<lparr>res_ok = True, res_rows = rs, res_last = v\<rparr>"

text \<open>A row may not be deleted while another table refers to it.\<close>

definition deletable :: "mem_db \<Rightarrow> string \<Rightarrow> row \<Rightarrow> bool" where
  "deletable s t r \<longleftrightarrow> (\<forall>(u, c, p) \<in> set foreign_keys. p = lower t \<longrightarrow>
     (\<forall>q \<in> set (rows_of (mem_rows s) u). \<not> sql_same (cell q c) (cell r ''id'')))"

fun mem_exec :: "sql \<Rightarrow> bindings \<Rightarrow> mem_db \<Rightarrow> sql_result \<times> mem_db" where
  "mem_exec (InsertInto t cs ds) b s =
     (let rs = rows_of (mem_rows s) (lower t)
      in if \<not> mem_open s then (failed, s)
         else case insert_row s t cs b of
           None \<Rightarrow> (failed, s)
         | Some r \<Rightarrow> (case find_index (collides t r) rs of
             None \<Rightarrow> (succeeded [] (cell r ''id''), mem_write t (rs @ [r]) s)
           | Some i \<Rightarrow> (if ds = [] then (failed, s)
               else case update_row s t ds b (rs ! i) of
                 None \<Rightarrow> (failed, s)
               | Some q \<Rightarrow> (succeeded [] VInvalid, mem_write t (rs[i := q]) s))))"
| "mem_exec (SelectFrom t ps w) b s =
     (if \<not> mem_open s then (failed, s)
      else (succeeded (map (project ps) (matching sql_same t w b (mem_view s))) VInvalid, s))"
| "mem_exec (CountWhere t c k u d p) b s =
     (let qs = matching sql_same u [(d, p)] b (mem_view s)
      in if \<not> mem_open s \<or> 1 < length qs then (failed, s)
         else (succeeded [[VInt (int (length (filter (\<lambda>r. list_ex (\<lambda>q. sql_same (cell r c) (cell q k)) qs)
                 (rows_of (mem_rows s) (lower t)))))]] VInvalid, s))"
| "mem_exec (DeleteFrom t w) b s =
     (let rs = rows_of (mem_rows s) (lower t)
      in if \<not> mem_open s \<or> \<not> list_all (\<lambda>r. selected sql_same w b r \<longrightarrow> deletable s t r) rs then (failed, s)
         else (succeeded [] VInvalid, mem_write t (filter (\<lambda>r. \<not> selected sql_same w b r) rs) s))"

definition mem_begin :: "mem_db \<Rightarrow> bool \<times> mem_db" where
  "mem_begin s = (if mem_open s then (True, s\<lparr>mem_durable := mem_rows s, mem_intx := True\<rparr>) else (False, s))"

definition mem_commit :: "mem_db \<Rightarrow> bool \<times> mem_db" where
  "mem_commit s = (if mem_open s then (True, s\<lparr>mem_durable := mem_rows s, mem_intx := False\<rparr>) else (False, s))"

definition mem_close :: "mem_db \<Rightarrow> mem_db" where
  "mem_close s = s\<lparr>mem_open := False, mem_rows := mem_durable s, mem_intx := False\<rparr>"

text \<open>The server is up at one host.\<close>

definition mem_connect :: "string \<Rightarrow> connection_params \<Rightarrow> mem_db \<Rightarrow> bool \<times> mem_db" where
  "mem_connect host cp s =
     (let up = (cp_host cp = host)
      in (up, if mem_open s then (mem_close s)\<lparr>mem_open := up\<rparr> else s\<lparr>mem_open := up\<rparr>))"

definition mem_server :: "string \<Rightarrow> mem_db server" where
  "mem_server host = \<lparr>srv_is_open = mem_open, srv_open = mem_connect host, srv_close = mem_close,
     srv_prepare = (\<lambda>q s. mem_open s), srv_exec = mem_exec, srv_begin = mem_begin,
     srv_commit = mem_commit, fmt_time = (\<lambda>t. if t < 0 then [] else decimal (nat t)),
     fmt_datetime = (\<lambda>(d, t). decimal (nat d) @ ''T'' @ decimal (nat t)),
     reread_time = (\<lambda>v. case v of VText x \<Rightarrow> (case read_digits 0 x of None \<Rightarrow> - 1 | Some n \<Rightarrow> int n) | _ \<Rightarrow> - 1),
     reread_datetime = (\<lambda>v. (0, - 1)), junk = (\<lambda>x. 1)\<rparr>"

definition empty_mem :: mem_db where
  "empty_mem = \<lparr>mem_open = True, mem_rows = [], mem_durable = [], mem_intx = False\<rparr>"

definition mem_valid :: "mem_db \<Rightarrow> bool" where
  "mem_valid s \<longleftrightarrow> well_formed_tables (rows_of (mem_rows s))
     \<and> well_formed_tables (rows_of (mem_durable s))
     \<and> (\<not> mem_intx s \<longrightarrow> mem_durable s = mem_rows s)"

section \<open>The laws hold\<close>

lemma fill_Some:
  assumes "fill f cs = Some r" "distinct cs"
  shows "map fst r = cs \<and> (\<forall>c \<in> set cs. f c = map_of r c)"
  using assms by (induction cs arbitrary: r) (auto split: option.splits, force)

lemma row_id_le_next: "r \<in> set rs \<Longrightarrow> row_id r < next_id rs"
  unfolding next_id_def by (induction rs) (auto simp: max_def)

lemma next_id_pos: "0 < next_id rs"
proof -
  have "0 \<le> foldr max xs (0::int)" for xs by (induction xs) auto
  then show ?thesis by (simp add: next_id_def add_pos_nonneg)
qed

lemma cell_id_first: "cell ((''id'', v) # r) ''id'' = v"
  by (simp add: cell_def lower_def)

lemma cell_later:
  assumes "lower c \<noteq> ''id''"
  shows "cell ((''id'', v) # r) c = (case map_of r (lower c) of None \<Rightarrow> VInvalid | Some w \<Rightarrow> w)"
  using assms by (simp add: cell_def)

lemma keyed_append:
  assumes "keyed rs" "cell r ''id'' = VInt (next_id rs)" "next_id rs < 2 ^ 31"
  shows "keyed (rs @ [r])"
proof -
  have "cell q ''id'' \<noteq> cell r ''id''" if "q \<in> set rs" for q
    using row_id_le_next [OF that] assms(2) by auto
  then show ?thesis
    using assms next_id_pos [of rs] by (auto simp: keyed_def)
qed

lemma fill_row:
  assumes "fill f (tl (columns t)) = Some r" "columns t \<noteq> []"
  shows "map fst ((''id'', v) # r) = columns t"
    and "lower c \<in> set (columns t) \<Longrightarrow> lower c \<noteq> ''id'' \<Longrightarrow> f (lower c) = Some (cell ((''id'', v) # r) c)"
proof -
  have shape: "columns t = ''id'' # tl (columns t)" using columns_shape assms(2) by blast
  have "distinct (tl (columns t))" using distinct_columns [of t] by (cases "columns t") auto
  from fill_Some [OF assms(1) this]
  have r: "map fst r = tl (columns t)" "\<And>c. c \<in> set (tl (columns t)) \<Longrightarrow> f c = map_of r c" by auto
  from shape r(1) show "map fst ((''id'', v) # r) = columns t" by simp
  assume c: "lower c \<in> set (columns t)" "lower c \<noteq> ''id''"
  then have mem: "lower c \<in> set (tl (columns t))" by (metis set_ConsD shape)
  moreover from mem r(1) have "map_of r (lower c) \<noteq> None"
    by (metis list.set_map map_of_eq_None_iff)
  ultimately show "f (lower c) = Some (cell ((''id'', v) # r) c)"
    using r(2) c(2) by (auto simp: cell_later)
qed

lemma bound_assigned:
  assumes "known_columns t cs" "(c, p) \<in> set cs"
  shows "map_of (assigned cs b) (lower c) = Some (bound b p)"
proof -
  have eq: "map fst (assigned cs b) = map (lower \<circ> fst) cs"
    by (simp add: assigned_def case_prod_beta comp_def)
  have "(lower c, bound b p) \<in> set (assigned cs b)"
    using assms(2) by (force simp: assigned_def)
  then show ?thesis
    using assms(1) eq by (simp add: known_columns_def)
qed

lemma known_columnsD:
  "known_columns t cs \<Longrightarrow> (c, p) \<in> set cs \<Longrightarrow> lower c \<in> set (columns t) \<and> lower c \<noteq> ''id''"
  by (auto simp: known_columns_def)

lemma insert_row_spec:
  assumes "insert_row s t cs b = Some r" "keyed (rows_of (mem_rows s) (lower t))"
  shows "new_row (rows_of (mem_rows s)) t cs b r"
proof -
  let ?rs = "rows_of (mem_rows s) (lower t)"
  let ?f = "\<lambda>c. store t c (bound (assigned cs b) c)"
  from assms(1) obtain q where ne: "columns t \<noteq> []" and kn: "known_columns t cs"
    and small: "next_id ?rs < 2 ^ 31" and q: "fill ?f (tl (columns t)) = Some q"
    and r: "r = (''id'', VInt (next_id ?rs)) # q" and ref: "refers (rows_of (mem_rows s)) t r"
    by (auto simp: insert_row_def Let_def split: if_splits option.splits)
  have "keeps t c (bound b p) (cell r c)" if "(c, p) \<in> set cs" for c p
  proof -
    note k = known_columnsD [OF kn that]
    have "store t (lower c) (bound (assigned cs b) (lower c)) = Some (cell r c)"
      using fill_row(2) [OF q ne] k r by blast
    then have "store t (lower c) (bound b p) = Some (cell r c)"
      using bound_assigned [OF kn that] by (simp add: bound_def)
    then have "keeps t (lower c) (bound b p) (cell r c)" by (rule store_keeps)
    then show ?thesis by (simp add: keeps_def time_column_def split: variant.splits)
  qed
  moreover have "keyed (?rs @ [r])"
    by (rule keyed_append [OF assms(2)]) (use small in \<open>simp_all add: r cell_id_first\<close>)
  ultimately show ?thesis
    using fill_row(1) [OF q ne] ref r by (auto simp: new_row_def)
qed

lemma cell_absent: "map fst r = columns t \<Longrightarrow> lower c \<notin> set (columns t) \<Longrightarrow> cell r c = VInvalid"
  by (metis cell_def list.set_map map_of_eq_None_iff option.simps(4))

lemma update_row_spec:
  assumes "update_row s t ds b q = Some r" and q: "map fst q = columns t"
  shows "updated_row (rows_of (mem_rows s)) t ds b q r" and "cell r ''id'' = cell q ''id''"
proof -
  let ?f = "\<lambda>c. case map_of (assigned ds b) c of None \<Rightarrow> Some (cell q c) | Some v \<Rightarrow> store t c v"
  from assms obtain x where ne: "columns t \<noteq> []" and kn: "known_columns t ds"
    and x: "fill ?f (tl (columns t)) = Some x"
    and r: "r = (''id'', cell q ''id'') # x" and ref: "refers (rows_of (mem_rows s)) t r"
    by (auto simp: update_row_def Let_def split: if_splits option.splits)
  show id: "cell r ''id'' = cell q ''id''" by (simp add: r cell_id_first)
  have cols: "map fst r = columns t" using fill_row(1) [OF x ne] r by simp
  have "keeps t c (bound b p) (cell r c)" if "(c, p) \<in> set ds" for c p
  proof -
    note k = known_columnsD [OF kn that]
    have "?f (lower c) = Some (cell r c)"
      using fill_row(2) [OF x ne] k r by blast
    then have "store t (lower c) (bound b p) = Some (cell r c)"
      using bound_assigned [OF kn that] by simp
    then have "keeps t (lower c) (bound b p) (cell r c)" by (rule store_keeps)
    then show ?thesis by (simp add: keeps_def time_column_def split: variant.splits)
  qed
  moreover have "cell r c = cell q c" if c: "lower c \<notin> (lower \<circ> fst) ` set ds" for c
  proof (cases "lower c \<in> set (columns t) \<and> lower c \<noteq> ''id''")
    case True
    have "map_of (assigned ds b) (lower c) = None"
      using c by (force simp: map_of_eq_None_iff assigned_def)
    moreover have "?f (lower c) = Some (cell r c)"
      using fill_row(2) [OF x ne] True r by blast
    ultimately show ?thesis by simp
  next
    case False
    then show ?thesis
      using id cell_absent [OF cols] cell_absent [OF q] by (metis cell_lower)
  qed
  ultimately show "updated_row (rows_of (mem_rows s)) t ds b q r"
    using cols ref by (auto simp: updated_row_def)
qed

lemma rows_of_update: "rows_of (AList.update t rs al) = (rows_of al)(t := rs)"
  by (auto simp: rows_of_def update_conv' fun_eq_iff)

lemma view_write:
  "mem_view (mem_write t rs s) = write_table t rs (mem_view s)"
  if "\<not> mem_intx s \<longrightarrow> mem_durable s = mem_rows s"
  using that by (simp add: mem_view_def mem_write_def write_table_def Let_def rows_of_update)

lemma valid_write:
  assumes "mem_valid s" "keyed rs" "\<forall>r \<in> set rs. map fst r = columns t"
  shows "mem_valid (mem_write t rs s)"
  using assms by (auto simp: mem_valid_def mem_write_def Let_def rows_of_update intro: wf_tables_update)

lemma find_index_Some: "find_index p xs = Some i \<Longrightarrow> i < length xs \<and> p (xs ! i)"
  by (induction p xs arbitrary: i rule: find_index.induct) (auto split: if_splits)

lemma keyed_update:
  assumes "keyed rs" "i < length rs" "cell q ''id'' = cell (rs ! i) ''id''"
  shows "keyed (rs[i := q])"
proof -
  have "map (\<lambda>r. cell r ''id'') (rs[i := q]) = map (\<lambda>r. cell r ''id'') rs"
    using assms(2,3) by (simp add: map_update list_update_same_conv)
  moreover have "set (rs[i := q]) \<subseteq> insert q (set rs)" by (rule set_update_subset_insert)
  moreover have "rs ! i \<in> set rs" using assms(2) by simp
  ultimately show ?thesis
    using assms(1,3) unfolding keyed_def by (metis insertE subsetD)
qed

lemma keyed_filter: "keyed rs \<Longrightarrow> keyed (filter p rs)"
  by (auto simp: keyed_def distinct_map_filter)

lemma mem_valid_table:
  assumes "mem_valid s"
  shows "keyed (rows_of (mem_rows s) (lower t))"
    and "\<forall>r \<in> set (rows_of (mem_rows s) (lower t)). map fst r = columns t"
  using assms by (auto simp: mem_valid_def well_formed_tables_def)

lemma mem_valid_autocommit: "mem_valid s \<Longrightarrow> \<not> mem_intx s \<longrightarrow> mem_durable s = mem_rows s"
  by (simp add: mem_valid_def)

lemma mem_insert:
  assumes "mem_valid s" "mem_exec (InsertInto t cs ds) b s = (r, s')" "res_ok r"
  shows "(\<exists>z. new_row (rows_of (mem_rows s)) t cs b z \<and> res_last r = cell z ''id''
        \<and> s' = mem_write t (rows_of (mem_rows s) (lower t) @ [z]) s)
    \<or> (\<exists>i < length (rows_of (mem_rows s) (lower t)). \<exists>z x. ds \<noteq> [] \<and> lower t = ''info''
        \<and> new_row (rows_of (mem_rows s)) t cs b x
        \<and> collides t x (rows_of (mem_rows s) (lower t) ! i)
        \<and> update_row s t ds b (rows_of (mem_rows s) (lower t) ! i) = Some z
        \<and> s' = mem_write t ((rows_of (mem_rows s) (lower t))[i := z]) s)"
proof -
  let ?rs = "rows_of (mem_rows s) (lower t)"
  obtain x where x: "insert_row s t cs b = Some x"
    using assms(2,3) by (cases "insert_row s t cs b") (auto simp: failed_def Let_def split: if_splits)
  have new: "new_row (rows_of (mem_rows s)) t cs b x"
    by (rule insert_row_spec [OF x mem_valid_table(1) [OF assms(1)]])
  show ?thesis
  proof (cases "find_index (collides t x) ?rs")
    case None
    with assms(2,3) x new show ?thesis
      by (auto simp: failed_def succeeded_def Let_def split: if_splits)
  next
    case (Some i)
    from find_index_Some [OF Some] have i: "i < length ?rs" "collides t x (?rs ! i)" by auto
    have op: "mem_open s" using assms(2,3) by (cases "mem_open s") (auto simp: failed_def Let_def)
    have e: "mem_exec (InsertInto t cs ds) b s = (if ds = [] then (failed, s)
        else case update_row s t ds b (?rs ! i) of None \<Rightarrow> (failed, s)
             | Some z \<Rightarrow> (succeeded [] VInvalid, mem_write t (?rs[i := z]) s))"
      using x Some op by (simp add: Let_def)
    have "ds \<noteq> []" using e [unfolded assms(2)] assms(3) by (auto simp: failed_def)
    moreover from this obtain z where "update_row s t ds b (?rs ! i) = Some z"
      using e [unfolded assms(2)] assms(3) by (cases "update_row s t ds b (?rs ! i)") (auto simp: failed_def)
    moreover from this have "s' = mem_write t (?rs[i := z]) s"
      using e [unfolded assms(2)] calculation by simp
    moreover have "lower t = ''info''" using i(2) by (simp add: collides_def)
    ultimately show ?thesis using new i by blast
  qed
qed

lemma mem_exec_failed: "mem_exec q b s = (r, s') \<Longrightarrow> \<not> res_ok r \<Longrightarrow> s' = s"
  by (cases q) (auto simp: succeeded_def Let_def split: if_splits option.splits)

lemma mem_exec_open: "mem_exec q b s = (r, s') \<Longrightarrow> mem_open s' = mem_open s"
  by (cases q) (auto simp: mem_write_def Let_def split: if_splits option.splits)

lemma mem_delete:
  assumes "mem_exec (DeleteFrom t w) b s = (r, s')" "res_ok r"
  shows "s' = mem_write t (filter (\<lambda>x. \<not> selected sql_same w b x) (rows_of (mem_rows s) (lower t))) s"
  using assms by (auto simp: failed_def Let_def split: if_splits)

lemma mem_valid_exec:
  assumes v: "mem_valid s" and e: "mem_exec q b s = (r, s')"
  shows "mem_valid s'"
proof (cases "res_ok r")
  case False
  then show ?thesis using mem_exec_failed [OF e] v by simp
next
  case True
  show ?thesis
  proof (cases q)
    case (InsertInto t cs ds)
    note tab = mem_valid_table [OF v, of t]
    from mem_insert [OF v e [unfolded InsertInto] True] show ?thesis
    proof (elim disjE exE conjE)
      fix z assume "new_row (rows_of (mem_rows s)) t cs b z"
        and s': "s' = mem_write t (rows_of (mem_rows s) (lower t) @ [z]) s"
      then show ?thesis using tab by (auto simp: new_row_def intro!: valid_write [OF v])
    next
      fix i z x assume i: "i < length (rows_of (mem_rows s) (lower t))"
        and u: "update_row s t ds b (rows_of (mem_rows s) (lower t) ! i) = Some z"
        and s': "s' = mem_write t ((rows_of (mem_rows s) (lower t))[i := z]) s"
      have q: "map fst (rows_of (mem_rows s) (lower t) ! i) = columns t" using tab(2) i by auto
      note sp = update_row_spec [OF u q]
      have "map fst z = columns t" using sp(1) by (simp add: updated_row_def)
      then show ?thesis
        using tab i sp(2) unfolding s'
        by (intro valid_write [OF v]) (auto simp: keyed_update dest!: subsetD [OF set_update_subset_insert])
    qed
  next
    case (DeleteFrom t w)
    then have s': "s' = mem_write t (filter (\<lambda>x. \<not> selected sql_same w b x) (rows_of (mem_rows s) (lower t))) s"
      using mem_delete e True by blast
    show ?thesis
      unfolding s' using mem_valid_table [OF v, of t]
      by (intro valid_write [OF v]) (auto simp: keyed_filter)
  qed (use e v in \<open>auto simp: Let_def split: if_splits\<close>)
qed

lemma mem_exec_insert:
  assumes v: "mem_valid s" and e: "mem_exec (InsertInto t cs []) b s = (r, s')" and ok: "res_ok r"
  shows "\<exists>z. new_row (vw_rows (mem_view s)) t cs b z \<and> number_of (res_last r) = number_of (cell z ''id'')
        \<and> mem_view s' = write_table t (vw_rows (mem_view s) (lower t) @ [z]) (mem_view s)"
proof -
  note vw = view_write [OF mem_valid_autocommit [OF v]]
  from mem_insert [OF v e ok] obtain z where "new_row (rows_of (mem_rows s)) t cs b z"
    "res_last r = cell z ''id''" "s' = mem_write t (rows_of (mem_rows s) (lower t) @ [z]) s"
    by blast
  then show ?thesis using vw by (auto simp: mem_view_def)
qed

lemma collides_same_key:
  assumes n: "new_row T t cs b x" and c: "collides t x q"
  shows "same_key info_key t cs b q"
proof -
  have "keeps t c (bound b p) (cell q c)" if "(c, p) \<in> set cs" "lower c \<in> set info_key" for c p
  proof -
    have "cell q (lower c) = cell x (lower c)" using c that(2) by (auto simp: collides_def)
    moreover have "keeps t c (bound b p) (cell x c)" using n that(1) by (auto simp: new_row_def)
    ultimately show ?thesis by simp
  qed
  then show ?thesis by (auto simp: same_key_def)
qed

lemma mem_exec_upsert:
  assumes v: "mem_valid s" and e: "mem_exec (InsertInto ''info'' cs ds) b s = (r, s')"
    and ok: "res_ok r"
  shows "(\<exists>z. new_row (vw_rows (mem_view s)) ''info'' cs b z \<and> number_of (res_last r) = number_of (cell z ''id'')
        \<and> mem_view s' = write_table ''info'' (vw_rows (mem_view s) ''info'' @ [z]) (mem_view s)) \<or>
      (\<exists>i < length (vw_rows (mem_view s) ''info''). \<exists>z.
          same_key info_key ''info'' cs b (vw_rows (mem_view s) ''info'' ! i)
        \<and> updated_row (vw_rows (mem_view s)) ''info'' ds b (vw_rows (mem_view s) ''info'' ! i) z
        \<and> mem_view s' = write_table ''info'' ((vw_rows (mem_view s) ''info'')[i := z]) (mem_view s))"
proof -
  note vw = view_write [OF mem_valid_autocommit [OF v]]
  have rows: "vw_rows (mem_view s) = rows_of (mem_rows s)" by (simp add: mem_view_def)
  from mem_insert [OF v e ok] show ?thesis
  proof (elim disjE exE conjE)
    fix z assume "new_row (rows_of (mem_rows s)) ''info'' cs b z" "res_last r = cell z ''id''"
      "s' = mem_write ''info'' (rows_of (mem_rows s) (lower ''info'') @ [z]) s"
    then show ?thesis using vw rows by (intro disjI1 exI [of _ z]) simp
  next
    fix i z x assume i: "i < length (rows_of (mem_rows s) (lower ''info''))"
      and n: "new_row (rows_of (mem_rows s)) ''info'' cs b x"
      and c: "collides ''info'' x (rows_of (mem_rows s) (lower ''info'') ! i)"
      and u: "update_row s ''info'' ds b (rows_of (mem_rows s) (lower ''info'') ! i) = Some z"
      and s': "s' = mem_write ''info'' ((rows_of (mem_rows s) (lower ''info''))[i := z]) s"
    have q: "map fst (rows_of (mem_rows s) (lower ''info'') ! i) = columns ''info''"
      using mem_valid_table(2) [OF v, of "''info''"] i by auto
    from collides_same_key [OF n c] update_row_spec(1) [OF u q] i s' vw rows show ?thesis
      by (intro disjI2 exI [of _ i] conjI exI [of _ z]) simp_all
  qed
qed

lemma mem_valid_rows: "mem_valid s \<Longrightarrow> mem_valid (s\<lparr>mem_durable := mem_rows s, mem_intx := i\<rparr>)"
  by (simp add: mem_valid_def)

lemma sql_same_number: "number_of v = Some i \<Longrightarrow> number_of w = Some j \<Longrightarrow> sql_same v w \<longleftrightarrow> i = j"
  by (simp add: sql_same_def)

lemmas mem_server_simps = mem_server_def mem_view_def mem_begin_def mem_commit_def mem_close_def
  mem_connect_def Let_def

lemma server_fields [simp]:
  "srv_is_open (mem_server host) = mem_open" "srv_open (mem_server host) = mem_connect host"
  "srv_close (mem_server host) = mem_close" "srv_exec (mem_server host) = mem_exec"
  "srv_prepare (mem_server host) q = mem_open"
  "srv_begin (mem_server host) = mem_begin" "srv_commit (mem_server host) = mem_commit"
  by (simp_all add: mem_server_def)

lemma view_fields [simp]:
  "vw_open (mem_view s) = mem_open s" "vw_rows (mem_view s) = rows_of (mem_rows s)"
  "vw_durable (mem_view s) = rows_of (mem_durable s)" "vw_intx (mem_view s) = mem_intx s"
  by (simp_all add: mem_view_def)

interpretation mem: sql_server "mem_server host" mem_view mem_valid sql_same
proof (unfold_locales, unfold server_fields)
  fix s q b r s'
  assume v: "mem_valid s" and e: "mem_exec q b s = (r, s')"
  show "vw_open (mem_view s') = vw_open (mem_view s)" using mem_exec_open [OF e] by simp
  show "mem_valid s'" by (rule mem_valid_exec [OF v e])
  assume "\<not> res_ok r"
  from mem_exec_failed [OF e this] show "mem_view s' = mem_view s" by simp
next
  fix s t ps w b r s'
  assume e: "mem_exec (SelectFrom t ps w) b s = (r, s')"
  then show "mem_view s' = mem_view s" by (auto split: if_splits)
  assume "res_ok r"
  with e show "mset (res_rows r) = mset (map (project ps) (matching sql_same t w b (mem_view s)))"
    by (auto simp: failed_def succeeded_def split: if_splits)
next
  fix s t c k u d p b r s'
  assume e: "mem_exec (CountWhere t c k u d p) b s = (r, s')"
  then show "mem_view s' = mem_view s" by (auto simp: Let_def split: if_splits)
  assume "res_ok r"
  with e show "length (matching sql_same u [(d, p)] b (mem_view s)) \<le> 1 \<and>
      (\<exists>n. res_rows r = [[n]] \<and> number_of n = Some (int (length (filter (\<lambda>row.
         \<exists>q \<in> set (matching sql_same u [(d, p)] b (mem_view s)). sql_same (cell row c) (cell q k))
       (vw_rows (mem_view s) (lower t))))))"
    by (auto simp: failed_def succeeded_def Let_def list_ex_iff split: if_splits)
next
  fix s t w b r s'
  assume v: "mem_valid s" and e: "mem_exec (DeleteFrom t w) b s = (r, s')" and ok: "res_ok r"
  show "mem_view s' = write_table t (filter (\<lambda>x. \<not> selected sql_same w b x) (vw_rows (mem_view s) (lower t))) (mem_view s)"
    unfolding mem_delete [OF e ok] using view_write [OF mem_valid_autocommit [OF v]] by simp
next
  fix s s' :: mem_db and x cp
  assume v: "mem_valid s"
  { assume "mem_begin s = (x, s')" then show "mem_valid s'"
      using v by (auto simp: mem_begin_def mem_valid_rows split: if_splits)
  next
    assume "mem_commit s = (x, s')" then show "mem_valid s'"
      using v by (auto simp: mem_commit_def mem_valid_rows split: if_splits)
  next
    assume "mem_connect host cp s = (x, s')" then show "mem_valid s'"
      using v by (auto simp: mem_connect_def mem_close_def Let_def mem_valid_def split: if_splits)
  }
qed ((erule (2) mem_exec_insert | erule (2) mem_exec_upsert
  | (auto simp: mem_view_def mem_valid_def mem_begin_def mem_commit_def mem_close_def mem_connect_def
      sql_same_number sql_same_def Let_def split: if_splits) [1])+)

end
