(* ===== verification/UavControllerLaws.thy ===== *)
theory UavControllerLaws
  imports UavController DatabaseMemory
begin

text \<open>
  What the operations of \<open>DbUavController\<close> promise on every server that satisfies \<open>sql_server\<close>: the
  shared steps are specified once inside the locale, the operations follow from them, and the
  properties state them for an arbitrary lawful server.
\<close>

section \<open>The shared steps\<close>

text \<open>The server is there and executes the statement.\<close>

definition answers :: "'s server \<Rightarrow> sql \<Rightarrow> bindings \<Rightarrow> 's \<Rightarrow> bool" where
  "answers srv q b s \<longleftrightarrow> srv_prepare srv q s \<and> res_ok (fst (srv_exec srv q b s))"

context sql_server
begin

lemma row_id_range:
  assumes "valid s" "r \<in> set (vw_rows (view s) (lower t))"
  obtains i where "cell r ''id'' = VInt i" "0 < i" "i < 2 ^ 31"
  using tables_wf [OF assms(1)] assms(2) unfolding well_formed_tables_def keyed_def by blast

lemma row_columns:
  assumes "valid s" "r \<in> set (vw_rows (view s) (lower t))"
  shows "map fst r = columns t"
  using tables_wf [OF assms(1)] assms(2) unfolding well_formed_tables_def by blast

lemma new_row_id:
  assumes "new_row T t cs b z" "number_of v = number_of (cell z ''id'')"
  shows "cell z ''id'' = VInt (uint_as_int v) \<and> 0 < uint_as_int v \<and> uint_as_int v < 2 ^ 31"
proof -
  from assms(1) obtain i where i: "cell z ''id'' = VInt i" "0 < i" "i < 2 ^ 31"
    by (auto simp: new_row_def keyed_def)
  then have "uint_as_int v = i" using assms(2) by (intro uint_as_int_number) auto
  with i show ?thesis by simp
qed

lemma insert_record_spec:
  assumes v: "valid s" and e: "insert_record srv (InsertInto t cs []) b s = (i, s')"
  shows "valid s' \<and> vw_open (view s') = vw_open (view s) \<and>
    (if i = INVALID_INDEX then view s' = view s
     else \<exists>z. new_row (vw_rows (view s)) t cs b z \<and> cell z ''id'' = VInt i \<and> 0 < i
        \<and> view s' = write_table t (vw_rows (view s) (lower t) @ [z]) (view s))"
proof (cases "srv_is_open srv s \<and> srv_prepare srv (InsertInto t cs []) s")
  case False
  with v e show ?thesis by (auto simp: insert_record_def split: if_splits)
next
  case True
  obtain r s1 where x: "srv_exec srv (InsertInto t cs []) b s = (r, s1)" by force
  with True e have i: "i = (if res_ok r then uint_as_int (res_last r) else INVALID_INDEX)" "s' = s1"
    by (auto simp: insert_record_def)
  show ?thesis
  proof (cases "res_ok r")
    case False
    then show ?thesis using exec_fails [OF v x] valid_exec [OF v x] i by simp
  next
    case ok: True
    from exec_insert [OF v x ok] obtain z where z: "new_row (vw_rows (view s)) t cs b z"
      "number_of (res_last r) = number_of (cell z ''id'')"
      "view s1 = write_table t (vw_rows (view s) (lower t) @ [z]) (view s)" by blast
    from new_row_id [OF z(1,2)] z i ok valid_exec [OF v x] exec_open [OF v x] show ?thesis
      by (auto simp: INVALID_INDEX_def)
  qed
qed

lemma select_records_spec:
  assumes v: "valid s" and e: "select_records srv (SelectFrom t ps w) b conv out s = (ok, out', s')"
  shows "valid s' \<and> view s' = view s \<and> (\<not> ok \<longrightarrow> out' = out) \<and>
    (ok \<longrightarrow> (\<exists>rows. mset rows = mset (map (project ps) (matching same t w b (view s)))
        \<and> out' = out @ map conv rows))"
proof (cases "srv_is_open srv s \<and> srv_prepare srv (SelectFrom t ps w) s")
  case False
  with v e show ?thesis by (auto simp: select_records_def split: if_splits)
next
  case True
  obtain r s1 where x: "srv_exec srv (SelectFrom t ps w) b s = (r, s1)" by force
  with True e exec_select [OF v x] exec_rows [OF v x] valid_exec [OF v x] show ?thesis
    by (auto simp: select_records_def fetched_def split: if_splits)
qed

lemma first_row_spec:
  assumes v: "valid s" and e: "first_row srv (SelectFrom t ps w) b s = (x, s')"
  shows "valid s' \<and> view s' = view s \<and>
    (\<forall>row. x = Some row \<longrightarrow> (\<exists>z \<in> set (matching same t w b (view s)). row = project ps z))"
proof (cases "srv_prepare srv (SelectFrom t ps w) s")
  case False
  with v e show ?thesis by (auto simp: first_row_def)
next
  case True
  obtain r s1 where r: "srv_exec srv (SelectFrom t ps w) b s = (r, s1)" by force
  have "\<exists>z \<in> set (matching same t w b (view s)). row = project ps z" if "fetched r = row # rows" for row rows
  proof -
    have ok: "res_ok r" using that by (auto simp: fetched_def split: if_splits)
    have "set (res_rows r) = set (map (project ps) (matching same t w b (view s)))"
      by (rule mset_eq_setD [OF exec_rows [OF v r ok]])
    moreover have "row \<in> set (res_rows r)" using that ok by (simp add: fetched_def)
    ultimately show ?thesis by auto
  qed
  with True r e exec_select [OF v r] valid_exec [OF v r] show ?thesis
    by (auto simp: first_row_def split: list.splits)
qed

lemma first_row_count_spec:
  assumes v: "valid s" and e: "first_row srv (CountWhere t c k u d p) b s = (x, s')"
  shows "valid s' \<and> view s' = view s"
  using assms valid_exec [OF v] exec_count [OF v]
  by (auto simp: first_row_def split: if_splits list.splits prod.splits)

lemma first_row_answers:
  assumes v: "valid s" and e: "first_row srv (SelectFrom t ps w) b s = (None, s')"
    and a: "answers srv (SelectFrom t ps w) b s"
  shows "matching same t w b (view s) = []"
proof -
  obtain r s1 where r: "srv_exec srv (SelectFrom t ps w) b s = (r, s1)" by force
  with a e have ok: "res_ok r" and "res_rows r = []"
    by (auto simp: answers_def first_row_def fetched_def split: list.splits)
  with exec_rows [OF v r ok] show ?thesis by simp
qed

end

section \<open>Inserts, reads and deletes\<close>

text \<open>
  An insert either reports an error and changes no table, or appends one row with a fresh positive
  id, the one it returns, whose foreign keys exist.
\<close>

definition row_inserted :: "int \<Rightarrow> string \<Rightarrow> tables \<Rightarrow> tables \<Rightarrow> bool" where
  "row_inserted i t T T' \<longleftrightarrow> 0 < i \<and> (\<exists>z. cell z ''id'' = VInt i \<and> map fst z = columns t
     \<and> keyed (T t @ [z]) \<and> refers T t z \<and> T' = T(t := T t @ [z]))"

definition inserts_one :: "('s \<Rightarrow> db_view) \<Rightarrow> ('s \<Rightarrow> bool) \<Rightarrow> string \<Rightarrow> ('s \<Rightarrow> int \<times> 's) \<Rightarrow> bool" where
  "inserts_one view valid t op \<longleftrightarrow> (\<forall>s i s'. valid s \<and> op s = (i, s') \<longrightarrow> valid s' \<and>
     (if i = INVALID_INDEX then vw_rows (view s') = vw_rows (view s)
      else row_inserted i t (vw_rows (view s)) (vw_rows (view s'))))"

definition reads_only :: "('s \<Rightarrow> db_view) \<Rightarrow> ('s \<Rightarrow> bool) \<Rightarrow> ('s \<Rightarrow> 's) \<Rightarrow> bool" where
  "reads_only view valid op \<longleftrightarrow> (\<forall>s. valid s \<longrightarrow>
     valid (op s) \<and> vw_rows (view (op s)) = vw_rows (view s) \<and> vw_open (view (op s)) = vw_open (view s))"

text \<open>A delete that succeeds leaves exactly the rows that do not match.\<close>

definition deletes :: "('s \<Rightarrow> db_view) \<Rightarrow> ('s \<Rightarrow> bool) \<Rightarrow> string \<Rightarrow> ('s \<Rightarrow> row \<Rightarrow> bool) \<Rightarrow> ('s \<Rightarrow> bool \<times> 's) \<Rightarrow> bool" where
  "deletes view valid t gone op \<longleftrightarrow> (\<forall>s ok s'. valid s \<and> op s = (ok, s') \<longrightarrow> valid s' \<and>
     vw_rows (view s') = (if ok then (vw_rows (view s))(t := filter (\<lambda>r. \<not> gone s r) (vw_rows (view s) t))
                          else vw_rows (view s)))"

lemma row_insertedI:
  assumes "lower t = t" "new_row T t cs b z" "cell z ''id'' = VInt i" "0 < i"
  shows "row_inserted i t T (T(t := T t @ [z]))"
  using assms unfolding row_inserted_def new_row_def by metis

lemma write_table_rows: "vw_rows (write_table t rs v) = (vw_rows v)(lower t := rs)"
  by (simp add: write_table_def Let_def)

lemma write_table_open [simp]: "vw_open (write_table t rs v) = vw_open v"
  by (simp add: write_table_def Let_def)

context sql_server
begin

lemma inserts_one_record:
  assumes "lower t = t"
  shows "inserts_one view valid t (insert_record srv (InsertInto t cs []) b)"
  unfolding inserts_one_def
proof (intro allI impI, elim conjE)
  fix s i s'
  assume "valid s" "insert_record srv (InsertInto t cs []) b s = (i, s')"
  from insert_record_spec [OF this] assms
  show "valid s' \<and> (if i = INVALID_INDEX then vw_rows (view s') = vw_rows (view s)
      else row_inserted i t (vw_rows (view s)) (vw_rows (view s')))"
    by (auto simp: write_table_rows) (rule row_insertedI, assumption+)+
qed

lemma begin_frame:
  assumes "valid s" "srv_begin srv s = (x, s')"
  shows "valid s' \<and> vw_rows (view s') = vw_rows (view s) \<and> vw_open (view s') = vw_open (view s)"
  using assms begin_ok begin_fails valid_begin by (cases x) fastforce+

lemma commit_frame:
  assumes "valid s" "srv_commit srv s = (x, s')"
  shows "valid s' \<and> vw_rows (view s') = vw_rows (view s) \<and> vw_open (view s') = vw_open (view s)"
  using assms commit_ok commit_fails valid_commit by (cases x) fastforce+

lemma role_frame:
  assumes "valid s"
  shows "getUavRole srv i s = (x, s') \<Longrightarrow> valid s' \<and> view s' = view s"
    and "getUavRoleByName srv n s = (x, s') \<Longrightarrow> valid s' \<and> view s' = view s"
    and "getUavRoleByCode srv n s = (x, s') \<Longrightarrow> valid s' \<and> view s' = view s"
  using assms unfolding getUavRole_def getUavRoleByName_def getUavRoleByCode_def
  by (auto split: if_splits prod.splits option.splits dest!: first_row_spec [rotated])

lemma addUav_spec:
  assumes v: "valid s" and e: "addUav srv uav s = (i, s')"
  shows "valid s' \<and> vw_open (view s') = vw_open (view s) \<and>
    (if i = INVALID_INDEX then view s' = view s
     else \<exists>z. new_row (vw_rows (view s)) ''uav''
            [(''uavId'', '':uavId''), (''ip'', '':ip''), (''uavTypeId'', '':uavTypeId''),
             (''roleId'', '':roleId''), (''name'', '':name''), (''freqId'', '':freqId'')]
            [('':uavId'', stored_uav_id (role_code (fst (getUavRole srv (uav_roleId uav) s))) uav),
             ('':ip'', VText (uav_ip uav)), ('':uavTypeId'', VUInt (uav_typeId uav)),
             ('':roleId'', VUInt (uav_roleId uav)), ('':name'', VText (uav_name uav)),
             ('':freqId'', VInt (uav_freqId uav))] z
        \<and> cell z ''id'' = VInt i \<and> 0 < i
        \<and> view s' = write_table ''uav'' (vw_rows (view s) ''uav'' @ [z]) (view s))"
proof (cases "srv_is_open srv s \<and> srv_prepare srv insert_uav s")
  case False
  with v e show ?thesis by (auto simp: addUav_def split: if_splits)
next
  case True
  obtain role s1 where g: "getUavRole srv (uav_roleId uav) s = (role, s1)" by force
  note f = role_frame(1) [OF v g]
  then have v1: "valid s1" by blast
  let ?b = "[('':uavId'', stored_uav_id (role_code role) uav), ('':ip'', VText (uav_ip uav)),
               ('':uavTypeId'', VUInt (uav_typeId uav)), ('':roleId'', VUInt (uav_roleId uav)),
               ('':name'', VText (uav_name uav)), ('':freqId'', VInt (uav_freqId uav))]"
  obtain r s2 where x: "srv_exec srv insert_uav ?b s1 = (r, s2)" by force
  with True e g have i: "i = (if res_ok r then uint_as_int (res_last r) else INVALID_INDEX)" "s' = s2"
    by (auto simp: addUav_def)
  show ?thesis
  proof (cases "res_ok r")
    case False
    then show ?thesis using exec_fails [OF v1 x] valid_exec [OF v1 x] i f by simp
  next
    case ok: True
    note x' = x [unfolded insert_uav_def]
    from exec_insert [OF v1 x' ok] obtain z where z: "new_row (vw_rows (view s1)) ''uav''
        [(''uavId'', '':uavId''), (''ip'', '':ip''), (''uavTypeId'', '':uavTypeId''),
         (''roleId'', '':roleId''), (''name'', '':name''), (''freqId'', '':freqId'')] ?b z"
      "number_of (res_last r) = number_of (cell z ''id'')"
      "view s2 = write_table ''uav'' (vw_rows (view s1) (lower ''uav'') @ [z]) (view s1)" by blast
    from new_row_id [OF z(1,2)] z i ok valid_exec [OF v1 x] f g show ?thesis
      by (auto simp: INVALID_INDEX_def)
  qed
qed

lemma addTarget_inserts: "inserts_one view valid ''target'' (addTarget srv t)"
  unfolding inserts_one_def
proof (intro allI impI, elim conjE)
  fix s i s'
  assume v: "valid s" and e: "addTarget srv t s = (i, s')"
  let ?cs = "[(''uavID'', '':uavId''), (''ip'', '':ip''), (''port'', '':port''),
                (''targetTypeId'', '':targetTypeId'')]"
  let ?b = "[('':uavId'', VInt (target_uavId t)), ('':ip'', VText (target_ip t)),
                       ('':port'', VUInt (target_port t)), ('':targetTypeId'', VInt (target_type t))]"
  obtain x s1 where s1: "srv_begin srv s = (x, s1)" by force
  note f1 = begin_frame [OF v s1]
  then have v1: "valid s1" by blast
  obtain r s2 where s2: "srv_exec srv (InsertInto ''target'' ?cs []) ?b s1 = (r, s2)" by force
  then have v2: "valid s2" by (rule valid_exec [OF v1])
  obtain y s3 where s3: "srv_commit srv s2 = (y, s3)" by force
  note f3 = commit_frame [OF v2 s3]
  obtain y' s3' where s3': "srv_commit srv s1 = (y', s3')" by force
  note f3' = commit_frame [OF v1 s3']
  show "valid s' \<and> (if i = INVALID_INDEX then vw_rows (view s') = vw_rows (view s)
      else row_inserted i ''target'' (vw_rows (view s)) (vw_rows (view s')))"
  proof (cases "srv_is_open srv s \<and> srv_prepare srv (InsertInto ''target'' ?cs []) s1")
    case False
    with v e s1 s3' f1 f3' show ?thesis
      by (auto simp: addTarget_def Let_def split: if_splits)
  next
    case True
    with e s1 s2 s3 have i: "i = (if res_ok r then uint_as_int (res_last r) else INVALID_INDEX)" "s' = s3"
      by (auto simp: addTarget_def)
    show ?thesis
    proof (cases "res_ok r")
      case False
      then show ?thesis using exec_fails [OF v1 s2] i f1 f3 by simp
    next
      case ok: True
      from exec_insert [OF v1 s2 ok] obtain z where z: "new_row (vw_rows (view s1)) ''target'' ?cs ?b z"
        "number_of (res_last r) = number_of (cell z ''id'')"
        "view s2 = write_table ''target'' (vw_rows (view s1) ''target'' @ [z]) (view s1)" by auto
      note id = new_row_id [OF z(1,2)]
      have "row_inserted i ''target'' (vw_rows (view s)) (vw_rows (view s'))"
        using row_insertedI [OF _ z(1), of i] id z(3) i ok f1 f3 by (simp add: write_table_rows)
      then show ?thesis using f3 i id ok by (simp add: INVALID_INDEX_def)
    qed
  qed
qed

lemma addUav_inserts: "inserts_one view valid ''uav'' (addUav srv uav)"
  unfolding inserts_one_def
proof (intro allI impI, elim conjE)
  fix s i s'
  assume v: "valid s" and e: "addUav srv uav s = (i, s')"
  note sp = addUav_spec [OF v e]
  show "valid s' \<and> (if i = INVALID_INDEX then vw_rows (view s') = vw_rows (view s)
      else row_inserted i ''uav'' (vw_rows (view s)) (vw_rows (view s')))"
  proof (cases "i = INVALID_INDEX")
    case True
    with sp show ?thesis by simp
  next
    case False
    with sp show ?thesis by (auto simp: write_table_rows) (rule row_insertedI, simp, assumption+)+
  qed
qed

lemma getUav_frame:
  assumes "valid s"
  shows "getUav srv i s = (x, s') \<Longrightarrow> valid s' \<and> view s' = view s"
    and "getUavsCountByRole srv role s = (n, s') \<Longrightarrow> valid s' \<and> view s' = view s"
    and "getSourceId srv j t s = (n, s') \<Longrightarrow> valid s' \<and> view s' = view s"
    and "getDictionaryRecord srv d name s = (n, s') \<Longrightarrow> valid s' \<and> view s' = view s"
  using assms
  unfolding getUav_def getUavsCountByRole_def getSourceId_def getDictionaryRecord_def
  by (auto split: if_splits prod.splits option.splits
      dest!: first_row_spec [rotated] first_row_count_spec [rotated])

lemma getUavByUavId_frame:
  assumes v: "valid s" and e: "getUavByUavId srv n s = (x, s')"
  shows "valid s' \<and> vw_rows (view s') = vw_rows (view s) \<and> vw_open (view s') = vw_open (view s)"
proof (cases "srv_is_open srv s")
  case False
  with v e show ?thesis by (simp add: getUavByUavId_def)
next
  case True
  obtain y s1 where s1: "srv_begin srv s = (y, s1)" by force
  note f1 = begin_frame [OF v s1]
  obtain z s2 where s2: "first_row srv (SelectFrom ''uav'' [] [(''uavId'', '':id'')]) [('':id'', VUInt n)] s1 = (z, s2)"
    by force
  have "s' = s2" using True e s1 s2 by (auto simp: getUavByUavId_def split: option.splits)
  with f1 first_row_spec [OF _ s2] show ?thesis by auto
qed

lemma found_uav:
  assumes v: "valid s" and z: "z \<in> set (matching same ''uav'' w b (view s))"
  shows "cell z ''id'' = VInt (uav_id (uav_of_row (project [] z)))"
    and "uav_of_row (project [] z) =
      \<lparr>uav_id = uint_as_int (cell z ''id''), uav_uavId = v_uint (cell z ''uavid''),
       uav_ip = v_string (cell z ''ip''), uav_typeId = v_uint (cell z ''uavtypeid''),
       uav_roleId = v_uint (cell z ''roleid''), uav_name = v_string (cell z ''name''),
       uav_freqId = uint_as_int (cell z ''freqid''), uav_historical = False\<rparr>"
proof -
  have z': "z \<in> set (vw_rows (view s) (lower ''uav''))" using z by (auto simp: matching_def)
  note c = row_columns [OF v z']
  have n: "length (columns ''uav'') = 7" by (simp add: columns_def)
  show eq: "uav_of_row (project [] z) =
      \<lparr>uav_id = uint_as_int (cell z ''id''), uav_uavId = v_uint (cell z ''uavid''),
       uav_ip = v_string (cell z ''ip''), uav_typeId = v_uint (cell z ''uavtypeid''),
       uav_roleId = v_uint (cell z ''roleid''), uav_name = v_string (cell z ''name''),
       uav_freqId = uint_as_int (cell z ''freqid''), uav_historical = False\<rparr>"
    unfolding uav_of_row_def by (simp add: rec_value_project [OF c] n) (simp add: columns_def)
  obtain i where "cell z ''id'' = VInt i" "0 < i" "i < 2 ^ 31"
    using row_id_range [OF v z'] by blast
  then show "cell z ''id'' = VInt (uav_id (uav_of_row (project [] z)))"
    by (simp add: eq uint_as_int_number)
qed

lemma getUavByUavId_found:
  assumes v: "valid s" and e: "getUavByUavId srv n s = (u, s')" and "uav_id u \<noteq> INVALID_INDEX"
  shows "\<exists>z \<in> set (vw_rows (view s) ''uav''). same (cell z ''uavid'') (VUInt n) \<and> cell z ''id'' = VInt (uav_id u)"
proof -
  have op: "srv_is_open srv s"
    using e assms(3) by (auto simp: getUavByUavId_def blank_uav_def split: if_splits)
  obtain y s1 where s1: "srv_begin srv s = (y, s1)" by force
  note f1 = begin_frame [OF v s1]
  then have v1: "valid s1" by blast
  obtain x s2 where s2: "first_row srv (SelectFrom ''uav'' [] [(''uavId'', '':id'')]) [('':id'', VUInt n)] s1 = (x, s2)"
    by force
  from e op s1 s2 assms(3) obtain row where "x = Some row" and u: "u = uav_of_row row"
    by (auto simp: getUavByUavId_def blank_uav_def split: option.splits)
  with first_row_spec [OF v1 s2] obtain z
    where z: "z \<in> set (matching same ''uav'' [(''uavId'', '':id'')] [('':id'', VUInt n)] (view s1))"
      and row: "row = project [] z" by blast
  from found_uav(1) [OF v1 z] z f1 u row show ?thesis
    by (auto simp: matching_def selected_def bound_def cell_def)
qed

lemma exec_select_frame:
  "valid s \<Longrightarrow> srv_exec srv (SelectFrom t ps w) b s = (r, s') \<Longrightarrow> valid s' \<and> view s' = view s"
  using valid_exec exec_select by blast

lemma getSource_frame:
  "valid s \<Longrightarrow> getSource srv i s = (x, s') \<Longrightarrow> valid s' \<and> view s' = view s"
  by (auto simp: getSource_def Let_def split: if_splits prod.splits dest!: exec_select_frame [rotated])

lemma getUavsByRole_frame:
  "valid s \<Longrightarrow> getUavsByRole srv role out s = (ok, x, s') \<Longrightarrow> valid s' \<and> view s' = view s"
  by (auto simp: getUavsByRole_def Let_def split: if_splits prod.splits
      dest!: exec_select_frame [rotated] role_frame(3) [rotated])

lemma getTargetsByMission_frame:
  "valid s \<Longrightarrow> getTargetsByMission srv i out s = (ok, x, s') \<Longrightarrow> valid s' \<and> view s' = view s"
  by (auto simp: getTargetsByMission_def Let_def split: if_splits prod.splits
      dest!: exec_select_frame [rotated])

lemma getTargetsByUavId_frame:
  "valid s \<Longrightarrow> getTargetsByUavId srv i out s = (ok, x, s') \<Longrightarrow>
     valid s' \<and> vw_rows (view s') = vw_rows (view s) \<and> vw_open (view s') = vw_open (view s)"
  by (auto simp: getTargetsByUavId_def Let_def split: if_splits prod.splits
      dest!: exec_select_frame [rotated] getUavByUavId_frame [rotated])

text \<open>A delete with the commit that follows it.\<close>

lemma delete_and_commit_spec:
  assumes v: "valid s" and e: "delete_and_commit srv (DeleteFrom t w) b s = (ok, s')"
  shows "valid s' \<and> vw_rows (view s') = (if ok
      then (vw_rows (view s))(lower t := filter (\<lambda>r. \<not> selected same w b r) (vw_rows (view s) (lower t)))
      else vw_rows (view s))"
proof -
  obtain r s1 where s1: "srv_exec srv (DeleteFrom t w) b s = (r, s1)" by force
  then have v1: "valid s1" by (rule valid_exec [OF v])
  obtain x s2 where s2: "srv_commit srv s1 = (x, s2)" by force
  from e s1 s2 have i: "ok = res_ok r" "s' = s2" by (auto simp: delete_and_commit_def)
  note f2 = commit_frame [OF v1 s2]
  show ?thesis
  proof (cases "res_ok r")
    case True
    with exec_delete [OF v s1 True] f2 i show ?thesis by (simp add: write_table_rows)
  next
    case False
    with exec_fails [OF v s1 False] f2 i show ?thesis by simp
  qed
qed

lemma getUavMissions_frame:
  "valid s \<Longrightarrow> getUavMissionsByUavId srv n out s = (ok, x, s') \<Longrightarrow> valid s' \<and> view s' = view s"
  using select_records_spec unfolding getUavMissionsByUavId_def by blast

lemma deleteMissions_deletes:
  "deletes view valid ''uavmission'' (\<lambda>s r. same (cell r ''uavid'') (VUInt n))
     (deleteUavMissionsByUavId srv n)"
  "deletes view valid ''uavmission'' (\<lambda>s r. same (cell r ''targetid'') (VUInt n))
     (deleteUavMissionsByTargetId srv n)"
  unfolding deletes_def deleteUavMissionsByUavId_def deleteUavMissionsByTargetId_def Let_def
  by (auto simp: selected_def bound_def cell_def split: if_splits prod.splits
      dest!: delete_and_commit_spec [rotated] getUavMissions_frame [rotated])

lemma deleteTargetsById_deletes:
  "deletes view valid ''target'' (\<lambda>s r. same (cell r ''id'') (VUInt n)) (deleteTargetsById srv n)"
  unfolding deletes_def
proof (intro allI impI, elim conjE)
  fix s ok s'
  assume v: "valid s" and e: "deleteTargetsById srv n s = (ok, s')"
  obtain x s1 where s1: "srv_begin srv s = (x, s1)" by force
  note f1 = begin_frame [OF v s1]
  then have v1: "valid s1" by blast
  obtain y s2 where s2: "srv_commit srv s1 = (y, s2)" by force
  note f2 = commit_frame [OF v1 s2]
  show "valid s' \<and> vw_rows (view s') = (if ok
      then (vw_rows (view s))(''target'' := filter (\<lambda>r. \<not> same (cell r ''id'') (VUInt n)) (vw_rows (view s) ''target''))
      else vw_rows (view s))"
    using v e s1 f1 s2 f2
    by (auto simp: deleteTargetsById_def Let_def selected_def bound_def cell_def split: if_splits
        dest!: delete_and_commit_spec [rotated])
qed

lemma deleteTargetsByUavId_spec:
  assumes v: "valid s" and e: "deleteTargetsByUavId srv n s = (ok, s')"
  shows "valid s' \<and> (\<exists>i. (ok \<longrightarrow> (\<exists>u \<in> set (vw_rows (view s) ''uav''). same (cell u ''uavid'') (VUInt n) \<and> cell u ''id'' = VInt i))
     \<and> vw_rows (view s') = (if ok
      then (vw_rows (view s))(''target'' := filter (\<lambda>r. \<not> same (cell r ''uavid'') (VInt i)) (vw_rows (view s) ''target''))
      else vw_rows (view s)))"
proof (cases "srv_is_open srv s")
  case False
  with v e show ?thesis by (simp add: deleteTargetsByUavId_def)
next
  case True
  obtain x s1 where s1: "srv_begin srv s = (x, s1)" by force
  note f1 = begin_frame [OF v s1]
  then have v1: "valid s1" by blast
  obtain u s2 where s2: "getUavByUavId srv n s1 = (u, s2)" by force
  note f2 = getUavByUavId_frame [OF v1 s2]
  then have v2: "valid s2" by blast
  obtain y s3 where s3: "srv_commit srv s2 = (y, s3)" by force
  note f3 = commit_frame [OF v2 s3]
  show ?thesis
  proof (cases "uav_id u = INVALID_INDEX \<or> \<not> srv_prepare srv (DeleteFrom ''target'' [(''uavID'', '':uavId'')]) s2")
    case True
    with e s1 s2 s3 \<open>srv_is_open srv s\<close> have "ok = False \<and> s' = s3"
      by (auto simp: deleteTargetsByUavId_def Let_def split: if_splits)
    with f1 f2 f3 show ?thesis by simp
  next
    case False
    then have "uav_id u \<noteq> INVALID_INDEX" by simp
    with True e s1 s2 False have d: "delete_and_commit srv (DeleteFrom ''target'' [(''uavID'', '':uavId'')])
        [('':uavId'', VInt (uav_id u))] s2 = (ok, s')"
      by (simp add: deleteTargetsByUavId_def Let_def)
    have "\<exists>z \<in> set (vw_rows (view s) ''uav''). same (cell z ''uavid'') (VUInt n) \<and> cell z ''id'' = VInt (uav_id u)"
      using getUavByUavId_found [OF v1 s2] f1 \<open>uav_id u \<noteq> INVALID_INDEX\<close> by auto
    with delete_and_commit_spec [OF v2 d] f1 f2 show ?thesis
      by (intro conjI exI [of _ "uav_id u"]) (simp_all add: selected_def bound_def cell_def)
  qed
qed

end

lemma reads_onlyI:
  "(\<And>s x s'. valid s \<Longrightarrow> f s = (x, s') \<Longrightarrow>
      valid s' \<and> vw_rows (view s') = vw_rows (view s) \<and> vw_open (view s') = vw_open (view s))
    \<Longrightarrow> reads_only view valid (\<lambda>s. snd (f s))"
  unfolding reads_only_def by (metis prod.collapse)

lemma reads_onlyI3:
  "(\<And>s x y s'. valid s \<Longrightarrow> f s = (x, y, s') \<Longrightarrow>
      valid s' \<and> vw_rows (view s') = vw_rows (view s) \<and> vw_open (view s') = vw_open (view s))
    \<Longrightarrow> reads_only view valid (\<lambda>s. snd (snd (f s)))"
  unfolding reads_only_def by (metis prod.collapse)

context sql_server
begin

lemma select_frame:
  "valid s \<Longrightarrow> select_records srv (SelectFrom t ps w) b conv out s = (x, y, s') \<Longrightarrow> valid s' \<and> view s' = view s"
  by (drule (1) select_records_spec) blast

lemma queries_read_only:
  "reads_only view valid (\<lambda>s. snd (getUav srv i s))"
  "reads_only view valid (\<lambda>s. snd (getUavByUavId srv i s))"
  "reads_only view valid (\<lambda>s. snd (snd (getUavsByRole srv n us s)))"
  "reads_only view valid (\<lambda>s. snd (getUavsCountByRole srv n s))"
  "reads_only view valid (\<lambda>s. snd (snd (getUavInfoByUavId srv i is s)))"
  "reads_only view valid (\<lambda>s. snd (snd (getDevicesByType srv i ds s)))"
  "reads_only view valid (\<lambda>s. snd (getSourceId srv i j s))"
  "reads_only view valid (\<lambda>s. snd (getSource srv i s))"
  "reads_only view valid (\<lambda>s. snd (snd (getSourceByType srv i xs s)))"
  "reads_only view valid (\<lambda>s. snd (snd (getUavMissionsByUavId srv i ms s)))"
  "reads_only view valid (\<lambda>s. snd (snd (getTargetsByType srv i ts s)))"
  "reads_only view valid (\<lambda>s. snd (snd (getTargetsByUavId srv i ts s)))"
  "reads_only view valid (\<lambda>s. snd (snd (getTargetsByMission srv i ts s)))"
  "reads_only view valid (\<lambda>s. snd (getUavRole srv i s))"
  "reads_only view valid (\<lambda>s. snd (getUavRoleByName srv n s))"
  "reads_only view valid (\<lambda>s. snd (getUavRoleByCode srv n s))"
  "reads_only view valid (\<lambda>s. snd (getDictionaryRecord srv d n s))"
  unfolding getUavInfoByUavId_def getDevicesByType_def getSourceByType_def
    getUavMissionsByUavId_def getTargetsByType_def
  by (rule reads_onlyI reads_onlyI3,
      (drule (1) getUav_frame getUavByUavId_frame getUavsByRole_frame select_frame getSource_frame
         getTargetsByUavId_frame getTargetsByMission_frame role_frame), simp)+

end

section \<open>Properties\<close>

text \<open>A server in memory that is up, for the witnesses.\<close>

abbreviation local_server :: "mem_db server" where
  "local_server \<equiv> mem_server ''localhost''"

text \<open>A database with one enemy UAV, made by the operations themselves.\<close>

definition sample_uav :: Uav where
  "sample_uav = \<lparr>uav_id = 0, uav_uavId = 9, uav_ip = ''127.0.0.1'', uav_typeId = 1, uav_roleId = 1,
     uav_name = ''u'', uav_freqId = 868, uav_historical = True\<rparr>"

definition fleet0 :: mem_db where
  "fleet0 = snd (addUavType local_server ''glider'' (snd (addUavRole local_server
     \<lparr>role_id = 0, role_code = ENEMY_UAV_ROLE, role_name = ''Enemy''\<rparr> empty_mem)))"

definition fleet :: mem_db where
  "fleet = snd (addUav local_server sample_uav fleet0)"

lemma mem_valid_insert:
  "mem_valid s \<Longrightarrow> inserts_one mem_view mem_valid t f \<Longrightarrow> mem_valid (snd (f s))"
  unfolding inserts_one_def by (metis prod.collapse)

lemma empty_mem_valid: "mem_valid empty_mem"
  by (simp add: mem_valid_def empty_mem_def well_formed_tables_def rows_of_def keyed_def)

text \<open>
  C3: every insert of the controller (UAVs, roles, devices, sources, missions, targets and the five
  dictionaries) either returns \<open>INVALID_INDEX\<close> and changes no table, or appends exactly one row to
  its own table, whose fresh positive id it returns and whose foreign keys exist.
\<close>

theorem inserts_append_one_row:
  assumes "sql_server srv view valid same"
  shows "inserts_one view valid ''uav'' (addUav srv u) \<and> inserts_one view valid ''uavroles'' (addUavRole srv r)
    \<and> inserts_one view valid ''devices'' (addDevice srv d) \<and> inserts_one view valid ''sources'' (addSource srv x)
    \<and> inserts_one view valid ''uavmission'' (addUavMission srv m) \<and> inserts_one view valid ''target'' (addTarget srv t)
    \<and> inserts_one view valid ''targettypes'' (addTargetType srv n) \<and> inserts_one view valid ''uavtypes'' (addUavType srv n)
    \<and> inserts_one view valid ''devicetypes'' (addDeviceType srv n)
    \<and> inserts_one view valid ''sourcetypes'' (addSourceType srv n) \<and> inserts_one view valid ''statustypes'' (addStatus srv n)"
  unfolding addUavRole_def addDevice_def addSource_def addUavMission_def addTargetType_def addUavType_def
    addDeviceType_def addSourceType_def addStatus_def addDictionaryRecord_def
  by (intro conjI sql_server.addUav_inserts [OF assms] sql_server.addTarget_inserts [OF assms]
      sql_server.inserts_one_record [OF assms] lower_names)

text \<open>The first insert into an empty table gets the id 1.\<close>

theorem inserts_append_one_row_witness:
  "fst (addUavType local_server ''glider'' empty_mem) = 1
   \<and> row_inserted 1 ''uavtypes'' (vw_rows (mem_view empty_mem))
       (vw_rows (mem_view (snd (addUavType local_server ''glider'' empty_mem))))"
proof -
  have one: "fst (addUavType local_server ''glider'' empty_mem) = 1" by code_simp
  have "inserts_one mem_view mem_valid ''uavtypes'' (addUavType local_server ''glider'')"
    using inserts_append_one_row [OF mem.sql_server_axioms] by blast
  with one empty_mem_valid show ?thesis
    unfolding inserts_one_def
    by (metis INVALID_INDEX_def one_neq_neg_one prod.collapse)
qed

text \<open>
  the queries of the controller, whatever they return, leave every table and the connection as
  they were.
\<close>

theorem queries_change_no_table:
  assumes "sql_server srv view valid same"
  shows "reads_only view valid (\<lambda>s. snd (getUav srv i s)) \<and> reads_only view valid (\<lambda>s. snd (getUavByUavId srv i s))
    \<and> reads_only view valid (\<lambda>s. snd (snd (getUavsByRole srv n us s)))
    \<and> reads_only view valid (\<lambda>s. snd (getUavsCountByRole srv n s))
    \<and> reads_only view valid (\<lambda>s. snd (snd (getUavInfoByUavId srv i is s)))
    \<and> reads_only view valid (\<lambda>s. snd (snd (getDevicesByType srv i ds s)))
    \<and> reads_only view valid (\<lambda>s. snd (getSourceId srv i j s)) \<and> reads_only view valid (\<lambda>s. snd (getSource srv i s))
    \<and> reads_only view valid (\<lambda>s. snd (snd (getSourceByType srv i xs s)))
    \<and> reads_only view valid (\<lambda>s. snd (snd (getUavMissionsByUavId srv i ms s)))
    \<and> reads_only view valid (\<lambda>s. snd (snd (getTargetsByType srv i ts s)))
    \<and> reads_only view valid (\<lambda>s. snd (snd (getTargetsByUavId srv i ts s)))
    \<and> reads_only view valid (\<lambda>s. snd (snd (getTargetsByMission srv i ts s)))
    \<and> reads_only view valid (\<lambda>s. snd (getUavRole srv i s)) \<and> reads_only view valid (\<lambda>s. snd (getUavRoleByName srv n s))
    \<and> reads_only view valid (\<lambda>s. snd (getUavRoleByCode srv n s))
    \<and> reads_only view valid (\<lambda>s. snd (getDictionaryRecord srv d n s))"
  by (intro conjI sql_server.queries_read_only [OF assms])

theorem queries_change_no_table_witness:
  "vw_rows (mem_view (snd (getUavByUavId local_server 7 empty_mem))) = vw_rows (mem_view empty_mem)"
proof -
  have "reads_only mem_view mem_valid (\<lambda>s. snd (getUavByUavId local_server 7 s))"
    by (rule queries_change_no_table [OF mem.sql_server_axioms, THEN conjunct2, THEN conjunct1])
  with empty_mem_valid show ?thesis by (simp add: reads_only_def)
qed

text \<open>
  each delete that reports success removes exactly the rows it names, missions by UAV or by
  target and targets by id, and changes no other table; when it reports an error nothing is removed.
\<close>

theorem deletes_remove_the_named_rows:
  assumes "sql_server srv view valid same"
  shows "deletes view valid ''uavmission'' (\<lambda>s r. same (cell r ''uavid'') (VUInt n)) (deleteUavMissionsByUavId srv n)
    \<and> deletes view valid ''uavmission'' (\<lambda>s r. same (cell r ''targetid'') (VUInt n)) (deleteUavMissionsByTargetId srv n)
    \<and> deletes view valid ''target'' (\<lambda>s r. same (cell r ''id'') (VUInt n)) (deleteTargetsById srv n)"
  using sql_server.deleteMissions_deletes [OF assms] sql_server.deleteTargetsById_deletes [OF assms] by blast

definition sample_target :: Target where
  "sample_target = \<lparr>target_id = 0, target_uavId = 1, target_ip = ''10.0.0.2'', target_port = 80, target_type = 1\<rparr>"

definition fleet_target :: mem_db where
  "fleet_target = snd (addTarget local_server sample_target (snd (addTargetType local_server ''tank'' fleet)))"

lemma fleet_valid: "mem_valid fleet0" "mem_valid fleet" "mem_valid fleet_target"
proof -
  show v0: "mem_valid fleet0"
    unfolding fleet0_def addUavType_def addDictionaryRecord_def addUavRole_def
    by (intro mem_valid_insert [OF _ mem.inserts_one_record] empty_mem_valid lower_names)
  show v: "mem_valid fleet"
    unfolding fleet_def by (rule mem_valid_insert [OF v0 mem.addUav_inserts])
  show "mem_valid fleet_target"
    unfolding fleet_target_def addTargetType_def addDictionaryRecord_def
    by (rule mem_valid_insert [OF mem_valid_insert [OF v mem.inserts_one_record] mem.addTarget_inserts]) simp
qed

theorem deletes_remove_the_named_rows_witness:
  "length (rows_of (mem_rows fleet_target) ''target'') = 1
   \<and> rows_of (mem_rows (snd (deleteTargetsById local_server 1 fleet_target))) ''target'' = []"
proof -
  have one: "map (\<lambda>r. cell r ''id'') (rows_of (mem_rows fleet_target) ''target'') = [VInt 1]" by code_simp
  have ok: "fst (deleteTargetsById local_server 1 fleet_target)" by code_simp
  have "deletes mem_view mem_valid ''target'' (\<lambda>s r. sql_same (cell r ''id'') (VUInt 1)) (deleteTargetsById local_server 1)"
    using deletes_remove_the_named_rows [OF mem.sql_server_axioms, of 1] by blast
  with ok fleet_valid(3) have "vw_rows (mem_view (snd (deleteTargetsById local_server 1 fleet_target))) ''target''
      = filter (\<lambda>r. \<not> sql_same (cell r ''id'') (VUInt 1)) (rows_of (mem_rows fleet_target) ''target'')"
    unfolding deletes_def by (metis fun_upd_same prod.collapse view_fields(2))
  with one show ?thesis by (auto simp: sql_same_def map_eq_Cons_conv filter_empty_conv)
qed

end
