(* ===== verification/UavControllerProps.thy ===== *)
theory UavControllerProps
  imports UavControllerLaws
begin

text \<open>
  The behaviour of single operations of \<open>DbUavController\<close>: what is read back after an insert, the
  error paths of a closed connection, the lookups of roles and missions, the transaction a lookup
  leaves open, and the reconnection.
\<close>

section \<open>A closed connection\<close>

text \<open>
  on a connection that is not open every operation returns its error value (\<open>INVALID_INDEX\<close>,
  \<open>false\<close>, or a record whose id is \<open>INVALID_INDEX\<close>), leaves the output list as it was and sends
  nothing to the server.
\<close>

theorem closed_connection_is_refused:
  assumes "\<not> srv_is_open srv s"
  shows "addUav srv u s = (INVALID_INDEX, s) \<and> addUavInfo srv x s = (INVALID_INDEX, s)
    \<and> addDevice srv d s = (INVALID_INDEX, s) \<and> addSource srv c s = (INVALID_INDEX, s)
    \<and> addUavMission srv m s = (INVALID_INDEX, s) \<and> addTarget srv t s = (INVALID_INDEX, s)
    \<and> addUavRole srv r s = (INVALID_INDEX, s) \<and> addDictionaryRecord srv k n s = (INVALID_INDEX, s)
    \<and> getDictionaryRecord srv k n s = (INVALID_INDEX, s) \<and> getSourceId srv i j s = (INVALID_INDEX, s)
    \<and> getUavsCountByRole srv n s = (INVALID_INDEX, s)
    \<and> uav_id (fst (getUav srv i s)) = INVALID_INDEX \<and> uav_id (fst (getUavByUavId srv i s)) = INVALID_INDEX
    \<and> source_id (fst (getSource srv i s)) = INVALID_INDEX \<and> role_id (fst (getUavRole srv i s)) = INVALID_INDEX
    \<and> getUavsByRole srv n us s = (False, us, s) \<and> getUavInfoByUavId srv i xs s = (False, xs, s)
    \<and> getDevicesByType srv i ds s = (False, ds, s) \<and> getSourceByType srv i cs s = (False, cs, s)
    \<and> getUavMissionsByUavId srv i ms s = (False, ms, s) \<and> getTargetsByType srv i ts s = (False, ts, s)
    \<and> getTargetsByUavId srv i ts s = (False, ts, s) \<and> getTargetsByMission srv i ts s = (False, ts, s)
    \<and> deleteUavMissionsByUavId srv i s = (False, s) \<and> deleteUavMissionsByTargetId srv i s = (False, s)
    \<and> deleteTargetsByUavId srv i s = (False, s) \<and> deleteTargetsById srv i s = (False, s)"
  using assms
  by (simp add: addUav_def addUavInfo_def insert_record_def addDevice_def addSource_def addUavMission_def
      addTarget_def addUavRole_def addDictionaryRecord_def getDictionaryRecord_def getSourceId_def
      getUavsCountByRole_def getUav_def getUavByUavId_def getSource_def getUavRole_def getUavsByRole_def
      getUavInfoByUavId_def getDevicesByType_def getSourceByType_def getUavMissionsByUavId_def
      getTargetsByType_def getTargetsByUavId_def getTargetsByMission_def select_records_def
      deleteUavMissionsByUavId_def deleteUavMissionsByTargetId_def deleteTargetsByUavId_def
      deleteTargetsById_def blank_uav_def blank_source_def blank_role_def INVALID_INDEX_def Let_def)

theorem closed_connection_is_refused_witness:
  "addUav local_server sample_uav (mem_close fleet0) = (INVALID_INDEX, mem_close fleet0)"
proof -
  have "\<not> srv_is_open local_server (mem_close fleet0)" by (simp add: mem_close_def)
  from closed_connection_is_refused [OF this] show ?thesis by blast
qed

section \<open>Reading a UAV back\<close>

context sql_server
begin

lemma getUav_found:
  assumes v: "valid s" and e: "getUav srv n s = (u, s')" and "uav_id u \<noteq> INVALID_INDEX"
  obtains z where "z \<in> set (vw_rows (view s) ''uav'')" "same (cell z ''id'') (VUInt n)"
    "u = uav_of_row (project [] z)" "z \<in> set (matching same ''uav'' [(''id'', '':id'')] [('':id'', VUInt n)] (view s))"
proof -
  from e assms(3) obtain row where r: "first_row srv (SelectFrom ''uav'' [] [(''id'', '':id'')]) [('':id'', VUInt n)] s
      = (Some row, s')" and u: "u = uav_of_row row"
    by (auto simp: getUav_def blank_uav_def split: if_splits prod.splits option.splits)
  from first_row_spec [OF v r] obtain z
    where z: "z \<in> set (matching same ''uav'' [(''id'', '':id'')] [('':id'', VUInt n)] (view s))"
      and row: "row = project [] z" by blast
  from z have "z \<in> set (vw_rows (view s) ''uav'')" "same (cell z ''id'') (VUInt n)"
    by (auto simp: matching_def selected_def bound_def)
  with that u row z show ?thesis by blast
qed

lemma stored_uav_reads_back:
  assumes v: "valid s" and e: "addUav srv uav s = (i, s1)" and i: "i \<noteq> INVALID_INDEX"
    and g: "getUav srv (to_uint i) s1 = (u, s2)" and u: "uav_id u \<noteq> INVALID_INDEX"
    and freq: "- (2 ^ 31) \<le> uav_freqId uav" "uav_freqId uav < 2 ^ 31"
  shows "u = uav\<lparr>uav_id := i, uav_historical := False,
     uav_uavId := v_uint (stored_uav_id (role_code (fst (getUavRole srv (uav_roleId uav) s))) uav)\<rparr>"
proof -
  let ?code = "role_code (fst (getUavRole srv (uav_roleId uav) s))"
  from addUav_spec [OF v e] i obtain z where v1: "valid s1"
    and n: "new_row (vw_rows (view s)) ''uav''
            [(''uavId'', '':uavId''), (''ip'', '':ip''), (''uavTypeId'', '':uavTypeId''),
             (''roleId'', '':roleId''), (''name'', '':name''), (''freqId'', '':freqId'')]
            [('':uavId'', stored_uav_id ?code uav),
             ('':ip'', VText (uav_ip uav)), ('':uavTypeId'', VUInt (uav_typeId uav)),
             ('':roleId'', VUInt (uav_roleId uav)), ('':name'', VText (uav_name uav)),
             ('':freqId'', VInt (uav_freqId uav))] z"
    and id: "cell z ''id'' = VInt i" "0 < i"
    and w: "view s1 = write_table ''uav'' (vw_rows (view s) ''uav'' @ [z]) (view s)" by auto
  from n have k: "keyed (vw_rows (view s) ''uav'' @ [z])" by (simp add: new_row_def)
  then have small: "i < 2 ^ 31" using id by (auto simp: keyed_def)
  obtain y where y: "y \<in> set (vw_rows (view s1) ''uav'')" "same (cell y ''id'') (VUInt (to_uint i))"
      "u = uav_of_row (project [] y)" "y \<in> set (matching same ''uav'' [(''id'', '':id'')] [('':id'', VUInt (to_uint i))] (view s1))"
    using getUav_found [OF v1 g u] by blast
  have rows: "vw_rows (view s1) ''uav'' = vw_rows (view s) ''uav'' @ [z]"
    by (simp add: w write_table_rows)
  obtain j where j: "cell y ''id'' = VInt j" using k y(1) rows unfolding keyed_def by metis
  have "number_of (VUInt (to_uint i)) = Some i" using small id(2) by (simp add: uint_to_uint)
  with y(2) same_number [of "VInt j" j "VUInt (to_uint i)" i] j have "j = i" by simp
  with j id have "cell y ''id'' = cell z ''id''" by simp
  then have "y = z" using k y(1) rows keyed_unique by fastforce
  have num: "number_of (cell z ''uavid'') = number_of (stored_uav_id ?code uav)"
    "number_of (cell z ''uavtypeid'') = Some (uint (uav_typeId uav))"
    "number_of (cell z ''roleid'') = Some (uint (uav_roleId uav))"
    "number_of (cell z ''freqid'') = Some (uav_freqId uav)"
    and tx: "cell z ''ip'' = VText (uav_ip uav)" "cell z ''name'' = VText (uav_name uav)"
    using n by (auto simp: new_row_def bound_def keeps_def stored_uav_id_def time_column_def cell_def split: if_splits)
  obtain m where m: "number_of (stored_uav_id ?code uav) = Some m"
    by (cases "?code = ENEMY_UAV_ROLE") (simp_all add: stored_uav_id_def)
  show ?thesis
    using found_uav(2) [OF v1 y(4)] num tx id small freq m
    unfolding y(3) \<open>y = z\<close>
    by (simp add: v_uint_number uint_as_int_number)
qed

end

text \<open>
  C5: a UAV that was added and is found by the id the insert returned has the fields it was added
  with, \<open>historical\<close> apart; its board id is the frequency id (or \<open>ENEMY_UAV_ID_OFFSET\<close> when that is
  negative) when the role's code is the enemy's, and the given one otherwise.
\<close>

theorem added_uav_reads_back:
  assumes "sql_server srv view valid same" and "valid s"
    and "addUav srv uav s = (i, s1)" and "i \<noteq> INVALID_INDEX"
    and "getUav srv (to_uint i) s1 = (u, s2)" and "uav_id u \<noteq> INVALID_INDEX"
    and "- (2 ^ 31) \<le> uav_freqId uav" and "uav_freqId uav < 2 ^ 31"
  shows "u = uav\<lparr>uav_id := i, uav_historical := False,
     uav_uavId := (if role_code (fst (getUavRole srv (uav_roleId uav) s)) = ENEMY_UAV_ROLE
       then (if uav_freqId uav < 0 then 50 else to_uint (uav_freqId uav)) else uav_uavId uav)\<rparr>"
  using sql_server.stored_uav_reads_back [OF assms]
  by (simp add: stored_uav_id_def ENEMY_UAV_ID_OFFSET_def to_uint_def)

theorem added_uav_reads_back_witness:
  "fst (getUav local_server 1 fleet) = sample_uav\<lparr>uav_id := 1, uav_historical := False, uav_uavId := 868\<rparr>"
proof -
  have a: "addUav local_server sample_uav fleet0 = (1, fleet)"
  proof -
    have "fst (addUav local_server sample_uav fleet0) = 1" by code_simp
    then show ?thesis by (simp add: fleet_def prod_eq_iff)
  qed
  have g: "getUav local_server (to_uint 1) fleet = (fst (getUav local_server 1 fleet), snd (getUav local_server 1 fleet))"
    by (simp add: to_uint_def)
  have f: "uav_id (fst (getUav local_server 1 fleet)) = 1" by code_simp
  have r: "role_code (fst (getUavRole local_server (uav_roleId sample_uav) fleet0)) = ENEMY_UAV_ROLE" by code_simp
  show ?thesis
    using added_uav_reads_back [OF mem.sql_server_axioms fleet_valid(1) a _ g] f r
    by (simp add: INVALID_INDEX_def sample_uav_def to_uint_def)
qed

section \<open>Lookups\<close>

context sql_server
begin

lemma role_lookup_found:
  assumes v: "valid s" and c: "lower c \<in> {''name'', ''code''}"
    and r: "first_row srv (SelectFrom ''uavroles'' [''id''] [(c, p)]) [(p, x)] s = (Some row, s')"
  shows "role_code (role_of_row row) = [] \<and> role_name (role_of_row row) = [] \<and>
    (\<exists>z \<in> set (vw_rows (view s) ''uavroles''). cell z ''id'' = VInt (role_id (role_of_row row)) \<and> same (cell z c) x)"
proof -
  from first_row_spec [OF v r] obtain z
    where z: "z \<in> set (vw_rows (view s) (lower ''uavroles''))" "same (cell z c) x" and row: "row = [cell z ''id'']"
    by (auto simp: matching_def selected_def bound_def project_def)
  obtain i where i: "cell z ''id'' = VInt i" "0 < i" "i < 2 ^ 31" using row_id_range [OF v z(1)] by blast
  then have "role_of_row row = \<lparr>role_id = i, role_code = [], role_name = []\<rparr>"
    by (simp add: role_of_row_def row rec_value_def uint_as_int_number)
  with z i show ?thesis by auto
qed

end

text \<open>
  the lookup of a role by its code or by its name finds the id of a role with that code or name,
  but selects only the id column, so the code and the name of the record it returns are empty,
  although both are copied from the row as if they had been selected.
\<close>

theorem role_lookup_returns_only_the_id:
  assumes "sql_server srv view valid same" and "valid s"
    and "getUavRoleByCode srv c s = (r, s1)" and "getUavRoleByName srv n s = (q, s2)"
  shows "role_code r = [] \<and> role_name r = [] \<and> role_code q = [] \<and> role_name q = []
    \<and> (role_id r \<noteq> INVALID_INDEX \<longrightarrow> (\<exists>z \<in> set (vw_rows (view s) ''uavroles'').
          cell z ''id'' = VInt (role_id r) \<and> same (cell z ''code'') (VText c)))
    \<and> (role_id q \<noteq> INVALID_INDEX \<longrightarrow> (\<exists>z \<in> set (vw_rows (view s) ''uavroles'').
          cell z ''id'' = VInt (role_id q) \<and> same (cell z ''name'') (VText n)))"
  using assms(3,4) sql_server.role_lookup_found [OF assms(1,2), of "''code''" "'':code''" "VText c"]
    sql_server.role_lookup_found [OF assms(1,2), of "''name''" "'':name''" "VText n"]
  by (auto simp: getUavRoleByCode_def getUavRoleByName_def blank_role_def
      split: if_splits prod.splits option.splits)

theorem role_lookup_returns_only_the_id_witness:
  "role_id (fst (getUavRoleByCode local_server ENEMY_UAV_ROLE fleet)) = 1
   \<and> role_code (fst (getUavRoleByCode local_server ENEMY_UAV_ROLE fleet)) = []"
proof -
  have "role_id (fst (getUavRoleByCode local_server ENEMY_UAV_ROLE fleet)) = 1" by code_simp
  then show ?thesis
    using role_lookup_returns_only_the_id [OF mem.sql_server_axioms fleet_valid(2)] by (metis prod.collapse)
qed

context sql_server
begin

lemma mission_target:
  assumes v: "valid s" and e: "getTargetsByMission srv n out s = (True, ts, s')"
  shows "\<exists>t rows. ts = out @ map target_of_row rows
    \<and> mset rows = mset (map (project []) (filter (\<lambda>r. same (cell r ''id'') (VInt t)) (vw_rows (view s) ''target'')))
    \<and> (\<forall>m \<in> set (vw_rows (view s) ''uavmission''). cell m ''id'' = VInt (uint n) \<longrightarrow> t = v_int (cell m ''targetid''))
    \<and> ((\<forall>m \<in> set (vw_rows (view s) ''uavmission''). cell m ''id'' \<noteq> VInt (uint n)) \<longrightarrow> t = junk srv ''targetID'')"
proof -
  let ?pre = "SelectFrom ''uavmission'' [''targetID''] [(''id'', '':missionID'')]"
  let ?q = "SelectFrom ''target'' [] [(''id'', '':targetID'')]"
  let ?M = "matching same ''uavmission'' [(''id'', '':missionID'')] [('':missionID'', VUInt n)] (view s)"
  obtain r0 s0 where r0: "srv_exec srv ?pre [('':missionID'', VUInt n)] s = (r0, s0)" by force
  note f0 = exec_select_frame [OF v r0]
  define t where "t = (case fetched r0 of [] \<Rightarrow> junk srv ''targetID'' | row # _ \<Rightarrow> v_int (rec_value row 0))"
  obtain r1 s1 where r1: "srv_exec srv ?q [('':targetID'', VInt t)] s0 = (r1, s1)" by force
  note e' = e [unfolded getTargetsByMission_def Let_def r0 prod.case, folded t_def, unfolded r1 prod.case]
  from e' have ok: "res_ok r0" "res_ok r1" and ts: "ts = out @ map target_of_row (fetched r1)"
    by (auto split: if_splits)
  have m0: "mset (fetched r0) = mset (map (project [''targetID'']) ?M)"
    using exec_rows [OF v r0 ok(1)] ok by (simp add: fetched_def)
  have m1: "mset (fetched r1) = mset (map (project []) (filter (\<lambda>r. same (cell r ''id'') (VInt t)) (vw_rows (view s) ''target'')))"
    using exec_rows [OF _ r1 ok(2)] ok f0 by (simp add: fetched_def matching_def selected_def bound_def)
  have sel: "m \<in> set ?M \<longleftrightarrow> m \<in> set (vw_rows (view s) ''uavmission'') \<and> cell m ''id'' = VInt (uint n)" for m
  proof -
    have "same (cell m ''id'') (VUInt n) \<longleftrightarrow> cell m ''id'' = VInt (uint n)" if "m \<in> set (vw_rows (view s) ''uavmission'')"
    proof -
      obtain i where "cell m ''id'' = VInt i" using row_id_range [OF v, of m "''uavmission''"] \<open>m \<in> _\<close> by auto
      then show ?thesis using same_number [of "cell m ''id''" i "VUInt n" "uint n"] by simp
    qed
    then show ?thesis by (auto simp: matching_def selected_def bound_def)
  qed
  have hit: "t = v_int (cell m ''targetid'')"
    if m: "m \<in> set (vw_rows (view s) ''uavmission'')" "cell m ''id'' = VInt (uint n)" for m
  proof -
    have mM: "m \<in> set ?M" using sel m by blast
    have "fetched r0 \<noteq> []" using m0 mM by (metis empty_iff list.set(1) map_is_Nil_conv mset_zero_iff_right)
    then obtain row rest where row: "fetched r0 = row # rest" by (cases "fetched r0") auto
    have "row \<in> set (map (project [''targetID'']) ?M)" using m0 row by (metis list.set_intros(1) mset_eq_setD)
    then obtain m' where m': "m' \<in> set ?M" "row = project [''targetID''] m'" by auto
    have k: "keyed (vw_rows (view s) ''uavmission'')"
      using tables_wf [OF v] unfolding well_formed_tables_def by (auto dest: spec [of _ "''uavmission''"])
    have "m' \<in> set (vw_rows (view s) ''uavmission'')" "cell m' ''id'' = cell m ''id''"
      using sel [of m'] m'(1) m(2) by simp_all
    then have "m' = m" using keyed_unique [OF k _ m(1)] by blast
    with m' row show ?thesis by (simp add: t_def project_def rec_value_def cell_def)
  qed
  have miss: "t = junk srv ''targetID''" if "\<forall>m \<in> set (vw_rows (view s) ''uavmission''). cell m ''id'' \<noteq> VInt (uint n)"
  proof -
    have "m \<notin> set ?M" for m using sel [of m] that by blast
    then have "?M = []" using last_in_set by blast
    with m0 have "fetched r0 = []" by simp
    then show ?thesis by (simp add: t_def)
  qed
  show ?thesis using ts m1 hit miss by blast
qed

end

text \<open>
  the targets of a mission are the targets with the target id of the mission with the given id.
  When there is no such mission the code does not stop: it looks up the targets whose id is the
  value of a local variable that was never assigned, and reports success.
\<close>

theorem targets_of_a_mission:
  assumes "sql_server srv view valid same" and "valid s"
    and "getTargetsByMission srv n out s = (True, ts, s')"
  shows "\<exists>t rows. ts = out @ map target_of_row rows
    \<and> mset rows = mset (map (project []) (filter (\<lambda>r. same (cell r ''id'') (VInt t)) (vw_rows (view s) ''target'')))
    \<and> (\<forall>m \<in> set (vw_rows (view s) ''uavmission''). cell m ''id'' = VInt (uint n) \<longrightarrow> t = v_int (cell m ''targetid''))
    \<and> ((\<forall>m \<in> set (vw_rows (view s) ''uavmission''). cell m ''id'' \<noteq> VInt (uint n)) \<longrightarrow> t = junk srv ''targetID'')"
  by (rule sql_server.mission_target [OF assms])

text \<open>With a garbage value of 1, the target 1 is reported for a mission that does not exist.\<close>

theorem targets_of_a_mission_witness:
  "\<exists>ts. fst (snd (getTargetsByMission local_server 5 [] fleet_target)) = ts \<and> length ts = 1
    \<and> junk local_server ''targetID'' = 1"
proof -
  have ok: "fst (getTargetsByMission local_server 5 [] fleet_target)" by code_simp
  have ids: "map (\<lambda>r. cell r ''id'') (rows_of (mem_rows fleet_target) ''target'') = [VInt 1]"
    "rows_of (mem_rows fleet_target) ''uavmission'' = []" by code_simp+
  obtain ts s' where e: "getTargetsByMission local_server 5 [] fleet_target = (True, ts, s')"
    using ok by (metis (full_types) prod.collapse)
  have j: "junk local_server ''targetID'' = 1" by (simp add: mem_server_def)
  from targets_of_a_mission [OF mem.sql_server_axioms fleet_valid(3) e] ids(2)
  obtain t rows where ts: "ts = [] @ map target_of_row rows"
    and rows: "mset rows = mset (map (project []) (filter (\<lambda>r. sql_same (cell r ''id'') (VInt t))
        (vw_rows (mem_view fleet_target) ''target'')))"
    and miss: "(\<forall>m \<in> set (vw_rows (mem_view fleet_target) ''uavmission''). cell m ''id'' \<noteq> VInt (uint (5::u32)))
        \<longrightarrow> t = junk local_server ''targetID''" by blast
  have t: "t = 1" using miss ids(2) j by simp
  obtain r where r: "rows_of (mem_rows fleet_target) ''target'' = [r]" "cell r ''id'' = VInt 1"
    using ids(1) by (auto simp: map_eq_Cons_conv)
  have "mset rows = mset (map (project []) [r])"
    using rows r by (simp add: t sql_same_def)
  then have "size (mset rows) = 1" by simp
  with e ts j show ?thesis by simp
qed

end
