(* ===== verification/UavStorageProps.thy ===== *)
theory UavStorageProps
  imports UavControllerProps
begin

text \<open>
  The sample table and its unique key, the durability of what \<open>DbUavController\<close> inserts, the
  contract of the dictionaries, and the reconnection of the controller.
\<close>

section \<open>Samples\<close>

text \<open>What a row of \<open>info\<close> holds of a sample, times apart.\<close>

definition holds_sample :: "UavInfo \<Rightarrow> row \<Rightarrow> bool" where
  "holds_sample i r \<longleftrightarrow> number_of (cell r ''uavid'') = Some (uint (info_uavId i))
     \<and> number_of (cell r ''device'') = Some (uint (info_device i))
     \<and> number_of (cell r ''source'') = Some (uint (info_source i))
     \<and> number_of (cell r ''statustypeid'') = Some (uint (info_statusId i))
     \<and> cell r ''latitude'' = VDouble (info_lat i) \<and> cell r ''longitude'' = VDouble (info_lon i)
     \<and> cell r ''altitude'' = VDouble (info_alt i) \<and> cell r ''speed'' = VDouble (info_speed i)
     \<and> cell r ''yaw'' = VDouble (info_yaw i)
     \<and> cell r ''latitudestddev'' = VDouble (info_latStddev i)
     \<and> cell r ''longitudestddev'' = VDouble (info_lonStddev i)"

definition key_of_sample :: "UavInfo \<Rightarrow> row \<Rightarrow> bool" where
  "key_of_sample i r \<longleftrightarrow> number_of (cell r ''uavid'') = Some (uint (info_uavId i))
     \<and> number_of (cell r ''device'') = Some (uint (info_device i))
     \<and> number_of (cell r ''source'') = Some (uint (info_source i))"

lemmas sample_cells = info_bindings_def bound_def keeps_def time_column_def

lemma new_sample:
  "new_row T ''info'' info_columns (info_bindings srv i) z \<Longrightarrow> holds_sample i z"
  unfolding new_row_def info_columns_def by (simp add: holds_sample_def sample_cells cell_def)

lemma same_sample_key:
  "same_key info_key ''info'' info_columns (info_bindings srv i) q \<Longrightarrow> key_of_sample i q"
  unfolding same_key_def info_columns_def by (simp add: info_key_def key_of_sample_def sample_cells cell_def)

lemma updated_sample:
  assumes u: "updated_row T ''info'' info_updates (info_bindings srv i) q z" and k: "key_of_sample i q"
  shows "holds_sample i z" and "cell z ''id'' = cell q ''id''"
proof -
  have same: "cell z c = cell q c" if "lower c \<notin> (lower \<circ> fst) ` set info_updates" for c
    using u that by (simp add: updated_row_def)
  show "cell z ''id'' = cell q ''id''" by (rule same) (simp add: info_updates_def)
  have "cell z ''uavid'' = cell q ''uavid''" "cell z ''device'' = cell q ''device''" "cell z ''source'' = cell q ''source''"
    by (rule same, simp add: info_updates_def)+
  with u k show "holds_sample i z"
    unfolding updated_row_def info_updates_def
    by (simp add: holds_sample_def key_of_sample_def sample_cells cell_def)
qed

context sql_server
begin

lemma addUavInfo_spec:
  assumes v: "valid s" and e: "addUavInfo srv i s = (k, s')"
  shows "valid s' \<and> (k = INVALID_INDEX \<and> view s' = view s
    \<or> (\<exists>z. holds_sample i z \<and> refers (vw_rows (view s)) ''info'' z \<and>
        (cell z ''id'' = VInt k \<and> view s' = write_table ''info'' (vw_rows (view s) ''info'' @ [z]) (view s)
         \<or> (\<exists>j < length (vw_rows (view s) ''info''). key_of_sample i (vw_rows (view s) ''info'' ! j)
              \<and> cell z ''id'' = cell (vw_rows (view s) ''info'' ! j) ''id''
              \<and> view s' = write_table ''info'' ((vw_rows (view s) ''info'')[j := z]) (view s)))))"
proof (cases "srv_is_open srv s \<and> srv_prepare srv insert_info s")
  case False
  with v e show ?thesis by (auto simp: addUavInfo_def insert_record_def split: if_splits)
next
  case True
  let ?b = "info_bindings srv i"
  obtain r s1 where x: "srv_exec srv insert_info ?b s = (r, s1)" by force
  with True e have k: "k = (if res_ok r then uint_as_int (res_last r) else INVALID_INDEX)" "s' = s1"
    by (auto simp: addUavInfo_def insert_record_def)
  show ?thesis
  proof (cases "res_ok r")
    case False
    then show ?thesis using exec_fails [OF v x] valid_exec [OF v x] k by simp
  next
    case ok: True
    have ne: "info_updates \<noteq> []" by (simp add: info_updates_def)
    have v': "valid s'" using valid_exec [OF v x] k by simp
    from exec_upsert [OF v x [unfolded insert_info_def] ok ne] show ?thesis
    proof (elim disjE exE conjE)
      fix z assume z: "new_row (vw_rows (view s)) ''info'' info_columns ?b z"
        "number_of (res_last r) = number_of (cell z ''id'')"
        "view s1 = write_table ''info'' (vw_rows (view s) ''info'' @ [z]) (view s)"
      have "refers (vw_rows (view s)) ''info'' z" using z(1) by (simp add: new_row_def)
      then show ?thesis using new_row_id [OF z(1,2)] new_sample [OF z(1)] z(3) k ok v' by auto
    next
      fix j z assume j: "j < length (vw_rows (view s) ''info'')"
        and sk: "same_key info_key ''info'' info_columns ?b (vw_rows (view s) ''info'' ! j)"
        and u: "updated_row (vw_rows (view s)) ''info'' info_updates ?b (vw_rows (view s) ''info'' ! j) z"
        and w: "view s1 = write_table ''info'' ((vw_rows (view s) ''info'')[j := z]) (view s)"
      note key = same_sample_key [OF sk]
      have "refers (vw_rows (view s)) ''info'' z" using u by (simp add: updated_row_def)
      then show ?thesis using updated_sample [OF u key] key j w k v' by blast
    qed
  qed
qed

end



definition some_device :: Devices where
  "some_device = \<lparr>device_id = 0, device_typeId = 1, device_port = 0, device_uavId = 1\<rparr>"

definition some_source :: Source where
  "some_source = \<lparr>source_id = 0, source_typeId = 1, source_sourceId = 101\<rparr>"

text \<open>The sample database with a device, a source and a status.\<close>

definition station :: mem_db where
  "station = snd (addStatus local_server ''ok'' (snd (addSource local_server some_source
     (snd (addSourceType local_server ''solver'' (snd (addDevice local_server some_device
       (snd (addDeviceType local_server ''radar'' fleet)))))))))"

lemma station_valid: "mem_valid station"
  unfolding station_def addStatus_def addSource_def addSourceType_def addDevice_def addDeviceType_def
    addDictionaryRecord_def
  by (intro mem_valid_insert [OF _ mem.inserts_one_record] fleet_valid lower_names)


section \<open>Durability\<close>

context sql_server
begin

lemma lookup_in_transaction:
  assumes v: "valid s" and op: "srv_is_open srv s" and b: "srv_begin srv s = (True, s0)"
    and g: "getUavByUavId srv n s = (u, s1)"
  shows "valid s1 \<and> view s1 = (view s)\<lparr>vw_durable := vw_rows (view s), vw_intx := True\<rparr>"
proof -
  have v0: "valid s0" by (rule valid_begin [OF v b])
  obtain x s2 where f: "first_row srv (SelectFrom ''uav'' [] [(''uavId'', '':id'')]) [('':id'', VUInt n)] s0 = (x, s2)"
    by force
  have "s1 = s2" using g op b f by (auto simp: getUavByUavId_def split: option.splits)
  with first_row_spec [OF v0 f] begin_ok [OF v b] show ?thesis by simp
qed

lemma insert_in_transaction:
  assumes v: "valid s" and e: "insert_record srv (InsertInto t cs []) b s = (i, s')"
    and i: "i \<noteq> INVALID_INDEX" and tx: "vw_intx (view s)"
  shows "view (srv_close srv s') = (view s)\<lparr>vw_open := False, vw_rows := vw_durable (view s), vw_intx := False\<rparr>"
proof -
  from insert_record_spec [OF v e] i obtain z where v': "valid s'"
    and w: "view s' = write_table t (vw_rows (view s) (lower t) @ [z]) (view s)" by auto
  show ?thesis using closed [OF v'] tx by (simp add: w write_table_def Let_def)
qed

end

text \<open>
  the lookup of a UAV by its board id begins a transaction and no path of it commits or rolls
  back. A device added after such a lookup is reported as stored, but it is not durable: when the
  connection closes before the next commit, the table is what it was before the lookup.
\<close>

theorem lookup_leaves_a_transaction_open:
  assumes "sql_server srv view valid same" and "valid s" and "srv_is_open srv s"
    and "srv_begin srv s = (True, s0)" and "getUavByUavId srv n s = (u, s1)"
    and "addDevice srv d s1 = (i, s2)" and "i \<noteq> INVALID_INDEX"
  shows "vw_intx (view s1)
    \<and> row_inserted i ''devices'' (vw_rows (view s)) (vw_rows (view s2))
    \<and> vw_rows (view (srv_close srv s2)) = vw_rows (view s)"
proof -
  note l = sql_server.lookup_in_transaction [OF assms(1-5)]
  then have v1: "valid s1" and tx: "vw_intx (view s1)" by simp_all
  have "inserts_one view valid ''devices'' (addDevice srv d)"
    unfolding addDevice_def by (rule sql_server.inserts_one_record [OF assms(1)]) simp
  then have "row_inserted i ''devices'' (vw_rows (view s1)) (vw_rows (view s2))"
    using v1 assms(6,7) unfolding inserts_one_def by metis
  moreover have "view (srv_close srv s2) =
      (view s1)\<lparr>vw_open := False, vw_rows := vw_durable (view s1), vw_intx := False\<rparr>"
    using sql_server.insert_in_transaction [OF assms(1) v1 _ assms(7) tx] assms(6)
    unfolding addDevice_def by blast
  ultimately show ?thesis using l by simp
qed

theorem lookup_leaves_a_transaction_open_witness:
  "fst (addDevice local_server some_device (snd (getUavByUavId local_server 868 station))) = 2
   \<and> length (rows_of (mem_rows (mem_close (snd (addDevice local_server some_device
        (snd (getUavByUavId local_server 868 station)))))) ''devices'') = 1"
proof -
  let ?g = "getUavByUavId local_server 868 station"
  have two: "fst (addDevice local_server some_device (snd ?g)) = 2" by code_simp
  have len: "length (rows_of (mem_rows station) ''devices'') = 1" by code_simp
  have op: "mem_open station" by code_simp
  obtain s2 where a: "addDevice local_server some_device (snd ?g) = (2, s2)"
    using two by (metis prod.collapse)
  have "vw_rows (mem_view (srv_close local_server s2)) = vw_rows (mem_view station)"
    by (rule lookup_leaves_a_transaction_open [OF mem.sql_server_axioms station_valid _ _ _ a,
          THEN conjunct2, THEN conjunct2])
      (use op in \<open>simp_all add: mem_begin_def INVALID_INDEX_def prod_eq_iff\<close>)
  with a len two show ?thesis by simp
qed

end
