(* ===== verification/UavDictionaries.thy ===== *)
theory UavDictionaries
  imports UavControllerProps Dictionary
begin

text \<open>
  The five dictionaries of the database (types of targets, UAVs, devices and sources, statuses)
  satisfy the contract \<open>dictionary\<close> on every lawful server. The last section is the reconnection of
  \<open>DbUavController\<close>.
\<close>

section \<open>The dictionaries of the controller\<close>

definition entries_of :: "('s \<Rightarrow> db_view) \<Rightarrow> string \<Rightarrow> 's \<Rightarrow> entries" where
  "entries_of view d s = {(i, v). \<exists>r \<in> set (vw_rows (view s) d). cell r ''id'' = VInt i \<and> cell r ''name'' = v}"

context sql_server
begin

lemma dictionary_found:
  assumes v: "valid s" and d: "lower d = d"
    and e: "getDictionaryRecord srv d n s = (i, s')" and i: "i \<noteq> INVALID_INDEX"
  shows "0 < i \<and> (\<exists>v. (i, v) \<in> entries_of view d s \<and> same v (VText n))"
proof -
  from e i obtain row where r: "first_row srv (SelectFrom d [''id''] [(''name'', '':name'')]) [('':name'', VText n)] s
      = (Some row, s')" and k: "i = uint_as_int (rec_value row 0)"
    by (auto simp: getDictionaryRecord_def split: if_splits prod.splits option.splits)
  from first_row_spec [OF v r] obtain z
    where z: "z \<in> set (vw_rows (view s) (lower d))" "same (cell z ''name'') (VText n)"
      and row: "row = [cell z ''id'']"
    by (auto simp: matching_def selected_def bound_def project_def)
  obtain j where j: "cell z ''id'' = VInt j" "0 < j" "j < 2 ^ 31" using row_id_range [OF v z(1)] by blast
  then have "i = j" by (simp add: k row rec_value_def uint_as_int_number)
  with z j d show ?thesis by (auto simp: entries_of_def)
qed

lemma dictionary_added:
  assumes v: "valid s" and d: "lower d = d" "\<not> time_column d ''name''"
    and e: "addDictionaryRecord srv d n s = (i, s')"
  shows "valid s' \<and> entries_of view d s' =
      (if i = INVALID_INDEX then entries_of view d s else insert (i, VText n) (entries_of view d s))
    \<and> (i \<noteq> INVALID_INDEX \<longrightarrow> 0 < i \<and> i \<notin> fst ` entries_of view d s)"
proof -
  note sp = insert_record_spec [OF v e [unfolded addDictionaryRecord_def]]
  show ?thesis
  proof (cases "i = INVALID_INDEX")
    case True
    with sp show ?thesis by (simp add: entries_of_def)
  next
    case False
    with sp obtain z where n: "new_row (vw_rows (view s)) d [(''name'', '':name'')] [('':name'', VText n)] z"
      and id: "cell z ''id'' = VInt i" "0 < i" and v': "valid s'"
      and w: "view s' = write_table d (vw_rows (view s) (lower d) @ [z]) (view s)" by auto
    have name: "cell z ''name'' = VText n"
      using n d by (simp add: new_row_def keeps_def bound_def)
    have "i \<notin> fst ` entries_of view d s"
    proof -
      have "distinct (map (\<lambda>r. cell r ''id'') (vw_rows (view s) d @ [z]))"
        using n d(1) by (simp add: new_row_def keyed_def)
      then have "VInt i \<notin> (\<lambda>r. cell r ''id'') ` set (vw_rows (view s) d)" using id by simp
      then show ?thesis by (force simp: entries_of_def)
    qed
    moreover have "entries_of view d s' = insert (i, VText n) (entries_of view d s)"
      using w d id name by (auto simp: entries_of_def write_table_rows)
    ultimately show ?thesis using False id v' by simp
  qed
qed

lemma is_dictionary:
  assumes "lower d = d" "\<not> time_column d ''name''"
  shows "dictionary valid (entries_of view d) (addDictionaryRecord srv d) (getDictionaryRecord srv d) same"
proof
  fix s n i s'
  assume v: "valid s"
  { assume a: "addDictionaryRecord srv d n s = (i, s')"
    note sp = dictionary_added [OF v assms a]
    from sp show "valid s'" by blast
    from sp show "entries_of view d s' =
        (if i = INVALID_INDEX then entries_of view d s else insert (i, VText n) (entries_of view d s))" by blast
    assume "i \<noteq> INVALID_INDEX"
    with sp show "0 < i \<and> i \<notin> fst ` entries_of view d s" by blast
  next
    assume g: "getDictionaryRecord srv d n s = (i, s')"
    from getUav_frame(4) [OF v g] show "valid s' \<and> entries_of view d s' = entries_of view d s"
      by (simp add: entries_of_def)
    assume "i \<noteq> INVALID_INDEX"
    then show "0 < i \<and> (\<exists>v. (i, v) \<in> entries_of view d s \<and> same v (VText n))"
      by (rule dictionary_found [OF v assms(1) g])
  }
qed (rule same_text)

lemmas dictionaries =
  is_dictionary [of "''targettypes''", folded addTargetType_def getTargetTypeByName_def]
  is_dictionary [of "''uavtypes''", folded addUavType_def getUavTypeByName_def]
  is_dictionary [of "''devicetypes''", folded addDeviceType_def getDeviceTypeByName_def]
  is_dictionary [of "''sourcetypes''", folded addSourceType_def getSourceTypeByName_def]
  is_dictionary [of "''statustypes''", folded addStatus_def getStatusByName_def]

end

lemma dictionary_tables:
  "\<not> time_column ''targettypes'' ''name''" "\<not> time_column ''uavtypes'' ''name''" "\<not> time_column ''devicetypes'' ''name''"
  "\<not> time_column ''sourcetypes'' ''name''" "\<not> time_column ''statustypes'' ''name''"
  by (simp_all add: time_column_def)

interpretation uavtypes: dictionary mem_valid "entries_of mem_view ''uavtypes''" "addUavType (mem_server host)"
  "getUavTypeByName (mem_server host)" sql_same
  by (rule mem.dictionaries) (simp_all add: dictionary_tables)

interpretation targettypes: dictionary mem_valid "entries_of mem_view ''targettypes''" "addTargetType (mem_server host)"
  "getTargetTypeByName (mem_server host)" sql_same
  by (rule mem.dictionaries) (simp_all add: dictionary_tables)

interpretation devicetypes: dictionary mem_valid "entries_of mem_view ''devicetypes''" "addDeviceType (mem_server host)"
  "getDeviceTypeByName (mem_server host)" sql_same
  by (rule mem.dictionaries) (simp_all add: dictionary_tables)

interpretation sourcetypes: dictionary mem_valid "entries_of mem_view ''sourcetypes''" "addSourceType (mem_server host)"
  "getSourceTypeByName (mem_server host)" sql_same
  by (rule mem.dictionaries) (simp_all add: dictionary_tables)

interpretation statustypes: dictionary mem_valid "entries_of mem_view ''statustypes''" "addStatus (mem_server host)"
  "getStatusByName (mem_server host)" sql_same
  by (rule mem.dictionaries) (simp_all add: dictionary_tables)

text \<open>
  a second insert of a name that a dictionary already has is accepted: the tables have no unique
  name, so the name gets two entries with different ids, and the lookup returns the id of one entry
  with that name.
\<close>

theorem dictionaries_accept_duplicates:
  assumes "sql_server srv view valid same" and "valid s"
    and "addUavType srv n s = (i, s1)" and "addUavType srv n s1 = (j, s2)"
    and "i \<noteq> INVALID_INDEX" and "j \<noteq> INVALID_INDEX"
    and "getUavTypeByName srv n s2 = (k, s3)"
  shows "i \<noteq> j \<and> {(i, VText n), (j, VText n)} \<subseteq> entries_of view ''uavtypes'' s2
    \<and> (k = INVALID_INDEX \<or> (\<exists>v. (k, v) \<in> entries_of view ''uavtypes'' s2 \<and> same v (VText n)))"
proof -
  note d = sql_server.dictionaries(2) [OF assms(1) lower_names(8) dictionary_tables(2)]
  note v1 = dictionary.add_valid [OF d assms(2,3)]
  note v2 = dictionary.add_valid [OF d v1 assms(4)]
  note e1 = dictionary.add_entry [OF d assms(2,3)]
  note e2 = dictionary.add_entry [OF d v1 assms(4)]
  have "j \<notin> fst ` entries_of view ''uavtypes'' s1"
    using dictionary.add_fresh [OF d v1 assms(4,6)] by blast
  moreover have "(i, VText n) \<in> entries_of view ''uavtypes'' s1" using e1 assms(5) by simp
  ultimately have "i \<noteq> j" by force
  with e1 e2 assms(5,6) dictionary.get_found [OF d v2 assms(7)] show ?thesis by auto
qed

theorem dictionaries_accept_duplicates_witness:
  "fst (addUavType local_server ''glider'' fleet) = 2
   \<and> {(2, VText ''glider''), (3, VText ''glider'')} \<subseteq>
       entries_of mem_view ''uavtypes'' (snd (addUavType local_server ''glider'' (snd (addUavType local_server ''glider'' fleet))))"
proof -
  let ?a = "addUavType local_server ''glider'' fleet"
  let ?b = "addUavType local_server ''glider'' (snd ?a)"
  have i: "fst ?a = 2" "fst ?b = 3" by code_simp+
  have a: "addUavType local_server ''glider'' fleet = (2, snd ?a)" using i(1) by (simp add: prod_eq_iff)
  have b: "addUavType local_server ''glider'' (snd ?a) = (3, snd ?b)" using i(2) by (simp add: prod_eq_iff)
  obtain k s3 where g: "getUavTypeByName local_server ''glider'' (snd ?b) = (k, s3)" by force
  from dictionaries_accept_duplicates [OF mem.sql_server_axioms fleet_valid(2) a b _ _ g] i(1) show ?thesis
    by (simp add: INVALID_INDEX_def)
qed

section \<open>Reconnection\<close>




end
