(* ===== verification/UavManagerDb.thy ===== *)
theory UavManagerDb
  imports UavSolverProps UavStorageProps UavDictionaries
begin

text \<open>
  \<open>DbUavManager\<close> on top of \<open>DbUavController\<close>: the manager's interface record filled with the
  controller's operations, and what follows for a sample on its way from RPC to the tables.
\<close>

definition controller_db :: "'s server \<Rightarrow> 's uav_db" where
  "controller_db srv = \<lparr>db_addUav = addUav srv, db_getUavByUavId = getUavByUavId srv, db_getUav = getUav srv,
     db_getUavsByRole = getUavsByRole srv, db_addUavInfo = addUavInfo srv,
     db_getUavInfoByUavId = getUavInfoByUavId srv, db_addDevice = addDevice srv,
     db_getDevicesByType = getDevicesByType srv, db_addSource = addSource srv, db_getSourceId = getSourceId srv,
     db_getSourceByType = getSourceByType srv, db_getSource = getSource srv,
     db_addUavMission = addUavMission srv, db_getUavMissionsByUavId = getUavMissionsByUavId srv,
     db_deleteUavMissionsByUavId = deleteUavMissionsByUavId srv,
     db_deleteUavMissionsByTargetId = deleteUavMissionsByTargetId srv, db_addTarget = addTarget srv,
     db_getTargetsByType = getTargetsByType srv, db_getTargetsByUavId = getTargetsByUavId srv,
     db_getTargetsByMission = getTargetsByMission srv, db_deleteTargetsByUavId = deleteTargetsByUavId srv,
     db_deleteTargetsById = deleteTargetsById srv, db_addTargetType = addTargetType srv,
     db_getTargetTypeByName = getTargetTypeByName srv, db_addUavType = addUavType srv,
     db_getUavTypeByName = getUavTypeByName srv, db_addDeviceType = addDeviceType srv,
     db_getDeviceTypeByName = getDeviceTypeByName srv, db_addSourceType = addSourceType srv,
     db_getSourceTypeByName = getSourceTypeByName srv, db_addStatus = addStatus srv,
     db_getStatusByName = getStatusByName srv, db_addUavRole = addUavRole srv, db_getUavRole = getUavRole srv,
     db_getUavRoleByName = getUavRoleByName srv, db_getUavRoleByCode = getUavRoleByCode srv,
     db_beginTransaction = beginTransaction srv, db_commit = commit srv\<rparr>"

section \<open>What an operation leaves of a table\<close>

definition keeps_rows :: "('s \<Rightarrow> db_view) \<Rightarrow> ('s \<Rightarrow> bool) \<Rightarrow> string set \<Rightarrow> ('s \<Rightarrow> 's) \<Rightarrow> bool" where
  "keeps_rows view valid ts op \<longleftrightarrow> (\<forall>s. valid s \<longrightarrow> valid (op s) \<and>
     (\<forall>t \<in> ts. vw_rows (view (op s)) t = vw_rows (view s) t))"

lemma keeps_rowsD:
  "keeps_rows view valid ts op \<Longrightarrow> valid s \<Longrightarrow> valid (op s)"
  "keeps_rows view valid ts op \<Longrightarrow> valid s \<Longrightarrow> t \<in> ts \<Longrightarrow> vw_rows (view (op s)) t = vw_rows (view s) t"
  by (auto simp: keeps_rows_def)

lemma inserts_keep: "inserts_one view valid u f \<Longrightarrow> u \<notin> ts \<Longrightarrow> keeps_rows view valid ts (\<lambda>s. snd (f s))"
  unfolding keeps_rows_def
proof (intro allI impI)
  fix s
  assume f: "inserts_one view valid u f" "u \<notin> ts" "valid s"
  obtain i s' where e: "f s = (i, s')" by force
  with f have "valid s' \<and> (if i = INVALID_INDEX then vw_rows (view s') = vw_rows (view s)
      else row_inserted i u (vw_rows (view s)) (vw_rows (view s')))" by (simp add: inserts_one_def)
  then show "valid (snd (f s)) \<and> (\<forall>t \<in> ts. vw_rows (view (snd (f s))) t = vw_rows (view s) t)"
    using f(2) e by (auto simp: row_inserted_def split: if_splits)
qed

lemma reads_keep: "reads_only view valid op \<Longrightarrow> keeps_rows view valid ts op"
  by (simp add: reads_only_def keeps_rows_def)

lemma keeps_find_or_add:
  assumes "keeps_rows view valid ts (\<lambda>s. snd (get n s))" "keeps_rows view valid ts (\<lambda>s. snd (add n s))"
  shows "keeps_rows view valid ts (\<lambda>s. snd (find_or_add get add n s))"
  using assms by (auto simp: keeps_rows_def find_or_add_def split: prod.splits)

context sql_server
begin

abbreviation "kept \<equiv> keeps_rows view valid {''sources'', ''info''}"

lemma lookups_keep:
  "kept (\<lambda>s. snd (getUavTypeByName srv n s))" "kept (\<lambda>s. snd (getDeviceTypeByName srv n s))"
  "kept (\<lambda>s. snd (getSourceTypeByName srv n s))" "kept (\<lambda>s. snd (getStatusByName srv n s))"
  "kept (\<lambda>s. snd (getUavByUavId srv i s))" "kept (\<lambda>s. snd (getUavRoleByCode srv n s))"
  "kept (\<lambda>s. snd (snd (getDevicesByType srv i ds s)))" "kept (\<lambda>s. snd (getSourceId srv i j s))"
  unfolding getUavTypeByName_def getDeviceTypeByName_def getSourceTypeByName_def getStatusByName_def
  by (rule reads_keep [OF queries_read_only(17)] reads_keep [OF queries_read_only(2)]
      reads_keep [OF queries_read_only(16)] reads_keep [OF queries_read_only(6)]
      reads_keep [OF queries_read_only(7)])+

lemma inserts_keep_samples:
  "kept (\<lambda>s. snd (addUavType srv n s))" "kept (\<lambda>s. snd (addDeviceType srv n s))"
  "kept (\<lambda>s. snd (addSourceType srv n s))" "kept (\<lambda>s. snd (addStatus srv n s))"
  "kept (\<lambda>s. snd (addUavRole srv r s))" "kept (\<lambda>s. snd (addDevice srv d s))" "kept (\<lambda>s. snd (addUav srv u s))"
  unfolding addUavType_def addDeviceType_def addSourceType_def addStatus_def addUavRole_def addDevice_def
    addDictionaryRecord_def
  by (rule inserts_keep [OF inserts_one_record] inserts_keep [OF addUav_inserts], simp_all)+

lemma dictionaries_keep:
  "kept (\<lambda>s. snd (find_or_add (getUavTypeByName srv) (addUavType srv) n s))"
  "kept (\<lambda>s. snd (find_or_add (getDeviceTypeByName srv) (addDeviceType srv) n s))"
  "kept (\<lambda>s. snd (find_or_add (getSourceTypeByName srv) (addSourceType srv) n s))"
  "kept (\<lambda>s. snd (find_or_add (getStatusByName srv) (addStatus srv) n s))"
  by (rule keeps_find_or_add, rule lookups_keep, rule inserts_keep_samples)+

lemma find_or_add_uav_keeps:
  assumes "valid s" "find_or_add_uav (controller_db srv) en pd role ty s = (i, s')"
  shows "valid s' \<and> (\<forall>t \<in> {''sources'', ''info''}. vw_rows (view s') t = vw_rows (view s) t)"
proof -
  have roles: "kept (\<lambda>s. snd (find_or_add_role (controller_db srv) role s))"
    using lookups_keep(6) [of role] inserts_keep_samples(5)
    by (auto simp: keeps_rows_def find_or_add_role_def controller_db_def split: prod.splits)
  obtain u s1 where 1: "getUavByUavId srv (ucast (pd_boardID pd)) s = (u, s1)" by force
  have k1: "valid s1" "\<forall>t \<in> {''sources'', ''info''}. vw_rows (view s1) t = vw_rows (view s) t"
    using keeps_rowsD [OF lookups_keep(5) [of "ucast (pd_boardID pd)"] assms(1)] 1 by auto
  show ?thesis
  proof (cases "uav_id u < 0")
    case False
    with assms(2) 1 k1 show ?thesis by (auto simp: find_or_add_uav_def controller_db_def)
  next
    case True
    obtain t s2 where 2: "find_or_add (getUavTypeByName srv) (addUavType srv) ty s1 = (t, s2)" by force
    have k2: "valid s2" "\<forall>t \<in> {''sources'', ''info''}. vw_rows (view s2) t = vw_rows (view s1) t"
      using keeps_rowsD [OF dictionaries_keep(1) [of ty] k1(1)] 2 by auto
    obtain r s3 where 3: "find_or_add_role (controller_db srv) role s2 = (r, s3)" by force
    have k3: "valid s3" "\<forall>t \<in> {''sources'', ''info''}. vw_rows (view s3) t = vw_rows (view s2) t"
      using keeps_rowsD [OF roles k2(1)] 3 by auto
    obtain u' where "addUav srv u' s3 = (i, s')"
      using assms(2) True 1 2 3 by (auto simp: find_or_add_uav_def controller_db_def Let_def)
    then have "valid s'" "\<forall>t \<in> {''sources'', ''info''}. vw_rows (view s') t = vw_rows (view s3) t"
      using keeps_rowsD [OF inserts_keep_samples(7) [of u'] k3(1)] by auto
    with k1 k2 k3 show ?thesis by simp
  qed
qed

lemma find_or_add_device_keeps:
  assumes "valid s" "find_or_add_device (controller_db srv) en pd ty s = (i, s')"
  shows "valid s' \<and> (\<forall>t \<in> {''sources'', ''info''}. vw_rows (view s') t = vw_rows (view s) t)"
proof -
  obtain t s1 where 1: "find_or_add (getDeviceTypeByName srv) (addDeviceType srv) ty s = (t, s1)" by force
  have k1: "valid s1" "\<forall>t \<in> {''sources'', ''info''}. vw_rows (view s1) t = vw_rows (view s) t"
    using keeps_rowsD [OF dictionaries_keep(2) [of ty] assms(1)] 1 by auto
  obtain ok ds s2 where 2: "getDevicesByType srv (to_uint t) [] s1 = (ok, ds, s2)" by (metis prod_cases3)
  have k2: "valid s2" "\<forall>t \<in> {''sources'', ''info''}. vw_rows (view s2) t = vw_rows (view s1) t"
    using keeps_rowsD [OF lookups_keep(7) [of "to_uint t" "[]"] k1(1)] 2 by auto
  show ?thesis
  proof (cases ds)
    case (Cons d rest)
    with assms(2) 1 2 k1 k2 show ?thesis by (auto simp: find_or_add_device_def controller_db_def)
  next
    case Nil
    then obtain d where "addDevice srv d s2 = (i, s')"
      using assms(2) 1 2 by (auto simp: find_or_add_device_def controller_db_def)
    then have "valid s'" "\<forall>t \<in> {''sources'', ''info''}. vw_rows (view s') t = vw_rows (view s2) t"
      using keeps_rowsD [OF inserts_keep_samples(6) [of d] k2(1)] by auto
    with k1 k2 show ?thesis by simp
  qed
qed

lemma no_source_found:
  assumes v: "valid s" and e: "getSourceId srv j t s = (i, s')"
    and no: "\<forall>r \<in> set (vw_rows (view s) ''sources''). \<not> same (cell r ''sourceid'') (VUInt j)"
  shows "i = INVALID_INDEX"
proof (rule ccontr)
  assume "i \<noteq> INVALID_INDEX"
  with e obtain row where r: "first_row srv (SelectFrom ''sources'' [''id'']
      [(''sourceTypeId'', '':sourceTypeId''), (''sourceId'', '':sourceId'')])
      [('':sourceId'', VUInt j), ('':sourceTypeId'', VUInt t)] s = (Some row, s')"
    by (auto simp: getSourceId_def split: if_splits prod.splits option.splits)
  from first_row_spec [OF v r] obtain z where
    z: "z \<in> set (matching same ''sources'' [(''sourceTypeId'', '':sourceTypeId''), (''sourceId'', '':sourceId'')]
      [('':sourceId'', VUInt j), ('':sourceTypeId'', VUInt t)] (view s))" by blast
  then have "z \<in> set (vw_rows (view s) ''sources'')" "same (cell z ''sourceid'') (VUInt j)"
    by (auto simp: matching_def selected_def bound_def cell_def)
  with no show False by blast
qed

lemma find_source_lost:
  assumes v: "valid s" and e: "find_source (controller_db srv) en pd ty s = (i, s')"
    and no: "\<forall>r \<in> set (vw_rows (view s) ''sources''). \<not> same (cell r ''sourceid'') (VUInt (pd_sourceType pd))"
  shows "valid s' \<and> i = INVALID_INDEX \<and> vw_rows (view s') ''info'' = vw_rows (view s) ''info''"
proof -
  obtain t s1 where 1: "find_or_add (getSourceTypeByName srv) (addSourceType srv) ty s = (t, s1)" by force
  have k1: "valid s1" "\<forall>t \<in> {''sources'', ''info''}. vw_rows (view s1) t = vw_rows (view s) t"
    using keeps_rowsD [OF dictionaries_keep(3) [of ty] v] 1 by auto
  obtain j s2 where 2: "getSourceId srv (pd_sourceType pd) (to_uint t) s1 = (j, s2)" by force
  have k2: "valid s2" "\<forall>t \<in> {''sources'', ''info''}. vw_rows (view s2) t = vw_rows (view s1) t"
    using keeps_rowsD [OF lookups_keep(8) [of "pd_sourceType pd" "to_uint t"] k1(1)] 2 by auto
  have j: "j = INVALID_INDEX" using no_source_found [OF k1(1) 2] no k1(2) by simp
  then obtain x where x: "s' = snd (addSource srv x s2)" "i = j"
    using e 1 2 by (auto simp: find_source_def controller_db_def INVALID_INDEX_def)
  have "keeps_rows view valid {''info''} (\<lambda>s. snd (addSource srv x s))"
    unfolding addSource_def by (rule inserts_keep [OF inserts_one_record]) simp_all
  from keeps_rowsD [OF this k2(1)] x j k1 k2 show ?thesis by simp
qed

lemma dangling_source_is_refused:
  assumes v: "valid s" and e: "addUavInfo srv info s = (k, s')" and big: "info_source info = to_uint (- 1)"
  shows "valid s' \<and> k = INVALID_INDEX \<and> vw_rows (view s') = vw_rows (view s)"
proof -
  have False if h: "holds_sample info z" "refers (vw_rows (view s)) ''info'' z" for z
  proof -
    have n: "number_of (cell z ''source'') = Some 4294967295"
      using h(1) by (simp add: holds_sample_def big to_uint_minus_one)
    have "case number_of (cell z ''source'') of None \<Rightarrow> True
        | Some n \<Rightarrow> \<exists>q \<in> set (vw_rows (view s) ''sources''). cell q ''id'' = VInt n"
      using h(2) by (simp add: refers_def foreign_keys_def)
    with n obtain q where q: "q \<in> set (vw_rows (view s) (lower ''sources''))" "cell q ''id'' = VInt 4294967295" by auto
    obtain i where "cell q ''id'' = VInt i" "i < 2 ^ 31" using row_id_range [OF v q(1)] by blast
    with q show False by simp
  qed
  with addUavInfo_spec [OF v e] show ?thesis by auto
qed

end

section \<open>The first sample of a source\<close>

lemma run_db_state: "run_db f m = (x, m') \<Longrightarrow> f (um_db m) = (x, um_db m')"
  by (auto simp: run_db_def split: prod.splits)

text \<open>
  C9: the first sample of a source is lost. When no row of the table of sources has the source of a
  position, \<open>addUavInfoToDb\<close> adds the source but goes on with the id of the failed lookup, which the
  foreign key of the samples refuses: no sample is stored and no listener sees a change.
\<close>

theorem first_sample_of_a_source_is_lost:
  assumes "sql_server srv view valid same" and "valid (um_db m)"
    and "\<forall>r \<in> set (vw_rows (view (um_db m)) ''sources''). \<not> same (cell r ''sourceid'') (VUInt (pd_sourceType pd))"
    and "addUavInfoToDb (controller_db srv) en pd role ty st dv so actual t d m = (es, m')"
  shows "changes es = [] \<and> vw_rows (view (um_db m')) ''info'' = vw_rows (view (um_db m)) ''info''"
proof -
  let ?db = "controller_db srv" and ?c = "um_db m"
  obtain u c1 where 1: "find_or_add_uav ?db en pd role ty ?c = (u, c1)" by force
  note k1 = sql_server.find_or_add_uav_keeps [OF assms(1,2) 1]
  then have v1: "valid c1" by blast
  obtain s c2 where 2: "find_or_add (getStatusByName srv) (addStatus srv) st c1 = (s, c2)" by force
  note k2 = keeps_rowsD [OF sql_server.dictionaries_keep(4) [OF assms(1), of st] v1, unfolded 2 snd_conv]
  obtain dev c3 where 3: "find_or_add_device ?db en pd dv c2 = (dev, c3)" by force
  note k3 = sql_server.find_or_add_device_keeps [OF assms(1) k2(1) 3]
  then have v3: "valid c3" by blast
  obtain src c4 where 4: "find_source ?db en pd so c3 = (src, c4)" by force
  have no3: "\<forall>r \<in> set (vw_rows (view c3) ''sources''). \<not> same (cell r ''sourceid'') (VUInt (pd_sourceType pd))"
    using assms(3) k1 k2(2) k3 by simp
  note k4 = sql_server.find_source_lost [OF assms(1) v3 4 no3]
  then have v4: "valid c4" and src: "src = INVALID_INDEX" by simp_all
  let ?info = "sample_of en pd u dev src s"
  let ?m = "m\<lparr>um_db := c4\<rparr>"
  have "sample_references ?db en pd role ty st dv so ?c = (?info, c4)"
    using 1 2 3 4 by (simp add: sample_references_def controller_db_def)
  then have r: "run_db (sample_references ?db en pd role ty st dv so) m = (?info, ?m)" by (simp add: run_db_def)
  obtain k es1 m2 where a: "um_addUavInfo ?db ?info actual t d ?m = (k, es1, m2)" by (metis prod_cases3)
  from assms(4) r a have e: "es = es1" "m' = m2" by (auto simp: addUavInfoToDb_def)
  have big: "info_source ?info = to_uint (- 1)" by (simp add: sample_of_def src INVALID_INDEX_def)
  have frame: "vw_rows (view c4) ''info'' = vw_rows (view ?c) ''info''" using k1 k2(2) k3 k4 by simp
  obtain uav m5 where 5: "um_getUav ?db (info_uavId ?info) ?m = (uav, m5)" by force
  have k5: "valid (um_db m5) \<and> vw_rows (view (um_db m5)) = vw_rows (view c4)"
    using sql_server.getUav_frame(1) [OF assms(1) v4] run_db_state [OF 5 [unfolded um_getUav_def]]
    by (fastforce simp: controller_db_def)
  show ?thesis
  proof (cases "uav_id uav < 0 \<or> \<not> actual")
    case True
    with a 5 e frame k5 show ?thesis by (auto simp: um_addUavInfo_def Let_def split: if_splits)
  next
    case False
    define named where "named = (if uav_name uav = [] then uav\<lparr>uav_name := qnumber (uav_uavId uav)\<rparr> else uav)"
    obtain rec m6 where 6: "run_db (db_addUavInfo ?db ?info) m5 = (rec, m6)" by force
    have "addUavInfo srv ?info (um_db m5) = (rec, um_db m6)"
      using run_db_state [OF 6] by (simp add: controller_db_def)
    from sql_server.dangling_source_is_refused [OF assms(1) _ this big] k5
    have k6: "valid (um_db m6)" "rec = INVALID_INDEX" "vw_rows (view (um_db m6)) = vw_rows (view (um_db m5))" by auto
    obtain rl m7 where 7: "um_getUavRole ?db (uav_roleId named) m6 = (rl, m7)" by force
    have k7: "valid (um_db m7) \<and> vw_rows (view (um_db m7)) = vw_rows (view (um_db m6))"
      using sql_server.role_frame(1) [OF assms(1) k6(1)] run_db_state [OF 7 [unfolded um_getUavRole_def]]
      by (fastforce simp: controller_db_def)
    obtain es8 m8 where 8: "track_uav named (role_code rl) m7 = (es8, m8)" by force
    have db8: "um_db m8 = um_db m7" using 8 by (auto simp: track_uav_def Let_def split: if_splits)
    obtain sr m9 where 9: "um_getSource ?db (info_source ?info) m8 = (sr, m9)" by force
    have k9: "vw_rows (view (um_db m9)) = vw_rows (view (um_db m7))"
      using sql_server.getSource_frame [OF assms(1)] k7 db8 run_db_state [OF 9 [unfolded um_getSource_def]]
      by (fastforce simp: controller_db_def)
    have "um_addUavInfo ?db ?info actual t d ?m = (rec, es8, m9)"
      using False 5 6 7 8 9 k6(2) by (simp add: um_addUavInfo_def Let_def flip: named_def)
    with a e track_changes [OF 8] k9 k7 k6 k5 frame show ?thesis by simp
  qed
qed

definition fleet_manager :: "(mem_db, nat) manager" where
  "fleet_manager = um_init fleet 5000\<lparr>um_listeners := [1]\<rparr>"

theorem first_sample_of_a_source_is_lost_witness:
  "changes (fst (addUavInfoToDb (controller_db local_server) some_environment some_position OUR_UAV_ROLE
     ''glider'' ''ok'' ''radar'' ''solver'' True [] [] fleet_manager)) = []"
proof -
  have c: "um_db fleet_manager = fleet"
    by (simp add: fleet_manager_def um_init_def setLifeTime_def Let_def)
  have no: "rows_of (mem_rows fleet) ''sources'' = []" by code_simp
  obtain es m' where e: "addUavInfoToDb (controller_db local_server) some_environment some_position OUR_UAV_ROLE
     ''glider'' ''ok'' ''radar'' ''solver'' True [] [] fleet_manager = (es, m')" by force
  have "changes es = [] \<and> vw_rows (mem_view (um_db m')) ''info'' = vw_rows (mem_view (um_db fleet_manager)) ''info''"
    by (rule first_sample_of_a_source_is_lost [OF mem.sql_server_axioms _ _ e])
      (use fleet_valid(2) c no in simp_all)
  then show ?thesis by (simp add: e)
qed

end
