(* ===== verification/UavHistory.thy ===== *)
theory UavHistory
  imports UavTables Subjects
begin

text \<open>
  \<open>UavHistory\<close> (\<open>view/core/Tabs/DbBla/UavHistory.cpp\<close>): the player of stored samples. It runs one
  query, shows the samples second by second on a timer, and reports its status. The query is a
  parameter: the rows it gives for a start and an end, or an error. The calls of the listeners and
  the signals are the events an operation returns. Signals are delivered in the thread of the player.
\<close>

section \<open>Rows, events and state\<close>

text \<open>A date and time is its number of milliseconds; \<open>None\<close> is the invalid one.\<close>

type_synonym htime = "int option"

record hrow =
  hr_id :: int
  hr_uavId :: int
  hr_latitude :: double
  hr_longitude :: double
  hr_altitude :: double
  hr_latitudeStdDev :: double
  hr_longitudeStdDev :: double
  hr_speed :: double
  hr_yaw :: double
  hr_restTime :: qtime
  hr_status :: int
  hr_datetime :: htime
  hr_source :: int
  hr_code :: string

text \<open>The record of a query that is on no row: every value is invalid.\<close>

definition no_row :: hrow where
  "no_row = \<lparr>hr_id = 0, hr_uavId = 0, hr_latitude = Fin 0, hr_longitude = Fin 0, hr_altitude = Fin 0,
     hr_latitudeStdDev = Fin 0, hr_longitudeStdDev = Fin 0, hr_speed = Fin 0, hr_yaw = Fin 0,
     hr_restTime = - 1, hr_status = 0, hr_datetime = None, hr_source = 0, hr_code = []\<rparr>"

text \<open>A sample that is shown: the fields of \<open>UavInfo\<close> the player fills.\<close>

record hinfo =
  hi_id :: int
  hi_uavId :: u32
  hi_lat :: double
  hi_lon :: double
  hi_alt :: double
  hi_latStddev :: double
  hi_lonStddev :: double
  hi_speed :: double
  hi_yaw :: double
  hi_restTime :: qtime
  hi_statusId :: u32
  hi_dateTime :: htime
  hi_source :: u32
  hi_historical :: bool

datatype status = NotReady | Ready | Playing | Loading | Paused

text \<open>A UAV the player shows is its board id; its name is derived from it.\<close>

record huav =
  hu_uavId :: u32
  hu_name :: string
  hu_historical :: bool

text \<open>A value bound to a column of the exported sheet; the two last are the texts of a time.\<close>

datatype sheet_value = SInt int | SUInt u32 | SDouble double | STimeText qtime | SDateText htime

datatype 'l history_event =
    HAdded 'l huav string
  | HChanged 'l hinfo string
  | HRemoved 'l huav string
  | HStatus 'l status
  | StartFinished
  | StopFinished
  | CreateSheet
  | InsertSheet "(string \<times> sheet_value) list"

record 'l history =
  h_valid :: bool
  h_open :: bool
  h_rows :: "hrow list"
  h_timer :: bool
  h_paused :: bool
  h_startResult :: bool
  h_lifeTime :: int
  h_lastDate :: "(u32, htime) qmap"
  h_roles :: "(u32, string) qmap"
  h_known :: "(u32, huav) qmap"
  h_listeners :: "'l subject"

section \<open>Status\<close>

definition getStatus :: "'l history \<Rightarrow> status" where
  "getStatus h =
     (if \<not> h_open h then NotReady
      else if h_timer h then Playing
      else if h_paused h then Paused
      else Ready)"

definition sendStatusOf :: "status \<Rightarrow> 'l history \<Rightarrow> 'l history_event list" where
  "sendStatusOf st h = notify (\<lambda>l. HStatus l st) (h_listeners h)"

definition sendStatus :: "'l history \<Rightarrow> 'l history_event list" where
  "sendStatus h = sendStatusOf (getStatus h) h"

section \<open>Stop, pause and resume\<close>

definition removed_uav :: "u32 \<Rightarrow> huav" where
  "removed_uav i = \<lparr>hu_uavId = i, hu_name = [], hu_historical = True\<rparr>"

definition send_removed :: "'l history \<Rightarrow> u32 list \<Rightarrow> 'l history_event list" where
  "send_removed h ids = concat (map (\<lambda>i. notify (\<lambda>l. HRemoved l (removed_uav i) (qvalue (h_roles h) [] i))
     (h_listeners h)) ids)"

definition stopInternal :: "'l history \<Rightarrow> 'l history_event list \<times> 'l history" where
  "stopInternal h =
     (let es = send_removed h (qkeys (h_known h));
          h = h\<lparr>h_timer := False, h_rows := [], h_known := [], h_roles := [], h_lastDate := [], h_paused := False\<rparr>
      in (es @ sendStatus h @ [StopFinished], h))"

definition stop :: "'l history \<Rightarrow> 'l history_event list \<times> 'l history" where
  "stop h = (if getStatus h = Ready then ([], h) else stopInternal h)"

definition pauseInternal :: "'l history \<Rightarrow> 'l history_event list \<times> 'l history" where
  "pauseInternal h =
     (if h_paused h then ([], h)
      else let h = h\<lparr>h_timer := False, h_paused := True\<rparr> in (sendStatus h, h))"

definition pause :: "'l history \<Rightarrow> 'l history_event list \<times> 'l history" where
  "pause h = pauseInternal h"

definition resumeInternal :: "'l history \<Rightarrow> 'l history_event list \<times> 'l history" where
  "resumeInternal h =
     (if \<not> h_paused h then ([], h)
      else let h = h\<lparr>h_timer := True, h_paused := False\<rparr> in (sendStatus h, h))"

definition resume :: "'l history \<Rightarrow> 'l history_event list \<times> 'l history" where
  "resume h = resumeInternal h"

section \<open>Showing one second\<close>

definition UAV_AUTOPILOT_SOURCE :: u32 where "UAV_AUTOPILOT_SOURCE = 1"
definition UAV_SLICES_SOURCE :: u32 where "UAV_SLICES_SOURCE = 622"

definition getExtendedId :: "u32 \<Rightarrow> u32 \<Rightarrow> bool \<Rightarrow> string" where
  "getExtendedId uavId source historical =
     (let source = (if source = UAV_SLICES_SOURCE then UAV_AUTOPILOT_SOURCE else source)
      in qnumber uavId @ ''_'' @ qnumber source @ ''_'' @ (if historical then ''1'' else ''0''))"

definition info_of :: "hrow \<Rightarrow> hinfo" where
  "info_of r = \<lparr>hi_id = hr_id r, hi_uavId = to_uint (hr_uavId r), hi_lat = hr_latitude r,
     hi_lon = hr_longitude r, hi_alt = hr_altitude r, hi_latStddev = hr_latitudeStdDev r,
     hi_lonStddev = hr_longitudeStdDev r, hi_speed = hr_speed r, hi_yaw = hr_yaw r,
     hi_restTime = hr_restTime r, hi_statusId = to_uint (hr_status r), hi_dateTime = hr_datetime r,
     hi_source = to_uint (hr_source r), hi_historical = True\<rparr>"

text \<open>The time with its milliseconds zeroed.\<close>

definition second_of :: "htime \<Rightarrow> htime" where
  "second_of t = map_option (\<lambda>x. x - x mod 1000) t"

definition msecsTo :: "htime \<Rightarrow> htime \<Rightarrow> int" where
  "msecsTo a b = (case (a, b) of (Some x, Some y) \<Rightarrow> y - x | _ \<Rightarrow> 0)"

definition current_row :: "'l history \<Rightarrow> hrow" where
  "current_row h = (case h_rows h of [] \<Rightarrow> no_row | r # _ \<Rightarrow> r)"

text \<open>\<open>m_query.next()\<close> from the current row.\<close>

definition next_row :: "'l history \<Rightarrow> bool \<times> 'l history" where
  "next_row h = (tl (h_rows h) \<noteq> [], h\<lparr>h_rows := tl (h_rows h)\<rparr>)"

lemma next_row_shrinks: "next_row h = (True, h') \<Longrightarrow> length (h_rows h') < length (h_rows h)"
  by (cases "h_rows h") (auto simp: next_row_def)

definition remember :: "hrow \<Rightarrow> 'l history \<Rightarrow> 'l history" where
  "remember r h = h\<lparr>h_roles := qinsert (to_uint (hr_uavId r)) (hr_code r) (h_roles h),
     h_lastDate := qinsert (to_uint (hr_uavId r)) (hr_datetime r) (h_lastDate h)\<rparr>"

text \<open>
  The loop that collects the rows of the second \<open>time\<close>. It reads the current row first; when there is
  no further row it stops the player before it leaves the loop.
\<close>

function collect ::
  "htime \<Rightarrow> (string, hinfo) qmap \<Rightarrow> 'l history \<Rightarrow> (string, hinfo) qmap \<times> 'l history_event list \<times> 'l history" where
  "collect time infos h =
     (let r = current_row h; i = info_of r;
          infos = qinsert (getExtendedId (hi_uavId i) (hi_source i) (hi_historical i)) i infos;
          (more, h) = next_row (remember r h)
      in if \<not> more then (let (es, h) = stop h in (infos, es, h))
         else if second_of (hr_datetime (current_row h)) = time then collect time infos h
         else (infos, [], h))"
  by pat_completeness auto
termination
  by (relation "measure (\<lambda>(time, infos, h). length (h_rows h))")
    (auto simp: remember_def dest!: next_row_shrinks dest: sym)

declare collect.simps [simp del]

definition shown_uav :: "u32 \<Rightarrow> huav" where
  "shown_uav i = \<lparr>hu_uavId = i, hu_name = qnumber i @ ''-H'', hu_historical = True\<rparr>"

fun show_infos :: "hinfo list \<Rightarrow> 'l history \<Rightarrow> 'l history_event list \<times> 'l history" where
  "show_infos [] h = ([], h)"
| "show_infos (i # is) h =
     (let role = qvalue (h_roles h) [] (hi_uavId i);
          u = shown_uav (hi_uavId i);
          (es, h) = (if qcontains (h_known h) (hi_uavId i) then ([], h)
                     else (notify (\<lambda>l. HAdded l u role) (h_listeners h),
                           h\<lparr>h_known := qinsert (hi_uavId i) u (h_known h)\<rparr>));
          (es', h') = show_infos is h
      in (es @ notify (\<lambda>l. HChanged l i role) (h_listeners h) @ es', h'))"

fun remove_outdated :: "htime \<Rightarrow> u32 list \<Rightarrow> 'l history \<Rightarrow> 'l history_event list \<times> 'l history" where
  "remove_outdated time [] h = ([], h)"
| "remove_outdated time (k # ks) h =
     (if msecsTo (qvalue (h_lastDate h) None k) time < h_lifeTime h then remove_outdated time ks h
      else
        let es = send_removed h [k];
            (es', h) = remove_outdated time ks
              (h\<lparr>h_known := qremove k (h_known h), h_roles := qremove k (h_roles h),
                 h_lastDate := qremove k (h_lastDate h)\<rparr>)
        in (es @ es', h))"

definition updateHistoryState :: "'l history \<Rightarrow> 'l history_event list \<times> 'l history" where
  "updateHistoryState h =
     (let time = second_of (hr_datetime (current_row h));
          (infos, es1, h) = collect time [] h;
          (es2, h) = show_infos (qvalues infos) h;
          (es3, h) = remove_outdated time (qkeys (h_lastDate h)) h
      in (es1 @ es2 @ es3, h))"

section \<open>Export and start\<close>

function export_rows ::
  "nat \<Rightarrow> (string, hinfo) qmap \<Rightarrow> 'l history \<Rightarrow> (string, hinfo) qmap \<times> 'l history" where
  "export_rows cnt infos h =
     (let r = current_row h;
          infos = qinsert (decimal cnt) (info_of r) infos;
          (more, h) = next_row (remember r h)
      in if more then export_rows (cnt + 1) infos h else (infos, h))"
  by pat_completeness auto
termination
  by (relation "measure (\<lambda>(cnt, infos, h). length (h_rows h))")
    (auto simp: remember_def dest!: next_row_shrinks dest: sym)

declare export_rows.simps [simp del]

definition sheet_row :: "hinfo \<Rightarrow> (string \<times> sheet_value) list" where
  "sheet_row i =
     [('':id'', SInt (hi_id i)),
      ('':uavIdReal'', SUInt (hi_uavId i)),
      ('':latitude'', SDouble (hi_lat i)),
      ('':longtitude'', SDouble (hi_lon i)),
      ('':altitude'', SDouble (hi_alt i)),
      ('':latitudeStdDev'', SDouble (hi_latStddev i)),
      ('':longitudeStdDev'', SDouble (hi_lonStddev i)),
      ('':speed'', SDouble (hi_speed i)),
      ('':yaw'', SDouble (hi_yaw i)),
      ('':restTime'', STimeText (hi_restTime i)),
      ('':statusTypeId'', SUInt (hi_statusId i)),
      ('':dateNtime'', SDateText (hi_dateTime i)),
      ('':sourceReal'', SUInt (hi_source i))]"

text \<open>
  The statements sent to the sheet: its creation and one insertion for each sample. Their errors are
  only logged, and the result is always true.
\<close>

definition onSentToXl :: "(string, hinfo) qmap \<Rightarrow> bool \<times> 'l history_event list" where
  "onSentToXl infos = (True, CreateSheet # map (\<lambda>i. InsertSheet (sheet_row i)) (qvalues infos))"

definition xlsExport :: "'l history \<Rightarrow> bool \<times> 'l history_event list \<times> 'l history" where
  "xlsExport h = (let (infos, h) = export_rows 0 [] h; (ok, es) = onSentToXl infos in (ok, es, h))"

type_synonym query = "int \<Rightarrow> int \<Rightarrow> hrow list option"

definition startInternal :: "query \<Rightarrow> int \<Rightarrow> int \<Rightarrow> int \<Rightarrow> 'l history \<Rightarrow> 'l history_event list \<times> 'l history" where
  "startInternal run from until mode h =
     (let (es, h) = stop h
      in case run from until of
           None \<Rightarrow> (es @ [StartFinished], h\<lparr>h_rows := [], h_startResult := False\<rparr>)
         | Some [] \<Rightarrow> (es @ [StartFinished], h\<lparr>h_rows := [], h_startResult := False\<rparr>)
         | Some rows \<Rightarrow>
             let h = h\<lparr>h_rows := rows\<rparr>
             in if mode = 0 then
                  let (es', h) = updateHistoryState h
                  in (es @ es' @ [StartFinished], h\<lparr>h_timer := True, h_startResult := True\<rparr>)
                else if mode = 1 then
                  let (ok, es', h) = xlsExport h in (es @ es' @ [StartFinished], h)
                else (es, h))"

definition start :: "query \<Rightarrow> int \<Rightarrow> int \<Rightarrow> int \<Rightarrow> 'l history \<Rightarrow> bool \<times> 'l history_event list \<times> 'l history" where
  "start run from until mode h =
     (if \<not> h_valid h then (False, [], h)
      else
        let es1 = sendStatusOf Loading h;
            (es2, h) = startInternal run from until mode h
        in (h_startResult h, es1 @ es2 @ sendStatus h, h))"

section \<open>The database and the life time\<close>

text \<open>\<open>valid\<close> and \<open>opens\<close> are the outcome of cloning and opening the connection.\<close>

definition setDatabase :: "bool \<Rightarrow> bool \<Rightarrow> 'l history \<Rightarrow> 'l history_event list \<times> 'l history" where
  "setDatabase valid opens h =
     (let (es, h) = stop h;
          h = h\<lparr>h_rows := [], h_valid := valid, h_open := opens\<rparr>
      in (es @ sendStatus h, h))"

definition setLifeTimeOf :: "int \<Rightarrow> 'l history \<Rightarrow> 'l history" where
  "setLifeTimeOf msecs h = h\<lparr>h_lifeTime := msecs\<rparr>"

definition history_init :: "bool \<Rightarrow> bool \<Rightarrow> bool \<Rightarrow> 'l history_event list \<times> 'l history" where
  "history_init initial valid opens = setDatabase valid opens
     \<lparr>h_valid = False, h_open = False, h_rows = [], h_timer = False, h_paused = False,
      h_startResult = initial, h_lifeTime = 30000, h_lastDate = [], h_roles = [], h_known = [],
      h_listeners = []\<rparr>"

text \<open>One tick of the timer, which runs only while the player is playing.\<close>

definition tick :: "'l history \<Rightarrow> 'l history_event list \<times> 'l history" where
  "tick h = (if h_timer h then updateHistoryState h else ([], h))"

end
