(* ===== verification/UavHistoryProps.thy ===== *)
theory UavHistoryProps
  imports UavHistory "HOL-Library.Multiset"
begin

text \<open>
  What the player of stored samples shows. Its listeners follow its map of known UAVs and its status
  through every sequence of calls and timer ticks; a tick takes exactly the rows of one second;
  playback ends. The last second stays on display after the end, and a recording of one second is
  followed by a UAV with board id 0.
\<close>

section \<open>The display of a listener\<close>

fun see :: "'l \<Rightarrow> 'l history_event \<Rightarrow> u32 set \<times> status \<Rightarrow> u32 set \<times> status" where
  "see l (HAdded k u r) (S, st) = (if k = l then insert (hu_uavId u) S else S, st)"
| "see l (HRemoved k u r) (S, st) = (if k = l then S - {hu_uavId u} else S, st)"
| "see l (HStatus k s) (S, st) = (S, if k = l then s else st)"
| "see l _ v = v"

definition shows_of :: "'l history \<Rightarrow> u32 set \<times> status" where
  "shows_of h = (dom (qlookup (h_known h)), getStatus h)"

definition tells :: "'l history \<Rightarrow> 'l history_event list \<Rightarrow> 'l history \<Rightarrow> bool" where
  "tells h es h' \<longleftrightarrow> h_listeners h' = h_listeners h
     \<and> (\<forall>l \<in> set (h_listeners h). fold (see l) es (shows_of h) = shows_of h')"

lemma tells_refl: "h_listeners h' = h_listeners h \<Longrightarrow> shows_of h' = shows_of h \<Longrightarrow> tells h [] h'"
  by (simp add: tells_def)

lemma tells_trans: "tells h es h1 \<Longrightarrow> tells h1 es' h2 \<Longrightarrow> tells h (es @ es') h2"
  by (simp add: tells_def)

lemma tells_then: "tells h es h1 \<Longrightarrow> h_listeners h2 = h_listeners h1 \<Longrightarrow> shows_of h2 = shows_of h1 \<Longrightarrow> tells h es h2"
  by (simp add: tells_def)

lemma see_notify:
  "fold (see l) (notify (\<lambda>k. HAdded k u r) ls) (S, st) = (if l \<in> set ls then insert (hu_uavId u) S else S, st)"
  "fold (see l) (notify (\<lambda>k. HRemoved k u r) ls) (S, st) = (if l \<in> set ls then S - {hu_uavId u} else S, st)"
  "fold (see l) (notify (\<lambda>k. HStatus k s) ls) (S, st) = (S, if l \<in> set ls then s else st)"
  "fold (see l) (notify (\<lambda>k. HChanged k i r) ls) v = v"
  unfolding notify_def by (induction ls arbitrary: S st v) auto

lemma see_removed:
  "l \<in> set (h_listeners h) \<Longrightarrow> fold (see l) (send_removed h ids) (S, st) = (S - set ids, st)"
  unfolding send_removed_def
  by (induction ids arbitrary: S) (auto simp: see_notify removed_uav_def)

lemma see_status:
  "l \<in> set (h_listeners h) \<Longrightarrow> fold (see l) (sendStatus h) (S, st) = (S, getStatus h)"
  by (simp add: sendStatus_def sendStatusOf_def see_notify)

lemma getStatus_cong:
  "h_open h' = h_open h \<Longrightarrow> h_timer h' = h_timer h \<Longrightarrow> h_paused h' = h_paused h \<Longrightarrow> getStatus h' = getStatus h"
  by (simp add: getStatus_def)

lemma getStatus_update [simp]:
  "getStatus (h\<lparr>h_rows := a\<rparr>) = getStatus h" "getStatus (h\<lparr>h_startResult := b\<rparr>) = getStatus h"
  "getStatus (h\<lparr>h_lifeTime := n\<rparr>) = getStatus h" "getStatus (h\<lparr>h_lastDate := d\<rparr>) = getStatus h"
  "getStatus (h\<lparr>h_roles := e\<rparr>) = getStatus h" "getStatus (h\<lparr>h_known := k\<rparr>) = getStatus h"
  by (simp_all add: getStatus_def)

lemma shows_of_update [simp]:
  "shows_of (h\<lparr>h_rows := a\<rparr>) = shows_of h" "shows_of (h\<lparr>h_startResult := b\<rparr>) = shows_of h"
  "shows_of (h\<lparr>h_lifeTime := n\<rparr>) = shows_of h" "shows_of (h\<lparr>h_lastDate := d\<rparr>) = shows_of h"
  "shows_of (h\<lparr>h_roles := e\<rparr>) = shows_of h"
  by (simp_all add: shows_of_def)

text \<open>A change of the timer, the pause flag or the connection that is followed by \<open>sendStatus\<close>.\<close>

lemma tells_sendStatus:
  assumes "tells h es h1" "h_listeners h2 = h_listeners h1" "h_known h2 = h_known h1"
  shows "tells h (es @ sendStatus h2) h2"
  unfolding tells_def
proof (intro conjI ballI)
  show "h_listeners h2 = h_listeners h" using assms by (simp add: tells_def)
  fix l assume l: "l \<in> set (h_listeners h)"
  then have "fold (see l) es (shows_of h) = shows_of h1" "l \<in> set (h_listeners h2)"
    using assms by (simp_all add: tells_def)
  then show "fold (see l) (es @ sendStatus h2) (shows_of h) = shows_of h2"
    using assms(3) by (simp add: see_status shows_of_def)
qed

section \<open>The parts of an operation\<close>

lemma stopInternal_tells: "stopInternal h = (es, h') \<Longrightarrow> tells h es h'"
  by (auto simp: stopInternal_def Let_def tells_def shows_of_def see_removed see_status)

lemma stop_tells: "stop h = (es, h') \<Longrightarrow> tells h es h'"
  by (auto simp: stop_def stopInternal_tells tells_refl split: if_splits)

lemma pause_tells: "pause h = (es, h') \<Longrightarrow> tells h es h'"
  using tells_sendStatus [OF tells_refl [of h h], of "h\<lparr>h_timer := False, h_paused := True\<rparr>"]
  by (auto simp: pause_def pauseInternal_def Let_def tells_refl split: if_splits)

lemma resume_tells: "resume h = (es, h') \<Longrightarrow> tells h es h'"
  using tells_sendStatus [OF tells_refl [of h h], of "h\<lparr>h_timer := True, h_paused := False\<rparr>"]
  by (auto simp: resume_def resumeInternal_def Let_def tells_refl split: if_splits)

lemma remember_fields [simp]:
  "h_known (remember r h) = h_known h" "h_listeners (remember r h) = h_listeners h"
  "h_timer (remember r h) = h_timer h" "h_open (remember r h) = h_open h"
  "h_paused (remember r h) = h_paused h" "h_rows (remember r h) = h_rows h"
  "h_startResult (remember r h) = h_startResult h" "shows_of (remember r h) = shows_of h"
  by (simp_all add: remember_def)

lemma next_row_eq [simp]: "next_row h = (b, h') \<longleftrightarrow> b = (tl (h_rows h) \<noteq> []) \<and> h' = h\<lparr>h_rows := tl (h_rows h)\<rparr>"
  by (auto simp: next_row_def)

text \<open>One turn of the loop, with its key and the state after the row.\<close>

definition put_info :: "hrow \<Rightarrow> (string, hinfo) qmap \<Rightarrow> (string, hinfo) qmap" where
  "put_info r = qinsert (getExtendedId (to_uint (hr_uavId r)) (to_uint (hr_source r)) True) (info_of r)"

definition past_row :: "'l history \<Rightarrow> 'l history" where
  "past_row h = (remember (current_row h) h)\<lparr>h_rows := tl (h_rows h)\<rparr>"

lemma past_row_fields [simp]:
  "h_known (past_row h) = h_known h" "h_listeners (past_row h) = h_listeners h"
  "h_timer (past_row h) = h_timer h" "h_open (past_row h) = h_open h"
  "h_paused (past_row h) = h_paused h" "h_rows (past_row h) = tl (h_rows h)"
  "h_startResult (past_row h) = h_startResult h" "shows_of (past_row h) = shows_of h"
  by (simp_all add: past_row_def)

lemma collect_eq:
  "collect time infos h =
     (if tl (h_rows h) = [] then (put_info (current_row h) infos, stop (past_row h))
      else if second_of (hr_datetime (current_row (past_row h))) = time
        then collect time (put_info (current_row h) infos) (past_row h)
      else (put_info (current_row h) infos, [], past_row h))"
  by (subst collect.simps) (simp add: Let_def next_row_def put_info_def past_row_def info_of_def split: prod.splits)

lemma collect_tells: "collect time infos h = (infos', es, h') \<Longrightarrow> tells h es h'"
proof (induction "length (h_rows h)" arbitrary: infos h rule: less_induct)
  case less
  have t: "tells h [] (past_row h)" by (rule tells_refl) simp_all
  show ?case
  proof (cases "tl (h_rows h) = []")
    case True
    with less(2) have "stop (past_row h) = (es, h')" by (simp add: collect_eq)
    from tells_trans [OF t stop_tells [OF this]] show ?thesis by simp
  next
    case False
    have "tells (past_row h) es h'" if "collect time (put_info (current_row h) infos) (past_row h) = (infos', es, h')"
      using less(1) [OF _ that] False by (cases "h_rows h") simp_all
    then show ?thesis
      using less(2) False t tells_trans [OF t, of es h'] by (subst (asm) collect_eq) (auto split: if_splits)
  qed
qed

lemma show_infos_tells: "show_infos is h = (es, h') \<Longrightarrow> tells h es h'"
proof (induction "is" h arbitrary: es h' rule: show_infos.induct)
  case (2 i "is" h)
  let ?u = "shown_uav (hi_uavId i)"
  define h1 where "h1 = (if qcontains (h_known h) (hi_uavId i) then h else h\<lparr>h_known := qinsert (hi_uavId i) ?u (h_known h)\<rparr>)"
  define es1 where "es1 = (if qcontains (h_known h) (hi_uavId i) then []
    else notify (\<lambda>l. HAdded l ?u (qvalue (h_roles h) [] (hi_uavId i))) (h_listeners h))"
  obtain es2 where r: "show_infos is h1 = (es2, h')"
    and es: "es = es1 @ notify (\<lambda>l. HChanged l i (qvalue (h_roles h) [] (hi_uavId i))) (h_listeners h1) @ es2"
    using 2(2) by (auto simp: Let_def h1_def es1_def split: prod.splits if_splits)
  have "tells h es1 h1"
    by (auto simp: tells_def h1_def es1_def see_notify shows_of_def shown_uav_def)
  moreover have "tells h1 (notify (\<lambda>l. HChanged l i (qvalue (h_roles h) [] (hi_uavId i))) (h_listeners h1)) h1"
    by (simp add: tells_def see_notify)
  moreover have "tells h1 es2 h'"
    using 2(1) [OF refl refl, of "(es1, h1)" es1 h1 es2 h'] r by (auto simp: h1_def es1_def)
  ultimately show ?case unfolding es by (blast intro: tells_trans)
qed (simp add: tells_refl)

lemma remove_outdated_tells: "remove_outdated time ks h = (es, h') \<Longrightarrow> tells h es h'"
proof (induction time ks h arbitrary: es h' rule: remove_outdated.induct)
  case (2 time k ks h)
  show ?case
  proof (cases "msecsTo (qvalue (h_lastDate h) None k) time < h_lifeTime h")
    case True
    with 2 show ?thesis by simp
  next
    case False
    let ?h = "h\<lparr>h_known := qremove k (h_known h), h_roles := qremove k (h_roles h), h_lastDate := qremove k (h_lastDate h)\<rparr>"
    from 2(3) False obtain es2 where r: "remove_outdated time ks ?h = (es2, h')" and es: "es = send_removed h [k] @ es2"
      by (auto simp: Let_def split: prod.splits)
    have "tells h (send_removed h [k]) ?h"
      by (auto simp: tells_def see_removed shows_of_def)
    with 2(2) [OF False refl r] show ?thesis unfolding es by (blast intro: tells_trans)
  qed
qed (simp add: tells_refl)

lemma update_tells: "updateHistoryState h = (es, h') \<Longrightarrow> tells h es h'"
  unfolding updateHistoryState_def Let_def
  by (auto split: prod.splits intro!: tells_trans dest!: collect_tells show_infos_tells remove_outdated_tells)

lemma export_rows_eq:
  "export_rows n infos h =
     (if tl (h_rows h) \<noteq> [] then export_rows (n + 1) (qinsert (decimal n) (info_of (current_row h)) infos) (past_row h)
      else (qinsert (decimal n) (info_of (current_row h)) infos, past_row h))"
  by (subst export_rows.simps) (simp add: Let_def next_row_def past_row_def split: prod.splits)

lemma export_rows_tells: "export_rows n infos h = (infos', h') \<Longrightarrow> tells h [] h'"
proof (induction "length (h_rows h)" arbitrary: n infos h rule: less_induct)
  case less
  have t: "tells h [] (past_row h)" by (rule tells_refl) simp_all
  have "tells (past_row h) [] h'"
    if "tl (h_rows h) \<noteq> []" "export_rows (n + 1) (qinsert (decimal n) (info_of (current_row h)) infos) (past_row h) = (infos', h')"
    using less(1) [OF _ that(2)] that(1) by (cases "h_rows h") simp_all
  then show ?case
    using less(2) t tells_trans [OF t, of "[]" h'] by (subst (asm) export_rows_eq) (auto split: if_splits)
qed

lemma see_sheet: "fold (see l) (map (\<lambda>i. InsertSheet (f i)) is) v = v"
  by (induction "is" arbitrary: v) (auto split: prod.splits)

lemma export_tells: "xlsExport h = (ok, es, h') \<Longrightarrow> tells h es h'"
  by (auto simp: xlsExport_def onSentToXl_def tells_def Let_def see_sheet split: prod.splits dest!: export_rows_tells)

text \<open>\<open>startInternal\<close> may start the timer without a word; the status that \<open>start\<close> sends makes up for it.\<close>

lemma tells_quiet: "tells h es h' \<Longrightarrow> tells h (es @ [StartFinished]) h'"
  by (simp add: tells_def split: prod.splits)

lemma startInternal_tells:
  assumes "startInternal run from until mode h = (es, h')"
  obtains h1 where "tells h es h1" "h_listeners h' = h_listeners h1" "h_known h' = h_known h1"
proof -
  obtain es1 h1 where 1: "stop h = (es1, h1)" by force
  note t1 = stop_tells [OF 1]
  consider (none) "run from until = None \<or> run from until = Some []" | (some) r rs where "run from until = Some (r # rs)"
    by (metis list.exhaust option.exhaust)
  then show thesis
  proof cases
    case none
    with assms 1 have "es = es1 @ [StartFinished]" "h' = h1\<lparr>h_rows := [], h_startResult := False\<rparr>"
      by (auto simp: startInternal_def)
    with t1 show thesis by (intro that [of h1]) (simp_all add: tells_quiet)
  next
    case some
    have t2: "tells h es1 (h1\<lparr>h_rows := r # rs\<rparr>)" by (rule tells_then [OF t1]) simp_all
    obtain es2 h2 where u: "updateHistoryState (h1\<lparr>h_rows := r # rs\<rparr>) = (es2, h2)" by force
    obtain ok es3 h3 where x: "xlsExport (h1\<lparr>h_rows := r # rs\<rparr>) = (ok, es3, h3)" by (metis prod_cases3)
    have "tells h (es1 @ es2 @ [StartFinished]) h2" "tells h (es1 @ es3 @ [StartFinished]) h3"
      using tells_quiet [OF tells_trans [OF t2 update_tells [OF u]]]
        tells_quiet [OF tells_trans [OF t2 export_tells [OF x]]] by simp_all
    with t2 assms 1 u x some show thesis
      by (auto simp: startInternal_def Let_def split: if_splits
        intro: that [of h2] that [of h3] that [of "h1\<lparr>h_rows := r # rs\<rparr>"])
  qed
qed

lemma see_frame: "fst (fold (see l) fs (S, st)) = fst (fold (see l) fs (S, st'))"
proof (induction fs arbitrary: S st st')
  case (Cons f fs)
  then show ?case by (cases f) (auto split: if_splits)
qed simp

lemma start_tells: "start run from until mode h = (ok, es, h') \<Longrightarrow> tells h es h'"
proof (cases "h_valid h")
  case False
  moreover assume "start run from until mode h = (ok, es, h')"
  ultimately show ?thesis by (simp add: start_def tells_refl)
next
  case True
  assume *: "start run from until mode h = (ok, es, h')"
  obtain es2 where i: "startInternal run from until mode h = (es2, h')"
    and es: "es = sendStatusOf Loading h @ es2 @ sendStatus h'"
    using * True by (auto simp: start_def Let_def split: prod.splits)
  from startInternal_tells [OF i] obtain h1
    where h1: "tells h es2 h1" "h_listeners h' = h_listeners h1" "h_known h' = h_known h1" .
  show ?thesis
    unfolding tells_def
  proof (intro conjI ballI)
    show "h_listeners h' = h_listeners h" using h1 by (simp add: tells_def)
    fix l assume l: "l \<in> set (h_listeners h)"
    obtain st where st: "fold (see l) es2 (fst (shows_of h), Loading) = (fst (shows_of h1), st)"
      using see_frame [of l es2 "fst (shows_of h)" Loading "snd (shows_of h)"] h1(1) l
      by (cases "fold (see l) es2 (fst (shows_of h), Loading)") (simp add: tells_def)
    have "fold (see l) es (shows_of h) = fold (see l) (es2 @ sendStatus h') (fst (shows_of h), Loading)"
      using l by (simp add: es sendStatusOf_def see_notify shows_of_def)
    also have "\<dots> = fold (see l) (sendStatus h') (fst (shows_of h1), st)" by (simp add: st)
    also have "\<dots> = shows_of h'"
      using l h1 by (simp add: see_status shows_of_def tells_def)
    finally show "fold (see l) es (shows_of h) = shows_of h'" .
  qed
qed

lemma setDatabase_tells:
  assumes "setDatabase valid opens h = (es, h')"
  shows "tells h es h'"
proof -
  obtain es1 h1 where 1: "stop h = (es1, h1)" by force
  let ?h = "h1\<lparr>h_rows := [], h_valid := valid, h_open := opens\<rparr>"
  from assms 1 have es: "es = es1 @ sendStatus ?h" and h': "h' = ?h" by (auto simp: setDatabase_def Let_def)
  show ?thesis unfolding es h' by (rule tells_sendStatus [OF stop_tells [OF 1]]) simp_all
qed

section \<open>Runs of the player\<close>

datatype history_command =
    Start query int int int
  | Pause
  | Resume
  | Stop
  | Export
  | SetLifeTime int
  | SetDatabase bool bool
  | Tick

fun obey :: "history_command \<Rightarrow> 'l history \<Rightarrow> 'l history_event list \<times> 'l history" where
  "obey (Start run from until mode) h = snd (start run from until mode h)"
| "obey Pause h = pause h"
| "obey Resume h = resume h"
| "obey Stop h = stop h"
| "obey Export h = snd (xlsExport h)"
| "obey (SetLifeTime t) h = ([], setLifeTimeOf t h)"
| "obey (SetDatabase valid opens) h = setDatabase valid opens h"
| "obey Tick h = tick h"

fun obey_all :: "history_command list \<Rightarrow> 'l history \<Rightarrow> 'l history_event list \<times> 'l history" where
  "obey_all [] h = ([], h)"
| "obey_all (c # cs) h = (let (es, h) = obey c h; (es', h) = obey_all cs h in (es @ es', h))"

lemma obey_tells: "obey c h = (es, h') \<Longrightarrow> tells h es h'"
proof (cases c)
  case (Start run a b mode)
  moreover assume "obey c h = (es, h')"
  ultimately show ?thesis
    using start_tells [of run a b mode h "fst (start run a b mode h)" es h']
    by (simp add: prod_eq_iff)
next
  case Export
  moreover assume "obey c h = (es, h')"
  ultimately show ?thesis using export_tells [of h "fst (xlsExport h)" es h'] by (simp add: prod_eq_iff)
qed (auto simp: tick_def setLifeTimeOf_def tells_refl dest: pause_tells resume_tells stop_tells
  setDatabase_tells update_tells split: if_splits)

lemma obey_all_tells: "obey_all cs h = (es, h') \<Longrightarrow> tells h es h'"
proof (induction cs arbitrary: h es)
  case (Cons c cs)
  then show ?case by (auto simp: Let_def split: prod.splits intro: tells_trans dest: obey_tells)
qed (simp add: tells_refl)

text \<open>
  C10: A listener of the player that adds and removes UAVs and keeps the status it is told holds, after
  any sequence of calls and timer ticks, exactly the UAVs the player has in its map of known UAVs and
  exactly the status \<open>getStatus\<close> returns, if it did so before.
\<close>
theorem listeners_follow_the_player:
  assumes "obey_all cs h = (es, h')" and "l \<in> set (h_listeners h)"
  shows "fold (see l) es (dom (qlookup (h_known h)), getStatus h) = (dom (qlookup (h_known h')), getStatus h')"
  using obey_all_tells [OF assms(1)] assms(2) by (simp add: tells_def shows_of_def)

section \<open>The rows of one second\<close>

abbreviation in_second :: "htime \<Rightarrow> hrow \<Rightarrow> bool" where
  "in_second time r \<equiv> second_of (hr_datetime r) = time"

lemma current_row_rows [simp]: "current_row (h\<lparr>h_rows := x # xs\<rparr>) = x"
  by (simp add: current_row_def)

lemma collect_more:
  assumes "h_rows h = r # rs" "dropWhile (in_second time) rs \<noteq> []"
  shows "collect time infos h =
     (fold put_info (r # takeWhile (in_second time) rs) infos, [],
      (fold remember (r # takeWhile (in_second time) rs) h)\<lparr>h_rows := dropWhile (in_second time) rs\<rparr>)"
  using assms
proof (induction rs arbitrary: r h infos)
  case (Cons x rs)
  have rem: "remember y (g\<lparr>h_rows := k\<rparr>) = (remember y g)\<lparr>h_rows := k\<rparr>" for y k and g :: "'a history"
    by (simp add: remember_def)
  then have rems: "fold remember ys (g\<lparr>h_rows := k\<rparr>) = (fold remember ys g)\<lparr>h_rows := k\<rparr>" for ys k and g :: "'a history"
    by (induction ys arbitrary: g) simp_all
  have cur: "current_row h = r" "current_row (past_row h) = x" "past_row h = (remember r h)\<lparr>h_rows := x # rs\<rparr>"
    using Cons.prems(1) by (simp_all add: current_row_def past_row_def)
  show ?case
  proof (cases "in_second time x")
    case True
    with Cons show ?thesis by (subst collect_eq) (simp add: cur rem rems)
  next
    case False
    with Cons.prems show ?thesis by (subst collect_eq) (simp add: cur)
  qed
qed simp

lemma collect_last:
  assumes "h_rows h = r # rs" "\<forall>x \<in> set rs. in_second time x" and "h_timer h \<or> \<not> h_open h \<or> h_paused h"
  shows "\<exists>es. collect time infos h = (fold put_info (r # rs) infos, es,
      h\<lparr>h_timer := False, h_rows := [], h_known := [], h_roles := [], h_lastDate := [], h_paused := False\<rparr>)"
  using assms
proof (induction rs arbitrary: r h infos)
  case Nil
  have "getStatus (past_row h) \<noteq> Ready" using Nil.prems(3) by (auto simp: getStatus_def)
  then show ?case using Nil.prems(1)
    by (subst collect_eq) (simp add: stop_def stopInternal_def Let_def current_row_def past_row_def remember_def)
next
  case (Cons x rs)
  then have cur: "current_row h = r" "current_row (past_row h) = x" "h_rows (past_row h) = x # rs"
    by (simp_all add: current_row_def)
  have *: "\<exists>es. collect time (put_info r infos) (past_row h) = (fold put_info (x # rs) (put_info r infos), es,
      (past_row h)\<lparr>h_timer := False, h_rows := [], h_known := [], h_roles := [], h_lastDate := [], h_paused := False\<rparr>)"
    by (rule Cons.IH) (use Cons.prems cur in simp_all)
  have "(past_row h)\<lparr>h_timer := False, h_rows := [], h_known := [], h_roles := [], h_lastDate := [], h_paused := False\<rparr>
      = h\<lparr>h_timer := False, h_rows := [], h_known := [], h_roles := [], h_lastDate := [], h_paused := False\<rparr>"
    by (simp add: past_row_def remember_def)
  with * show ?case using Cons.prems by (subst collect_eq) (simp add: cur)
qed

text \<open>The samples a listener is shown, each with its role.\<close>

fun updates_to :: "'l \<Rightarrow> 'l history_event list \<Rightarrow> (hinfo \<times> string) list" where
  "updates_to l [] = []"
| "updates_to l (HChanged k i r # es) = (if k = l then [(i, r)] else []) @ updates_to l es"
| "updates_to l (e # es) = updates_to l es"

lemma updates_to_append [simp]: "updates_to l (es @ es') = updates_to l es @ updates_to l es'"
  by (induction l es rule: updates_to.induct) auto

lemma updates_to_notify [simp]:
  "updates_to l (notify (\<lambda>k. HAdded k u r) ls) = []" "updates_to l (notify (\<lambda>k. HRemoved k u r) ls) = []"
  "updates_to l (notify (\<lambda>k. HStatus k s) ls) = []"
  "updates_to l (notify (\<lambda>k. HChanged k i r) ls) = replicate (count_list ls l) (i, r)"
  unfolding notify_def by (induction ls) auto

lemma updates_to_removed [simp]: "updates_to l (send_removed h ids) = []"
  unfolding send_removed_def by (induction ids) auto

lemma updates_to_stop [simp]: "updates_to l (fst (stop h)) = []"
  by (simp add: stop_def stopInternal_def Let_def sendStatus_def sendStatusOf_def)

lemma updates_to_stop': "stop h = (es, h') \<Longrightarrow> updates_to l es = []"
  using updates_to_stop [of l h] by simp

definition add_known :: "u32 \<Rightarrow> 'l history \<Rightarrow> 'l history" where
  "add_known i h = (if qcontains (h_known h) i then h else h\<lparr>h_known := qinsert i (shown_uav i) (h_known h)\<rparr>)"

lemma show_infos_Cons:
  assumes "show_infos (i # is) h = (es, h')"
  shows "\<exists>es0 es2. show_infos is (add_known (hi_uavId i) h) = (es2, h') \<and> updates_to l es0 = []
    \<and> es = es0 @ notify (\<lambda>l. HChanged l i (qvalue (h_roles h) [] (hi_uavId i))) (h_listeners h) @ es2"
proof (cases "qcontains (h_known h) (hi_uavId i)")
  case True
  with assms obtain es2 where "show_infos is h = (es2, h')"
    "es = notify (\<lambda>l. HChanged l i (qvalue (h_roles h) [] (hi_uavId i))) (h_listeners h) @ es2"
    by (auto split: prod.splits)
  with True show ?thesis by (intro exI [of _ "[]"] exI [of _ es2]) (simp add: add_known_def)
next
  case False
  let ?a = "notify (\<lambda>l. HAdded l (shown_uav (hi_uavId i)) (qvalue (h_roles h) [] (hi_uavId i))) (h_listeners h)"
  from False assms obtain es2 where "show_infos is (add_known (hi_uavId i) h) = (es2, h')"
    "es = ?a @ notify (\<lambda>l. HChanged l i (qvalue (h_roles h) [] (hi_uavId i))) (h_listeners h) @ es2"
    by (auto simp: add_known_def Let_def split: prod.splits)
  then show ?thesis by (intro exI [of _ ?a] exI [of _ es2]) simp
qed

lemma show_infos_rest:
  "show_infos (i # is) h = (es, h') \<Longrightarrow> \<exists>es2. show_infos is (add_known (hi_uavId i) h) = (es2, h')"
  by (blast dest: show_infos_Cons)

lemma add_known_fields: "add_known i h = h\<lparr>h_known := h_known (add_known i h)\<rparr>"
  "(add_known i h)\<lparr>h_known := k\<rparr> = h\<lparr>h_known := k\<rparr>"
  "dom (qlookup (h_known (add_known i h))) = insert i (dom (qlookup (h_known h)))"
  by (auto simp: add_known_def qcontains_iff)

lemma add_known_rest [simp]:
  "h_listeners (add_known i h) = h_listeners h" "h_roles (add_known i h) = h_roles h"
  by (simp_all add: add_known_def)

lemma show_infos_fields:
  assumes "show_infos is h = (es, h')"
  shows "h' = h\<lparr>h_known := h_known h'\<rparr>"
    and "dom (qlookup (h_known h')) = hi_uavId ` set is \<union> dom (qlookup (h_known h))"
    and "count_list (h_listeners h) l = 1 \<Longrightarrow>
      updates_to l es = map (\<lambda>i. (i, qvalue (h_roles h) [] (hi_uavId i))) is"
  using assms
proof (induction "is" arbitrary: h es)
  case (Cons i "is")
  { case 1
    from show_infos_rest [OF this] obtain es2 where "show_infos is (add_known (hi_uavId i) h) = (es2, h')" by auto
    from Cons.IH(1) [OF this] show ?case unfolding add_known_fields(2) . }
  { case 2
    from show_infos_rest [OF this] obtain es2 where "show_infos is (add_known (hi_uavId i) h) = (es2, h')" by auto
    from Cons.IH(2) [OF this] show ?case unfolding add_known_fields(3) by simp }
  { case 3
    from show_infos_Cons [OF 3(2)] obtain es0 es2 where r: "show_infos is (add_known (hi_uavId i) h) = (es2, h')" "updates_to l es0 = []"
      and e: "es = es0 @ notify (\<lambda>l. HChanged l i (qvalue (h_roles h) [] (hi_uavId i))) (h_listeners h) @ es2" by blast
    from Cons.IH(3) [OF _ r(1)] 3(1) show ?case by (simp add: e r(2)) }
qed simp_all

lemma remove_outdated_fields:
  assumes "remove_outdated time ks h = (es, h')"
  shows "h_rows h' = h_rows h \<and> h_timer h' = h_timer h \<and> h_open h' = h_open h \<and> h_paused h' = h_paused h
    \<and> h_startResult h' = h_startResult h \<and> updates_to l es = []"
  using assms
proof (induction time ks h arbitrary: es rule: remove_outdated.induct)
  case (2 time k ks h)
  show ?case
  proof (cases "msecsTo (qvalue (h_lastDate h) None k) time < h_lifeTime h")
    case True
    with 2(1,3) show ?thesis by simp
  next
    case False
    let ?h = "h\<lparr>h_known := qremove k (h_known h), h_roles := qremove k (h_roles h), h_lastDate := qremove k (h_lastDate h)\<rparr>"
    from 2(3) False obtain es2 where r: "remove_outdated time ks ?h = (es2, h')" and es: "es = send_removed h [k] @ es2"
      by (auto simp: Let_def split: prod.splits)
    from 2(2) [OF False refl r] show ?thesis by (simp add: es)
  qed
qed simp

lemma collect_quiet:
  assumes "collect time infos h = (infos', es, h')"
  shows "updates_to l es = []"
  using assms
proof (induction "length (h_rows h)" arbitrary: infos h rule: less_induct)
  case less
  show ?case
  proof (cases "tl (h_rows h) = [] \<or> second_of (hr_datetime (current_row (past_row h))) \<noteq> time")
    case True
    with less(2) updates_to_stop' [of "past_row h" es h' l] show ?thesis
      by (subst (asm) collect_eq) (auto split: if_splits)
  next
    case False
    with less(2) have "collect time (put_info (current_row h) infos) (past_row h) = (infos', es, h')"
      by (subst (asm) collect_eq) simp
    from less(1) [OF _ this] False show ?thesis by (cases "h_rows h") simp_all
  qed
qed

text \<open>One showing of a second from the result of its loop.\<close>

lemma update_parts:
  assumes "updateHistoryState h = (es, h')"
    and "collect (second_of (hr_datetime (current_row h))) [] h = (infos, es1, h1)"
  obtains es2 es3 h2 where "show_infos (qvalues infos) h1 = (es2, h2)"
    and "remove_outdated (second_of (hr_datetime (current_row h))) (qkeys (h_lastDate h2)) h2 = (es3, h')"
    and "es = es1 @ es2 @ es3"
  using assms by (auto simp: updateHistoryState_def Let_def split: prod.splits)

lemma tick_updates:
  assumes u: "updateHistoryState h = (es, h')"
    and c: "collect (second_of (hr_datetime (current_row h))) [] h = (infos, es1, h1)"
  shows "count_list (h_listeners h1) l = 1 \<Longrightarrow>
      updates_to l es = map (\<lambda>i. (i, qvalue (h_roles h1) [] (hi_uavId i))) (qvalues infos)"
    and "h_rows h' = h_rows h1" and "h_timer h' = h_timer h1" and "getStatus h' = getStatus h1"
    and "h_startResult h' = h_startResult h1"
proof -
  from update_parts [OF u c] obtain es2 es3 h2 where s: "show_infos (qvalues infos) h1 = (es2, h2)"
    and r: "remove_outdated (second_of (hr_datetime (current_row h))) (qkeys (h_lastDate h2)) h2 = (es3, h')"
    and es: "es = es1 @ es2 @ es3" by blast
  have f: "h_rows h2 = h_rows h1" "h_timer h2 = h_timer h1" "h_open h2 = h_open h1" "h_paused h2 = h_paused h1"
    "h_startResult h2 = h_startResult h1"
    by (subst show_infos_fields(1) [OF s], simp)+
  note r' = remove_outdated_fields [OF r]
  show "h_rows h' = h_rows h1" "h_timer h' = h_timer h1" "getStatus h' = getStatus h1" "h_startResult h' = h_startResult h1"
    using f r' by (simp_all add: getStatus_def)
  show "updates_to l es = map (\<lambda>i. (i, qvalue (h_roles h1) [] (hi_uavId i))) (qvalues infos)"
    if "count_list (h_listeners h1) l = 1"
    using show_infos_fields(3) [OF s that] r' collect_quiet [OF c] by (simp add: es)
qed

section \<open>What a tick shows\<close>

definition row_key :: "hrow \<Rightarrow> string" where
  "row_key r = getExtendedId (to_uint (hr_uavId r)) (to_uint (hr_source r)) True"

definition row_uav :: "hrow \<Rightarrow> u32" where
  "row_uav r = to_uint (hr_uavId r)"

text \<open>A row is the latest of its kind when no row after it is of the same kind.\<close>

definition latest :: "('a \<Rightarrow> 'b) \<Rightarrow> 'a list \<Rightarrow> 'a \<Rightarrow> bool" where
  "latest f xs x \<longleftrightarrow> find (\<lambda>y. f y = f x) (rev xs) = Some x"

lemma find_latest: "find (\<lambda>y. f y = k) (rev xs) = Some x \<longleftrightarrow> latest f xs x \<and> f x = k"
  by (auto simp: latest_def find_Some_iff)

lemma put_info_eq: "put_info r = qinsert (row_key r) (info_of r)"
  by (simp add: put_info_def row_key_def)

lemma qsorted_put_infos: "qsorted m \<Longrightarrow> qsorted (fold put_info xs m)"
  by (induction xs arbitrary: m) (simp_all add: put_info_eq)

lemma qlookup_put_infos:
  "qlookup (fold put_info xs []) k = map_option info_of (find (\<lambda>x. row_key x = k) (rev xs))"
  by (induction xs rule: rev_induct) (simp_all add: put_info_eq)

lemma set_put_infos: "set (qvalues (fold put_info xs [])) = info_of ` {x. latest row_key xs x}"
proof -
  have "set (qvalues (fold put_info xs [])) = ran (\<lambda>k. map_option info_of (find (\<lambda>x. row_key x = k) (rev xs)))"
    by (simp add: set_qvalues qsorted_put_infos qlookup_put_infos [abs_def])
  also have "\<dots> = info_of ` {x. latest row_key xs x}"
    by (auto simp: ran_def find_latest)
  finally show ?thesis .
qed




lemma latest_in: "latest f xs x \<Longrightarrow> x \<in> set xs"
proof -
  assume "latest f xs x"
  then obtain i where "i < length (rev xs)" "x = rev xs ! i"
    unfolding latest_def find_Some_iff by blast
  then show "x \<in> set xs" using nth_mem [of i "rev xs"] by simp
qed

lemma row_key_uav: "row_key x = row_key y \<Longrightarrow> row_uav x = row_uav y"
  unfolding row_key_def row_uav_def getExtendedId_def Let_def by (auto dest!: qnumber_prefix_inject split: if_splits)

lemma latest_of_kind: "x \<in> set xs \<Longrightarrow> \<exists>y. latest f xs y \<and> f y = f x"
proof -
  assume "x \<in> set xs"
  then have "find (\<lambda>y. f y = f x) (rev xs) \<noteq> None" by (auto simp: find_None_iff)
  then obtain y where "find (\<lambda>y. f y = f x) (rev xs) = Some y" by blast
  then show ?thesis by (auto simp: find_latest)
qed

lemma info_of_uav [simp]: "hi_uavId (info_of x) = row_uav x"
  by (simp add: info_of_def row_uav_def)

lemma remember_all_fields [simp]: "h_listeners (fold remember xs h) = h_listeners h"
  "getStatus (fold remember xs h) = getStatus h"
  by (induction xs arbitrary: h) (auto simp: remember_def)


section \<open>The end of the playback\<close>

definition stopped :: "'l history \<Rightarrow> 'l history" where
  "stopped h = h\<lparr>h_timer := False, h_rows := [], h_known := [], h_roles := [], h_lastDate := [], h_paused := False\<rparr>"

lemma collect_end:
  assumes "\<forall>x \<in> set (tl (h_rows h)). in_second time x" and "getStatus h \<noteq> Ready"
  shows "\<exists>es. collect time infos h = (fold put_info (current_row h # tl (h_rows h)) infos, es, stopped h)"
proof (cases "h_rows h")
  case Nil
  with assms(2) have "getStatus (past_row h) \<noteq> Ready" by (simp add: past_row_def remember_def)
  then show ?thesis using Nil
    by (subst collect_eq) (simp add: stop_def stopInternal_def Let_def past_row_def remember_def stopped_def)
next
  case (Cons r rs)
  then have "h_timer h \<or> \<not> h_open h \<or> h_paused h" using assms(2) by (auto simp: getStatus_def split: if_splits)
  from collect_last [OF Cons _ this] assms(1) Cons show ?thesis by (simp add: current_row_def stopped_def)
qed

lemma collect_end_ready:
  assumes "\<forall>x \<in> set (tl (h_rows h)). in_second time x" and "getStatus h = Ready"
  shows "\<exists>infos' h1. collect time infos h = (infos', [], h1) \<and> h_rows h1 = [] \<and> getStatus h1 = Ready
    \<and> h_open h1 = h_open h \<and> h_paused h1 = h_paused h \<and> h_listeners h1 = h_listeners h"
  using assms
proof (induction "length (h_rows h)" arbitrary: infos h rule: less_induct)
  case less
  have ready: "getStatus (past_row h) = Ready" using less(3) by (simp add: past_row_def remember_def)
  show ?case
  proof (cases "tl (h_rows h)")
    case Nil
    with ready show ?thesis by (subst collect_eq) (simp add: stop_def)
  next
    case (Cons x xs)
    then have "length (h_rows (past_row h)) < length (h_rows h)" "\<forall>y \<in> set (tl (h_rows (past_row h))). in_second time y"
      using less(2) by (auto intro: Nitpick.size_list_simp) (cases "h_rows h"; simp)+
    from less(1) [OF this ready, of "put_info (current_row h) infos"] less(2) Cons show ?thesis
      by (subst collect_eq) (simp add: current_row_def)
  qed
qed

lemma update_end:
  assumes "\<forall>x \<in> set (tl (h_rows h)). in_second (second_of (hr_datetime (current_row h))) x" and "getStatus h \<noteq> Ready"
    and u: "updateHistoryState h = (es, h')"
  shows "h_timer h' = False \<and> h_paused h' = False \<and> h_open h' = h_open h \<and> h_rows h' = [] \<and> h_roles h' = []
      \<and> h_startResult h' = h_startResult h \<and> h_listeners h' = h_listeners h"
    and "dom (qlookup (h_known h')) = row_uav ` set (current_row h # tl (h_rows h))"
    and "count_list (h_listeners h) l = 1 \<Longrightarrow>
      set (updates_to l es) = (\<lambda>x. (info_of x, [])) ` {x. latest row_key (current_row h # tl (h_rows h)) x}"
proof -
  let ?rows = "current_row h # tl (h_rows h)"
  from collect_end [OF assms(1,2)] obtain es1
    where c: "collect (second_of (hr_datetime (current_row h))) [] h = (fold put_info ?rows [], es1, stopped h)" by blast
  obtain es2 es3 h2 where s: "show_infos (qvalues (fold put_info ?rows [])) (stopped h) = (es2, h2)"
    and r: "remove_outdated (second_of (hr_datetime (current_row h))) (qkeys (h_lastDate h2)) h2 = (es3, h')"
    and "es = es1 @ es2 @ es3" by (rule update_parts [OF u c])
  note h2 = show_infos_fields [OF s]
  obtain k where frame: "h2 = (stopped h)\<lparr>h_known := k\<rparr>" by (rule that [OF h2(1)])
  then have "h_lastDate h2 = []" by (simp add: stopped_def)
  with r have h': "h' = h2" by (simp add: qkeys_def)
  show "h_timer h' = False \<and> h_paused h' = False \<and> h_open h' = h_open h \<and> h_rows h' = [] \<and> h_roles h' = []
      \<and> h_startResult h' = h_startResult h \<and> h_listeners h' = h_listeners h"
    unfolding h' frame by (simp add: stopped_def)
  have "row_uav ` {x. latest row_key xs x} = row_uav ` set xs" for xs
  proof (intro equalityI image_subsetI)
    show "row_uav x \<in> row_uav ` set xs" if "x \<in> {x. latest row_key xs x}" for x
      using that by (auto dest: latest_in)
    show "row_uav x \<in> row_uav ` {x. latest row_key xs x}" if "x \<in> set xs" for x
    proof -
      from latest_of_kind [OF that, of row_key] obtain y where y: "latest row_key xs y" "row_key y = row_key x" by blast
      show ?thesis unfolding row_key_uav [OF y(2) [symmetric]] by (rule imageI) (simp add: y(1))
    qed
  qed
  then show "dom (qlookup (h_known h')) = row_uav ` set ?rows"
    unfolding h' h2(2) set_put_infos by (simp add: stopped_def image_image)
  show "set (updates_to l es) = (\<lambda>x. (info_of x, [])) ` {x. latest row_key ?rows x}" if "count_list (h_listeners h) l = 1"
  proof -
    have "updates_to l es = map (\<lambda>i. (i, [])) (qvalues (fold put_info ?rows []))"
      using tick_updates(1) [OF u c, of l] that by (simp add: stopped_def qvalue_def)
    then have "set (updates_to l es) = (\<lambda>i. (i, [])) ` set (qvalues (fold put_info ?rows []))"
      by (simp only: list.set_map)
    then show ?thesis by (simp only: set_put_infos image_image)
  qed
qed

text \<open>
  C12: A playback ends: a playing player with an open database is ready again after at most one tick
  more than there are rows left.
\<close>
theorem playback_ends:
  assumes "getStatus h = Playing"
  shows "\<exists>n \<le> length (h_rows h) + 1. getStatus (((\<lambda>h. snd (tick h)) ^^ n) h) = Ready"
  using assms
proof (induction "length (h_rows h)" arbitrary: h rule: less_induct)
  case less
  have playing: "h_timer h" "h_open h" "getStatus h \<noteq> Ready" using less(2) by (auto simp: getStatus_def split: if_splits)
  obtain es h' where u: "updateHistoryState h = (es, h')" by force
  with playing have t: "snd (tick h) = h'" by (simp add: tick_def)
  show ?case
  proof (cases "\<forall>x \<in> set (tl (h_rows h)). in_second (second_of (hr_datetime (current_row h))) x")
    case True
    from update_end(1) [OF True playing(3) u] playing(2) have "getStatus h' = Ready" by (simp add: getStatus_def)
    with t show ?thesis by (intro exI [of _ 1]) simp
  next
    case False
    then obtain r rs where rows: "h_rows h = r # rs" by (cases "h_rows h") auto
    let ?later = "dropWhile (in_second (second_of (hr_datetime r))) rs"
    have later: "?later \<noteq> []" using False rows by (auto simp: current_row_def)
    have cur: "current_row h = r" by (simp add: current_row_def rows)
    from collect_more [OF rows later] have
      c: "collect (second_of (hr_datetime (current_row h))) [] h =
        (fold put_info (r # takeWhile (in_second (second_of (hr_datetime r))) rs) [], [],
         (fold remember (r # takeWhile (in_second (second_of (hr_datetime r))) rs) h)\<lparr>h_rows := ?later\<rparr>)"
      by (simp add: cur)
    have h': "h_rows h' = ?later" "getStatus h' = Playing"
      using tick_updates(2,4) [OF u c] less(2) by (simp_all del: fold.simps)
    have shorter: "length ?later \<le> length rs" by (rule length_dropWhile_le)
    then obtain n where n: "n \<le> length ?later + 1" "getStatus (((\<lambda>h. snd (tick h)) ^^ n) h') = Ready"
      using less(1) [of h'] h' rows by auto
    have "((\<lambda>h. snd (tick h)) ^^ Suc n) h = ((\<lambda>h. snd (tick h)) ^^ n) h'"
      by (simp only: funpow_Suc_right comp_apply t)
    with n shorter rows show ?thesis by (intro exI [of _ "Suc n"]) simp
  qed
qed

text \<open>
  The tick that shows the last second stops the player before it shows that second. So its samples
  carry no role, and its UAVs are announced again and stay known and on display while the player is
  ready, when \<open>stop\<close> does nothing any more.
\<close>
theorem last_second_stays_on_display:
  assumes "getStatus h = Playing" and "h_rows h = r # rs"
    and "\<forall>x \<in> set rs. second_of (hr_datetime x) = second_of (hr_datetime r)"
    and "count_list (h_listeners h) l = 1" and "tick h = (es, h')"
  shows "getStatus h' = Ready \<and> stop h' = ([], h') \<and> h_roles h' = []
    \<and> set (qkeys (h_known h')) = row_uav ` set (r # rs)
    \<and> updates_to l es \<noteq> [] \<and> (\<forall>(i, c) \<in> set (updates_to l es). c = [])"
proof -
  have h: "h_timer h" "h_open h" "getStatus h \<noteq> Ready" using assms(1) by (auto simp: getStatus_def split: if_splits)
  have cur: "current_row h # tl (h_rows h) = r # rs" "current_row h = r" "tl (h_rows h) = rs"
    by (simp_all add: assms(2) current_row_def)
  have u: "updateHistoryState h = (es, h')" using h assms(5) by (simp add: tick_def)
  have same: "\<forall>x \<in> set (tl (h_rows h)). in_second (second_of (hr_datetime (current_row h))) x"
    using assms(3) by (simp add: cur)
  note e = update_end [OF same h(3) u, unfolded cur]
  have ready: "getStatus h' = Ready" using e(1) h(2) by (simp add: getStatus_def)
  have "{x. latest row_key (r # rs) x} \<noteq> {}"
    using latest_of_kind [of r "r # rs" row_key] by fastforce
  then have "updates_to l es \<noteq> []" using e(3) [OF assms(4)] by auto
  moreover have "\<forall>(i, c) \<in> set (updates_to l es). c = []" using e(3) [OF assms(4)] by auto
  ultimately show ?thesis using e(1,2) ready by (simp add: stop_def)
qed

text \<open>
  A player started on a recording of one second is left playing without a row. Its next tick shows
  the listener a sample of a UAV with board id 0 that no row holds.
\<close>
theorem short_recording_shows_a_ghost:
  assumes "h_valid h" and "getStatus h = Ready" and "run from until = Some (r # rs)"
    and "\<forall>x \<in> set rs. second_of (hr_datetime x) = second_of (hr_datetime r)"
    and "count_list (h_listeners h) l = 1"
    and "start run from until 0 h = (ok, es, h1)" and "tick h1 = (es', h2)"
  shows "ok \<and> getStatus h1 = Playing \<and> h_rows h1 = [] \<and> set (updates_to l es') = {(info_of no_row, [])}
    \<and> hi_uavId (info_of no_row) = 0"
proof -
  let ?h = "h\<lparr>h_rows := r # rs\<rparr>"
  have ready: "getStatus ?h = Ready" "stop h = ([], h)" using assms(2) by (simp_all add: stop_def)
  obtain es1 h3 where u: "updateHistoryState ?h = (es1, h3)" by force
  have "\<forall>x \<in> set (tl (h_rows ?h)). in_second (second_of (hr_datetime (current_row ?h))) x" using assms(4) by simp
  from collect_end_ready [OF this ready(1), of "[]"] obtain infos h4
    where c: "collect (second_of (hr_datetime (current_row ?h))) [] ?h = (infos, [], h4)"
      and h4: "h_rows h4 = []" "getStatus h4 = Ready" by blast
  have h1: "ok" "h1 = h3\<lparr>h_timer := True, h_startResult := True\<rparr>"
    using assms(1,3,6) ready(2) u by (auto simp: start_def startInternal_def Let_def)
  have h3: "h_rows h3 = []" "getStatus h3 = Ready" "h_listeners h3 = h_listeners h"
    using tick_updates(2,4) [OF u c] h4 update_tells [OF u] by (simp_all add: tells_def)
  then have playing: "getStatus h1 = Playing" "h_rows h1 = []" "h_timer h1" "h_listeners h1 = h_listeners h"
    unfolding h1(2) by (auto simp: getStatus_def split: if_splits)
  have u1: "updateHistoryState h1 = (es', h2)" using assms(7) playing(3) by (simp add: tick_def)
  have ghost: "{x. latest row_key [no_row] x} = {no_row}" by (auto simp: latest_def)
  have "set (updates_to l es') = (\<lambda>x. (info_of x, [])) ` {x. latest row_key (current_row h1 # tl (h_rows h1)) x}"
    by (rule update_end(3) [OF _ _ u1]) (simp_all add: playing assms(5))
  then have "set (updates_to l es') = {(info_of no_row, [])}"
    by (simp add: playing(2) current_row_def ghost)
  with h1(1) playing show ?thesis by (simp add: row_uav_def no_row_def to_uint_def)
qed

section \<open>Export\<close>

lemma qinsert_new:
  "qlookup m k = None \<Longrightarrow> mset (qvalues (qinsert k v m)) = add_mset v (mset (qvalues m))"
  by (induction k v m rule: qinsert.induct) (auto simp: qvalues_def split: if_splits)

lemma decimal_inject [simp]: "decimal m = decimal n \<longleftrightarrow> m = n"
  by (metis option.inject read_digits_decimal)

lemma export_rows_all:
  assumes "h_rows h \<noteq> []" and "export_rows n infos h = (infos', h')" and "\<forall>k. decimal k \<in> dom (qlookup infos) \<longrightarrow> k < n"
  shows "mset (qvalues infos') = mset (map info_of (h_rows h)) + mset (qvalues infos) \<and> h_rows h' = []
    \<and> h_startResult h' = h_startResult h \<and> h_timer h' = h_timer h"
  using assms
proof (induction "length (h_rows h)" arbitrary: n infos h rule: less_induct)
  case less
  then obtain r rs where rows: "h_rows h = r # rs" by (cases "h_rows h") auto
  have cur: "current_row h = r" by (simp add: current_row_def rows)
  have new: "qlookup infos (decimal n) = None" using less(4) by (metis domIff less_irrefl)
  show ?case
  proof (cases rs)
    case Nil
    with less(3) rows have "infos' = qinsert (decimal n) (info_of r) infos" "h' = past_row h"
      by (simp_all add: export_rows_eq [of n infos h] cur)
    with rows Nil qinsert_new [OF new] show ?thesis by simp
  next
    case (Cons x xs)
    have r: "export_rows (n + 1) (qinsert (decimal n) (info_of r) infos) (past_row h) = (infos', h')"
      using less(3) by (subst (asm) export_rows_eq) (simp add: rows Cons cur)
    have "\<forall>k. decimal k \<in> dom (qlookup (qinsert (decimal n) (info_of r) infos)) \<longrightarrow> k < n + 1"
      using less(4) by (auto simp: less_Suc_eq)
    from less(1) [OF _ _ r this] show ?thesis using qinsert_new [OF new] by (simp add: rows Cons)
  qed
qed

text \<open>
  A start in export mode writes every row of the answer to the sheet exactly once (the order is that
  of the row numbers as texts), announces that it finished, and leaves the player where it was: no row
  and no timer. The result it returns is the one of an earlier start, not its own.
\<close>
theorem export_writes_every_row:
  assumes "h_valid h" and "getStatus h = Ready" and "run from until = Some (r # rs)"
    and "start run from until 1 h = (ok, es, h')"
  shows "\<exists>infos. [e \<leftarrow> es. \<forall>l s. e \<noteq> HStatus l s]
      = CreateSheet # map (\<lambda>i. InsertSheet (sheet_row i)) infos @ [StartFinished]
    \<and> mset infos = mset (map info_of (r # rs)) \<and> h_rows h' = [] \<and> \<not> h_timer h' \<and> ok = h_startResult h"
proof -
  let ?h = "h\<lparr>h_rows := r # rs\<rparr>"
  have stop: "stop h = ([], h)" and timer: "\<not> h_timer h"
    using assms(2) by (auto simp: stop_def getStatus_def split: if_splits)
  obtain infos h1 where x: "export_rows 0 [] ?h = (infos, h1)" by force
  have all: "mset (qvalues infos) = mset (map info_of (r # rs))" "h_rows h1 = []" "h_startResult h1 = h_startResult h"
    "h_timer h1 = h_timer h"
    using export_rows_all [OF _ x] by (simp_all add: qvalues_def)
  have es: "es = sendStatusOf Loading h @ (CreateSheet # map (\<lambda>i. InsertSheet (sheet_row i)) (qvalues infos) @ [StartFinished]) @ sendStatus h1" "ok = h_startResult h1" "h' = h1"
    using assms(1,3,4) stop x by (auto simp: start_def startInternal_def xlsExport_def onSentToXl_def Let_def)
  have "[e \<leftarrow> sendStatusOf st k. \<forall>l s. e \<noteq> HStatus l s] = []" for st and k :: "'a history"
    by (auto simp: sendStatusOf_def notify_def filter_empty_conv)
  then show ?thesis
    using all timer by (intro exI [of _ "qvalues infos"]) (simp add: es sendStatus_def)
qed

section \<open>Concrete players\<close>

text \<open>A connected player with one listener, 7, that plays the given rows.\<close>

definition player :: "bool \<Rightarrow> hrow list \<Rightarrow> nat history" where
  "player timer rows = \<lparr>h_valid = True, h_open = True, h_rows = rows, h_timer = timer, h_paused = False,
     h_startResult = False, h_lifeTime = 30000, h_lastDate = [], h_roles = [], h_known = [], h_listeners = [7]\<rparr>"

definition seen_at :: "int \<Rightarrow> int \<Rightarrow> hrow" where
  "seen_at i t = no_row\<lparr>hr_uavId := i, hr_datetime := Some t, hr_code := ''F''\<rparr>"

lemma listeners_follow_the_player_witness:
  "fold (see 7) (fst (obey_all [Start (\<lambda>a b. Some [seen_at 3 1000, seen_at 4 2500]) 0 9 0, Pause, Resume, Tick] (player False [])))
     ({}, Ready) = ({4}, Ready)"
proof -
  let ?cs = "[Start (\<lambda>a b. Some [seen_at 3 1000, seen_at 4 2500]) 0 9 0, Pause, Resume, Tick]"
  have k: "qkeys (h_known (snd (obey_all ?cs (player False [])))) = [4]" by code_simp
  have "dom (qlookup (h_known (snd (obey_all ?cs (player False []))))) = {4}"
    by (simp only: set_qkeys [symmetric] k) simp
  moreover have "getStatus (snd (obey_all ?cs (player False []))) = Ready" by code_simp
  ultimately show ?thesis
    using listeners_follow_the_player [of ?cs "player False []" "fst (obey_all ?cs (player False []))"
      "snd (obey_all ?cs (player False []))" 7]
    by (simp add: player_def getStatus_def del: obey_all.simps)
qed


lemma playback_ends_witness:
  "\<exists>n \<le> 3. getStatus (((\<lambda>h. snd (tick h)) ^^ n) (player True [seen_at 3 1000, seen_at 4 2500])) = Ready"
proof -
  have "getStatus (player True [seen_at 3 1000, seen_at 4 2500]) = Playing"
    "length (h_rows (player True [seen_at 3 1000, seen_at 4 2500])) + 1 = 3"
    by (simp_all add: player_def getStatus_def)
  then show ?thesis using playback_ends [of "player True [seen_at 3 1000, seen_at 4 2500]"] by simp
qed

lemma last_second_stays_on_display_witness:
  "getStatus (snd (tick (player True [seen_at 3 1000, seen_at 4 1500]))) = Ready
    \<and> set (qkeys (h_known (snd (tick (player True [seen_at 3 1000, seen_at 4 1500]))))) = {3, 4}"
  using last_second_stays_on_display [of "player True [seen_at 3 1000, seen_at 4 1500]" "seen_at 3 1000" "[seen_at 4 1500]" 7,
    OF _ _ _ _ prod.collapse [symmetric]]
  by (simp add: player_def getStatus_def seen_at_def second_of_def row_uav_def to_uint_def)

lemma short_recording_shows_a_ghost_witness:
  "\<exists>ok es h1. start (\<lambda>a b. Some [seen_at 3 1000]) 0 9 0 (player False []) = (ok, es, h1)
     \<and> set (updates_to 7 (fst (tick h1))) = {(info_of no_row, [])}"
proof -
  obtain ok es h1 where s: "start (\<lambda>a b. Some [seen_at 3 1000]) 0 9 0 (player False []) = (ok, es, h1)"
    by (metis prod_cases3)
  have "h_valid (player False [])" "getStatus (player False []) = Ready" "count_list (h_listeners (player False [])) 7 = 1"
    by (simp_all add: player_def getStatus_def)
  from short_recording_shows_a_ghost [OF this(1,2) _ _ this(3) s prod.collapse [symmetric]] s show ?thesis by auto
qed

lemma export_writes_every_row_witness:
  "\<exists>ok es h1 infos. start (\<lambda>a b. Some [seen_at 3 1000, seen_at 4 1000]) 0 9 1 (player False []) = (ok, es, h1)
     \<and> CreateSheet \<in> set es \<and> mset infos = {#info_of (seen_at 3 1000), info_of (seen_at 4 1000)#}"
proof -
  obtain ok es h1 where s: "start (\<lambda>a b. Some [seen_at 3 1000, seen_at 4 1000]) 0 9 1 (player False []) = (ok, es, h1)"
    by (metis prod_cases3)
  from export_writes_every_row [OF _ _ _ s] obtain infos
    where i: "[e \<leftarrow> es. \<forall>l s. e \<noteq> HStatus l s]
      = CreateSheet # map (\<lambda>i. InsertSheet (sheet_row i)) infos @ [StartFinished]"
      "mset infos = mset (map info_of [seen_at 3 1000, seen_at 4 1000])"
    by (auto simp: player_def getStatus_def)
  from i(1) have "CreateSheet \<in> set [e \<leftarrow> es. \<forall>l s. e \<noteq> HStatus l s]" by simp
  then have "CreateSheet \<in> set es" by simp
  with s i(2) show ?thesis by auto
qed

end
