(* ===== verification/PositionStream.thy ===== *)
theory PositionStream
  imports UavSamples
begin

text \<open>
  \<open>common/src/UAVDefines.h\<close>: how positions are built, copied and streamed. A \<open>QDataStream\<close> is the list
  of the values written to it; reading past its end gives zeros. The fields the sample storing does not
  use extend the records of \<open>UavSamples\<close>.
\<close>

section \<open>Full records\<close>

record Position = UAVPositionData +
  pd_device :: u32
  pd_altitudeGPS :: double
  pd_aSpeed :: double

record EnemyPosition = UAVPositionDataEnemy +
  en_altitudeStdDev :: double

text \<open>
  What a construction leaves open: the current date and time, and the memory of the two fields that
  neither constructor of \<open>UAVPositionData\<close> sets.
\<close>

record memory =
  mem_now :: qdatetime
  mem_altitudeGPS :: double
  mem_aSpeed :: double

definition new_position :: "memory \<Rightarrow> Position" where
  "new_position j = \<lparr>pd_boardID = 0, pd_latitude = Fin 0, pd_longitude = Fin 0, pd_altitude = Fin 0,
     pd_latitudeStddev = Fin 0, pd_longitudeStddev = Fin 0, pd_speed = Fin 0, pd_course = Fin 0,
     pd_frequency = Fin (- 1), pd_state = 0, pd_dateTime = mem_now j, pd_sourceType = 1,
     pd_device = 0, pd_altitudeGPS = mem_altitudeGPS j, pd_aSpeed = mem_aSpeed j\<rparr>"

text \<open>The copy constructor.\<close>

definition copy_position :: "memory \<Rightarrow> Position \<Rightarrow> Position" where
  "copy_position j p = p\<lparr>pd_altitudeGPS := mem_altitudeGPS j, pd_aSpeed := mem_aSpeed j\<rparr>"

text \<open>\<open>QVector\<close>: appending and replacing store a copy.\<close>

definition push_position :: "memory \<Rightarrow> Position list \<Rightarrow> Position \<Rightarrow> Position list" where
  "push_position j ps p = ps @ [copy_position j p]"

section \<open>Streams\<close>

datatype token =
    Tok16 u16
  | Tok32 u32
  | TokInt int
  | TokDouble double
  | TokDateTime qdatetime
  | TokTime qtime
  | TokPoint point
  | TokBool bool
  | TokDate int
  | TokText string
  | Tok64 u64

type_synonym stream = "token list"

fun get16 :: "stream \<Rightarrow> u16 \<times> stream" where
  "get16 (Tok16 w # ts) = (w, ts)"
| "get16 _ = (0, [])"

fun get32 :: "stream \<Rightarrow> u32 \<times> stream" where
  "get32 (Tok32 w # ts) = (w, ts)"
| "get32 _ = (0, [])"

fun get64 :: "stream \<Rightarrow> u64 \<times> stream" where
  "get64 (Tok64 w # ts) = (w, ts)"
| "get64 _ = (0, [])"

fun getInt :: "stream \<Rightarrow> int \<times> stream" where
  "getInt (TokInt i # ts) = (i, ts)"
| "getInt _ = (0, [])"

fun getDouble :: "stream \<Rightarrow> double \<times> stream" where
  "getDouble (TokDouble d # ts) = (d, ts)"
| "getDouble _ = (Fin 0, [])"

fun getDateTime :: "stream \<Rightarrow> qdatetime \<times> stream" where
  "getDateTime (TokDateTime d # ts) = (d, ts)"
| "getDateTime _ = ((0, 0), [])"

fun getTime :: "stream \<Rightarrow> qtime \<times> stream" where
  "getTime (TokTime t # ts) = (t, ts)"
| "getTime _ = (0, [])"

fun getPoint :: "stream \<Rightarrow> point \<times> stream" where
  "getPoint (TokPoint p # ts) = (p, ts)"
| "getPoint _ = ((Fin 0, Fin 0), [])"

fun getBool :: "stream \<Rightarrow> bool \<times> stream" where
  "getBool (TokBool b # ts) = (b, ts)"
| "getBool _ = (False, [])"

fun getDate :: "stream \<Rightarrow> int \<times> stream" where
  "getDate (TokDate d # ts) = (d, ts)"
| "getDate _ = (0, [])"

fun getText :: "stream \<Rightarrow> string \<times> stream" where
  "getText (TokText s # ts) = (s, ts)"
| "getText _ = ([], [])"

definition write_position :: "Position \<Rightarrow> stream" where
  "write_position p = [Tok16 (pd_boardID p), Tok32 (pd_device p),
     TokDouble (pd_latitude p), TokDouble (pd_longitude p),
     TokDouble (pd_altitude p), TokDouble (pd_altitudeGPS p),
     TokDouble (pd_speed p), TokDouble (pd_aSpeed p),
     TokDouble (pd_course p), TokDouble (pd_frequency p),
     Tok32 (pd_state p), TokDateTime (pd_dateTime p), Tok32 (pd_sourceType p)]"

definition read_position :: "Position \<Rightarrow> stream \<Rightarrow> Position \<times> stream" where
  "read_position p ts =
     (let (boardID, ts) = get16 ts;
          (device, ts) = get32 ts;
          (latitude, ts) = getDouble ts;
          (longitude, ts) = getDouble ts;
          (altitude, ts) = getDouble ts;
          (altitudeGPS, ts) = getDouble ts;
          (speed, ts) = getDouble ts;
          (aSpeed, ts) = getDouble ts;
          (course, ts) = getDouble ts;
          (frequency, ts) = getDouble ts;
          (state, ts) = get32 ts;
          (dateTime, ts) = getDateTime ts;
          (sourceType, ts) = get32 ts
      in (p\<lparr>pd_boardID := boardID, pd_device := device, pd_latitude := latitude, pd_longitude := longitude,
            pd_altitude := altitude, pd_altitudeGPS := altitudeGPS, pd_speed := speed, pd_aSpeed := aSpeed,
            pd_course := course, pd_frequency := frequency, pd_state := state, pd_dateTime := dateTime,
            pd_sourceType := sourceType\<rparr>, ts))"

definition write_enemy :: "EnemyPosition \<Rightarrow> stream" where
  "write_enemy p = [TokDouble (en_altitude p), TokDouble (en_altitudeStdDev p), TokDouble (en_speed p),
     TokDouble (en_course p), TokInt (en_state p), TokDouble (en_frequency p),
     TokTime (en_time p), TokPoint (en_latLonStdDev p), TokPoint (en_latLon p)]"

definition read_enemy :: "EnemyPosition \<Rightarrow> stream \<Rightarrow> EnemyPosition \<times> stream" where
  "read_enemy p ts =
     (let (altitude, ts) = getDouble ts;
          (altitudeStdDev, ts) = getDouble ts;
          (speed, ts) = getDouble ts;
          (course, ts) = getDouble ts;
          (state, ts) = getInt ts;
          (frequency, ts) = getDouble ts;
          (time, ts) = getTime ts;
          (latLonStdDev, ts) = getPoint ts;
          (latLon, ts) = getPoint ts
      in (p\<lparr>en_altitude := altitude, en_altitudeStdDev := altitudeStdDev, en_speed := speed, en_course := course,
            en_state := state, en_frequency := frequency, en_time := time, en_latLonStdDev := latLonStdDev,
            en_latLon := latLon\<rparr>, ts))"

text \<open>The default constructor of \<open>UAVPositionDataEnemy\<close>; a point is \<open>(0, 0)\<close> by default.\<close>

definition new_enemy :: "qtime \<Rightarrow> EnemyPosition" where
  "new_enemy now = \<lparr>en_altitude = Fin 0, en_speed = Fin 0, en_course = Fin 0, en_state = 0, en_frequency = Fin (- 1),
     en_time = now, en_latLonStdDev = (Fin 0, Fin 0), en_latLon = (Fin 0, Fin 0), en_sourceType = 0,
     en_altitudeStdDev = Fin 0\<rparr>"

text \<open>A vector is streamed as its size and its elements; reading assigns each element.\<close>

definition write_vector :: "('a \<Rightarrow> stream) \<Rightarrow> 'a list \<Rightarrow> stream" where
  "write_vector w xs = Tok32 (word_of_nat (length xs)) # concat (map w xs)"

fun read_elements :: "('a \<Rightarrow> stream \<Rightarrow> 'a \<times> stream) \<Rightarrow> 'a \<Rightarrow> nat \<Rightarrow> stream \<Rightarrow> 'a list \<times> stream" where
  "read_elements r d 0 ts = ([], ts)"
| "read_elements r d (Suc n) ts =
     (let (x, ts) = r d ts; (xs, ts) = read_elements r d n ts in (x # xs, ts))"

definition read_vector :: "('a \<Rightarrow> stream \<Rightarrow> 'a \<times> stream) \<Rightarrow> 'a \<Rightarrow> stream \<Rightarrow> 'a list \<times> stream" where
  "read_vector r d ts = (let (n, ts) = get32 ts in read_elements r d (unat n) ts)"

section \<open>Reading back\<close>

locale streamed =
  fixes w :: "'a \<Rightarrow> stream" and r :: "'a \<Rightarrow> stream \<Rightarrow> 'a \<times> stream" and kept :: "'a \<Rightarrow> 'a \<Rightarrow> 'a"
  assumes read_write: "r d (w x @ ts) = (kept d x, ts)"
begin

lemma read_elements_write: "read_elements r d (length xs) (concat (map w xs) @ ts) = (map (kept d) xs, ts)"
  by (induction xs) (simp_all add: read_write)

lemma read_vector_write:
  assumes "length xs < 2 ^ 32"
  shows "read_vector r d (write_vector w xs @ ts) = (map (kept d) xs, ts)"
proof -
  have "unat (word_of_nat (length xs) :: u32) = length xs"
    using assms by (simp add: unat_of_nat)
  then show ?thesis by (simp add: read_vector_def write_vector_def read_elements_write)
qed

end

definition kept_position :: "Position \<Rightarrow> Position \<Rightarrow> Position" where
  "kept_position d p = p\<lparr>pd_latitudeStddev := pd_latitudeStddev d, pd_longitudeStddev := pd_longitudeStddev d\<rparr>"

definition kept_enemy :: "EnemyPosition \<Rightarrow> EnemyPosition \<Rightarrow> EnemyPosition" where
  "kept_enemy d p = p\<lparr>en_sourceType := en_sourceType d\<rparr>"

interpretation position: streamed write_position read_position kept_position
  by unfold_locales (simp add: write_position_def read_position_def kept_position_def)

interpretation enemy: streamed write_enemy read_enemy kept_enemy
  by unfold_locales (simp add: write_enemy_def read_enemy_def kept_enemy_def)

text \<open>
  A vector of positions that is streamed reads back with the same positions, in order, and nothing
  left over, except for what the operators leave out: the standard deviations are 0 afterwards. A vector
  of enemy positions loses its source types the same way.
\<close>
theorem positions_stream_roundtrip:
  assumes "length ps < 2 ^ 32" and "length es < 2 ^ 32"
  shows "read_vector read_position (new_position j) (write_vector write_position ps) =
      (map (\<lambda>p. p\<lparr>pd_latitudeStddev := Fin 0, pd_longitudeStddev := Fin 0\<rparr>) ps, [])
    \<and> read_vector read_enemy (new_enemy t) (write_vector write_enemy es) = (map (\<lambda>e. e\<lparr>en_sourceType := 0\<rparr>) es, [])"
  using position.read_vector_write [OF assms(1), of "new_position j" "[]"]
    enemy.read_vector_write [OF assms(2), of "new_enemy t" "[]"]
  by (simp add: kept_position_def [abs_def] kept_enemy_def [abs_def] new_position_def new_enemy_def)

definition some_memory :: memory where
  "some_memory = \<lparr>mem_now = (20000, 0), mem_altitudeGPS = Fin 7, mem_aSpeed = NaN\<rparr>"

lemma positions_stream_roundtrip_witness:
  "fst (read_vector read_position (new_position some_memory)
     (write_vector write_position [(new_position some_memory)\<lparr>pd_latitude := Fin 60, pd_latitudeStddev := Fin 3\<rparr>]))
   = [(new_position some_memory)\<lparr>pd_latitude := Fin 60\<rparr>]"
  using positions_stream_roundtrip [of "[(new_position some_memory)\<lparr>pd_latitude := Fin 60, pd_latitudeStddev := Fin 3\<rparr>]"
    "[]" some_memory 0]
  by (simp add: new_position_def)

end
