(* ===== verification/IeeeDouble.thy ===== *)
theory IeeeDouble
  imports Prelude
begin

text \<open>
  The arithmetic of \<open>double\<close>: every operation is exact on the rational values and then rounded to 53
  significant bits, to even on a tie, with subnormal numbers below \<open>2 ^ (- 1022)\<close> and an infinity from
  \<open>2 ^ 1024\<close> on. The sign of zero is not kept.
\<close>

section \<open>Rounding\<close>

definition pow2 :: "int \<Rightarrow> rat" where
  "pow2 e = (if 0 \<le> e then of_int (2 ^ nat e) else 1 / of_int (2 ^ nat (- e)))"

function bit_length :: "int \<Rightarrow> nat" where
  "bit_length n = (if n \<le> 0 then 0 else Suc (bit_length (n div 2)))"
  by pat_completeness auto
termination
  by (relation "measure nat") auto

declare bit_length.simps [simp del]

text \<open>The exponent of a positive number: the power of two at or below it.\<close>

definition exponent :: "rat \<Rightarrow> int" where
  "exponent q =
     (let (a, b) = quotient_of q; e = int (bit_length a) - int (bit_length b)
      in if pow2 e \<le> q then e else e - 1)"

definition round_half_even :: "rat \<Rightarrow> int" where
  "round_half_even q =
     (let f = \<lfloor>q\<rfloor>; d = q - of_int f
      in if d < 1 / 2 then f else if d > 1 / 2 then f + 1 else if even f then f else f + 1)"

definition dround :: "rat \<Rightarrow> double" where
  "dround q =
     (if q = 0 then Fin 0
      else
        let u = pow2 (max (exponent \<bar>q\<bar>) (- 1022) - 52);
            r = of_int (round_half_even (\<bar>q\<bar> / u)) * u
        in if 1023 \<le> exponent \<bar>q\<bar> \<and> pow2 1024 \<le> r then (if q < 0 then NegInf else PosInf) else Fin (if q < 0 then - r else r))"

section \<open>Operations\<close>

fun d_neg :: "double \<Rightarrow> double" where
  "d_neg (Fin a) = Fin (- a)"
| "d_neg PosInf = NegInf"
| "d_neg NegInf = PosInf"
| "d_neg NaN = NaN"

fun d_add :: "double \<Rightarrow> double \<Rightarrow> double" where
  "d_add (Fin a) (Fin b) = dround (a + b)"
| "d_add NaN _ = NaN"
| "d_add _ NaN = NaN"
| "d_add PosInf NegInf = NaN"
| "d_add NegInf PosInf = NaN"
| "d_add PosInf _ = PosInf"
| "d_add NegInf _ = NegInf"
| "d_add _ x = x"

definition d_signed :: "bool \<Rightarrow> double \<Rightarrow> double" where
  "d_signed neg x = (if neg then d_neg x else x)"

definition d_negative :: "double \<Rightarrow> bool" where
  "d_negative x = d_less x (Fin 0)"

fun d_mul :: "double \<Rightarrow> double \<Rightarrow> double" where
  "d_mul (Fin a) (Fin b) = dround (a * b)"
| "d_mul NaN _ = NaN"
| "d_mul _ NaN = NaN"
| "d_mul x y = (if d_eq x (Fin 0) \<or> d_eq y (Fin 0) then NaN else d_signed (d_negative x \<noteq> d_negative y) PosInf)"

text \<open>A division by zero takes the sign of the dividend, as for a positive zero.\<close>

fun d_div :: "double \<Rightarrow> double \<Rightarrow> double" where
  "d_div (Fin a) (Fin b) =
     (if b = 0 then (if a = 0 then NaN else d_signed (a < 0) PosInf) else dround (a / b))"
| "d_div NaN _ = NaN"
| "d_div _ NaN = NaN"
| "d_div (Fin a) _ = Fin 0"
| "d_div x (Fin b) = d_signed (d_negative x \<noteq> (b < 0)) PosInf"
| "d_div _ _ = NaN"

definition d_of_int :: "int \<Rightarrow> double" where
  "d_of_int i = dround (of_int i)"

section \<open>The error of a rounding\<close>

lemma pow2_powi: "pow2 e = 2 powi e"
  by (simp add: pow2_def power_int_def inverse_eq_divide power_one_over)

lemma pow2_pos [simp]: "0 < pow2 e"
  by (simp add: pow2_def)

lemma pow2_add: "pow2 (a + b) = pow2 a * pow2 b"
  by (simp add: pow2_powi power_int_add)

lemma pow2_diff: "pow2 (a - b) = pow2 a / pow2 b"
  by (simp add: pow2_powi power_int_diff)

lemma pow2_mono: "a \<le> b \<Longrightarrow> pow2 a \<le> pow2 b"
  by (simp add: pow2_powi power_int_increasing)

lemma pow2_less_iff: "pow2 a < pow2 b \<longleftrightarrow> a < b"
proof
  show "a < b" if "pow2 a < pow2 b"
    using that pow2_mono [of b a] by (metis linorder_not_less)
  show "pow2 a < pow2 b" if "a < b"
    using that by (simp add: pow2_powi power_int_strict_increasing)
qed

lemma pow2_nat: "pow2 (int n) = 2 ^ n"
  by (simp add: pow2_def)

lemma bit_length_bounds: "0 < n \<Longrightarrow> 2 ^ (bit_length n - 1) \<le> n \<and> n < 2 ^ bit_length n \<and> 0 < bit_length n"
proof (induction n rule: bit_length.induct)
  case (1 n)
  show ?case
  proof (cases "n = 1")
    case True
    then show ?thesis by (simp add: bit_length.simps)
  next
    case False
    with 1 have ih: "2 ^ (bit_length (n div 2) - 1) \<le> n div 2" "n div 2 < 2 ^ bit_length (n div 2)" "0 < bit_length (n div 2)"
      by auto
    have bl: "bit_length n = Suc (bit_length (n div 2))" using 1(2) by (subst bit_length.simps) simp
    obtain k where k: "bit_length (n div 2) = Suc k" using ih(3) by (cases "bit_length (n div 2)") auto
    have "2 * 2 ^ k \<le> n" using ih(1) k by simp
    moreover have "n < 2 * 2 ^ Suc k" using ih(2) k by simp
    ultimately show ?thesis by (simp add: bl k)
  qed
qed

lemma bit_length_int:
  assumes "0 < a"
  shows "pow2 (int (bit_length a) - 1) \<le> of_int a" and "of_int a < pow2 (int (bit_length a))"
proof -
  let ?l = "bit_length a"
  note l = bit_length_bounds [OF assms]
  have e: "int ?l - 1 = int (?l - 1)" using l by auto
  have "pow2 (int ?l - 1) = of_int (2 ^ (?l - 1))" "pow2 (int ?l) = of_int (2 ^ ?l)"
    unfolding e pow2_nat by simp_all
  moreover have "(of_int (2 ^ (?l - 1)) :: rat) \<le> of_int a" by (rule of_int_le_iff [THEN iffD2], use l in blast)
  moreover have "(of_int a :: rat) < of_int (2 ^ ?l)" by (rule of_int_less_iff [THEN iffD2], use l in blast)
  ultimately show "pow2 (int ?l - 1) \<le> of_int a" "of_int a < pow2 (int ?l)" by simp_all
qed

lemma exponent_bounds:
  assumes "0 < q"
  shows "pow2 (exponent q) \<le> q \<and> q < pow2 (exponent q + 1)"
proof -
  obtain a b where ab: "quotient_of q = (a, b)" by force
  then have b: "0 < b" and q: "q = of_int a / of_int b" by (auto simp: quotient_of_denom_pos quotient_of_div)
  with assms have a: "0 < a" by (simp add: zero_less_divide_iff)
  define la lb where "la = bit_length a" and "lb = bit_length b"
  note A = bit_length_int [OF a, folded la_def] and B = bit_length_int [OF b, folded lb_def]
  let ?e = "int la - int lb"
  have up: "q < pow2 (?e + 1)"
  proof -
    have "q * pow2 (int lb - 1) \<le> q * of_int b" using assms B(1) by (simp add: mult_left_mono)
    also have "\<dots> = of_int a" using b by (simp add: q)
    also have "\<dots> < pow2 (int la)" by (rule A(2))
    finally have "q < pow2 (int la) / pow2 (int lb - 1)" by (simp add: field_simps)
    then show ?thesis by (simp flip: pow2_diff add: algebra_simps)
  qed
  have low: "pow2 (?e - 1) \<le> q"
  proof -
    have "pow2 (int la - 1) \<le> q * of_int b" using A(1) b by (simp add: q)
    also have "\<dots> \<le> q * pow2 (int lb)" using assms B(2) by (simp add: mult_left_mono)
    finally have "pow2 (int la - 1) / pow2 (int lb) \<le> q" by (simp add: field_simps)
    then show ?thesis by (simp flip: pow2_diff add: algebra_simps)
  qed
  have "exponent q = (if pow2 ?e \<le> q then ?e else ?e - 1)"
    by (simp add: exponent_def ab la_def lb_def Let_def)
  with up low show ?thesis by auto
qed

lemma round_half_even_error: "\<bar>of_int (round_half_even q) - q\<bar> \<le> 1 / 2"
  using floor_correct [of q] by (auto simp: round_half_even_def Let_def abs_le_iff)

lemma dround_error:
  assumes "\<bar>q\<bar> \<le> pow2 k" and "- 1022 \<le> k" and "k \<le> 1022"
  shows "\<exists>r. dround q = Fin r \<and> \<bar>r - q\<bar> \<le> pow2 (k - 53)"
proof (cases "q = 0")
  case True
  then show ?thesis by (simp add: dround_def less_imp_le)
next
  case False
  define e where "e = max (exponent \<bar>q\<bar>) (- 1022)"
  define u where "u = pow2 (e - 52)"
  define r where "r = of_int (round_half_even (\<bar>q\<bar> / u)) * u"
  have u: "0 < u" by (simp add: u_def)
  have "pow2 (exponent \<bar>q\<bar>) \<le> pow2 k" using exponent_bounds [of "\<bar>q\<bar>"] False assms(1) by auto
  then have "exponent \<bar>q\<bar> \<le> k" by (metis linorder_not_less pow2_less_iff)
  with assms(2) have e: "e \<le> k" by (simp add: e_def)
  have "\<bar>r - \<bar>q\<bar>\<bar> = \<bar>of_int (round_half_even (\<bar>q\<bar> / u)) - \<bar>q\<bar> / u\<bar> * u"
    using u by (simp add: r_def abs_mult [symmetric] field_simps)
  also have "\<dots> \<le> 1 / 2 * u" using round_half_even_error u by (intro mult_right_mono) auto
  also have "\<dots> = pow2 (e - 53)" using pow2_add [of "e - 53" 1] by (simp add: u_def pow2_def [of 1])
  also have "\<dots> \<le> pow2 (k - 53)" using e by (intro pow2_mono) simp
  finally have err: "\<bar>r - \<bar>q\<bar>\<bar> \<le> pow2 (k - 53)" .
  have "r \<le> pow2 k + pow2 (k - 53)" using err assms(1) by linarith
  also have "\<dots> \<le> pow2 k + pow2 k" using pow2_mono [of "k - 53" k] by simp
  also have "\<dots> = pow2 (k + 1)" by (simp add: pow2_add pow2_def [of 1])
  also have "\<dots> < pow2 1024" using assms(3) by (simp add: pow2_less_iff)
  finally have "\<not> pow2 1024 \<le> r" by simp
  then have "dround q = Fin (if q < 0 then - r else r)"
    using False by (simp add: dround_def r_def u_def e_def Let_def)
  moreover have "\<bar>(if q < 0 then - r else r) - q\<bar> \<le> pow2 (k - 53)" using err by (auto simp: abs_if split: if_splits)
  ultimately show ?thesis by blast
qed

text \<open>The same with numbers, for the magnitudes of angles.\<close>

lemma dround_512:
  assumes "x \<le> 512" and "- 512 \<le> x"
  obtains r where "dround x = Fin r" and "r - x \<le> 1 / 17592186044416" and "x - r \<le> 1 / 17592186044416"
proof -
  have p: "pow2 9 = 512" "pow2 (9 - 53) = 1 / 17592186044416" by (simp_all add: pow2_def)
  from assms have "\<bar>x\<bar> \<le> pow2 9" unfolding p by (simp add: abs_le_iff)
  from dround_error [OF this] obtain r where r: "dround x = Fin r" "\<bar>r - x\<bar> \<le> pow2 (9 - 53)" by auto
  from r(2) have "r - x \<le> 1 / 17592186044416 \<and> x - r \<le> 1 / 17592186044416"
    unfolding p by (simp only: abs_le_iff minus_diff_eq)
  with r(1) show ?thesis using that by blast
qed

text \<open>Small integers are exact.\<close>

lemma round_half_even_of_int [simp]: "round_half_even (of_int i) = i"
  by (simp add: round_half_even_def)

lemma d_of_int_exact:
  assumes "\<bar>i\<bar> < 2 ^ 53"
  shows "d_of_int i = Fin (of_int i)"
proof (cases "i = 0")
  case True
  then show ?thesis by (simp add: d_of_int_def dround_def)
next
  case False
  let ?m = "\<bar>of_int i :: rat\<bar>"
  have m: "0 < ?m" using False by simp
  note e = exponent_bounds [OF m]
  have m53: "?m < pow2 53"
  proof -
    have "(of_int \<bar>i\<bar> :: rat) < of_int (2 ^ 53)" using assms by (simp only: of_int_less_iff)
    then show ?thesis by (simp add: pow2_def)
  qed
  then have "pow2 (exponent ?m) < pow2 53" using e by linarith
  then have e52: "exponent ?m \<le> 52" by (simp add: pow2_less_iff)
  have "(1 :: rat) \<le> of_int \<bar>i\<bar>" using False by linarith
  then have "pow2 0 < pow2 (exponent ?m + 1)" using e by (simp add: pow2_def [of 0])
  then have e0: "0 \<le> exponent ?m" by (simp add: pow2_less_iff)
  define k where "k = nat (52 - exponent ?m)"
  have u: "pow2 (exponent ?m - 52) = 1 / 2 ^ k"
    using e52 by (simp add: pow2_def k_def)
  have "?m / pow2 (exponent ?m - 52) = of_int (\<bar>i\<bar> * 2 ^ k)" by (simp add: u)
  then have r: "of_int (round_half_even (?m / pow2 (exponent ?m - 52))) * pow2 (exponent ?m - 52) = ?m"
    by (simp only: round_half_even_of_int u) simp
  have "\<not> pow2 1024 \<le> ?m" using m53 pow2_mono [of 53 1024] by linarith
  moreover have "max (exponent ?m) (- 1022) = exponent ?m" using e0 by simp
  ultimately have "dround (of_int i) = Fin (if (of_int i :: rat) < 0 then - ?m else ?m)"
    using False by (simp only: dround_def Let_def r of_int_eq_0_iff if_False simp_thms)
  then show ?thesis by (simp add: d_of_int_def abs_if split: if_splits)
qed

section \<open>Conversions and texts\<close>

text \<open>A double as \<open>int\<close>; \<open>None\<close> when it is out of the range of \<open>int\<close>.\<close>

definition d_to_int :: "double \<Rightarrow> int option" where
  "d_to_int x = (case x of
     Fin q \<Rightarrow> (let i = rat_trunc q in if - (2 ^ 31) \<le> i \<and> i < 2 ^ 31 then Some i else None)
   | _ \<Rightarrow> None)"

definition number_int :: "int \<Rightarrow> string" where
  "number_int i = (if i < 0 then CHR ''-'' # decimal (nat (- i)) else decimal (nat i))"

text \<open>A number with \<open>k\<close> decimals, as \<open>printf\<close> rounds it.\<close>

definition padded :: "nat \<Rightarrow> nat \<Rightarrow> string" where
  "padded k n = replicate (k - length (decimal n)) (CHR ''0'') @ decimal n"

definition fixed :: "nat \<Rightarrow> rat \<Rightarrow> string" where
  "fixed k q =
     (let n = nat (round_half_even (\<bar>q\<bar> * 10 ^ k))
      in (if q < 0 then ''-'' else []) @ decimal (n div 10 ^ k) @ ''.'' @ padded k (n mod 10 ^ k))"

definition number_fixed :: "nat \<Rightarrow> double \<Rightarrow> string" where
  "number_fixed k x = (case x of Fin q \<Rightarrow> fixed k q | PosInf \<Rightarrow> ''inf'' | NegInf \<Rightarrow> ''-inf'' | NaN \<Rightarrow> ''nan'')"

end
