(* ===== verification/KtrCoder.thy ===== *)
theory KtrCoder
  imports PositionStream IeeeDouble
begin

text \<open>
  \<open>TcpKTRCoder\<close> (\<open>server/core/TCP/TcpKTRCoder.cpp\<close>): the messages of the KTR device and of its boards
  are decoded into messages of the server, its requests are encoded. Texts are read byte by byte.
  \<open>None\<close> stands for an access out of the range of a list or an array.
\<close>

section \<open>Texts\<close>

text \<open>\<open>QString(data.constData())\<close>: up to the first zero byte.\<close>

definition text_of :: "u8 list \<Rightarrow> string" where
  "text_of d = map (\<lambda>b. char_of (unat b)) (takeWhile (\<lambda>b. b \<noteq> 0) d)"

definition ascii :: "string \<Rightarrow> u8 list" where
  "ascii s = map (\<lambda>c. word_of_nat (of_char c)) s"

text \<open>\<open>QString::split\<close> at a separator that is not empty; \<open>k\<close> characters of it are still to skip.\<close>

fun split_from :: "string \<Rightarrow> nat \<Rightarrow> string \<Rightarrow> string \<Rightarrow> string list" where
  "split_from sep k acc [] = [rev acc]"
| "split_from sep k acc (c # cs) =
     (if 0 < k then split_from sep (k - 1) acc cs
      else if take (length sep) (c # cs) = sep then rev acc # split_from sep (length sep - 1) [] cs
      else split_from sep 0 (c # acc) cs)"

definition text_split :: "string \<Rightarrow> string \<Rightarrow> string list" where
  "text_split sep s = split_from sep 0 [] s"

text \<open>A separator of one character.\<close>

lemma split_from_none:
  assumes "c \<notin> set s"
  shows "split_from [c] 0 acc s = [rev acc @ s]"
  using assms by (induction s arbitrary: acc) auto

lemma split_from_first:
  assumes "c \<notin> set s"
  shows "split_from [c] 0 acc (s @ c # t) = (rev acc @ s) # split_from [c] 0 [] t"
  using assms by (induction s arbitrary: acc) auto

lemma text_split_none: "c \<notin> set s \<Longrightarrow> text_split [c] s = [s]"
  by (simp add: text_split_def split_from_none)

lemma text_split_first: "c \<notin> set s \<Longrightarrow> text_split [c] (s @ c # t) = s # text_split [c] t"
  by (simp add: text_split_def split_from_first)

definition text_contains :: "string \<Rightarrow> string \<Rightarrow> bool" where
  "text_contains t s \<longleftrightarrow> (\<exists>i \<in> set [0..<Suc (length s)]. take (length t) (drop i s) = t)"

text \<open>\<open>QList::at\<close>.\<close>

definition element_at :: "'a list \<Rightarrow> nat \<Rightarrow> 'a option" where
  "element_at xs i = (if i < length xs then Some (xs ! i) else None)"

section \<open>Numbers in texts\<close>

definition is_space :: "char \<Rightarrow> bool" where
  "is_space c \<longleftrightarrow> of_char c \<in> {9, 10, 11, 12, 13, 32 :: nat}"

definition trimmed :: "string \<Rightarrow> string" where
  "trimmed s = rev (dropWhile is_space (rev (dropWhile is_space s)))"

definition is_digit :: "char \<Rightarrow> bool" where
  "is_digit c \<longleftrightarrow> char_digit c \<noteq> None"

text \<open>An optional sign.\<close>

definition sign_of :: "string \<Rightarrow> bool \<times> string" where
  "sign_of s = (case s of
     [] \<Rightarrow> (False, [])
   | c # cs \<Rightarrow> if c = CHR ''-'' then (True, cs) else if c = CHR ''+'' then (False, cs) else (False, s))"

definition natural :: "string \<Rightarrow> nat option" where
  "natural s = (if s = [] then None else read_digits 0 s)"

definition integer :: "string \<Rightarrow> int option" where
  "integer s = (let (neg, s) = sign_of s in map_option (\<lambda>n. if neg then - int n else int n) (natural s))"

text \<open>\<open>QString::toInt\<close>: 0 for a text that is no number or out of range.\<close>

definition text_toInt :: "string \<Rightarrow> int" where
  "text_toInt s = (case integer (trimmed s) of
     None \<Rightarrow> 0
   | Some i \<Rightarrow> if - (2 ^ 31) \<le> i \<and> i < 2 ^ 31 then i else 0)"

text \<open>\<open>QString::toDouble\<close>: digits with a fraction and an exponent, correctly rounded.\<close>

definition mantissa :: "string \<Rightarrow> rat option" where
  "mantissa s =
     (let whole = takeWhile is_digit s; rest = dropWhile is_digit s
      in if rest = [] then (if whole = [] then None else map_option of_nat (read_digits 0 whole))
         else if hd rest = CHR ''.'' \<and> list_all is_digit (tl rest) \<and> (whole \<noteq> [] \<or> tl rest \<noteq> [])
           then map_option (\<lambda>n. of_nat n / 10 ^ length (tl rest)) (read_digits 0 (whole @ tl rest))
         else None)"

definition is_exponent_mark :: "char \<Rightarrow> bool" where
  "is_exponent_mark c \<longleftrightarrow> c = CHR ''e'' \<or> c = CHR ''E''"

definition scale10 :: "int \<Rightarrow> rat" where
  "scale10 e = (if 0 \<le> e then 10 ^ nat e else 1 / 10 ^ nat (- e))"

definition unsigned_double :: "string \<Rightarrow> double option" where
  "unsigned_double s =
     (if s = ''nan'' then Some NaN
      else if s = ''inf'' then Some PosInf
      else
        let m = takeWhile (\<lambda>c. \<not> is_exponent_mark c) s; rest = dropWhile (\<lambda>c. \<not> is_exponent_mark c) s
        in case (mantissa m, if rest = [] then Some 0 else integer (tl rest)) of
             (Some q, Some e) \<Rightarrow> Some (dround (q * scale10 e))
           | _ \<Rightarrow> None)"

definition text_toDouble :: "string \<Rightarrow> double" where
  "text_toDouble s =
     (let (neg, t) = sign_of (trimmed s)
      in case unsigned_double t of None \<Rightarrow> Fin 0 | Some d \<Rightarrow> if neg then d_neg d else d)"

section \<open>Messages\<close>

definition TCP_KTR_ANSWER_BOARD_LIST :: string where "TCP_KTR_ANSWER_BOARD_LIST = ''tcpKtrAnswerBoardList''"
definition TCP_KTR_REQUEST_GET_BOARD_LIST :: string where "TCP_KTR_REQUEST_GET_BOARD_LIST = ''tcpKtrRequestGetBoardList''"
definition TCP_KTR_ANSWER_BPLA :: string where "TCP_KTR_ANSWER_BPLA = ''tcpKtrAnswerBpla''"
definition TCP_KTR_REQUEST_COMMAND_TO_BPLA :: string where "TCP_KTR_REQUEST_COMMAND_TO_BPLA = ''tcpKtrRequestCommandToBpla''"
definition TCP_KTR_ANSWER_CONNECTION_STATUS :: string where "TCP_KTR_ANSWER_CONNECTION_STATUS = ''tcpKtrAnswerConnectionStatus''"
definition TCP_EMPTY_MESSAGE :: string where "TCP_EMPTY_MESSAGE = ''tcpEmptyMessage''"

lemmas ktr_names = TCP_KTR_ANSWER_BOARD_LIST_def TCP_KTR_REQUEST_GET_BOARD_LIST_def TCP_KTR_ANSWER_BPLA_def
  TCP_KTR_REQUEST_COMMAND_TO_BPLA_def TCP_KTR_ANSWER_CONNECTION_STATUS_def TCP_EMPTY_MESSAGE_def

record message =
  msg_type :: string
  msg_data :: stream

record ktr_coder =
  kc_altitude :: double
  kc_speed :: double

definition ktr_init :: ktr_coder where
  "ktr_init = \<lparr>kc_altitude = Fin 0, kc_speed = Fin 0\<rparr>"

definition empty_message :: message where
  "empty_message = \<lparr>msg_type = TCP_EMPTY_MESSAGE, msg_data = []\<rparr>"

definition positions_message :: "Position list \<Rightarrow> message" where
  "positions_message ps = \<lparr>msg_type = TCP_KTR_ANSWER_BPLA, msg_data = write_vector write_position ps\<rparr>"

section \<open>Board positions\<close>

text \<open>The byte at an index as \<open>unsigned\<close> and as \<open>char\<close>; two bytes as a number of the given kind.\<close>

definition byte :: "u8 list \<Rightarrow> nat \<Rightarrow> int" where
  "byte d i = uint (d ! i)"

definition char_at :: "u8 list \<Rightarrow> nat \<Rightarrow> int" where
  "char_at d i = sint (d ! i)"

definition unsigned2 :: "u8 list \<Rightarrow> nat \<Rightarrow> int" where
  "unsigned2 d i = byte d i * 256 + byte d (i + 1)"

definition signed2 :: "u8 list \<Rightarrow> nat \<Rightarrow> int" where
  "signed2 d i = char_at d i * 256 + byte d (i + 1)"

definition unsigned3 :: "u8 list \<Rightarrow> nat \<Rightarrow> int" where
  "unsigned3 d i = (byte d i * 256 + byte d (i + 1)) * 256 + byte d (i + 2)"

text \<open>Degrees, minutes and thousandths of a minute as one decimal number, made degrees.\<close>

definition angle_of :: "int \<Rightarrow> double" where
  "angle_of v =
     (let deg = v div 100000;
          min = (v - deg * 100000) div 1000;
          minParts = v - deg * 100000 - min * 1000
      in d_add (d_div (d_add (d_div (d_of_int minParts) (d_of_int 1000)) (d_of_int min)) (d_of_int 60)) (d_of_int deg))"

definition parseLocationFromBoard :: "(nat \<Rightarrow> memory) \<Rightarrow> u8 list \<Rightarrow> ktr_coder \<Rightarrow> message" where
  "parseLocationFromBoard j d k =
     (let latitude = angle_of (unsigned3 d 2);
          longitude = angle_of (unsigned3 d 5);
          gSpeed = d_mul (d_div (d_of_int (unsigned2 d 8)) (d_of_int 10)) (dround (18 / 10));
          gCourse = d_div (d_of_int (unsigned2 d 10)) (d_of_int 10);
          gHeight = signed2 d 12;
          p = (new_position (j 0))\<lparr>pd_latitude := latitude, pd_longitude := longitude,
                pd_altitude := kc_altitude k, pd_altitudeGPS := d_of_int gHeight, pd_speed := gSpeed,
                pd_aSpeed := kc_speed k, pd_course := gCourse, pd_sourceType := 1\<rparr>
      in positions_message (push_position (j 1) [] p))"

section \<open>Positions of the KTR\<close>

text \<open>One coordinate \<open>deg*min'sec\<close>; the seconds are cleaned by the given function.\<close>

definition coordinate :: "(string \<Rightarrow> string) \<Rightarrow> string \<Rightarrow> double option" where
  "coordinate clean s =
     (let tmp1 = text_split ''*'' s; deg = text_toDouble (hd tmp1)
      in case element_at tmp1 1 of
           None \<Rightarrow> None
         | Some t \<Rightarrow>
             let tmp2 = text_split [CHR 0x27] t; min = text_toDouble (hd tmp2)
             in case element_at tmp2 1 of
                  None \<Rightarrow> None
                | Some u \<Rightarrow>
                    let sec = text_toDouble (clean (hd (text_split [CHR 0x27] u)))
                    in Some (d_add (d_div (d_add (d_div sec (d_of_int 60)) min) (d_of_int 60)) deg))"

definition remove_quotes :: "string \<Rightarrow> string" where
  "remove_quotes s = filter (\<lambda>c. c \<noteq> CHR 0x22) s"

definition ktr_point :: "string \<Rightarrow> (double \<times> double) option" where
  "ktr_point f =
     (case element_at (text_split ''{'' f) 1 of
        None \<Rightarrow> None
      | Some f \<Rightarrow>
          let l33 = text_split ''|'' (filter (\<lambda>c. c \<noteq> CHR ''}'') f)
          in case coordinate remove_quotes (hd l33) of
               None \<Rightarrow> None
             | Some lat \<Rightarrow>
                 (case element_at l33 1 of
                    None \<Rightarrow> None
                  | Some lon \<Rightarrow> map_option (\<lambda>lon. (lat, lon)) (coordinate butlast lon)))"

fun ktr_points :: "(nat \<Rightarrow> memory) \<Rightarrow> string list \<Rightarrow> nat \<Rightarrow> nat \<Rightarrow> Position list \<Rightarrow> Position list option" where
  "ktr_points j dl3 i 0 ps = Some ps"
| "ktr_points j dl3 i (Suc n) ps =
     (case element_at dl3 (i + 2) of
        None \<Rightarrow> None
      | Some f \<Rightarrow>
          (case ktr_point f of
             None \<Rightarrow> None
           | Some (lat, lon) \<Rightarrow>
               ktr_points j dl3 (i + 1) n
                 (push_position (j (2 * i + 1)) ps
                   ((new_position (j (2 * i)))\<lparr>pd_latitude := lat, pd_longitude := lon, pd_sourceType := 622\<rparr>))))"

definition parseLocationFromKTR :: "(nat \<Rightarrow> memory) \<Rightarrow> u8 list \<Rightarrow> message option" where
  "parseLocationFromKTR j d =
     (case element_at (text_split ''$KTPGA,'' (text_of d)) 1 of
        None \<Rightarrow> None
      | Some ddt \<Rightarrow>
          let dl3 = text_split '','' (hd (text_split ''END'' ddt))
          in case element_at dl3 1 of
               None \<Rightarrow> None
             | Some data2 \<Rightarrow>
                 let n = text_toInt (butlast data2); n = (if n > 2 then 1 else n)
                 in map_option positions_message (ktr_points j dl3 0 (nat n) []))"

section \<open>The list of boards\<close>

definition board_id :: "u8 list \<Rightarrow> nat \<Rightarrow> u16 option" where
  "board_id d i =
     (if 3 + i * 24 < length d
      then Some (word_of_int (byte d (3 + i * 24) * 256 + byte d (2 + i * 24)))
      else None)"

fun board_ids :: "u8 list \<Rightarrow> nat \<Rightarrow> nat \<Rightarrow> u16 list option" where
  "board_ids d i 0 = Some []"
| "board_ids d i (Suc n) =
     (case board_id d i of
        None \<Rightarrow> None
      | Some b \<Rightarrow> map_option (\<lambda>bs. b # bs) (board_ids d (i + 1) n))"

definition boards_message :: "u16 list \<Rightarrow> message" where
  "boards_message ids = \<lparr>msg_type = TCP_KTR_ANSWER_BOARD_LIST, msg_data = write_vector (\<lambda>i. [Tok16 i]) ids\<rparr>"

text \<open>The number of boards is read as a \<open>char\<close>.\<close>

definition parseBoardList :: "u8 list \<Rightarrow> message option" where
  "parseBoardList d =
     (let d = drop 12 d
      in if d = [] then None
         else map_option boards_message (board_ids d 0 (nat (char_at d 0))))"

section \<open>Incoming and outgoing messages\<close>

definition is_ktr_text :: "u8 list \<Rightarrow> bool" where
  "is_ktr_text d \<longleftrightarrow>
     (let dl1 = text_split ''$KTPGA,'' (text_of d) in 1 < length dl1 \<and> text_contains ''END'' (dl1 ! 1))"

definition encode :: "(nat \<Rightarrow> memory) \<Rightarrow> u8 list \<Rightarrow> ktr_coder \<Rightarrow> message option \<times> ktr_coder" where
  "encode j d k =
     (if is_ktr_text d then (parseLocationFromKTR j d, k)
      else if take 12 d = ascii ''control link'' then (parseBoardList d, k)
      else if length d < 10 then (Some empty_message, k)
      else if length d \<ge> 15 \<and> d ! 0 = 65 \<and> d ! 1 = 71 then (Some (parseLocationFromBoard j d k), k)
      else if length d \<ge> 15 \<and> d ! 1 = 78
        then (Some empty_message, k\<lparr>kc_altitude := d_of_int (signed2 d 8), kc_speed := d_of_int (byte d 10)\<rparr>)
      else (Some empty_message, k))"

definition decode :: "message \<Rightarrow> u8 list" where
  "decode m =
     (let command = ''user link command ''
      in if msg_type m = TCP_KTR_REQUEST_GET_BOARD_LIST then ascii (command @ ''ctrl'')
         else if msg_type m = TCP_KTR_REQUEST_COMMAND_TO_BPLA
           then let (id, ts) = get16 (msg_data m); (dev, ts) = get32 ts
                in ascii (command @ ''b'' @ decimal (unat id) @ ''d'' @ decimal (unat dev))
         else ascii command)"

end
