(* ===== verification/KtrManager.thy ===== *)
theory KtrManager
  imports KtrCoder
begin

text \<open>
  \<open>TcpKTRManager\<close> (\<open>server/core/TCP/TcpKTRManager.cpp\<close>): one controller and one life timer per board
  and device of a KTR, both under the same key, \<open>host:port:board:device\<close>. A controller is what its
  constructor and \<open>connectToHost\<close> were given; what is asked of controllers and timers is the list of
  events an operation returns. \<open>None\<close> stands for the use of a null pointer or of a list out of range.
\<close>

section \<open>State\<close>

definition MAX_LIFE_TIME :: int where "MAX_LIFE_TIME = 300000"
definition KTR_DEVICE_AUTOPILOT :: u32 where "KTR_DEVICE_AUTOPILOT = 1"
definition KTR_DEVICE_KTRGA622 :: u32 where "KTR_DEVICE_KTRGA622 = 622"

record board_controller =
  bc_name :: string
  bc_host :: string
  bc_port :: u32

text \<open>A life timer is the key the signal mapper maps its timeout to.\<close>

record ktr_manager =
  km_connections :: "(string, board_controller) qmap"
  km_timers :: "(string, string) qmap"
  km_update :: bool
  km_hosts :: "string set"

definition km_init :: ktr_manager where
  "km_init = \<lparr>km_connections = [], km_timers = [], km_update = True, km_hosts = {}\<rparr>"

datatype device_event =
    ConnectToHost string string u32
  | StartTimer string int
  | SendData string message
  | DisconnectFromHost string

section \<open>Operations\<close>

definition board_key :: "string \<Rightarrow> u16 \<Rightarrow> u32 \<Rightarrow> string" where
  "board_key hostPort board device = hostPort @ '':'' @ decimal (unat board) @ '':'' @ decimal (unat device)"

definition register_message :: "u16 \<Rightarrow> u32 \<Rightarrow> message" where
  "register_message board device =
     \<lparr>msg_type = TCP_KTR_REQUEST_COMMAND_TO_BPLA, msg_data = [Tok16 board, Tok32 device]\<rparr>"

text \<open>
  The first part: a controller and a timer for a new key. The controller waits at most ten seconds for
  its connection and goes on either way.
\<close>

definition create_board :: "string \<Rightarrow> string \<Rightarrow> ktr_manager \<Rightarrow> (device_event list \<times> ktr_manager) option" where
  "create_board hostPort key s =
     (if qlookup (km_connections s) key = None \<and> qlookup (km_timers s) key = None
      then let strList = text_split '':'' hostPort; host = hd strList
           in case element_at strList 1 of
                None \<Rightarrow> None
              | Some port \<Rightarrow>
                  Some ([ConnectToHost key host (toUInt port)],
                    s\<lparr>km_connections := qinsert key \<lparr>bc_name = key, bc_host = host, bc_port = toUInt port\<rparr> (km_connections s),
                      km_timers := qinsert key key (km_timers s)\<rparr>)
      else Some ([], s))"

definition connectToBoard :: "string \<Rightarrow> u16 \<Rightarrow> u32 \<Rightarrow> ktr_manager \<Rightarrow> (device_event list \<times> ktr_manager) option" where
  "connectToBoard hostPort board device s =
     (let key = board_key hostPort board device
      in case create_board hostPort key s of
           None \<Rightarrow> None
         | Some (es, s) \<Rightarrow>
             (case qlookup (km_timers s) key of
                None \<Rightarrow> None
              | Some timer \<Rightarrow>
                  let es = es @ [StartTimer timer MAX_LIFE_TIME]
                  in if km_update s
                     then if hostPort \<notin> km_hosts s then Some (es, s)
                          else (case qlookup (km_connections s) key of
                                  None \<Rightarrow> None
                                | Some c \<Rightarrow> Some (es @ [SendData (bc_name c) (register_message board device)], s))
                     else Some (es, s)))"

definition needToUpdateAfterDisconnect :: "bool \<Rightarrow> string \<Rightarrow> ktr_manager \<Rightarrow> ktr_manager" where
  "needToUpdateAfterDisconnect v hostPort s =
     s\<lparr>km_hosts := (if v then insert hostPort (km_hosts s) else km_hosts s - {hostPort}), km_update := v\<rparr>"

definition timeoutSlot :: "string \<Rightarrow> ktr_manager \<Rightarrow> device_event list \<times> ktr_manager" where
  "timeoutSlot key s =
     ((case qlookup (km_connections s) key of None \<Rightarrow> [] | Some c \<Rightarrow> [DisconnectFromHost (bc_name c)]),
      s\<lparr>km_connections := qremove key (km_connections s), km_timers := qremove key (km_timers s)\<rparr>)"

section \<open>Keys\<close>

lemma decimal_digit: "c \<in> set (decimal n) \<Longrightarrow> char_digit c \<noteq> None"
proof (induction n rule: decimal.induct)
  case (1 n)
  then show ?case
    by (subst (asm) (2) decimal.simps) (auto simp: char_digit_digit_char split: if_splits)
qed

lemma decimal_no_colon [simp]: "CHR '':'' \<notin> set (decimal n)"
  using decimal_digit [of "CHR '':''" n] by (auto simp: char_digit_def)

text \<open>An address \<open>host:port\<close>.\<close>

definition address :: "string \<Rightarrow> u32 \<Rightarrow> string" where
  "address host port = host @ '':'' @ decimal (unat port)"

lemma split_address: "CHR '':'' \<notin> set host \<Longrightarrow> text_split '':'' (address host port) = [host, decimal (unat port)]"
  by (simp add: address_def text_split_first text_split_none)

lemma split_board_key:
  assumes "CHR '':'' \<notin> set host"
  shows "text_split '':'' (board_key (address host port) b d) =
    [host, decimal (unat port), decimal (unat b), decimal (unat d)]"
  using assms by (simp add: board_key_def address_def text_split_first text_split_none)

lemma toUInt_decimal [simp]: "toUInt (decimal (unat (w :: u32))) = w"
  using toUInt_qnumber [of w] by (simp add: qnumber_def)

end
