(* ===== verification/NiippCoder.thy ===== *)
theory NiippCoder
  imports KtrCoder
begin

text \<open>
  \<open>TcpNIIPPCoder\<close> (\<open>server/core/TCP/TcpNIIPPCoder.cpp\<close>): the texts of the NIIPP device. Reading and
  printing a date or a time by a format belongs to Qt and is a parameter. \<open>None\<close> stands for an access
  out of range of a list and for the conversion of a double that is out of the range of \<open>int\<close>.
\<close>

section \<open>Names and formats\<close>

definition TCP_NIIPP_ANSWER :: string where "TCP_NIIPP_ANSWER = ''tcpNiippAnswer''"
definition TCP_NIIPP_REQUEST_PBLA :: string where "TCP_NIIPP_REQUEST_PBLA = ''tcpNiippRequestBpla''"
definition TCP_NIIPP_ANSWER_CONNECTION_STATUS :: string where
  "TCP_NIIPP_ANSWER_CONNECTION_STATUS = ''tcpNiippAnswerConnectionStatus''"

text \<open>\<open>fromString\<close> and \<open>toString\<close> with the formats \<open>ddMMyy\<close> and \<open>HHmmss\<close>.\<close>

record formats =
  read_date :: "string \<Rightarrow> int"
  print_date :: "int \<Rightarrow> string"
  read_time :: "string \<Rightarrow> qtime"
  print_time :: "qtime \<Rightarrow> string"

section \<open>Texts\<close>

definition text_left :: "int \<Rightarrow> string \<Rightarrow> string" where
  "text_left n s = (if n < 0 then s else take (nat n) s)"

definition text_right :: "nat \<Rightarrow> string \<Rightarrow> string" where
  "text_right n s = drop (length s - n) s"

section \<open>Answers\<close>

text \<open>Degrees, then two digits of minutes and two of seconds.\<close>

definition niipp_degrees :: "string \<Rightarrow> double" where
  "niipp_degrees s =
     (let sec = d_div (d_of_int (text_toInt (text_right 2 s))) (d_of_int 3600);
          min = d_div (d_of_int (text_toInt (text_left 2 (text_right 4 s)))) (d_of_int 60);
          grad_int = text_toInt (text_left (int (length s) - 4) s)
      in d_add (d_add (d_of_int grad_int) min) sec)"

definition niipp_encode :: "formats \<Rightarrow> int \<Rightarrow> u8 list \<Rightarrow> unit \<Rightarrow> message option \<times> unit" where
  "niipp_encode F ident data k =
     (let list = text_split '','' (text_of data)
      in if length list < 11 then (None, k)
         else
           let date = read_date F (list ! 0);
               time = read_time F (list ! 1);
               mode = text_toInt (list ! 2);
               point = (niipp_degrees (list ! 3), niipp_degrees (list ! 5));
               NS = list ! 4; EW = list ! 6;
               alt = text_toInt (list ! 7); zone = text_toInt (list ! 8);
               course = text_toInt (list ! 9); angle = text_toInt (list ! 10)
           in (Some \<lparr>msg_type = TCP_NIIPP_ANSWER,
                 msg_data = [TokInt ident, TokDateTime (date, time), TokTime time, TokInt mode, TokPoint point,
                   TokText NS, TokText EW, TokInt alt, TokInt zone, TokInt course, TokInt angle]\<rparr>, k))"

section \<open>Requests\<close>

definition two_digits :: "string \<Rightarrow> string" where
  "two_digits s = (if length s < 2 then CHR ''0'' # s else s)"

definition niipp_angle :: "double \<Rightarrow> string option" where
  "niipp_angle x =
     (if d_eq x (Fin 0) then Some ''000000''
      else
        let lat = number_fixed 6 x;
            lat_deg = hd (text_split ''.'' lat);
            lat_min1 = d_add (text_toDouble lat) (d_neg (text_toDouble lat_deg));
            lat_min_final = d_mul lat_min1 (d_of_int 60)
        in case d_to_int lat_min_final of
             None \<Rightarrow> None
           | Some m \<Rightarrow>
               (case d_to_int (d_mul (d_add lat_min_final (d_neg (d_of_int m))) (d_of_int 60)) of
                  None \<Rightarrow> None
                | Some sec \<Rightarrow> Some (lat_deg @ two_digits (number_int m) @ two_digits (number_int sec))))"

definition crc :: "u8 list \<Rightarrow> u8" where
  "crc d = fold (\<lambda>b c. xor c b) d 0"

fun text_join :: "string \<Rightarrow> string list \<Rightarrow> string" where
  "text_join sep [] = []"
| "text_join sep [s] = s"
| "text_join sep (s # t # ts) = s @ sep @ text_join sep (t # ts)"

text \<open>The end of the text is the four characters backslash, r, backslash, n.\<close>

definition prepareDataToSend :: "string list \<Rightarrow> u8 list" where
  "prepareDataToSend list =
     (let str = text_join '','' list; c = crc (ascii str)
      in ascii (str @ '',*'' @ decimal (unat c) @ [CHR 0x5C, CHR ''r'', CHR 0x5C, CHR ''n'']))"

definition niipp_decode :: "formats \<Rightarrow> message \<Rightarrow> u8 list option" where
  "niipp_decode F m =
     (if msg_type m \<noteq> TCP_NIIPP_REQUEST_PBLA then Some []
      else
        let (ident, ts) = getInt (msg_data m);
            (date, ts) = getDate ts; (time, ts) = getTime ts; (comm, ts) = getText ts;
            (p, ts) = getPoint ts; (NS, ts) = getText ts; (EW, ts) = getText ts;
            (alt, ts) = getInt ts; (velocity_direction, ts) = getInt ts; (zone, ts) = getInt ts;
            (p2, ts) = getPoint ts; (NS2, ts) = getText ts; (EW2, ts) = getText ts
        in case (niipp_angle (fst p), niipp_angle (snd p), niipp_angle (fst p2), niipp_angle (snd p2)) of
             (Some lat1, Some lon1, Some lat2, Some lon2) \<Rightarrow>
               Some (prepareDataToSend
                 [print_date F date, print_time F time, comm, lat1, NS, lon1, EW,
                  number_int alt, number_int velocity_direction, number_int zone, lat2, NS2, lon2, EW2])
           | _ \<Rightarrow> None)"

end
