(* ===== verification/Subscriptions.thy ===== *)
theory Subscriptions
  imports Subjects
begin

text \<open>
  \<open>Subscriber\<close> (\<open>server/core/Common/Subscriber.cpp\<close>): which clients get the messages of which type.
  A client is the value of its pointer, with 0 for \<open>NULL\<close>. The locale \<open>subscriber\<close> is the part of
  the interface \<open>ISubscriber\<close> the RPC server relies on.
\<close>

type_synonym object = u64

type_synonym subscriptions = "(int, object list) qmap"

section \<open>Operations\<close>

definition add_subscription :: "int \<Rightarrow> object \<Rightarrow> subscriptions \<Rightarrow> subscriptions" where
  "add_subscription type c m =
     (if \<not> qcontains m type then qinsert type [c] m
      else let clients = qvalue m [] type
           in if c \<in> set clients then m
              else qinsert type (clients @ [c]) m)"

text \<open>\<open>QVector::remove\<close> of one index.\<close>

definition remove_at :: "nat \<Rightarrow> 'a list \<Rightarrow> 'a list" where
  "remove_at i xs = take i xs @ drop (Suc i) xs"

definition index_of :: "'a \<Rightarrow> 'a list \<Rightarrow> nat" where
  "index_of x xs = length (takeWhile (\<lambda>y. y \<noteq> x) xs)"

text \<open>
  The removal of one client from one type works on a copy of the vector, which is dropped: the first
  component is that copy, the second the map, which no statement of the code changes.
\<close>

definition remove_subscription_pair :: "int \<Rightarrow> object \<Rightarrow> subscriptions \<Rightarrow> object list \<times> subscriptions" where
  "remove_subscription_pair type c m =
     (let clients = qvalue m [] type;
          clients = (if c \<in> set clients then remove_at (index_of c clients) clients else clients)
      in (clients, m))"

definition remove_subscription_type :: "int \<Rightarrow> subscriptions \<Rightarrow> subscriptions" where
  "remove_subscription_type type m = qremove type m"

text \<open>The inner loop: the index moves on also after a removal.\<close>

function remove_loop :: "object \<Rightarrow> nat \<Rightarrow> object list \<Rightarrow> object list" where
  "remove_loop c i vec =
     (if i < length vec
      then remove_loop c (i + 1) (if vec ! i = c then remove_at i vec else vec)
      else vec)"
  by pat_completeness auto
termination
  by (relation "measure (\<lambda>(c, i, vec). length vec - i)") (auto simp: remove_at_def)

declare remove_loop.simps [simp del]

definition remove_subscription_client :: "object \<Rightarrow> subscriptions \<Rightarrow> subscriptions" where
  "remove_subscription_client c m = map (\<lambda>(type, vec). (type, remove_loop c 0 vec)) m"

definition get_subscribers :: "subscriptions \<Rightarrow> int \<Rightarrow> object list" where
  "get_subscribers m type = qvalue m [] type"

text \<open>
  The loop of \<open>_slotGetData\<close> with the id and the type of a client: the clients the message is sent
  to, in order. A null pointer ends the loop. \<open>None\<close>: the code uses a client that does not exist.
\<close>

fun deliver :: "(object \<Rightarrow> (int \<times> int) option) \<Rightarrow> object list \<Rightarrow> object list option" where
  "deliver look [] = Some []"
| "deliver look (c # cs) =
     (if c = 0 then Some []
      else case look c of
        None \<Rightarrow> None
      | Some (cl_id, cl_type) \<Rightarrow>
          (case deliver look cs of
             None \<Rightarrow> None
           | Some ds \<Rightarrow> Some (if cl_type = 1 \<or> cl_id = 0 then c # ds else ds)))"

section \<open>The interface\<close>

locale subscriber =
  fixes add :: "'t \<Rightarrow> 'c \<Rightarrow> 's \<Rightarrow> 's"
    and drop :: "'c \<Rightarrow> 's \<Rightarrow> 's"
    and subs :: "'s \<Rightarrow> 't \<Rightarrow> 'c list"
    and ok :: "'s \<Rightarrow> bool"
  assumes ok_add: "ok s \<Longrightarrow> ok (add t c s)"
    and ok_drop: "ok s \<Longrightarrow> ok (drop c s)"
    and subs_distinct: "ok s \<Longrightarrow> distinct (subs s t)"
    and subs_add: "ok s \<Longrightarrow> set (subs (add t c s) u) = (if u = t then insert c (set (subs s u)) else set (subs s u))"
    and subs_drop: "ok s \<Longrightarrow> set (subs (drop c s) u) = set (subs s u) - {c}"
begin

definition add_all :: "'t list \<Rightarrow> 'c \<Rightarrow> 's \<Rightarrow> 's" where
  "add_all ts c s = fold (\<lambda>t. add t c) ts s"

lemma ok_add_all: "ok s \<Longrightarrow> ok (add_all ts c s)"
  unfolding add_all_def by (induction ts arbitrary: s) (simp_all add: ok_add)

lemma subs_add_all:
  "ok s \<Longrightarrow> set (subs (add_all ts c s) u) = (if u \<in> set ts then insert c (set (subs s u)) else set (subs s u))"
  unfolding add_all_def by (induction ts arbitrary: s) (auto simp: ok_add subs_add)

text \<open>Everybody who is subscribed to something.\<close>

definition members :: "'s \<Rightarrow> 'c set" where
  "members s = (\<Union>t. set (subs s t))"

lemma members_add_all: "ok s \<Longrightarrow> members (add_all ts c s) \<subseteq> insert c (members s)"
  unfolding members_def by (auto simp: subs_add_all split: if_splits)

lemma members_drop: "ok s \<Longrightarrow> members (drop c s) = members s - {c}"
  unfolding members_def by (auto simp: subs_drop)

end

section \<open>The laws of the subscriber\<close>

lemma remove_at_Cons [simp]: "remove_at (Suc i) (x # xs) = x # remove_at i xs" "remove_at 0 (x # xs) = xs"
  by (simp_all add: remove_at_def)

text \<open>The loop as a recursion on the vector: after a removal the next element is not looked at.\<close>

fun skip_remove :: "object \<Rightarrow> object list \<Rightarrow> object list" where
  "skip_remove c [] = []"
| "skip_remove c [x] = (if x = c then [] else [x])"
| "skip_remove c (x # y # ys) = (if x = c then y # skip_remove c ys else x # skip_remove c (y # ys))"

lemma remove_loop_append: "remove_loop c (length us) (us @ vec) = us @ skip_remove c vec"
proof (induction c vec arbitrary: us rule: skip_remove.induct)
  case (1 c)
  show ?case by (subst remove_loop.simps) simp
next
  case (2 c x)
  show ?case
    by (subst remove_loop.simps, subst remove_loop.simps) (auto simp: remove_at_def nth_append)
next
  case (3 c x y ys)
  show ?case
    using 3(1) [of "us @ [y]"] 3(2) [of "us @ [x]"]
    by (subst remove_loop.simps) (auto simp: remove_at_def nth_append)
qed

lemma remove_loop_eq: "remove_loop c 0 vec = skip_remove c vec"
  using remove_loop_append [of c "[]" vec] by simp

lemma skip_remove_distinct: "distinct vec \<Longrightarrow> skip_remove c vec = filter (\<lambda>x. x \<noteq> c) vec"
proof (induction c vec rule: skip_remove.induct)
  case (3 c x y ys)
  then show ?case by (auto simp: filter_id_conv intro!: filter_True [symmetric])
qed auto

lemma removeAll_skip_remove: "removeAll c (skip_remove c vec) = removeAll c vec"
  by (induction c vec rule: skip_remove.induct) auto

lemma twice_in_a_row_Cons:
  "(\<exists>us vs. x # y # ys = us @ [c, c] @ vs) \<longleftrightarrow> x = c \<and> y = c \<or> (\<exists>us vs. y # ys = us @ [c, c] @ vs)"
proof
  assume "\<exists>us vs. x # y # ys = us @ [c, c] @ vs"
  then obtain us vs where "x # y # ys = us @ [c, c] @ vs" by blast
  then show "x = c \<and> y = c \<or> (\<exists>us vs. y # ys = us @ [c, c] @ vs)" by (cases us) auto
next
  assume "x = c \<and> y = c \<or> (\<exists>us vs. y # ys = us @ [c, c] @ vs)"
  then show "\<exists>us vs. x # y # ys = us @ [c, c] @ vs"
  proof
    assume "x = c \<and> y = c"
    then have "x # y # ys = [] @ [c, c] @ ys" by simp
    then show ?thesis by blast
  next
    assume "\<exists>us vs. y # ys = us @ [c, c] @ vs"
    then obtain us vs where "x # y # ys = (x # us) @ [c, c] @ vs" by auto
    then show ?thesis by blast
  qed
qed

lemma twice_in_a_row_short: "\<not> (\<exists>us vs. [] = us @ [c, c] @ vs)" "\<not> (\<exists>us vs. [x] = us @ [c, c] @ vs)"
  by (auto simp: Cons_eq_append_conv)

lemma skip_remove_keeps: "c \<in> set (skip_remove c vec) \<longleftrightarrow> (\<exists>us vs. vec = us @ [c, c] @ vs)"
proof (induction c vec rule: skip_remove.induct)
  case (3 c x y ys)
  have "(\<exists>us vs. y # ys = us @ [c, c] @ vs) \<longleftrightarrow> (\<exists>us vs. ys = us @ [c, c] @ vs)" if "y \<noteq> c"
    using that twice_in_a_row_Cons [of y _ _ c] twice_in_a_row_short by (cases ys) auto
  with 3 show ?case unfolding twice_in_a_row_Cons by auto
qed (use twice_in_a_row_short in auto)

definition subs_ok :: "subscriptions \<Rightarrow> bool" where
  "subs_ok m \<longleftrightarrow> (\<forall>t. distinct (get_subscribers m t))"

lemma get_add:
  "get_subscribers (add_subscription t c m) u =
     (if u = t \<and> c \<notin> set (get_subscribers m t) then get_subscribers m t @ [c] else get_subscribers m u)"
  by (auto simp: add_subscription_def get_subscribers_def qvalue_def qcontains_def Let_def split: option.splits)

lemma get_remove_type: "get_subscribers (remove_subscription_type t m) u = (if u = t then [] else get_subscribers m u)"
  by (simp add: remove_subscription_type_def get_subscribers_def qvalue_def)

lemma get_remove_client: "get_subscribers (remove_subscription_client c m) u = skip_remove c (get_subscribers m u)"
proof -
  have "qlookup (remove_subscription_client c m) u = map_option (skip_remove c) (qlookup m u)"
    unfolding remove_subscription_client_def remove_loop_eq by (induction m) auto
  then show ?thesis by (simp add: get_subscribers_def qvalue_def split: option.splits)
qed

interpretation sub: subscriber add_subscription remove_subscription_client get_subscribers subs_ok
  by unfold_locales
    (auto simp: subs_ok_def get_add get_remove_client skip_remove_distinct)

section \<open>Claims\<close>

text \<open>The abstract specification: a relation between message types and clients.\<close>

datatype subscription_call = Add int object | RemovePair int object | RemoveType int | RemoveClient object

fun subscribe :: "subscription_call \<Rightarrow> subscriptions \<Rightarrow> subscriptions" where
  "subscribe (Add t c) m = add_subscription t c m"
| "subscribe (RemovePair t c) m = snd (remove_subscription_pair t c m)"
| "subscribe (RemoveType t) m = remove_subscription_type t m"
| "subscribe (RemoveClient c) m = remove_subscription_client c m"

fun relate :: "subscription_call \<Rightarrow> (int \<times> object) set \<Rightarrow> (int \<times> object) set" where
  "relate (Add t c) R = insert (t, c) R"
| "relate (RemovePair t c) R = R"
| "relate (RemoveType t) R = {(u, d). (u, d) \<in> R \<and> u \<noteq> t}"
| "relate (RemoveClient c) R = {(u, d). (u, d) \<in> R \<and> d \<noteq> c}"

definition subscribed :: "subscriptions \<Rightarrow> (int \<times> object) set" where
  "subscribed m = {(t, c). c \<in> set (get_subscribers m t)}"

lemma subscribe_relates:
  "subs_ok m \<Longrightarrow> subs_ok (subscribe x m) \<and> subscribed (subscribe x m) = relate x (subscribed m)"
proof (cases x)
  case (RemovePair t c)
  then show "subs_ok m \<Longrightarrow> ?thesis" by (simp add: remove_subscription_pair_def Let_def)
next
  case (RemoveType t)
  then show "subs_ok m \<Longrightarrow> ?thesis" by (auto simp: subs_ok_def get_remove_type subscribed_def split: if_splits)
qed (auto simp: sub.ok_add sub.ok_drop subscribed_def sub.subs_add sub.subs_drop split: if_splits)

text \<open>
  C14: The map of vectors implements a relation between types and clients: any sequence of calls keeps
  every client at most once in each vector, an addition adds its pair, the removals of a type and of a
  client remove all their pairs, and the removal of a client from one type removes nothing.
\<close>
theorem subscriber_implements_a_relation:
  "subscribed (fold subscribe xs []) = fold relate xs {} \<and> (\<forall>t. distinct (get_subscribers (fold subscribe xs []) t))"
proof -
  have "subs_ok m \<Longrightarrow> subscribed (fold subscribe xs m) = fold relate xs (subscribed m) \<and> subs_ok (fold subscribe xs m)" for m
    by (induction xs arbitrary: m) (simp_all add: subscribe_relates)
  from this [of "[]"] show ?thesis by (simp add: subs_ok_def subscribed_def get_subscribers_def qvalue_def)
qed

text \<open>
  The removal loop, which moves its index on after a removal, computes the removal of every
  occurrence of the client exactly when the vector has no two occurrences in a row.
\<close>
theorem removal_loop_is_filter:
  "remove_loop c 0 vec = removeAll c vec \<longleftrightarrow> (\<forall>us vs. vec \<noteq> us @ [c, c] @ vs)"
proof -
  have "skip_remove c vec = removeAll c vec \<longleftrightarrow> c \<notin> set (skip_remove c vec)"
    using removeAll_skip_remove [of c vec] by (metis Diff_iff insertI1 removeAll_id set_removeAll)
  then show ?thesis by (simp add: remove_loop_eq skip_remove_keeps)
qed

end
