(* ===== verification/BiMap.thy ===== *)
theory BiMap
  imports QtContainers
begin

text \<open>
  \<open>CISCommonLib/src/Templates/BiMap.h\<close>: a bidirectional map made of two \<open>QMap\<close>s, one per
  direction. The two maps are kept mirrored by every operation that changes them.
\<close>

record ('x, 'y) bimap =
  m_left :: "('x, 'y) qmap"
  m_right :: "('y, 'x) qmap"

definition bm_empty :: "('x, 'y) bimap" where
  "bm_empty = \<lparr>m_left = [], m_right = []\<rparr>"

definition bm_size :: "('x, 'y) bimap \<Rightarrow> nat" where
  "bm_size m = length (m_left m)"

definition bm_clear :: "('x, 'y) bimap \<Rightarrow> ('x, 'y) bimap" where
  "bm_clear m = m\<lparr>m_left := [], m_right := []\<rparr>"

definition bm_isEmpty :: "('x, 'y) bimap \<Rightarrow> bool" where
  "bm_isEmpty m \<longleftrightarrow> m_left m = []"

definition containsLeft :: "('x, 'y) bimap \<Rightarrow> 'x \<Rightarrow> bool" where
  "containsLeft m x \<longleftrightarrow> qcontains (m_left m) x"

definition containsRight :: "('x, 'y) bimap \<Rightarrow> 'y \<Rightarrow> bool" where
  "containsRight m y \<longleftrightarrow> qcontains (m_right m) y"

definition bm_insert ::
  "'x::linorder \<Rightarrow> 'y::linorder \<Rightarrow> ('x, 'y) bimap \<Rightarrow> bool \<times> ('x, 'y) bimap" where
  "bm_insert x y m =
     (if containsLeft m x \<or> containsRight m y then (False, m)
      else (True, m\<lparr>m_left := qinsert x y (m_left m), m_right := qinsert y x (m_right m)\<rparr>))"

text \<open>\<open>value(key)\<close> of an absent key is a default-constructed value, here the argument \<open>d\<close>.\<close>

definition removeByLeft ::
  "'y \<Rightarrow> 'x::linorder \<Rightarrow> ('x, 'y::linorder) bimap \<Rightarrow> bool \<times> ('x, 'y) bimap" where
  "removeByLeft d x m =
     (if \<not> containsLeft m x then (False, m)
      else let y = qvalue (m_left m) d x
           in (True, m\<lparr>m_left := qremove x (m_left m), m_right := qremove y (m_right m)\<rparr>))"

definition removeByRight ::
  "'x \<Rightarrow> 'y::linorder \<Rightarrow> ('x::linorder, 'y) bimap \<Rightarrow> bool \<times> ('x, 'y) bimap" where
  "removeByRight d y m =
     (if \<not> containsRight m y then (False, m)
      else let x = qvalue (m_right m) d y
           in (True, m\<lparr>m_left := qremove x (m_left m), m_right := qremove y (m_right m)\<rparr>))"

definition bm_left :: "('x, 'y) bimap \<Rightarrow> 'x \<Rightarrow> 'y \<Rightarrow> 'x" where
  "bm_left m d y = qvalue (m_right m) d y"

definition bm_right :: "('x, 'y) bimap \<Rightarrow> 'y \<Rightarrow> 'x \<Rightarrow> 'y" where
  "bm_right m d x = qvalue (m_left m) d x"

definition leftKeys :: "('x, 'y) bimap \<Rightarrow> 'x list" where
  "leftKeys m = qkeys (m_left m)"

definition rightKeys :: "('x, 'y) bimap \<Rightarrow> 'y list" where
  "rightKeys m = qkeys (m_right m)"

definition bm_neq :: "('x, 'y) bimap \<Rightarrow> ('x, 'y) bimap \<Rightarrow> bool" where
  "bm_neq m other \<longleftrightarrow> m_left m \<noteq> m_left other"

definition bm_eq :: "('x, 'y) bimap \<Rightarrow> ('x, 'y) bimap \<Rightarrow> bool" where
  "bm_eq m other \<longleftrightarrow> m_left m = m_left other"

definition bm_assign :: "('x, 'y) bimap \<Rightarrow> ('x, 'y) bimap \<Rightarrow> ('x, 'y) bimap" where
  "bm_assign m other = m\<lparr>m_left := m_left other, m_right := m_right other\<rparr>"

section \<open>The representation invariant\<close>

definition bm_wf :: "('x::linorder, 'y::linorder) bimap \<Rightarrow> bool" where
  "bm_wf m \<longleftrightarrow> qsorted (m_left m) \<and> qsorted (m_right m)
     \<and> mirror (qlookup (m_left m)) (qlookup (m_right m))"

lemma bm_wfD:
  assumes "bm_wf m"
  shows "qsorted (m_left m)" "qsorted (m_right m)"
    "mirror (qlookup (m_left m)) (qlookup (m_right m))"
  using assms by (simp_all add: bm_wf_def)

lemma bm_wf_empty [simp]: "bm_wf bm_empty"
  by (simp add: bm_wf_def bm_empty_def mirror_def)

lemma bm_wf_clear [simp]: "bm_wf (bm_clear m)"
  by (simp add: bm_wf_def bm_clear_def mirror_def)

lemma bm_insert_wf [inv_intros]: "bm_wf m \<Longrightarrow> bm_wf (snd (bm_insert x y m))"
  by (auto simp: bm_wf_def bm_insert_def containsLeft_def containsRight_def qcontains_def
      simp del: qlookup_insert intro!: qmm.mirror_insert)

lemma qvalue_Some: "qlookup m k = Some v \<Longrightarrow> qvalue m d k = v"
  by (simp add: qvalue_def)

lemma removeByLeft_wf [inv_intros]: "bm_wf m \<Longrightarrow> bm_wf (snd (removeByLeft d x m))"
  by (auto simp: bm_wf_def removeByLeft_def containsLeft_def qcontains_def qvalue_Some
      simp del: qlookup_remove intro!: qmm.mirror_remove)

lemma removeByRight_wf [inv_intros]: "bm_wf m \<Longrightarrow> bm_wf (snd (removeByRight d y m))"
  by (auto simp: bm_wf_def removeByRight_def containsRight_def qcontains_def qvalue_Some
      simp del: qlookup_remove intro!: qmm.mirror_remove dest: mirrorD2)

section \<open>The abstract bijection\<close>

text \<open>A \<open>BiMap\<close> stands for a finite set of pairs, no two with a common component.\<close>

definition bm_pairs :: "('x, 'y) bimap \<Rightarrow> ('x \<times> 'y) set" where
  "bm_pairs m = {(x, y). qlookup (m_left m) x = Some y}"

lemma mem_bm_pairs: "(x, y) \<in> bm_pairs m \<longleftrightarrow> qlookup (m_left m) x = Some y"
  by (simp add: bm_pairs_def)

lemma mem_bm_pairs_right: "bm_wf m \<Longrightarrow> (x, y) \<in> bm_pairs m \<longleftrightarrow> qlookup (m_right m) y = Some x"
  by (simp add: bm_pairs_def bm_wf_def mirror_def)

lemma containsLeft_iff: "containsLeft m x \<longleftrightarrow> x \<in> fst ` bm_pairs m"
  by (force simp: containsLeft_def qcontains_def bm_pairs_def)

lemma containsRight_iff: "bm_wf m \<Longrightarrow> containsRight m y \<longleftrightarrow> y \<in> snd ` bm_pairs m"
  by (auto simp: containsRight_def qcontains_def bm_pairs_def bm_wf_def mirror_def image_iff)

lemma bm_pairs_insert:
  "bm_pairs (snd (bm_insert x y m)) =
     (if containsLeft m x \<or> containsRight m y then bm_pairs m else insert (x, y) (bm_pairs m))"
  by (auto simp: bm_pairs_def bm_insert_def containsLeft_def qcontains_def split: if_splits)

lemma bm_pairs_removeByLeft:
  "bm_pairs (snd (removeByLeft d x m)) = {p \<in> bm_pairs m. fst p \<noteq> x}"
  by (auto simp: bm_pairs_def removeByLeft_def containsLeft_def qcontains_def Let_def
      split: if_splits)

lemma bm_pairs_removeByRight:
  assumes "bm_wf m"
  shows "bm_pairs (snd (removeByRight d y m)) = {p \<in> bm_pairs m. snd p \<noteq> y}"
proof (cases "qlookup (m_right m) y")
  case None
  with assms have "\<forall>x. (x, y) \<notin> bm_pairs m" by (simp add: mem_bm_pairs_right)
  with None show ?thesis by (auto simp: removeByRight_def containsRight_def qcontains_def)
next
  case (Some x)
  note mir = bm_wfD(3) [OF assms]
  from Some have x: "qlookup (m_left m) x = Some y" by (rule mirrorD2 [OF mir])
  with Some show ?thesis
    by (auto simp: removeByRight_def containsRight_def qcontains_def qvalue_Some bm_pairs_def
        dest: mirror_inj [OF mir] split: if_splits)
qed

lemma bm_pairs_empty [simp]: "bm_pairs bm_empty = {}"
  by (simp add: bm_pairs_def bm_empty_def)

lemma bm_sizes_agree: "bm_wf m \<Longrightarrow> length (m_right m) = length (m_left m)"
proof -
  assume wf: "bm_wf m"
  note d = bm_wfD [OF wf]
  have fin: "finite (dom (qlookup (m_left m)))" by (simp flip: set_qkeys)
  have "dom (qlookup (m_right m)) = (\<lambda>x. the (qlookup (m_left m) x)) ` dom (qlookup (m_left m))"
    using mirror_dom_ran [OF d(3)] by (force simp: ran_def image_iff)
  moreover have "inj_on (\<lambda>x. the (qlookup (m_left m) x)) (dom (qlookup (m_left m)))"
    by (auto simp: inj_on_def dest: mirror_inj [OF d(3)])
  ultimately show ?thesis
    using d(1,2) by (simp add: qsize_eq_card card_image)
qed

lemma bm_left_right:
  "bm_wf m \<Longrightarrow> containsLeft m x \<Longrightarrow> bm_left m d (bm_right m d' x) = x"
  by (auto simp: containsLeft_def qcontains_def bm_left_def bm_right_def qvalue_def bm_wf_def
      dest: mirrorD1)

lemma bm_eq_iff_pairs:
  assumes "bm_wf m" "bm_wf n"
  shows "bm_eq m n \<longleftrightarrow> bm_pairs m = bm_pairs n"
proof
  assume eq: "bm_pairs m = bm_pairs n"
  have "qlookup (m_left m) x = qlookup (m_left n) x" for x
    using eq by (metis mem_bm_pairs option.exhaust)
  then show "bm_eq m n"
    using assms by (auto simp: bm_eq_def bm_wf_def intro: qmap_ext)
qed (simp add: bm_eq_def bm_pairs_def)

lemma card_bm_pairs: "bm_wf m \<Longrightarrow> card (bm_pairs m) = bm_size m"
proof -
  assume wf: "bm_wf m"
  have "bm_pairs m = (\<lambda>x. (x, the (qlookup (m_left m) x))) ` dom (qlookup (m_left m))"
    by (force simp: bm_pairs_def)
  moreover have "inj_on (\<lambda>x. (x, the (qlookup (m_left m) x))) (dom (qlookup (m_left m)))"
    by (rule inj_onI) simp
  ultimately show ?thesis
    using bm_wfD(1) [OF wf] by (simp add: bm_size_def qsize_eq_card card_image)
qed

section \<open>Properties of BiMap\<close>

text \<open>
  the two-map representation implements a partial bijection. Insertion is refused exactly when
  the left or the right key already occurs, and otherwise adds the one pair; removal by either
  key removes exactly the pair of that key; each operation keeps the two maps mirrored.
\<close>

theorem bimap_is_a_partial_bijection:
  assumes "bm_wf m"
  shows "bm_wf (snd (bm_insert x y m)) \<and> bm_wf (snd (removeByLeft d x m))
    \<and> bm_wf (snd (removeByRight d' y m))
    \<and> (fst (bm_insert x y m) \<longleftrightarrow> x \<notin> fst ` bm_pairs m \<and> y \<notin> snd ` bm_pairs m)
    \<and> bm_pairs (snd (bm_insert x y m)) =
        (if fst (bm_insert x y m) then insert (x, y) (bm_pairs m) else bm_pairs m)
    \<and> bm_pairs (snd (removeByLeft d x m)) = {p \<in> bm_pairs m. fst p \<noteq> x}
    \<and> bm_pairs (snd (removeByRight d' y m)) = {p \<in> bm_pairs m. snd p \<noteq> y}"
proof -
  have "fst (bm_insert x y m) \<longleftrightarrow> \<not> containsLeft m x \<and> \<not> containsRight m y"
    by (simp add: bm_insert_def)
  moreover have "bm_pairs (snd (bm_insert x y m)) =
      (if fst (bm_insert x y m) then insert (x, y) (bm_pairs m) else bm_pairs m)"
    by (simp add: bm_pairs_insert calculation)
  ultimately show ?thesis
    using assms by (simp add: inv_intros containsLeft_iff containsRight_iff
        bm_pairs_removeByLeft bm_pairs_removeByRight)
qed

theorem bimap_is_a_partial_bijection_witness:
  "bm_pairs (snd (bm_insert (1::int) ''a'' bm_empty)) = {(1, ''a'')}"
  using bimap_is_a_partial_bijection
    [OF bm_wf_empty [where 'a = int and 'b = string], of 1 "''a''" "[]" 0]
  by simp

text \<open>
  reading a right key from a left key and going back returns the left key; the size is the
  number of pairs and the two maps have the same size (the assertions of \<open>size()\<close> and \<open>isEmpty()\<close>
  hold); two maps compare equal exactly when they hold the same pairs, as the interface says,
  although only the left maps are compared.
\<close>

theorem bimap_observers:
  assumes "bm_wf m" and "bm_wf n"
  shows "(containsLeft m x \<longrightarrow> bm_left m d (bm_right m d' x) = x)
    \<and> bm_size m = card (bm_pairs m) \<and> length (m_right m) = length (m_left m)
    \<and> (bm_isEmpty m \<longleftrightarrow> m_right m = [])
    \<and> set (leftKeys m) = fst ` bm_pairs m \<and> set (rightKeys m) = snd ` bm_pairs m
    \<and> (bm_eq m n \<longleftrightarrow> bm_pairs m = bm_pairs n) \<and> (bm_neq m n \<longleftrightarrow> bm_pairs m \<noteq> bm_pairs n)"
proof -
  have "set (leftKeys m) = fst ` bm_pairs m"
    by (force simp: leftKeys_def bm_pairs_def)
  moreover have "set (rightKeys m) = snd ` bm_pairs m"
    using assms(1) by (auto simp: rightKeys_def bm_pairs_def bm_wf_def mirror_def image_iff)
  moreover have "bm_isEmpty m \<longleftrightarrow> m_right m = []"
    using bm_sizes_agree [OF assms(1)] by (auto simp: bm_isEmpty_def)
  moreover have "bm_neq m n \<longleftrightarrow> bm_pairs m \<noteq> bm_pairs n"
    using bm_eq_iff_pairs [OF assms] by (simp add: bm_neq_def bm_eq_def)
  ultimately show ?thesis
    using assms by (simp add: bm_left_right card_bm_pairs bm_sizes_agree bm_eq_iff_pairs)
qed

theorem bimap_observers_witness:
  "let m = snd (bm_insert (1::int) (5::int) bm_empty) in bm_left m 0 (bm_right m 0 1) = 1"
proof -
  let ?m = "snd (bm_insert (1::int) (5::int) bm_empty)"
  have "bm_wf ?m" by (rule bm_insert_wf) simp
  moreover have "containsLeft ?m 1"
    by (simp add: bm_insert_def bm_empty_def containsLeft_def containsRight_def qcontains_def)
  ultimately show ?thesis using bimap_observers [of ?m ?m 1 0 0] by (simp add: Let_def)
qed

end
