(* ===== verification/RpcRouting.thy ===== *)
theory RpcRouting
  imports BiMap Subjects
begin

text \<open>
  Routing of RPC messages (\<open>CISCommonLib/src/Rpc\<close>): \<open>RpcServerBase\<close>, \<open>RpcRoutedServer\<close> and
  \<open>RpcRoutedClient\<close>. A route id joins one RPC client with one local listener; the server keeps
  the table of clients by route, the table of listeners by route and the bidirectional table of
  joined pairs. Pointers are 64-bit values, with 0 for \<open>NULL\<close>. What the server sends to the RPC
  peer (a library object) and to its listeners is the list of events an operation returns.
\<close>

type_synonym listener = u64
type_synonym client_id = u64
type_synonym route_id = u32

datatype 'a rpc_event =
    PeerCallAll string 'a
  | PeerCall client_id string 'a
  | MethodCalled listener string 'a

datatype server_signal = OnConnected

record routed_server =
  rs_receivers :: "listener subject"
  rs_routes :: "(client_id, listener) bimap"
  rs_clients :: "(route_id, client_id) qmap"
  rs_listeners :: "(route_id, listener) qmap"

definition rs_init :: routed_server where
  "rs_init = \<lparr>rs_receivers = [], rs_routes = bm_empty, rs_clients = [], rs_listeners = []\<rparr>"

section \<open>Operations\<close>

definition base_internalCall :: "string \<Rightarrow> 'a \<Rightarrow> 'a rpc_event list" where
  "base_internalCall method arg = [PeerCallAll method arg]"

definition internalCall :: "string \<Rightarrow> 'a \<Rightarrow> listener \<Rightarrow> routed_server \<Rightarrow> 'a rpc_event list" where
  "internalCall method arg sender s =
     (if sender = 0 then base_internalCall method arg
      else if \<not> containsRight (rs_routes s) sender then []
      else [PeerCall (bm_left (rs_routes s) 0 sender) method arg])"

definition dispatch :: "string \<Rightarrow> 'a \<Rightarrow> client_id \<Rightarrow> routed_server \<Rightarrow> 'a rpc_event list" where
  "dispatch method arg c s =
     (if c = 0 then notify (\<lambda>r. MethodCalled r method arg) (rs_receivers s)
      else if \<not> containsLeft (rs_routes s) c then []
      else [MethodCalled (bm_right (rs_routes s) 0 c) method arg])"

definition rs_registerReceiver ::
  "listener \<Rightarrow> route_id \<Rightarrow> routed_server \<Rightarrow> bool \<times> routed_server" where
  "rs_registerReceiver l route s =
     (if l = 0 then (False, s)
      else if qcontains (rs_listeners s) route then (False, s)
      else if l \<in> set (qvalues (rs_listeners s)) then (False, s)
      else if containsRight (rs_routes s) l then (False, s)
      else
        let s = s\<lparr>rs_receivers := registerReceiver l (rs_receivers s)\<rparr>
        in if route = 0 then (True, s)
           else
             let s = s\<lparr>rs_listeners := qinsert route l (rs_listeners s)\<rparr>
             in if qcontains (rs_clients s) route
                then let c = qvalue (rs_clients s) 0 route
                     in if \<not> containsLeft (rs_routes s) c
                        then (True, s\<lparr>rs_routes := snd (bm_insert c l (rs_routes s))\<rparr>)
                        else (True, s)
                else (True, s))"

definition rs_deregisterReceiver :: "listener \<Rightarrow> routed_server \<Rightarrow> routed_server" where
  "rs_deregisterReceiver l s =
     (let s = s\<lparr>rs_receivers := deregisterReceiver l (rs_receivers s)\<rparr>
      in if l = 0 then s
         else
           let s = (if containsRight (rs_routes s) l
                    then s\<lparr>rs_routes := snd (removeByRight 0 l (rs_routes s))\<rparr> else s)
           in if l \<in> set (qvalues (rs_listeners s))
              then s\<lparr>rs_listeners := qremove (qkey (rs_listeners s) 0 l) (rs_listeners s)\<rparr>
              else s)"

definition registerClient ::
  "client_id \<Rightarrow> route_id \<Rightarrow> routed_server \<Rightarrow> bool \<times> server_signal list \<times> routed_server" where
  "registerClient c route s =
     (if c = 0 then (False, [], s)
      else if qcontains (rs_clients s) route then (False, [], s)
      else if c \<in> set (qvalues (rs_clients s)) then (False, [], s)
      else if containsLeft (rs_routes s) c then (False, [], s)
      else
        let s = s\<lparr>rs_clients := qinsert route c (rs_clients s)\<rparr>;
            s = (if qcontains (rs_listeners s) route
                 then let l = qvalue (rs_listeners s) 0 route
                      in if \<not> containsRight (rs_routes s) l
                         then s\<lparr>rs_routes := snd (bm_insert c l (rs_routes s))\<rparr>
                         else s
                 else s)
        in (True, [OnConnected], s))"

definition deregisterClient :: "client_id \<Rightarrow> routed_server \<Rightarrow> routed_server" where
  "deregisterClient c s =
     (if c = 0 then s
      else
        let s = (if containsLeft (rs_routes s) c
                 then s\<lparr>rs_routes := snd (removeByLeft 0 c (rs_routes s))\<rparr> else s)
        in if c \<in> set (qvalues (rs_clients s))
           then s\<lparr>rs_clients := qremove (qkey (rs_clients s) 0 c) (rs_clients s)\<rparr>
           else s)"

section \<open>The client side\<close>

datatype client_call = CallRegister route_id | CallDeregister

record routed_client =
  m_routeId :: route_id

definition rc_init :: routed_client where
  "rc_init = \<lparr>m_routeId = 0\<rparr>"

text \<open>\<open>is_client\<close> is what the peer answers to \<open>isClient()\<close>.\<close>

definition deregisterRoute :: "bool \<Rightarrow> routed_client \<Rightarrow> client_call list \<times> routed_client" where
  "deregisterRoute is_client k =
     (if m_routeId k = 0 then ([], k)
      else if \<not> is_client then ([], k)
      else ([CallDeregister], k\<lparr>m_routeId := 0\<rparr>))"

definition registerRoute ::
  "bool \<Rightarrow> route_id \<Rightarrow> routed_client \<Rightarrow> bool \<times> client_call list \<times> routed_client" where
  "registerRoute is_client route k =
     (if route = 0 then (False, [], k)
      else if \<not> is_client then (False, [], k)
      else
        let (calls, k) = (if m_routeId k \<noteq> 0 then deregisterRoute is_client k else ([], k))
        in (True, calls @ [CallRegister route], k\<lparr>m_routeId := route\<rparr>))"

section \<open>Joining the two tables\<close>

definition inj_table :: "('r \<Rightarrow> 'c option) \<Rightarrow> bool" where
  "inj_table f \<longleftrightarrow> (\<forall>r r' c. f r = Some c \<and> f r' = Some c \<longrightarrow> r = r')"

definition join :: "('r \<Rightarrow> 'c option) \<Rightarrow> ('r \<Rightarrow> 'l option) \<Rightarrow> ('c \<times> 'l) set" where
  "join f g = {(c, l). \<exists>r. f r = Some c \<and> g r = Some l}"

lemma inj_tableD: "inj_table f \<Longrightarrow> f r = Some c \<Longrightarrow> f r' = Some c \<Longrightarrow> r = r'"
  by (auto simp: inj_table_def)

lemma inj_table_upd: "inj_table f \<Longrightarrow> c \<notin> ran f \<Longrightarrow> inj_table (f(r \<mapsto> c))"
  by (auto simp: inj_table_def ran_def)

lemma inj_table_del: "inj_table f \<Longrightarrow> inj_table (f(r := None))"
  by (auto simp: inj_table_def)

lemma mem_join: "(c, l) \<in> join f g \<longleftrightarrow> (\<exists>r. f r = Some c \<and> g r = Some l)"
  by (simp add: join_def)

lemma join_upd_left:
  "f r = None \<Longrightarrow> join (f(r \<mapsto> c)) g = join f g \<union> {(c, l) | l. g r = Some l}"
  unfolding join_def by (auto split: if_splits) (metis option.distinct(1))

lemma join_upd_right:
  "g r = None \<Longrightarrow> join f (g(r \<mapsto> l)) = join f g \<union> {(c, l) | c. f r = Some c}"
  by (auto simp: join_def split: if_splits)

lemma join_del_left:
  "inj_table f \<Longrightarrow> f r = Some c \<Longrightarrow> join (f(r := None)) g = {p \<in> join f g. fst p \<noteq> c}"
  by (auto simp: join_def dest: inj_tableD split: if_splits)

lemma join_del_right:
  "inj_table g \<Longrightarrow> g r = Some l \<Longrightarrow> join f (g(r := None)) = {p \<in> join f g. snd p \<noteq> l}"
  by (auto simp: join_def dest: inj_tableD split: if_splits)

lemma fst_join: "c \<in> fst ` join f g \<Longrightarrow> c \<in> ran f"
  by (auto simp: join_def ran_def)

lemma snd_join: "l \<in> snd ` join f g \<Longrightarrow> l \<in> ran g"
  by (auto simp: join_def ran_def)

section \<open>The server invariant\<close>

definition rs_wf :: "routed_server \<Rightarrow> bool" where
  "rs_wf s \<longleftrightarrow> bm_wf (rs_routes s) \<and> qsorted (rs_clients s) \<and> qsorted (rs_listeners s)
     \<and> inj_table (qlookup (rs_clients s)) \<and> inj_table (qlookup (rs_listeners s))
     \<and> 0 \<notin> ran (qlookup (rs_clients s)) \<and> 0 \<notin> ran (qlookup (rs_listeners s))
     \<and> qlookup (rs_listeners s) 0 = None
     \<and> ran (qlookup (rs_listeners s)) \<subseteq> set (rs_receivers s)
     \<and> bm_pairs (rs_routes s) = join (qlookup (rs_clients s)) (qlookup (rs_listeners s))"

lemma rs_wf_init: "rs_wf rs_init"
  by (simp add: rs_wf_def rs_init_def inj_table_def join_def)

lemma rs_wfD:
  assumes "rs_wf s"
  shows "bm_wf (rs_routes s)" "qsorted (rs_clients s)" "qsorted (rs_listeners s)"
    "inj_table (qlookup (rs_clients s))" "inj_table (qlookup (rs_listeners s))"
    "0 \<notin> ran (qlookup (rs_clients s))" "0 \<notin> ran (qlookup (rs_listeners s))"
    "qlookup (rs_listeners s) 0 = None"
    "ran (qlookup (rs_listeners s)) \<subseteq> set (rs_receivers s)"
    "bm_pairs (rs_routes s) = join (qlookup (rs_clients s)) (qlookup (rs_listeners s))"
  using assms by (simp_all add: rs_wf_def)

lemma containsLeft_join:
  "rs_wf s \<Longrightarrow> containsLeft (rs_routes s) c \<longleftrightarrow>
     (\<exists>r l. qlookup (rs_clients s) r = Some c \<and> qlookup (rs_listeners s) r = Some l)"
  by (auto simp: containsLeft_iff rs_wfD(10) join_def image_iff)

lemma containsRight_join:
  "rs_wf s \<Longrightarrow> containsRight (rs_routes s) l \<longleftrightarrow>
     (\<exists>r c. qlookup (rs_clients s) r = Some c \<and> qlookup (rs_listeners s) r = Some l)"
  by (auto simp: containsRight_iff rs_wfD(1,10) join_def image_iff)

lemma containsRight_ran:
  assumes wf: "rs_wf s" and c: "containsRight (rs_routes s) l"
  shows "l \<in> ran (qlookup (rs_listeners s))"
proof -
  from c obtain r where "qlookup (rs_listeners s) r = Some l"
    by (auto simp: containsRight_join [OF wf])
  then show ?thesis by (rule ranI)
qed

lemma containsLeft_ran:
  assumes wf: "rs_wf s" and c: "containsLeft (rs_routes s) c"
  shows "c \<in> ran (qlookup (rs_clients s))"
proof -
  from c obtain r where "qlookup (rs_clients s) r = Some c"
    by (auto simp: containsLeft_join [OF wf])
  then show ?thesis by (rule ranI)
qed

lemma set_listeners: "rs_wf s \<Longrightarrow> set (qvalues (rs_listeners s)) = ran (qlookup (rs_listeners s))"
  by (rule set_qvalues) (rule rs_wfD)

lemma set_clients: "rs_wf s \<Longrightarrow> set (qvalues (rs_clients s)) = ran (qlookup (rs_clients s))"
  by (rule set_qvalues) (rule rs_wfD)

text \<open>Registration of a listener, described on the tables.\<close>

lemma registerReceiver_result:
  assumes wf: "rs_wf s"
  shows "fst (rs_registerReceiver l route s) \<longleftrightarrow>
    l \<noteq> 0 \<and> qlookup (rs_listeners s) route = None \<and> l \<notin> ran (qlookup (rs_listeners s))"
  by (simp add: rs_registerReceiver_def Let_def qcontains_def set_listeners [OF wf])
    (meson containsRight_ran [OF wf])

lemma registerReceiver_rejected:
  "\<not> fst (rs_registerReceiver l route s) \<Longrightarrow> snd (rs_registerReceiver l route s) = s"
  by (auto simp: rs_registerReceiver_def Let_def split: if_splits)

lemma registerReceiver_accepted:
  assumes wf: "rs_wf s" and ok: "fst (rs_registerReceiver l route s)"
  defines "s' \<equiv> snd (rs_registerReceiver l route s)"
  shows "rs_receivers s' = rs_receivers s @ [l]"
    and "rs_clients s' = rs_clients s"
    and "rs_listeners s' = (if route = 0 then rs_listeners s else qinsert route l (rs_listeners s))"
    and "bm_wf (rs_routes s')"
    and "bm_pairs (rs_routes s') = bm_pairs (rs_routes s)
          \<union> (if route = 0 then {} else {(c, l) | c. qlookup (rs_clients s) route = Some c})"
proof -
  from ok have l: "l \<noteq> 0" "qlookup (rs_listeners s) route = None"
      "l \<notin> ran (qlookup (rs_listeners s))" "\<not> containsRight (rs_routes s) l"
    using containsRight_ran [OF wf] unfolding registerReceiver_result [OF wf] by blast+
  have new: "\<not> containsLeft (rs_routes s) c" if "qlookup (rs_clients s) route = Some c" for c
    using that l(2) inj_tableD [OF rs_wfD(4) [OF wf]] unfolding containsLeft_join [OF wf]
    by (metis option.distinct(1))
  note defs = s'_def rs_registerReceiver_def registerReceiver_def Let_def
  have guard: "\<not> qcontains (rs_listeners s) route" "l \<notin> set (qvalues (rs_listeners s))"
    using l by (simp_all add: qcontains_def set_listeners [OF wf])
  show "rs_receivers s' = rs_receivers s @ [l]" "rs_clients s' = rs_clients s"
    using l guard by (auto simp: defs)
  show "rs_listeners s' = (if route = 0 then rs_listeners s else qinsert route l (rs_listeners s))"
    using l guard by (auto simp: defs)
  show "bm_wf (rs_routes s')"
    using l guard rs_wfD(1) [OF wf] by (auto simp: defs intro: bm_insert_wf)
  show "bm_pairs (rs_routes s') = bm_pairs (rs_routes s)
          \<union> (if route = 0 then {} else {(c, l) | c. qlookup (rs_clients s) route = Some c})"
    using l guard new
    by (auto simp: defs bm_pairs_insert qcontains_def qvalue_def split: option.splits)
qed

lemma registerReceiver_wf [inv_intros]:
  assumes wf: "rs_wf s"
  shows "rs_wf (snd (rs_registerReceiver l route s))"
proof (cases "fst (rs_registerReceiver l route s)")
  case True
  note acc = registerReceiver_accepted [OF wf True]
  from True have l: "l \<noteq> 0" "qlookup (rs_listeners s) route = None"
      "l \<notin> ran (qlookup (rs_listeners s))"
    using wf by (simp_all add: registerReceiver_result)
  note d = rs_wfD [OF wf]
  show ?thesis
  proof (cases "route = 0")
    case True
    then show ?thesis
      unfolding rs_wf_def acc(1-3,5) using acc(4) d by auto
  next
    case False
    have ran: "ran ((qlookup (rs_listeners s))(route \<mapsto> l)) = insert l (ran (qlookup (rs_listeners s)))"
      using l(2) by (rule ran_map_upd)
    have pairs: "bm_pairs (rs_routes s) \<union> {(c, l) | c. qlookup (rs_clients s) route = Some c}
        = join (qlookup (rs_clients s)) ((qlookup (rs_listeners s))(route \<mapsto> l))"
      by (simp only: join_upd_right [of "qlookup (rs_listeners s)", OF l(2)] d(10))
    show ?thesis
      unfolding rs_wf_def acc(1-3,5)
      using False acc(4) d(2-9) l by (simp add: ran pairs inj_table_upd) blast
  qed
next
  case False
  then show ?thesis using wf by (simp add: registerReceiver_rejected)
qed

text \<open>Deregistration of a listener and of a client, described on the tables.\<close>

lemma deregisterReceiver_effect:
  assumes wf: "rs_wf s" and l: "l \<noteq> 0"
  defines "s' \<equiv> rs_deregisterReceiver l s"
  shows "rs_receivers s' = removeAll l (rs_receivers s)"
    and "rs_clients s' = rs_clients s"
    and "l \<notin> ran (qlookup (rs_listeners s)) \<Longrightarrow> rs_listeners s' = rs_listeners s"
    and "qlookup (rs_listeners s) r = Some l \<Longrightarrow> rs_listeners s' = qremove r (rs_listeners s)"
    and "bm_wf (rs_routes s')"
    and "bm_pairs (rs_routes s') = {p \<in> bm_pairs (rs_routes s). snd p \<noteq> l}"
proof -
  note d = rs_wfD [OF wf]
  note defs = s'_def rs_deregisterReceiver_def deregisterReceiver_def Let_def
  show "rs_receivers s' = removeAll l (rs_receivers s)" "rs_clients s' = rs_clients s"
    using l by (simp_all add: defs)
  show "l \<notin> ran (qlookup (rs_listeners s)) \<Longrightarrow> rs_listeners s' = rs_listeners s"
    using l by (simp add: defs set_listeners [OF wf])
  show "rs_listeners s' = qremove r (rs_listeners s)" if r: "qlookup (rs_listeners s) r = Some l"
  proof -
    from r have v: "l \<in> set (qvalues (rs_listeners s))"
      by (simp add: set_listeners [OF wf] ranI)
    have "qlookup (rs_listeners s) (qkey (rs_listeners s) 0 l) = Some l"
      by (rule qlookup_qkey [OF d(3) v])
    with r have "qkey (rs_listeners s) 0 l = r" using inj_tableD [OF d(5)] by blast
    with l v show ?thesis by (simp add: defs)
  qed
  show "bm_wf (rs_routes s')"
    using l d(1) by (simp add: defs removeByRight_wf)
  have absent: "bm_pairs (rs_routes s) = {p \<in> bm_pairs (rs_routes s). snd p \<noteq> l}"
    if "\<not> containsRight (rs_routes s) l"
    using that by (auto simp: containsRight_iff [OF d(1)])
  show "bm_pairs (rs_routes s') = {p \<in> bm_pairs (rs_routes s). snd p \<noteq> l}"
    using l absent by (simp add: defs bm_pairs_removeByRight [OF d(1)])
qed

lemma deregisterReceiver_wf [inv_intros]:
  assumes wf: "rs_wf s"
  shows "rs_wf (rs_deregisterReceiver l s)"
proof (cases "l = 0")
  case True
  then show ?thesis
    using wf by (auto simp: rs_deregisterReceiver_def deregisterReceiver_def rs_wf_def)
next
  case False
  note e = deregisterReceiver_effect [OF wf False]
  note d = rs_wfD [OF wf]
  show ?thesis
  proof (cases "l \<in> ran (qlookup (rs_listeners s))")
    case True
    then obtain r where r: "qlookup (rs_listeners s) r = Some l" by (auto simp: ran_def)
    have pairs: "{p \<in> bm_pairs (rs_routes s). snd p \<noteq> l}
        = join (qlookup (rs_clients s)) ((qlookup (rs_listeners s))(r := None))"
      by (simp only: join_del_right [OF d(5) r] d(10))
    have ran: "x \<in> ran ((qlookup (rs_listeners s))(r := None)) \<Longrightarrow>
        x \<in> ran (qlookup (rs_listeners s)) \<and> x \<noteq> l" for x
      using inj_tableD [OF d(5) r] by (auto simp: ran_def split: if_splits)
    show ?thesis
      unfolding rs_wf_def e(1,2,6) e(4) [OF r]
      using d(2-9) e(5) ran by (auto simp: pairs inj_table_del)
  next
    case False
    have "{p \<in> bm_pairs (rs_routes s). snd p \<noteq> l} = bm_pairs (rs_routes s)"
      using False snd_join unfolding d(10) by fastforce
    then show ?thesis
      unfolding rs_wf_def e(1,2,6) e(3) [OF False] using d(2-10) e(5) False by auto
  qed
qed

lemma deregisterClient_effect:
  assumes wf: "rs_wf s" and c: "c \<noteq> 0"
  defines "s' \<equiv> deregisterClient c s"
  shows "rs_receivers s' = rs_receivers s"
    and "rs_listeners s' = rs_listeners s"
    and "c \<notin> ran (qlookup (rs_clients s)) \<Longrightarrow> rs_clients s' = rs_clients s"
    and "qlookup (rs_clients s) r = Some c \<Longrightarrow> rs_clients s' = qremove r (rs_clients s)"
    and "bm_wf (rs_routes s')"
    and "bm_pairs (rs_routes s') = {p \<in> bm_pairs (rs_routes s). fst p \<noteq> c}"
proof -
  note d = rs_wfD [OF wf]
  note defs = s'_def deregisterClient_def Let_def
  show "rs_receivers s' = rs_receivers s" "rs_listeners s' = rs_listeners s"
    using c by (simp_all add: defs)
  show "c \<notin> ran (qlookup (rs_clients s)) \<Longrightarrow> rs_clients s' = rs_clients s"
    using c by (simp add: defs set_clients [OF wf])
  show "rs_clients s' = qremove r (rs_clients s)" if r: "qlookup (rs_clients s) r = Some c"
  proof -
    from r have v: "c \<in> set (qvalues (rs_clients s))" by (simp add: set_clients [OF wf] ranI)
    have "qlookup (rs_clients s) (qkey (rs_clients s) 0 c) = Some c"
      by (rule qlookup_qkey [OF d(2) v])
    with r have "qkey (rs_clients s) 0 c = r" using inj_tableD [OF d(4)] by blast
    with c v show ?thesis by (simp add: defs)
  qed
  show "bm_wf (rs_routes s')"
    using c d(1) by (simp add: defs removeByLeft_wf)
  have absent: "bm_pairs (rs_routes s) = {p \<in> bm_pairs (rs_routes s). fst p \<noteq> c}"
    if "\<not> containsLeft (rs_routes s) c"
    using that by (auto simp: containsLeft_iff)
  show "bm_pairs (rs_routes s') = {p \<in> bm_pairs (rs_routes s). fst p \<noteq> c}"
    using c absent by (simp add: defs bm_pairs_removeByLeft)
qed

lemma deregisterClient_wf [inv_intros]:
  assumes wf: "rs_wf s"
  shows "rs_wf (deregisterClient c s)"
proof (cases "c = 0")
  case True
  then show ?thesis using wf by (simp add: deregisterClient_def)
next
  case False
  note e = deregisterClient_effect [OF wf False]
  note d = rs_wfD [OF wf]
  show ?thesis
  proof (cases "c \<in> ran (qlookup (rs_clients s))")
    case True
    then obtain r where r: "qlookup (rs_clients s) r = Some c" by (auto simp: ran_def)
    have pairs: "{p \<in> bm_pairs (rs_routes s). fst p \<noteq> c}
        = join ((qlookup (rs_clients s))(r := None)) (qlookup (rs_listeners s))"
      by (simp only: join_del_left [OF d(4) r] d(10))
    have ran: "x \<in> ran ((qlookup (rs_clients s))(r := None)) \<Longrightarrow>
        x \<in> ran (qlookup (rs_clients s))" for x
      by (auto simp: ran_def split: if_splits)
    show ?thesis
      unfolding rs_wf_def e(1,2,6) e(4) [OF r]
      using d(2-9) e(5) ran by (auto simp: pairs inj_table_del)
  next
    case False
    have "{p \<in> bm_pairs (rs_routes s). fst p \<noteq> c} = bm_pairs (rs_routes s)"
      using False fst_join unfolding d(10) by fastforce
    then show ?thesis
      unfolding rs_wf_def e(1,2,6) e(3) [OF False] using d(2-10) e(5) by auto
  qed
qed

text \<open>Registration of a client.\<close>

lemma registerClient_result:
  assumes wf: "rs_wf s"
  shows "fst (registerClient c route s) \<longleftrightarrow>
    c \<noteq> 0 \<and> qlookup (rs_clients s) route = None \<and> c \<notin> ran (qlookup (rs_clients s))"
  by (simp add: registerClient_def Let_def qcontains_def set_clients [OF wf])
    (meson containsLeft_ran [OF wf])

lemma registerClient_rejected:
  "\<not> fst (registerClient c route s) \<Longrightarrow> snd (registerClient c route s) = ([], s)"
  by (auto simp: registerClient_def Let_def split: if_splits)

lemma registerClient_accepted:
  assumes wf: "rs_wf s" and ok: "fst (registerClient c route s)"
  defines "s' \<equiv> snd (snd (registerClient c route s))"
  shows "rs_receivers s' = rs_receivers s"
    and "rs_listeners s' = rs_listeners s"
    and "rs_clients s' = qinsert route c (rs_clients s)"
    and "bm_wf (rs_routes s')"
    and "bm_pairs (rs_routes s') = bm_pairs (rs_routes s)
          \<union> {(c, l) | l. qlookup (rs_listeners s) route = Some l}"
proof -
  from ok have c: "c \<noteq> 0" "qlookup (rs_clients s) route = None"
      "c \<notin> ran (qlookup (rs_clients s))" "\<not> containsLeft (rs_routes s) c"
    using containsLeft_ran [OF wf] unfolding registerClient_result [OF wf] by blast+
  have new: "\<not> containsRight (rs_routes s) l" if "qlookup (rs_listeners s) route = Some l" for l
    using that c(2) inj_tableD [OF rs_wfD(5) [OF wf]] unfolding containsRight_join [OF wf]
    by (metis option.distinct(1))
  note defs = s'_def registerClient_def Let_def
  have guard: "\<not> qcontains (rs_clients s) route" "c \<notin> set (qvalues (rs_clients s))"
    using c by (simp_all add: qcontains_def set_clients [OF wf])
  show "rs_receivers s' = rs_receivers s" "rs_listeners s' = rs_listeners s"
    using c guard by (simp_all add: defs)
  show "rs_clients s' = qinsert route c (rs_clients s)"
    using c guard by (simp add: defs)
  show "bm_wf (rs_routes s')"
    using c guard rs_wfD(1) [OF wf] by (simp add: defs bm_insert_wf)
  show "bm_pairs (rs_routes s') = bm_pairs (rs_routes s)
          \<union> {(c, l) | l. qlookup (rs_listeners s) route = Some l}"
    using c guard new
    by (auto simp: defs bm_pairs_insert qcontains_def qvalue_def split: option.splits)
qed

lemma registerClient_wf [inv_intros]:
  assumes wf: "rs_wf s"
  shows "rs_wf (snd (snd (registerClient c route s)))"
proof (cases "fst (registerClient c route s)")
  case True
  note acc = registerClient_accepted [OF wf True]
  from True have c: "c \<noteq> 0" "qlookup (rs_clients s) route = None"
      "c \<notin> ran (qlookup (rs_clients s))"
    using wf by (simp_all add: registerClient_result)
  note d = rs_wfD [OF wf]
  have ran: "ran ((qlookup (rs_clients s))(route \<mapsto> c)) = insert c (ran (qlookup (rs_clients s)))"
    using c(2) by (rule ran_map_upd)
  have pairs: "bm_pairs (rs_routes s) \<union> {(c, l) | l. qlookup (rs_listeners s) route = Some l}
      = join ((qlookup (rs_clients s))(route \<mapsto> c)) (qlookup (rs_listeners s))"
    by (simp only: join_upd_left [of "qlookup (rs_clients s)", OF c(2)] d(10))
  show ?thesis
    unfolding rs_wf_def acc(1-3,5) using acc(4) d(2-9) c by (simp add: ran pairs inj_table_upd)
next
  case False
  then show ?thesis using wf by (simp add: registerClient_rejected)
qed

section \<open>Runs of the server\<close>

inductive routed_step :: "routed_server \<Rightarrow> routed_server \<Rightarrow> bool" where
  register_receiver: "routed_step s (snd (rs_registerReceiver l route s))"
| deregister_receiver: "routed_step s (rs_deregisterReceiver l s)"
| register_client: "routed_step s (snd (snd (registerClient c route s)))"
| deregister_client: "routed_step s (deregisterClient c s)"

inductive routed_reachable :: "routed_server \<Rightarrow> bool" where
  initial: "routed_reachable rs_init"
| step: "routed_reachable s \<Longrightarrow> routed_step s t \<Longrightarrow> routed_reachable t"

inductive_cases routed_stepE: "routed_step s t"

lemma routed_step_wf: "routed_step s t \<Longrightarrow> rs_wf s \<Longrightarrow> rs_wf t"
  by (elim routed_stepE) (simp_all add: inv_intros)

lemma reachable_wf: "routed_reachable s \<Longrightarrow> rs_wf s"
  by (induction rule: routed_reachable.induct) (auto simp: rs_wf_init intro: routed_step_wf)

lemma dispatch_partner:
  assumes wf: "rs_wf s" and "qlookup (rs_clients s) r = Some c"
    and "qlookup (rs_listeners s) r = Some l"
  shows "dispatch m a c s = [MethodCalled l m a]"
proof -
  from assms have "(c, l) \<in> bm_pairs (rs_routes s)" by (auto simp: rs_wfD(10) mem_join)
  moreover have "c \<noteq> 0" using assms(2) rs_wfD(6) [OF wf] by (auto simp: ran_def)
  ultimately show ?thesis
    by (simp add: dispatch_def containsLeft_def qcontains_def bm_right_def qvalue_def mem_bm_pairs)
qed

lemma dispatch_no_partner:
  assumes wf: "rs_wf s" and "c \<noteq> 0" and "c \<notin> fst ` bm_pairs (rs_routes s)"
  shows "dispatch m a c s = []"
  using assms by (simp add: dispatch_def containsLeft_iff)

lemma dispatch_by_pairs:
  assumes "c \<noteq> 0" and "\<And>l. (c, l) \<in> bm_pairs (rs_routes s) \<longleftrightarrow> (c, l) \<in> bm_pairs (rs_routes t)"
  shows "dispatch m a c s = dispatch m a c t"
proof -
  have "qlookup (m_left (rs_routes s)) c = qlookup (m_left (rs_routes t)) c"
    using assms(2) unfolding mem_bm_pairs by (metis option.exhaust)
  with assms(1) show ?thesis
    by (simp add: dispatch_def containsLeft_def qcontains_def bm_right_def qvalue_def)
qed

lemmas routing_eval = rs_registerReceiver_def registerClient_def rs_init_def qcontains_def
  qvalues_def containsRight_def containsLeft_def bm_empty_def bm_insert_def qvalue_def
  registerReceiver_def dispatch_def notify_def Let_def

section \<open>Properties of the routing server\<close>

text \<open>
  C1: after any sequence of registrations and deregistrations of listeners and clients the
  table of joined pairs holds exactly the pairs of a client and a listener registered under one
  route, it is one-to-one, and both directions of it agree.
\<close>

theorem routes_are_the_join:
  assumes "routed_reachable s"
  shows "(qlookup (m_left (rs_routes s)) c = Some l \<longleftrightarrow>
            (\<exists>r. qlookup (rs_clients s) r = Some c \<and> qlookup (rs_listeners s) r = Some l))
    \<and> mirror (qlookup (m_left (rs_routes s))) (qlookup (m_right (rs_routes s)))"
proof -
  note wf = reachable_wf [OF assms]
  have "(c, l) \<in> bm_pairs (rs_routes s) \<longleftrightarrow>
      (\<exists>r. qlookup (rs_clients s) r = Some c \<and> qlookup (rs_listeners s) r = Some l)"
    by (simp add: rs_wfD(10) [OF wf] mem_join)
  then show ?thesis by (simp add: mem_bm_pairs bm_wfD(3) [OF rs_wfD(1) [OF wf]])
qed

theorem routes_are_the_join_witness:
  "let s = snd (snd (registerClient 100 1 (snd (rs_registerReceiver 7 1 rs_init))))
   in qlookup (m_left (rs_routes s)) 100 = Some 7"
proof -
  let ?s1 = "snd (rs_registerReceiver 7 1 rs_init)"
  let ?s = "snd (snd (registerClient 100 1 ?s1))"
  have "routed_reachable ?s"
    by (rule routed_reachable.step [OF routed_reachable.step [OF routed_reachable.initial]])
      (rule routed_step.intros)+
  moreover have "qlookup (rs_clients ?s) 1 = Some 100" "qlookup (rs_listeners ?s) 1 = Some 7"
    by (simp_all add: routing_eval)
  ultimately show ?thesis using routes_are_the_join [of ?s 100 7] by (auto simp: Let_def)
qed

text \<open>
  C2: in every reachable state a message that arrives from a registered client is handed to the
  listener of the client's route and to nobody else, and a message of that listener goes to
  that client and to nobody else; a message of a client that is not registered is dropped.
\<close>

theorem dispatch_and_call_follow_the_route:
  assumes "routed_reachable s" and "c \<noteq> 0"
  shows "(qlookup (rs_clients s) r = Some c \<longrightarrow>
            dispatch m a c s = (case qlookup (rs_listeners s) r of
              None \<Rightarrow> [] | Some l \<Rightarrow> [MethodCalled l m a]))
    \<and> (qlookup (rs_clients s) r = Some c \<and> qlookup (rs_listeners s) r = Some l \<longrightarrow>
            internalCall m a l s = [PeerCall c m a])
    \<and> (c \<notin> ran (qlookup (rs_clients s)) \<longrightarrow> dispatch m a c s = [])"
proof (intro conjI impI)
  note wf = reachable_wf [OF assms(1)]
  note d = rs_wfD [OF wf]
  show "dispatch m a c s = []" if "c \<notin> ran (qlookup (rs_clients s))"
    using that fst_join [of c] by (intro dispatch_no_partner [OF wf assms(2)]) (auto simp: d(10))
  show "dispatch m a c s = (case qlookup (rs_listeners s) r of
      None \<Rightarrow> [] | Some l \<Rightarrow> [MethodCalled l m a])"
    if r: "qlookup (rs_clients s) r = Some c"
  proof (cases "qlookup (rs_listeners s) r")
    case None
    have "c \<notin> fst ` join (qlookup (rs_clients s)) (qlookup (rs_listeners s))"
      using None inj_tableD [OF d(4) r] by (auto simp: join_def)
    then show ?thesis using None by (simp add: dispatch_no_partner [OF wf assms(2)] d(10))
  next
    case (Some l)
    then show ?thesis by (simp add: dispatch_partner [OF wf r])
  qed
  show "internalCall m a l s = [PeerCall c m a]"
    if r: "qlookup (rs_clients s) r = Some c \<and> qlookup (rs_listeners s) r = Some l"
  proof -
    from r have "(c, l) \<in> bm_pairs (rs_routes s)" by (auto simp: d(10) mem_join)
    then have "qlookup (m_right (rs_routes s)) l = Some c"
      by (simp add: mem_bm_pairs_right [OF d(1)])
    moreover have "l \<noteq> 0" using r d(7) by (auto simp: ran_def)
    ultimately show ?thesis
      by (simp add: internalCall_def containsRight_def qcontains_def bm_left_def qvalue_def)
  qed
qed

theorem dispatch_and_call_follow_the_route_witness:
  "let s = snd (snd (registerClient 100 1 (snd (rs_registerReceiver 7 1 rs_init))))
   in dispatch ''method1'' (200::int) 100 s = [MethodCalled 7 ''method1'' 200]
    \<and> internalCall ''method1'' (200::int) 7 s = [PeerCall 100 ''method1'' 200]"
proof -
  let ?s1 = "snd (rs_registerReceiver 7 1 rs_init)"
  let ?s = "snd (snd (registerClient 100 1 ?s1))"
  have "routed_reachable ?s"
    by (rule routed_reachable.step [OF routed_reachable.step [OF routed_reachable.initial]])
      (rule routed_step.intros)+
  moreover have "qlookup (rs_clients ?s) 1 = Some 100" "qlookup (rs_listeners ?s) 1 = Some 7"
    by (simp_all add: routing_eval)
  ultimately show ?thesis
    using dispatch_and_call_follow_the_route [of ?s 100 1 "''method1''" "200::int" 7]
    by (simp add: Let_def)
qed

text \<open>
  once a listener is deregistered, no message reaches it, neither one sent to all listeners
  nor one of any client, and messages of the clients of other listeners are delivered as before.
\<close>

theorem deregistered_listener_is_silent:
  assumes "routed_reachable s" and "l \<noteq> 0"
  shows "MethodCalled l m a \<notin> set (dispatch m a c (rs_deregisterReceiver l s))
    \<and> (dispatch m a c s \<noteq> [MethodCalled l m a] \<and> c \<noteq> 0 \<longrightarrow>
         dispatch m a c (rs_deregisterReceiver l s) = dispatch m a c s)"
proof -
  note wf = reachable_wf [OF assms(1)]
  let ?t = "rs_deregisterReceiver l s"
  note e = deregisterReceiver_effect [OF wf assms(2)]
  note wf' = deregisterReceiver_wf [OF wf, of l]
  have other: "dispatch m a c ?t = (if (c, l) \<in> bm_pairs (rs_routes s) then [] else dispatch m a c s)"
    if c: "c \<noteq> 0"
  proof (cases "(c, l) \<in> bm_pairs (rs_routes s)")
    case True
    then have "c \<notin> fst ` bm_pairs (rs_routes ?t)" by (auto simp: e(6) mem_bm_pairs)
    with True show ?thesis by (simp add: dispatch_no_partner [OF wf' c])
  next
    case False
    then show ?thesis using c by (auto simp: e(6) intro!: dispatch_by_pairs)
  qed
  have mine: "MethodCalled l m a \<in> set (dispatch m a c s) \<longleftrightarrow> (c, l) \<in> bm_pairs (rs_routes s)"
    if "c \<noteq> 0"
    using that by (auto simp: dispatch_def containsLeft_def qcontains_def bm_right_def qvalue_def
        mem_bm_pairs split: if_splits)
  have "MethodCalled l m a \<notin> set (dispatch m a 0 ?t)"
    using e(1) by (auto simp: dispatch_def notify_def)
  then show ?thesis
    using other mine by (cases "c = 0") (auto simp: dispatch_def containsLeft_def qcontains_def
        bm_right_def qvalue_def mem_bm_pairs split: if_splits)
qed

theorem deregistered_listener_is_silent_witness:
  "let s = snd (rs_registerReceiver 7 1 rs_init)
   in dispatch ''m'' (0::int) 0 s = [MethodCalled 7 ''m'' 0]
    \<and> MethodCalled 7 ''m'' (0::int) \<notin> set (dispatch ''m'' 0 0 (rs_deregisterReceiver 7 s))"
proof -
  let ?s = "snd (rs_registerReceiver 7 1 rs_init)"
  have "routed_reachable ?s"
    by (rule routed_reachable.step [OF routed_reachable.initial]) (rule routed_step.intros)
  then show ?thesis
    using deregistered_listener_is_silent [of ?s 7 "''m''" "0::int" 0]
    by (simp add: routing_eval)
qed

text \<open>
  a listener registered without a route id (route 0) is not recorded in the listener table, so
  the same listener can be registered again: every call returns true and each one adds a delivery
  of every broadcast, although the interface comment promises false for a listener that is
  already registered.
\<close>

theorem unrouted_listener_registers_twice:
  assumes "routed_reachable s" and "l \<noteq> 0" and "l \<notin> ran (qlookup (rs_listeners s))"
  defines "t \<equiv> snd (rs_registerReceiver l 0 (snd (rs_registerReceiver l 0 s)))"
  shows "fst (rs_registerReceiver l 0 (snd (rs_registerReceiver l 0 s)))
    \<and> count_list (dispatch m a 0 t) (MethodCalled l m a)
        = count_list (dispatch m a 0 s) (MethodCalled l m a) + 2"
proof -
  note wf = reachable_wf [OF assms(1)]
  let ?s1 = "snd (rs_registerReceiver l 0 s)"
  have ok1: "fst (rs_registerReceiver l 0 s)"
    using assms(2,3) rs_wfD(8) [OF wf] by (simp add: registerReceiver_result [OF wf])
  note a1 = registerReceiver_accepted [OF wf ok1]
  note wf1 = registerReceiver_wf [OF wf, of l 0]
  have ok2: "fst (rs_registerReceiver l 0 ?s1)"
    using assms(2,3) rs_wfD(8) [OF wf] by (simp add: registerReceiver_result [OF wf1] a1(3))
  have "rs_receivers t = rs_receivers s @ [l, l]"
    unfolding t_def registerReceiver_accepted(1) [OF wf1 ok2] a1(1) by simp
  with ok2 show ?thesis by (simp add: dispatch_def notify_def)
qed

theorem unrouted_listener_registers_twice_witness:
  "fst (rs_registerReceiver 7 0 (snd (rs_registerReceiver 7 0 rs_init)))
   \<and> count_list (dispatch ''m'' (0::int) 0
        (snd (rs_registerReceiver 7 0 (snd (rs_registerReceiver 7 0 rs_init)))))
        (MethodCalled 7 ''m'' 0) = 2"
  using unrouted_listener_registers_twice [OF routed_reachable.initial, of 7 "''m''" "0::int"]
  by (simp add: rs_init_def dispatch_def [of _ _ 0] notify_def)

section \<open>The client and the server together\<close>

text \<open>What the server does with a call of the client \<open>c\<close>.\<close>

fun serve :: "client_id \<Rightarrow> client_call \<Rightarrow> routed_server \<Rightarrow> routed_server" where
  "serve c (CallRegister route) s = snd (snd (registerClient c route s))"
| "serve c CallDeregister s = deregisterClient c s"

definition serve_all :: "client_id \<Rightarrow> client_call list \<Rightarrow> routed_server \<Rightarrow> routed_server" where
  "serve_all c calls s = fold (serve c) calls s"

text \<open>Client and server agree on the client's route.\<close>

definition in_sync :: "client_id \<Rightarrow> routed_client \<Rightarrow> routed_server \<Rightarrow> bool" where
  "in_sync c k s \<longleftrightarrow>
     (\<forall>r. qlookup (rs_clients s) r = Some c \<longleftrightarrow> m_routeId k = r \<and> r \<noteq> 0)"

lemma in_sync_fresh: "in_sync c k s \<Longrightarrow> m_routeId k = 0 \<Longrightarrow> c \<notin> ran (qlookup (rs_clients s))"
  by (auto simp: in_sync_def ran_def)

lemma in_sync_deregister:
  assumes wf: "rs_wf s" and c: "c \<noteq> 0" and sync: "in_sync c k s" and k: "m_routeId k \<noteq> 0"
  shows "in_sync c (k\<lparr>m_routeId := 0\<rparr>) (deregisterClient c s)"
    and "qlookup (rs_clients (deregisterClient c s)) r =
           (if r = m_routeId k then None else qlookup (rs_clients s) r)"
proof -
  from sync k have r: "qlookup (rs_clients s) (m_routeId k) = Some c" by (auto simp: in_sync_def)
  show "qlookup (rs_clients (deregisterClient c s)) r =
           (if r = m_routeId k then None else qlookup (rs_clients s) r)" for r
    by (simp add: deregisterClient_effect(4) [OF wf c r])
  then show "in_sync c (k\<lparr>m_routeId := 0\<rparr>) (deregisterClient c s)"
    using sync by (auto simp: in_sync_def)
qed

lemma in_sync_register:
  assumes wf: "rs_wf s" and c: "c \<noteq> 0" and "c \<notin> ran (qlookup (rs_clients s))"
    and "qlookup (rs_clients s) route = None" and "route \<noteq> 0"
  shows "in_sync c (k\<lparr>m_routeId := route\<rparr>) (serve c (CallRegister route) s)"
proof -
  have "fst (registerClient c route s)"
    using assms by (simp add: registerClient_result)
  from registerClient_accepted(3) [OF wf this] assms show ?thesis
    by (auto simp: in_sync_def ran_def)
qed

text \<open>
  a connected client that changes its route to a free one first withdraws the old one, so the
  server accepts the new registration: afterwards client and server agree again, the new route
  leads to the client and the old route is free.
\<close>

theorem route_change_keeps_sync:
  assumes "routed_reachable s" and "c \<noteq> 0" and "in_sync c k s"
    and "route \<noteq> 0" and "qlookup (rs_clients s) route = None"
    and "registerRoute True route k = (ok, calls, k')"
  shows "ok \<and> in_sync c k' (serve_all c calls s)
    \<and> qlookup (rs_clients (serve_all c calls s)) route = Some c
    \<and> qlookup (rs_clients (serve_all c calls s)) (m_routeId k)
        = (if m_routeId k = 0 then qlookup (rs_clients s) 0 else None)"
proof (cases "m_routeId k = 0")
  case True
  note wf = reachable_wf [OF assms(1)]
  from True assms(4,6) have "ok" "calls = [CallRegister route]" "k' = k\<lparr>m_routeId := route\<rparr>"
    by (auto simp: registerRoute_def)
  moreover have acc: "fst (registerClient c route s)"
    using assms(2,5) in_sync_fresh [OF assms(3) True] by (simp add: registerClient_result [OF wf])
  ultimately show ?thesis
    using True in_sync_register [OF wf assms(2) in_sync_fresh [OF assms(3) True] assms(5,4), of k]
      registerClient_accepted(3) [OF wf acc] assms(4)
    by (simp add: serve_all_def)
next
  case False
  note wf = reachable_wf [OF assms(1)]
  let ?s = "deregisterClient c s"
  let ?k = "k\<lparr>m_routeId := 0\<rparr>"
  from False assms(4,6) have eq: "ok" "calls = [CallDeregister, CallRegister route]"
      "k' = ?k\<lparr>m_routeId := route\<rparr>"
    by (auto simp: registerRoute_def deregisterRoute_def)
  note wf' = deregisterClient_wf [OF wf, of c]
  note sync = in_sync_deregister [OF wf assms(2,3) False]
  have fresh: "c \<notin> ran (qlookup (rs_clients ?s))" using in_sync_fresh [OF sync(1)] by simp
  have free: "qlookup (rs_clients ?s) route = None" using assms(5) by (simp add: sync(2))
  have acc: "fst (registerClient c route ?s)"
    using assms(2) fresh free by (simp add: registerClient_result [OF wf'])
  have old: "m_routeId k \<noteq> route"
  proof
    assume "m_routeId k = route"
    with assms(3) False have "qlookup (rs_clients s) route = Some c" by (auto simp: in_sync_def)
    with assms(5) show False by simp
  qed
  have t: "serve_all c calls s = serve c (CallRegister route) ?s"
    by (simp add: eq(2) serve_all_def)
  have look: "qlookup (rs_clients (serve c (CallRegister route) ?s)) = (qlookup (rs_clients ?s))(route \<mapsto> c)"
    by (simp add: registerClient_accepted(3) [OF wf' acc])
  have "in_sync c k' (serve c (CallRegister route) ?s)"
    unfolding eq(3) by (rule in_sync_register [OF wf' assms(2) fresh free assms(4)])
  moreover have "qlookup (rs_clients ?s) (m_routeId k) = None"
    unfolding sync(2) by simp
  ultimately show ?thesis
    using False eq(1) old unfolding t look by simp
qed

theorem route_change_keeps_sync_witness:
  "let s = snd (snd (registerClient 100 1 rs_init));
       (ok, calls, k') = registerRoute True 2 \<lparr>m_routeId = 1\<rparr>
   in ok \<and> qlookup (rs_clients (serve_all 100 calls s)) 2 = Some 100
    \<and> qlookup (rs_clients (serve_all 100 calls s)) 1 = None"
proof -
  let ?s = "snd (snd (registerClient 100 1 rs_init))"
  have "routed_reachable ?s"
    by (rule routed_reachable.step [OF routed_reachable.initial]) (rule routed_step.intros)
  moreover have "in_sync 100 \<lparr>m_routeId = 1\<rparr> ?s"
    by (auto simp: in_sync_def routing_eval)
  moreover have "qlookup (rs_clients ?s) 2 = None" by (simp add: routing_eval)
  moreover have "registerRoute True 2 \<lparr>m_routeId = 1\<rparr>
      = (True, [CallDeregister, CallRegister 2], \<lparr>m_routeId = 2\<rparr>)"
    by (simp add: registerRoute_def deregisterRoute_def)
  ultimately show ?thesis
    using route_change_keeps_sync [of ?s 100 "\<lparr>m_routeId = 1\<rparr>" 2 True
        "[CallDeregister, CallRegister 2]" "\<lparr>m_routeId = 2\<rparr>"]
    by (simp add: Let_def)
qed

end
