(* ===== verification/RpcServer.thy ===== *)
theory RpcServer
  imports Subscriptions RpcRouting
begin

text \<open>
  The RPC server of the station (\<open>server/core/RPC\<close>): \<open>RPCServer\<close> and its \<open>RPCClient\<close> objects, one per
  connection, which the \<open>Subscriber\<close> delivers messages to. A client object is the value of its pointer;
  \<open>sv_objects\<close> holds the objects that exist. What is asked of the RPC peer and of the receivers is the
  list of events an operation returns; \<open>None\<close> stands for the use of an object that was deleted.
\<close>

section \<open>Names and message types\<close>

named_theorems rpc_names \<open>names of remote methods\<close>

definition KTR_BLA :: int where "KTR_BLA = 3001"
definition NIIPP_ANSWER :: int where "NIIPP_ANSWER = 6001"
definition AIS_DATA :: int where "AIS_DATA = 801"
definition ARM_R_SERVER_BPLA_COORDS :: int where "ARM_R_SERVER_BPLA_COORDS = 5001"
definition ARM_R_SERVER_BPLA_COORDS_AUTO :: int where "ARM_R_SERVER_BPLA_COORDS_AUTO = 5002"
definition ARM_R_SERVER_BPLA_COORDS_SINGLE :: int where "ARM_R_SERVER_BPLA_COORDS_SINGLE = 5003"
definition ARM_R_SERVER_HYPERBOLA :: int where "ARM_R_SERVER_HYPERBOLA = 5004"
definition ARM_R_SERVER_ATLANT_DIRECTION :: int where "ARM_R_SERVER_ATLANT_DIRECTION = 7001"
definition ARM_R_SERVER_ATLANT_POSITION :: int where "ARM_R_SERVER_ATLANT_POSITION = 7002"

lemmas message_types = KTR_BLA_def NIIPP_ANSWER_def AIS_DATA_def ARM_R_SERVER_BPLA_COORDS_def
  ARM_R_SERVER_BPLA_COORDS_AUTO_def ARM_R_SERVER_BPLA_COORDS_SINGLE_def ARM_R_SERVER_HYPERBOLA_def
  ARM_R_SERVER_ATLANT_DIRECTION_def ARM_R_SERVER_ATLANT_POSITION_def

definition RPC_SLOT_SERVER_SEND_BPLA_POINTS :: string where [rpc_names]:
  "RPC_SLOT_SERVER_SEND_BPLA_POINTS = ''rpc_slot_server_send_bpla_point_from_arm_r''"
definition RPC_SLOT_SERVER_SEND_BPLA_POINTS_AUTO :: string where [rpc_names]:
  "RPC_SLOT_SERVER_SEND_BPLA_POINTS_AUTO = ''rpc_slot_server_send_bpla_point_from_arm_r_auto''"
definition RPC_SLOT_SERVER_SEND_BPLA_POINTS_SINGLE :: string where [rpc_names]:
  "RPC_SLOT_SERVER_SEND_BPLA_POINTS_SINGLE = ''rpc_slot_server_send_bpla_point_from_arm_r_single''"
definition RPC_SLOT_SERVER_SEND_HYPERBOLA :: string where [rpc_names]:
  "RPC_SLOT_SERVER_SEND_HYPERBOLA = ''rpc_slot_server_send_hyperbola''"
definition RPC_SLOT_SERVER_SEND_ATLANT_DIRECTION :: string where [rpc_names]:
  "RPC_SLOT_SERVER_SEND_ATLANT_DIRECTION = ''rpc_slot_server_send_atlant_direction''"
definition RPC_SLOT_SERVER_SEND_ATLANT_POSITION :: string where [rpc_names]:
  "RPC_SLOT_SERVER_SEND_ATLANT_POSITION = ''rpc_slot_server_send_atlant_position''"
definition RPC_SLOT_SERVER_SEND_BLA_POINTS :: string where [rpc_names]:
  "RPC_SLOT_SERVER_SEND_BLA_POINTS = ''rpc_slot_server_send_bla_points''"
definition RPC_SLOT_SERVER_SEND_AIS_DATA :: string where [rpc_names]:
  "RPC_SLOT_SERVER_SEND_AIS_DATA = ''rpc_slot_server_send_ais_data''"
definition RPC_SLOT_SERVER_SEND_NIIPP_DATA :: string where [rpc_names]:
  "RPC_SLOT_SERVER_SEND_NIIPP_DATA = ''rpc_slot_server_send_NIIPP_data''"
definition RPC_SLOT_SERVER_SEND_NIIPP_CONNECTION_STATUS :: string where [rpc_names]:
  "RPC_SLOT_SERVER_SEND_NIIPP_CONNECTION_STATUS = ''rpc_slot_server_send_NIIPP_connection_status''"
definition RPC_SLOT_SERVER_SEND_ADSB_DATA :: string where [rpc_names]:
  "RPC_SLOT_SERVER_SEND_ADSB_DATA = ''rpc_slot_server_send_adsb_data''"
definition RPC_SLOT_SET_NIIPP_BPLA :: string where [rpc_names]:
  "RPC_SLOT_SET_NIIPP_BPLA = ''rpc_slot_set_niipp_data''"
definition RPC_SLOT_GET_NIIPP_CONNECTION_STATUS :: string where [rpc_names]:
  "RPC_SLOT_GET_NIIPP_CONNECTION_STATUS = ''rpc_slot_get_niipp_connection_status''"
definition RPC_SLOT_SET_SOLVER_DATA :: string where [rpc_names]:
  "RPC_SLOT_SET_SOLVER_DATA = ''rpc_slot_set_solver_data''"
definition RPC_SLOT_SET_SOLVER_CLEAR :: string where [rpc_names]:
  "RPC_SLOT_SET_SOLVER_CLEAR = ''rpc_slot_set_solver_clear''"
definition RPC_SLOT_SET_ADSB_ENABLE :: string where [rpc_names]:
  "RPC_SLOT_SET_ADSB_ENABLE = ''rpc_slot_set_adsb_enable''"
definition RPC_METHOD_CONFIG_REQUEST_GET_STATION_LIST :: string where [rpc_names]:
  "RPC_METHOD_CONFIG_REQUEST_GET_STATION_LIST = ''rpcMethodConfigRequestGetStationList''"
definition RPC_METHOD_CONFIG_REQUEST_GET_DB_CONFIGURATION :: string where [rpc_names]:
  "RPC_METHOD_CONFIG_REQUEST_GET_DB_CONFIGURATION = ''rpcMethodConfigRequestGetDbConfiguration''"

section \<open>State\<close>

type_synonym bytes = "u8 list"

datatype rpc_argument = ArgBytes bytes | ArgText string

type_synonym server_event = "rpc_argument rpc_event"

record message_old =
  mo_id :: int
  mo_type :: int
  mo_data :: bytes

record rpc_client =
  rc_id :: int
  rc_type :: int

record rpc_server =
  sv_clients :: "(client_id, object) qmap"
  sv_objects :: "(object, rpc_client) qmap"
  sv_subscriber :: subscriptions
  sv_receivers :: "listener subject"

definition sv_init :: "listener subject \<Rightarrow> rpc_server" where
  "sv_init rs = \<lparr>sv_clients = [], sv_objects = [], sv_subscriber = [], sv_receivers = rs\<rparr>"

definition new_client :: rpc_client where
  "new_client = \<lparr>rc_id = 0, rc_type = 0\<rparr>"

section \<open>Client objects\<close>

text \<open>The signals of a client object; the first argument is the id of its connection.\<close>

datatype client_signal =
    SendBLAPoints client_id int bytes
  | SendAISData client_id bytes
  | SendBPLAPoints client_id bytes
  | SendBPLAPointsAuto client_id bytes
  | SendBPLAPointsSingle client_id bytes
  | SendHyperbola client_id bytes
  | SendNIIPPPoints client_id bytes
  | SendAtlantDirection client_id bytes
  | SendAtlantPosition client_id bytes

definition slotGetData :: "client_id \<Rightarrow> message_old \<Rightarrow> client_signal list" where
  "slotGetData cid msg =
     (let t = mo_type msg; dd = mo_data msg
      in if t = KTR_BLA then [SendBLAPoints cid (mo_id msg) dd]
         else if t = ARM_R_SERVER_BPLA_COORDS then [SendBPLAPoints cid dd]
         else if t = ARM_R_SERVER_BPLA_COORDS_AUTO then [SendBPLAPointsAuto cid dd]
         else if t = ARM_R_SERVER_BPLA_COORDS_SINGLE then [SendBPLAPointsSingle cid dd]
         else if t = ARM_R_SERVER_HYPERBOLA then [SendHyperbola cid dd]
         else if t = NIIPP_ANSWER then [SendNIIPPPoints cid dd]
         else if t = ARM_R_SERVER_ATLANT_DIRECTION then [SendAtlantDirection cid dd]
         else if t = ARM_R_SERVER_ATLANT_POSITION then [SendAtlantPosition cid dd]
         else if t = AIS_DATA then [SendAISData cid dd]
         else [])"

text \<open>
  The slots of the server the signals are connected to. The connection of \<open>signalSendToRPCBLAPoints\<close>
  is commented out; three slots call the method without a client, which sends it to all of them.
\<close>

fun server_slot :: "client_signal \<Rightarrow> server_event list" where
  "server_slot (SendBLAPoints c i d) = []"
| "server_slot (SendAISData c d) = [PeerCall c RPC_SLOT_SERVER_SEND_AIS_DATA (ArgBytes d)]"
| "server_slot (SendBPLAPoints c d) = [PeerCall c RPC_SLOT_SERVER_SEND_BPLA_POINTS (ArgBytes d)]"
| "server_slot (SendBPLAPointsAuto c d) = [PeerCallAll RPC_SLOT_SERVER_SEND_BPLA_POINTS_AUTO (ArgBytes d)]"
| "server_slot (SendBPLAPointsSingle c d) = [PeerCallAll RPC_SLOT_SERVER_SEND_BPLA_POINTS_SINGLE (ArgBytes d)]"
| "server_slot (SendHyperbola c d) = [PeerCallAll RPC_SLOT_SERVER_SEND_HYPERBOLA (ArgBytes d)]"
| "server_slot (SendNIIPPPoints c d) = [PeerCall c RPC_SLOT_SERVER_SEND_NIIPP_DATA (ArgBytes d)]"
| "server_slot (SendAtlantDirection c d) = [PeerCall c RPC_SLOT_SERVER_SEND_ATLANT_DIRECTION (ArgBytes d)]"
| "server_slot (SendAtlantPosition c d) = [PeerCall c RPC_SLOT_SERVER_SEND_ATLANT_POSITION (ArgBytes d)]"

definition get_client_id :: "rpc_server \<Rightarrow> object \<Rightarrow> client_id" where
  "get_client_id s cl = qkey (sv_clients s) 0 cl"

section \<open>Connections\<close>

text \<open>\<open>p\<close> is the address the new client object gets.\<close>

definition slotRPCConnetion :: "object \<Rightarrow> client_id \<Rightarrow> rpc_server \<Rightarrow> rpc_server" where
  "slotRPCConnetion p client s =
     (let s = (if qcontains (sv_clients s) client
               then s\<lparr>sv_objects := qremove (qvalue (sv_clients s) 0 client) (sv_objects s)\<rparr> else s)
      in s\<lparr>sv_objects := qinsert p new_client (sv_objects s), sv_clients := qinsert client p (sv_clients s)\<rparr>)"

definition slotRPCDisconnected :: "client_id \<Rightarrow> rpc_server \<Rightarrow> rpc_server" where
  "slotRPCDisconnected client s =
     (let cl = qvalue (sv_clients s) 0 client
      in s\<lparr>sv_subscriber := remove_subscription_client cl (sv_subscriber s),
           sv_objects := qremove cl (sv_objects s),
           sv_clients := qremove client (sv_clients s)\<rparr>)"

definition client_types :: "int list" where
  "client_types = [KTR_BLA, ARM_R_SERVER_BPLA_COORDS, ARM_R_SERVER_BPLA_COORDS_AUTO,
     ARM_R_SERVER_BPLA_COORDS_SINGLE, ARM_R_SERVER_HYPERBOLA, NIIPP_ANSWER,
     ARM_R_SERVER_ATLANT_DIRECTION, ARM_R_SERVER_ATLANT_POSITION, AIS_DATA]"

definition rpc_slot_set_client_id :: "client_id \<Rightarrow> int \<Rightarrow> rpc_server \<Rightarrow> rpc_server" where
  "rpc_slot_set_client_id client i s =
     (if \<not> qcontains (sv_clients s) client then s
      else
        let cl = qvalue (sv_clients s) 0 client
        in s\<lparr>sv_objects := qinsert cl \<lparr>rc_id = i, rc_type = 1\<rparr> (sv_objects s),
             sv_subscriber := fold (\<lambda>t. add_subscription t cl) client_types (sv_subscriber s)\<rparr>)"

section \<open>Messages to the clients\<close>

definition data_ready :: "int \<Rightarrow> message_old \<Rightarrow> rpc_server \<Rightarrow> server_event list option" where
  "data_ready type msg s =
     (case deliver (\<lambda>c. map_option (\<lambda>k. (rc_id k, rc_type k)) (qlookup (sv_objects s) c))
         (get_subscribers (sv_subscriber s) type) of
        None \<Rightarrow> None
      | Some ds \<Rightarrow> Some (concat (map (\<lambda>c. concat (map server_slot (slotGetData (get_client_id s c) msg))) ds)))"

text \<open>
  \<open>sendDataByRpcSlot\<close> emits one signal per name; \<open>start\<close> attaches all of them to the peer but the one
  for the points of the single mode.
\<close>

definition sendDataByRpcSlot :: "string \<Rightarrow> bytes \<Rightarrow> server_event list" where
  "sendDataByRpcSlot signalType d =
     (if signalType = RPC_SLOT_SERVER_SEND_ATLANT_DIRECTION then [PeerCallAll RPC_SLOT_SERVER_SEND_ATLANT_DIRECTION (ArgBytes d)]
      else if signalType = RPC_SLOT_SERVER_SEND_ATLANT_POSITION then [PeerCallAll RPC_SLOT_SERVER_SEND_ATLANT_POSITION (ArgBytes d)]
      else if signalType = RPC_SLOT_SERVER_SEND_BPLA_POINTS then [PeerCallAll RPC_SLOT_SERVER_SEND_BPLA_POINTS (ArgBytes d)]
      else if signalType = RPC_SLOT_SERVER_SEND_BPLA_POINTS_AUTO then [PeerCallAll RPC_SLOT_SERVER_SEND_BPLA_POINTS_AUTO (ArgBytes d)]
      else if signalType = RPC_SLOT_SERVER_SEND_BPLA_POINTS_SINGLE then []
      else if signalType = RPC_SLOT_SERVER_SEND_BLA_POINTS then [PeerCallAll RPC_SLOT_SERVER_SEND_BLA_POINTS (ArgBytes d)]
      else if signalType = RPC_SLOT_SERVER_SEND_HYPERBOLA then [PeerCallAll RPC_SLOT_SERVER_SEND_HYPERBOLA (ArgBytes d)]
      else if signalType = RPC_SLOT_SERVER_SEND_AIS_DATA then [PeerCallAll RPC_SLOT_SERVER_SEND_AIS_DATA (ArgBytes d)]
      else if signalType = RPC_SLOT_SERVER_SEND_NIIPP_DATA then [PeerCallAll RPC_SLOT_SERVER_SEND_NIIPP_DATA (ArgBytes d)]
      else if signalType = RPC_SLOT_SERVER_SEND_NIIPP_CONNECTION_STATUS
        then [PeerCallAll RPC_SLOT_SERVER_SEND_NIIPP_CONNECTION_STATUS (ArgBytes d)]
      else if signalType = RPC_SLOT_SERVER_SEND_ADSB_DATA then [PeerCallAll RPC_SLOT_SERVER_SEND_ADSB_DATA (ArgBytes d)]
      else [])"

definition sv_sendDataByRpc :: "string \<Rightarrow> bytes \<Rightarrow> server_event list" where
  "sv_sendDataByRpc signalType d = sendDataByRpcSlot signalType d"

section \<open>Calls from the clients\<close>

definition call_receivers :: "string \<Rightarrow> rpc_argument \<Rightarrow> rpc_server \<Rightarrow> server_event list" where
  "call_receivers method arg s = notify (\<lambda>r. MethodCalled r method arg) (sv_receivers s)"

definition rpc_slot_set_niipp_data :: "client_id \<Rightarrow> bytes \<Rightarrow> rpc_server \<Rightarrow> server_event list" where
  "rpc_slot_set_niipp_data client d s = call_receivers RPC_SLOT_SET_NIIPP_BPLA (ArgBytes d) s"

definition rpc_slot_get_niipp_connection_status :: "client_id \<Rightarrow> bytes \<Rightarrow> rpc_server \<Rightarrow> server_event list" where
  "rpc_slot_get_niipp_connection_status client d s = call_receivers RPC_SLOT_GET_NIIPP_CONNECTION_STATUS (ArgBytes d) s"

definition rpc_slot_set_solver_data :: "client_id \<Rightarrow> bytes \<Rightarrow> rpc_server \<Rightarrow> server_event list" where
  "rpc_slot_set_solver_data client d s = call_receivers RPC_SLOT_SET_SOLVER_DATA (ArgBytes d) s"

definition rpc_slot_set_solver_clear :: "client_id \<Rightarrow> bytes \<Rightarrow> rpc_server \<Rightarrow> server_event list" where
  "rpc_slot_set_solver_clear client d s = call_receivers RPC_SLOT_SET_SOLVER_CLEAR (ArgBytes d) s"

definition rpc_slot_set_adsb_enable :: "client_id \<Rightarrow> bytes \<Rightarrow> rpc_server \<Rightarrow> server_event list" where
  "rpc_slot_set_adsb_enable client d s = call_receivers RPC_SLOT_SET_ADSB_ENABLE (ArgBytes d) s"

definition requestGetStationListSlot :: "client_id \<Rightarrow> string \<Rightarrow> rpc_server \<Rightarrow> server_event list" where
  "requestGetStationListSlot client f s = call_receivers RPC_METHOD_CONFIG_REQUEST_GET_STATION_LIST (ArgText f) s"

definition requestGetDbConfigurationSlot :: "client_id \<Rightarrow> string \<Rightarrow> rpc_server \<Rightarrow> server_event list" where
  "requestGetDbConfigurationSlot client f s = call_receivers RPC_METHOD_CONFIG_REQUEST_GET_DB_CONFIGURATION (ArgText f) s"

section \<open>The connection to the solver\<close>

text \<open>
  \<open>RPCClient_R\<close>: the messages of the solver are wrapped with the id of the client, 701, and handed to
  the subscriber of the server.
\<close>

datatype solver_call = BplaDef | BplaDefAuto | BplaDefSingle | Hyperbola | AtlantDirection | AtlantPosition

fun solver_message_type :: "solver_call \<Rightarrow> int" where
  "solver_message_type BplaDef = ARM_R_SERVER_BPLA_COORDS"
| "solver_message_type BplaDefAuto = ARM_R_SERVER_BPLA_COORDS_AUTO"
| "solver_message_type BplaDefSingle = ARM_R_SERVER_BPLA_COORDS_SINGLE"
| "solver_message_type Hyperbola = ARM_R_SERVER_HYPERBOLA"
| "solver_message_type AtlantDirection = ARM_R_SERVER_ATLANT_DIRECTION"
| "solver_message_type AtlantPosition = ARM_R_SERVER_ATLANT_POSITION"

definition rpcSlotServer :: "solver_call \<Rightarrow> bytes \<Rightarrow> rpc_server \<Rightarrow> server_event list option" where
  "rpcSlotServer k ba s =
     (let t = solver_message_type k in data_ready t \<lparr>mo_id = 701, mo_type = t, mo_data = ba\<rparr> s)"

end
