(* ===== verification/TcpManager.thy ===== *)
theory TcpManager
  imports KtrManager NiippCoder RpcServer
begin

text \<open>
  \<open>TcpManager\<close> (\<open>server/core/TCP/TcpManager.cpp\<close>): the devices of the station by name, their messages
  on the way to the RPC server, and the calls of the clients on the way to the devices.
\<close>

section \<open>Names\<close>

definition NIIPP_TCP_DEVICE :: u32 where "NIIPP_TCP_DEVICE = 1"
definition KTR_TCP_DEVICE :: u32 where "KTR_TCP_DEVICE = 2"
definition AIS_TCP_DEVICE :: u32 where "AIS_TCP_DEVICE = 3"
definition ARMR_TCP_CLIENT :: u32 where "ARMR_TCP_CLIENT = 4"
definition ADSB_TCP_CLIENT :: u32 where "ADSB_TCP_CLIENT = 5"

lemmas device_types = NIIPP_TCP_DEVICE_def KTR_TCP_DEVICE_def AIS_TCP_DEVICE_def ARMR_TCP_CLIENT_def ADSB_TCP_CLIENT_def

definition TCP_Disconnected :: int where "TCP_Disconnected = 0"
definition TCP_Connected :: int where "TCP_Connected = 1"

definition TCP_AIS_ANSWER_DATA :: string where "TCP_AIS_ANSWER_DATA = ''tcpAisAnswerData''"
definition TCP_ADSB_ANSWER_DATA :: string where "TCP_ADSB_ANSWER_DATA = ''tcpADSBAnswerData''"
definition TCP_ARMR_SEND_SOLVER_DATA :: string where "TCP_ARMR_SEND_SOLVER_DATA = ''tcpArmrSendSolverData''"
definition TCP_ARMR_SEND_SOLVER_CLEAR :: string where "TCP_ARMR_SEND_SOLVER_CLEAR = ''tcpArmrSendSolverClear''"

text \<open>
  The type of a message: a text, or \<open>QString(n)\<close> of a number, which is the text of the one character
  with that code.
\<close>

datatype type_text = Text string | CharCode int

section \<open>State\<close>

record tcp_device =
  td_type :: u32
  td_host :: string
  td_port :: u32

record tcp_manager =
  tm_controllers :: "(string, tcp_device) qmap"
  tm_adsb :: bool
  tm_ktr :: ktr_manager

definition tm_init :: tcp_manager where
  "tm_init = \<lparr>tm_controllers = [], tm_adsb = False, tm_ktr = km_init\<rparr>"

datatype manager_event =
    Rpc string stream
  | Solver string stream
  | Device device_event
  | Adsb bool

definition get_host :: "tcp_device \<Rightarrow> string" where
  "get_host c = address (td_host c) (td_port c)"

section \<open>Devices\<close>

text \<open>\<open>conf\<close> is what a controller finds about its name in the settings of its type.\<close>

definition addTcpDevice :: "(u32 \<Rightarrow> string \<Rightarrow> string \<times> u32) \<Rightarrow> string \<Rightarrow> u32 \<Rightarrow> tcp_manager \<Rightarrow> manager_event list \<times> tcp_manager" where
  "addTcpDevice conf name type s =
     (if name = ''ADSBClient'' then ([], s\<lparr>tm_adsb := True\<rparr>)
      else if type \<in> {NIIPP_TCP_DEVICE, KTR_TCP_DEVICE, AIS_TCP_DEVICE, ARMR_TCP_CLIENT}
        then let (host, port) = conf type name
             in ([Device (ConnectToHost name host port)],
                 s\<lparr>tm_controllers := qinsert name \<lparr>td_type = type, td_host = host, td_port = port\<rparr> (tm_controllers s)\<rparr>)
      else ([], s))"

definition removeTcpDevice :: "string \<Rightarrow> tcp_manager \<Rightarrow> manager_event list \<times> tcp_manager" where
  "removeTcpDevice name s =
     (if \<not> qcontains (tm_controllers s) name then ([], s)
      else ([Device (DisconnectFromHost name)], s\<lparr>tm_controllers := qremove name (tm_controllers s)\<rparr>))"

section \<open>Messages of the devices\<close>

text \<open>\<open>QList\<close> from a stream: reading stops at the end of the data.\<close>

fun read_u16s :: "nat \<Rightarrow> stream \<Rightarrow> u16 list" where
  "read_u16s 0 ts = []"
| "read_u16s (Suc n) ts = (let (x, ts) = get16 ts in x # (if ts = [] then [] else read_u16s n ts))"

definition read_board_list :: "stream \<Rightarrow> u16 list" where
  "read_board_list ts = (let (n, ts) = get32 ts in read_u16s (unat n) ts)"

fun connect_boards :: "string \<Rightarrow> u16 list \<Rightarrow> ktr_manager \<Rightarrow> (device_event list \<times> ktr_manager) option" where
  "connect_boards host [] s = Some ([], s)"
| "connect_boards host (b # bs) s =
     (case connectToBoard host b KTR_DEVICE_AUTOPILOT s of
        None \<Rightarrow> None
      | Some (es1, s) \<Rightarrow>
          (case connectToBoard host b KTR_DEVICE_KTRGA622 s of
             None \<Rightarrow> None
           | Some (es2, s) \<Rightarrow> map_option (\<lambda>(es, s). (es1 @ es2 @ es, s)) (connect_boards host bs s)))"

text \<open>\<open>QString::toUShort\<close>.\<close>

definition toUShort :: "string \<Rightarrow> u16" where
  "toUShort s = (if s = [] then 0
     else case read_digits 0 s of
       None \<Rightarrow> 0
     | Some n \<Rightarrow> if n < 2 ^ 16 then word_of_nat n else 0)"

text \<open>
  One turn of the loop that labels the positions: the position is copied out of the vector, labelled
  with the parts of the device name and copied back.
\<close>

definition label_position :: "(nat \<Rightarrow> memory) \<Rightarrow> string \<Rightarrow> nat \<Rightarrow> Position \<Rightarrow> Position option" where
  "label_position j name i p =
     (let q = copy_position (j (2 * i)) p; info = text_split '':'' name
      in case element_at info 2 of
           None \<Rightarrow> None
         | Some b \<Rightarrow>
             (case element_at info 3 of
                None \<Rightarrow> None
              | Some d \<Rightarrow>
                  Some (copy_position (j (2 * i + 1)) (q\<lparr>pd_boardID := toUShort b, pd_device := toUInt d\<rparr>))))"

fun label_positions :: "(nat \<Rightarrow> memory) \<Rightarrow> string \<Rightarrow> nat \<Rightarrow> Position list \<Rightarrow> Position list option" where
  "label_positions j name i [] = Some []"
| "label_positions j name i (p # ps) =
     (case label_position j name i p of
        None \<Rightarrow> None
      | Some q \<Rightarrow> map_option (\<lambda>qs. q # qs) (label_positions j name (i + 1) ps))"

definition ktr_status :: "string \<Rightarrow> stream \<Rightarrow> tcp_manager \<Rightarrow> manager_event list \<times> tcp_manager" where
  "ktr_status name d s =
     (case qlookup (tm_controllers s) name of
        None \<Rightarrow> ([], s)
      | Some c \<Rightarrow>
          let connectionState = fst (getInt d)
          in if connectionState = TCP_Disconnected then ([], s)
             else if connectionState = TCP_Connected
               then ([Device (SendData name \<lparr>msg_type = TCP_KTR_REQUEST_GET_BOARD_LIST, msg_data = []\<rparr>)],
                     s\<lparr>tm_ktr := needToUpdateAfterDisconnect True (get_host c) (tm_ktr s)\<rparr>)
             else ([], s))"

definition ktr_boards :: "string \<Rightarrow> stream \<Rightarrow> tcp_manager \<Rightarrow> (manager_event list \<times> tcp_manager) option" where
  "ktr_boards name d s =
     (case qlookup (tm_controllers s) name of
        None \<Rightarrow> Some ([], s)
      | Some c \<Rightarrow>
          (case connect_boards (get_host c) (read_board_list d) (tm_ktr s) of
             None \<Rightarrow> None
           | Some (es, k) \<Rightarrow>
               Some (map Device es, s\<lparr>tm_ktr := needToUpdateAfterDisconnect False (get_host c) k\<rparr>)))"

definition ktr_positions :: "(nat \<Rightarrow> memory) \<Rightarrow> string \<Rightarrow> stream \<Rightarrow> stream option" where
  "ktr_positions j name d =
     map_option (write_vector write_position)
       (label_positions (\<lambda>i. j (i + 1)) name 0 (fst (read_vector read_position (new_position (j 0)) d)))"

definition armr_method :: "type_text \<Rightarrow> string option" where
  "armr_method t =
     (if t = CharCode ARM_R_SERVER_ATLANT_DIRECTION then Some RPC_SLOT_SERVER_SEND_ATLANT_DIRECTION
      else if t = CharCode ARM_R_SERVER_ATLANT_POSITION then Some RPC_SLOT_SERVER_SEND_ATLANT_POSITION
      else if t = CharCode ARM_R_SERVER_BPLA_COORDS then Some RPC_SLOT_SERVER_SEND_BPLA_POINTS
      else if t = CharCode ARM_R_SERVER_BPLA_COORDS_AUTO then Some RPC_SLOT_SERVER_SEND_BPLA_POINTS_AUTO
      else if t = CharCode ARM_R_SERVER_HYPERBOLA then Some RPC_SLOT_SERVER_SEND_HYPERBOLA
      else None)"

definition onMessageReceived ::
  "(nat \<Rightarrow> memory) \<Rightarrow> u32 \<Rightarrow> string \<Rightarrow> type_text \<Rightarrow> stream \<Rightarrow> tcp_manager \<Rightarrow> (manager_event list \<times> tcp_manager) option" where
  "onMessageReceived j deviceType deviceName t d s =
     (if deviceType = NIIPP_TCP_DEVICE then
        (if t = Text TCP_NIIPP_ANSWER then Some ([Rpc RPC_SLOT_SERVER_SEND_NIIPP_DATA d], s)
         else if t = Text TCP_NIIPP_ANSWER_CONNECTION_STATUS
           then Some ([Rpc RPC_SLOT_SERVER_SEND_NIIPP_CONNECTION_STATUS d], s)
         else Some ([], s))
      else if deviceType = KTR_TCP_DEVICE then
        (if t = Text TCP_KTR_ANSWER_CONNECTION_STATUS then Some (ktr_status deviceName d s)
         else if t = Text TCP_KTR_ANSWER_BOARD_LIST then ktr_boards deviceName d s
         else if t = Text TCP_KTR_ANSWER_BPLA
           then map_option (\<lambda>d. ([Rpc RPC_SLOT_SERVER_SEND_BLA_POINTS d], s)) (ktr_positions j deviceName d)
         else Some ([], s))
      else if deviceType = AIS_TCP_DEVICE then
        Some (if t = Text TCP_AIS_ANSWER_DATA then [Rpc RPC_SLOT_SERVER_SEND_AIS_DATA d] else [], s)
      else if deviceType = ARMR_TCP_CLIENT then
        Some (case armr_method t of None \<Rightarrow> [] | Some m \<Rightarrow> [Rpc m d], s)
      else if deviceType = ADSB_TCP_CLIENT then
        Some (if t = Text TCP_ADSB_ANSWER_DATA then [Rpc RPC_SLOT_SERVER_SEND_ADSB_DATA d] else [], s)
      else Some ([], s))"

section \<open>Calls of the clients\<close>

definition niipp_name :: "int \<Rightarrow> string option" where
  "niipp_name i = (if i = 100 then Some ''NIIPP_1'' else if i = 101 then Some ''NIIPP_2'' else None)"

text \<open>An id that is not in the data is read as 0; \<open>enable\<close> without data is off.\<close>

definition onMethodCalledInternalSlot :: "string \<Rightarrow> stream \<Rightarrow> tcp_manager \<Rightarrow> manager_event list option" where
  "onMethodCalledInternalSlot method arg s =
     (if method = RPC_SLOT_SET_SOLVER_CLEAR then Some [Solver TCP_ARMR_SEND_SOLVER_CLEAR arg]
      else if method = RPC_SLOT_SET_SOLVER_DATA then Some [Solver TCP_ARMR_SEND_SOLVER_DATA arg]
      else if method = RPC_SLOT_SET_NIIPP_BPLA then
        (case niipp_name (fst (getInt arg)) of
           None \<Rightarrow> Some []
         | Some name \<Rightarrow>
             Some (if qcontains (tm_controllers s) name
                   then [Device (SendData name \<lparr>msg_type = TCP_NIIPP_REQUEST_PBLA, msg_data = arg\<rparr>)] else []))
      else if method = RPC_SLOT_GET_NIIPP_CONNECTION_STATUS then Some []
      else if method = RPC_SLOT_SET_ADSB_ENABLE then
        (if tm_adsb s then Some [Adsb (fst (getBool arg))] else None)
      else Some [])"

end
