(* ===== verification/KtrManagerProps.thy ===== *)
theory KtrManagerProps
  imports KtrManager
begin

text \<open>
  What the tables of \<open>TcpKTRManager\<close> hold after any sequence of its operations, and what
  \<open>connectToBoard\<close> asks of the controllers.
\<close>

section \<open>Reachable tables\<close>

text \<open>The addresses are those of the KTR devices, whose hosts have no colon.\<close>

inductive ktr_reachable :: "ktr_manager \<Rightarrow> bool" where
  start: "ktr_reachable km_init"
| board: "ktr_reachable s \<Longrightarrow> CHR '':'' \<notin> set host \<Longrightarrow> connectToBoard (address host port) b d s = Some (es, s')
    \<Longrightarrow> ktr_reachable s'"
| update: "ktr_reachable s \<Longrightarrow> ktr_reachable (needToUpdateAfterDisconnect v hostPort s)"
| timeout: "ktr_reachable s \<Longrightarrow> ktr_reachable (snd (timeoutSlot key s))"

text \<open>Typing of an entry: the key names the host, port, board and device of its controller.\<close>

definition board_entry :: "string \<Rightarrow> board_controller \<Rightarrow> bool" where
  "board_entry key c \<longleftrightarrow> (\<exists>host port b d. CHR '':'' \<notin> set host \<and> key = board_key (address host port) b d
     \<and> c = \<lparr>bc_name = key, bc_host = host, bc_port = port\<rparr>)"

definition ktr_typed :: "ktr_manager \<Rightarrow> bool" where
  "ktr_typed s \<longleftrightarrow> qsorted (km_connections s) \<and> qsorted (km_timers s)
     \<and> (\<forall>k c. qlookup (km_connections s) k = Some c \<longrightarrow> board_entry k c)
     \<and> (\<forall>k. qlookup (km_timers s) k = map_option bc_name (qlookup (km_connections s) k))"

lemma board_entry_name: "board_entry k c \<Longrightarrow> bc_name c = k"
  by (auto simp: board_entry_def)

lemma typed_lookup:
  assumes "ktr_typed s"
  shows "qlookup (km_connections s) k = Some c \<Longrightarrow> bc_name c = k"
    and "qlookup (km_timers s) k = None \<longleftrightarrow> qlookup (km_connections s) k = None"
  using assms by (auto simp: ktr_typed_def dest: board_entry_name)

section \<open>One operation\<close>

definition board_after :: "string \<Rightarrow> u32 \<Rightarrow> u16 \<Rightarrow> u32 \<Rightarrow> ktr_manager \<Rightarrow> ktr_manager" where
  "board_after host port b d s =
     (let key = board_key (address host port) b d
      in if qcontains (km_connections s) key then s
         else s\<lparr>km_connections := qinsert key \<lparr>bc_name = key, bc_host = host, bc_port = port\<rparr> (km_connections s),
                km_timers := qinsert key key (km_timers s)\<rparr>)"

definition board_events :: "string \<Rightarrow> u32 \<Rightarrow> u16 \<Rightarrow> u32 \<Rightarrow> ktr_manager \<Rightarrow> device_event list" where
  "board_events host port b d s =
     (let key = board_key (address host port) b d
      in (if qcontains (km_connections s) key then [] else [ConnectToHost key host port])
         @ [StartTimer key MAX_LIFE_TIME]
         @ (if km_update s \<and> address host port \<in> km_hosts s then [SendData key (register_message b d)] else []))"

text \<open>On well-typed tables the operation succeeds, and this is its result.\<close>

lemma connectToBoard_typed:
  assumes "ktr_typed s" and "CHR '':'' \<notin> set host"
  shows "connectToBoard (address host port) b d s = Some (board_events host port b d s, board_after host port b d s)"
proof -
  let ?key = "board_key (address host port) b d"
  show ?thesis
  proof (cases "qlookup (km_connections s) ?key")
    case None
    then have "qlookup (km_timers s) ?key = None" using typed_lookup(2) [OF assms(1)] by simp
    with None show ?thesis
      using split_address [OF assms(2), of port]
      by (simp add: connectToBoard_def create_board_def element_at_def board_events_def board_after_def
          qcontains_def Let_def)
  next
    case (Some c)
    then have "bc_name c = ?key" and "qlookup (km_timers s) ?key = Some ?key"
      using typed_lookup(1) [OF assms(1) Some] assms(1) by (simp_all add: ktr_typed_def)
    with Some show ?thesis
      by (simp add: connectToBoard_def create_board_def board_events_def board_after_def qcontains_def Let_def)
  qed
qed

lemma board_after_typed: "ktr_typed s \<Longrightarrow> CHR '':'' \<notin> set host \<Longrightarrow> ktr_typed (board_after host port b d s)"
  by (auto simp: ktr_typed_def board_after_def board_entry_def Let_def)

lemma update_typed: "ktr_typed s \<Longrightarrow> ktr_typed (needToUpdateAfterDisconnect v hostPort s)"
  by (simp add: ktr_typed_def needToUpdateAfterDisconnect_def)

lemma timeout_typed: "ktr_typed s \<Longrightarrow> ktr_typed (snd (timeoutSlot key s))"
  by (simp add: ktr_typed_def timeoutSlot_def)

lemma init_typed: "ktr_typed km_init"
  by (simp add: ktr_typed_def km_init_def)

lemma reachable_typed: "ktr_reachable s \<Longrightarrow> ktr_typed s"
proof (induction rule: ktr_reachable.induct)
  case (board s host port b d es s')
  then show ?case using connectToBoard_typed [of s host port b d] board_after_typed [of s host port b d] by simp
qed (rule init_typed update_typed timeout_typed; assumption?)+

text \<open>
  C19: The tables of the KTR manager are well typed at any time: every controller is stored under the key
  made of its own host and port and of a board and a device, and has exactly one life timer, which is
  mapped to that key. On such tables \<open>connectToBoard\<close> never fails: no null pointer is used and no list
  is read out of range.
\<close>
theorem ktr_tables_well_typed:
  assumes "ktr_reachable s"
  shows "ktr_typed s \<and> (\<forall>host port b d. CHR '':'' \<notin> set host \<longrightarrow> connectToBoard (address host port) b d s \<noteq> None)"
  using connectToBoard_typed [OF reachable_typed [OF assms]] reachable_typed [OF assms] by simp_all

definition one_board :: ktr_manager where
  "one_board = board_after ''10.0.0.1'' 2323 101 1 km_init"

lemma one_board_reachable: "ktr_reachable one_board"
  unfolding one_board_def
  by (rule ktr_reachable.board [OF ktr_reachable.start _ connectToBoard_typed [OF init_typed]]) simp_all

theorem ktr_tables_well_typed_witness:
  "ktr_typed one_board \<and> connectToBoard (address ''10.0.0.2'' 2324) 7 622 one_board \<noteq> None"
  using ktr_tables_well_typed [OF one_board_reachable] by simp

end
