(* ===== verification/DeviceController.thy ===== *)
theory DeviceController
  imports KtrCoder
begin

text \<open>
  \<open>BaseTcpDeviceController\<close> (\<open>CISCommonLib/src/Tcp/BaseTcpDeviceController.cpp\<close>): data of a device go
  through its coder to the listeners. A coder has a state of its own; its \<open>None\<close> is an access out of
  range. No message and a message without data are treated alike, both are a message without data here.
  After each message the coder is asked again, with no new data, until nothing is left: that loop may
  not end, so it is a partial function, whose \<open>None\<close> also is a loop that never returns.
\<close>

type_synonym 'k coder = "u8 list \<Rightarrow> 'k \<Rightarrow> message option \<times> 'k"

partial_function (option) drain :: "'k coder \<Rightarrow> 'k \<Rightarrow> message list \<Rightarrow> (message list \<times> 'k) option" where
  "drain enc k ms =
     (case enc [] k of
        (None, k) \<Rightarrow> None
      | (Some m, k) \<Rightarrow> if msg_data m = [] then Some (ms, k) else drain enc k (ms @ [m]))"

text \<open>The messages the listeners get.\<close>

definition onDataReceived :: "'k coder \<Rightarrow> u8 list \<Rightarrow> 'k \<Rightarrow> (message list \<times> 'k) option" where
  "onDataReceived enc d k =
     (case enc d k of
        (None, k) \<Rightarrow> None
      | (Some m, k) \<Rightarrow> if msg_data m = [] then Some ([], k) else drain enc k [m])"

text \<open>What is written to the client for a message: nothing when its connection is not open.\<close>

definition written :: "(message \<Rightarrow> u8 list) \<Rightarrow> bool \<Rightarrow> message \<Rightarrow> u8 list" where
  "written dec is_open m = (if is_open then dec m else [])"

text \<open>What the controller relies on: a coder that is given no data has no message.\<close>

locale quiet_coder =
  fixes enc :: "'k coder"
  assumes quiet: "\<exists>m. enc [] k = (Some m, k) \<and> msg_data m = []"
begin

lemma drain_quiet: "drain enc k ms = Some (ms, k)"
  using quiet [of k] by (auto simp: drain.simps)

lemma onDataReceived_quiet:
  "onDataReceived enc d k = (case enc d k of (None, k) \<Rightarrow> None
     | (Some m, k) \<Rightarrow> Some (if msg_data m = [] then [] else [m], k))"
  by (simp add: onDataReceived_def drain_quiet split: option.split prod.split)

lemma never_hangs: "onDataReceived enc d k = None \<longleftrightarrow> fst (enc d k) = None"
  by (auto simp: onDataReceived_quiet split: option.split prod.split)

end

lemma is_ktr_text_Nil [simp]: "\<not> is_ktr_text []"
  by (simp add: is_ktr_text_def text_of_def text_split_def)

lemma encode_Nil: "encode j [] k = (Some empty_message, k)"
  by (simp add: encode_def ascii_def)

interpretation ktr: quiet_coder "encode j" for j
  by unfold_locales (simp add: encode_Nil empty_message_def)

end
