(* ===== verification/KtrSim.thy ===== *)
theory KtrSim
  imports KtrCoder
begin

text \<open>
  \<open>KtrSimulator\<close>: the simulated KTR device. It reads commands from each connection and writes lists of
  boards and positions. Random numbers and the simulated track are parameters; a connection is the
  buffer of its socket, its place in the two sets of listeners and its properties. The loop over the
  buffer may not end, so it is a partial function: \<open>None\<close> is a loop that never returns.
\<close>

section \<open>Commands\<close>

record connection =
  cn_buffer :: "u8 list"
  cn_ktr :: bool
  cn_board :: "(int \<times> int) option"

definition new_connection :: connection where
  "new_connection = \<lparr>cn_buffer = [], cn_ktr = False, cn_board = None\<rparr>"

definition CMD_MIN_LENGTH :: nat where
  "CMD_MIN_LENGTH = 22"

definition strip_prefix :: "string \<Rightarrow> string \<Rightarrow> string option" where
  "strip_prefix p s = (if take (length p) s = p then Some (drop (length p) s) else None)"

text \<open>A match of \<open>user link command ctrl\<close> at the start of the buffer: its length.\<close>

definition match_list :: "u8 list \<Rightarrow> nat option" where
  "match_list b = map_option (\<lambda>_. 22) (strip_prefix ''user link command ctrl'' (text_of b))"

text \<open>A match of \<open>user link command b(\d+)d(\d+)\<close> at the start: its length and the two captures.\<close>

definition match_register :: "u8 list \<Rightarrow> (nat \<times> string \<times> string) option" where
  "match_register b =
     (case strip_prefix ''user link command b'' (text_of b) of
        None \<Rightarrow> None
      | Some s \<Rightarrow>
          let id = takeWhile is_digit s
          in (case strip_prefix ''d'' (dropWhile is_digit s) of
                None \<Rightarrow> None
              | Some t \<Rightarrow>
                  let device = takeWhile is_digit t
                  in if id = [] \<or> device = [] then None
                     else Some (20 + length id + length device, id, device)))"

definition read_list_command :: "connection \<Rightarrow> connection" where
  "read_list_command c =
     (case match_list (cn_buffer c) of
        None \<Rightarrow> c
      | Some n \<Rightarrow> c\<lparr>cn_buffer := drop n (cn_buffer c), cn_ktr := True\<rparr>)"

definition read_register_command :: "connection \<Rightarrow> connection" where
  "read_register_command c =
     (case match_register (cn_buffer c) of
        None \<Rightarrow> c
      | Some (n, ident, device) \<Rightarrow>
          c\<lparr>cn_buffer := drop n (cn_buffer c), cn_board := Some (text_toInt ident, text_toInt device)\<rparr>)"

partial_function (option) read_loop :: "connection \<Rightarrow> connection option" where
  "read_loop c =
     (if length (cn_buffer c) < CMD_MIN_LENGTH then Some c
      else read_loop (read_register_command (read_list_command c)))"

text \<open>Data that arrive in one piece.\<close>

definition readyRead :: "u8 list \<Rightarrow> connection \<Rightarrow> connection option" where
  "readyRead input c = read_loop (c\<lparr>cn_buffer := cn_buffer c @ input\<rparr>)"

section \<open>Messages of the simulator\<close>

definition low_byte :: "nat \<Rightarrow> int \<Rightarrow> u8" where
  "low_byte i v = word_of_int (v div 256 ^ i)"

definition encodeBplaList :: "u32 list \<Rightarrow> u8 list" where
  "encodeBplaList ids =
     ascii ''control link'' @ [word_of_nat (length ids)] @ [32]
     @ concat (map (\<lambda>i. [low_byte 0 (uint i), low_byte 1 (uint i)] @ replicate 22 32) ids)"

definition d_trunc :: "double \<Rightarrow> int" where
  "d_trunc d = (case d of Fin q \<Rightarrow> rat_trunc q | _ \<Rightarrow> 0)"

definition encodeAngle :: "double \<Rightarrow> int" where
  "encodeAngle angle =
     (let deg = d_trunc angle;
          frac = d_mul (d_add angle (d_neg (d_of_int deg))) (d_of_int 60);
          min = d_trunc frac;
          sec = d_trunc (d_mul (d_add frac (d_neg (d_of_int min))) (d_of_int 1000))
      in deg * 100000 + min * 1000 + sec)"

text \<open>The position of a board as the track gives it, and its altitude with the random deviation.\<close>

definition encodeAutopilotPosition :: "(u32 \<Rightarrow> (double \<times> double) option) \<Rightarrow> u32 \<Rightarrow> u8 list" where
  "encodeAutopilotPosition track board =
     (case track board of
        None \<Rightarrow> []
      | Some (lat, lon) \<Rightarrow>
          let lon = encodeAngle lon; lat = encodeAngle lat
          in ascii ''AG'' @ [low_byte 2 lat, low_byte 1 lat, low_byte 0 lat,
             low_byte 2 lon, low_byte 1 lon, low_byte 0 lon])"

definition encodeAtitude :: "(u32 \<Rightarrow> u16 option) \<Rightarrow> u32 \<Rightarrow> u8 list" where
  "encodeAtitude height board =
     (case height board of
        None \<Rightarrow> []
      | Some altitude \<Rightarrow> ascii ''AN000000'' @ [low_byte 1 (uint altitude), low_byte 0 (uint altitude)])"

end
