(* ===== verification/KtrProps.thy ===== *)
theory KtrProps
  imports KtrSim
begin

text \<open>
  The protocol of the KTR device. What the simulated device writes the coder reads back, and the other
  way round; the loop of the simulator ends on commands and never on anything else; a coded angle is
  decoded with an error below \<open>2 ^ (- 44)\<close> degrees.
\<close>

section \<open>Texts as bytes\<close>

lemma unat_of_char [simp]: "unat (word_of_nat (of_char c) :: u8) = of_char c"
  by (simp add: unat_of_nat)

definition no_nul :: "string \<Rightarrow> bool" where
  "no_nul s \<longleftrightarrow> (\<forall>c \<in> set s. of_char c \<noteq> (0 :: nat))"

lemma text_of_ascii [simp]: "no_nul s \<Longrightarrow> text_of (ascii s @ d) = s @ text_of d"
proof (induction s)
  case (Cons c s)
  then have "(word_of_nat (of_char c) :: u8) \<noteq> 0" by (metis list.set_intros(1) no_nul_def unat_0 unat_of_char)
  with Cons show ?case by (simp add: text_of_def ascii_def no_nul_def)
qed (simp add: ascii_def)

lemma text_of_Nil [simp]: "text_of [] = []"
  by (simp add: text_of_def)

lemma length_ascii [simp]: "length (ascii s) = length s"
  by (simp add: ascii_def)

lemma ascii_append: "ascii (s @ t) = ascii s @ ascii t"
  by (simp add: ascii_def)

lemma decimal_digits: "\<forall>c \<in> set (decimal n). is_digit c"
proof (induction n rule: decimal.induct)
  case (1 n)
  have "is_digit (digit_char d)" if "d < 10" for d
    using char_digit_digit_char [OF that] by (simp add: is_digit_def)
  then have "is_digit (digit_char (n mod 10))" "n < 10 \<Longrightarrow> is_digit (digit_char n)" by simp_all
  with 1 show ?case by (subst decimal.simps) auto
qed

lemma is_digit_range: "is_digit c \<Longrightarrow> 48 \<le> (of_char c :: nat) \<and> of_char c \<le> (57 :: nat)"
  by (auto simp: is_digit_def char_digit_def Let_def split: if_splits)

lemma no_nul_decimal [simp]: "no_nul (decimal n)"
  using decimal_digits [of n] is_digit_range by (fastforce simp: no_nul_def)

lemma no_nul_append [simp]: "no_nul (s @ t) \<longleftrightarrow> no_nul s \<and> no_nul t"
  by (auto simp: no_nul_def)

lemma no_nul_Cons [simp]: "no_nul [] " "no_nul (c # s) \<longleftrightarrow> of_char c \<noteq> (0 :: nat) \<and> no_nul s"
  by (auto simp: no_nul_def)

section \<open>Commands\<close>

datatype command = GetBoards | Register u16 u32

definition message_of :: "command \<Rightarrow> message" where
  "message_of c = (case c of
     GetBoards \<Rightarrow> \<lparr>msg_type = TCP_KTR_REQUEST_GET_BOARD_LIST, msg_data = []\<rparr>
   | Register b d \<Rightarrow> \<lparr>msg_type = TCP_KTR_REQUEST_COMMAND_TO_BPLA, msg_data = [Tok16 b, Tok32 d]\<rparr>)"

text \<open>The effect of a command on the simulator; a device number above \<open>2 ^ 31\<close> is read as 0.\<close>

definition as_int :: "nat \<Rightarrow> int" where
  "as_int n = (if n < 2 ^ 31 then int n else 0)"

fun obeyed :: "command \<Rightarrow> connection \<Rightarrow> connection" where
  "obeyed GetBoards c = c\<lparr>cn_ktr := True\<rparr>"
| "obeyed (Register b d) c = c\<lparr>cn_board := Some (as_int (unat b), as_int (unat d))\<rparr>"

lemma decode_list: "decode (message_of GetBoards) = ascii ''user link command ctrl''"
  by (simp add: decode_def message_of_def)

lemma decode_register:
  "decode (message_of (Register b d)) = ascii (''user link command b'' @ decimal (unat b) @ ''d'' @ decimal (unat d))"
  by (simp add: decode_def message_of_def ktr_names)

lemma text_decode:
  "text_of (decode (message_of GetBoards) @ rest) = ''user link command ctrl'' @ text_of rest"
  "text_of (decode (message_of (Register b d)) @ rest)
    = ''user link command b'' @ decimal (unat b) @ ''d'' @ decimal (unat d) @ text_of rest"
  unfolding decode_list decode_register by (subst text_of_ascii; simp)+

definition starts :: "string \<Rightarrow> bool" where
  "starts s \<longleftrightarrow> s = [] \<or> hd s = CHR ''u''"

lemma starts_text: "starts (text_of (concat (map (\<lambda>c. decode (message_of c)) cs)))"
proof (cases cs)
  case (Cons c cs')
  then show ?thesis by (cases c) (simp_all add: text_decode starts_def)
qed (simp add: starts_def)

lemma takeWhile_number:
  assumes "starts t \<or> (\<exists>s. t = CHR ''d'' # s)"
  shows "takeWhile is_digit (decimal n @ t) = decimal n" and "dropWhile is_digit (decimal n @ t) = t"
proof -
  have "\<not> is_digit (CHR ''u'')" "\<not> is_digit (CHR ''d'')" by (simp_all add: is_digit_def char_digit_def)
  then have "takeWhile is_digit t = [] \<and> dropWhile is_digit t = t"
    using assms by (cases t) (auto simp: starts_def)
  then show "takeWhile is_digit (decimal n @ t) = decimal n" "dropWhile is_digit (decimal n @ t) = t"
    using decimal_digits [of n] by (simp_all add: takeWhile_append dropWhile_append)
qed

lemma trimmed_plain: "\<forall>c \<in> set s. \<not> is_space c \<Longrightarrow> trimmed s = s"
proof -
  assume plain: "\<forall>c \<in> set s. \<not> is_space c"
  then have "dropWhile is_space xs = xs" if "set xs = set s" for xs
    using that by (cases xs) auto
  then show ?thesis by (simp add: trimmed_def)
qed

lemma is_digit_plain: "is_digit c \<Longrightarrow> \<not> is_space c \<and> c \<noteq> CHR ''-'' \<and> c \<noteq> CHR ''+'' \<and> \<not> is_exponent_mark c"
  using is_digit_range [of c] by (auto simp: is_space_def is_exponent_mark_def)

text \<open>Digits, perhaps with zeros in front, read as a number.\<close>

lemma text_toInt_digits:
  assumes "s \<noteq> []" and "\<forall>c \<in> set s. is_digit c" and "read_digits 0 s = Some n"
  shows "text_toInt s = as_int n"
proof -
  obtain c cs where s: "s = c # cs" using assms(1) by (cases s) simp_all
  have "trimmed s = s" using assms(2) is_digit_plain by (intro trimmed_plain) blast
  moreover have "sign_of s = (False, s)" using assms(2) is_digit_plain [of c] by (simp add: sign_of_def s)
  ultimately show ?thesis
    using assms(1,3) by (simp add: text_toInt_def integer_def natural_def as_int_def)
qed

lemma integer_decimal: "text_toInt (decimal n) = as_int n"
  using decimal_digits by (intro text_toInt_digits) (simp_all add: read_digits_decimal)

abbreviation sent :: "command list \<Rightarrow> u8 list" where
  "sent cs \<equiv> concat (map (\<lambda>c. decode (message_of c)) cs)"

lemma match_list_sent:
  "match_list (sent (GetBoards # cs)) = Some 22"
  "match_list (sent (Register b d # cs)) = None"
  "match_list (sent []) = None"
  by (simp_all add: match_list_def text_decode strip_prefix_def)

lemma match_register_sent:
  "match_register (sent (Register b d # cs)) =
    Some (length (decode (message_of (Register b d))), decimal (unat b), decimal (unat d))"
  "match_register (sent (GetBoards # cs)) = None"
  "match_register (sent []) = None"
proof -
  have t: "text_of (sent (Register b d # cs)) =
      ''user link command b'' @ decimal (unat b) @ ''d'' @ decimal (unat d) @ text_of (sent cs)"
    by (simp add: text_decode)
  have p: "strip_prefix ''user link command b'' (''user link command b'' @ u) = Some u" for u
    by (simp add: strip_prefix_def)
  have q: "strip_prefix ''d'' (''d'' @ u) = Some u" for u by (simp add: strip_prefix_def)
  have a: "takeWhile is_digit (decimal m @ ''d'' @ u) = decimal m" "dropWhile is_digit (decimal m @ ''d'' @ u) = ''d'' @ u" for m u
    using takeWhile_number [of "''d'' @ u" m] by simp_all
  have b: "takeWhile is_digit (decimal m @ text_of (sent cs)) = decimal m" for m
    using takeWhile_number(1) starts_text by blast
  show "match_register (sent (Register b d # cs)) =
      Some (length (decode (message_of (Register b d))), decimal (unat b), decimal (unat d))"
    unfolding match_register_def t p option.case Let_def a q b
    by (simp add: decode_register)
  show "match_register (sent (GetBoards # cs)) = None" "match_register (sent []) = None"
    by (simp_all add: match_register_def text_decode strip_prefix_def)
qed

lemma read_list_sent:
  "read_list_command (c\<lparr>cn_buffer := sent (GetBoards # cs)\<rparr>) = (obeyed GetBoards c)\<lparr>cn_buffer := sent cs\<rparr>"
  "read_list_command (c\<lparr>cn_buffer := sent (Register b d # cs)\<rparr>) = c\<lparr>cn_buffer := sent (Register b d # cs)\<rparr>"
  "read_list_command (c\<lparr>cn_buffer := sent []\<rparr>) = c\<lparr>cn_buffer := sent []\<rparr>"
proof -
  have "drop 22 (sent (GetBoards # cs)) = sent cs" by (simp add: decode_list)
  then show "read_list_command (c\<lparr>cn_buffer := sent (GetBoards # cs)\<rparr>) = (obeyed GetBoards c)\<lparr>cn_buffer := sent cs\<rparr>"
    by (simp add: read_list_command_def match_list_sent(1) del: list.map concat.simps)
  show "read_list_command (c\<lparr>cn_buffer := sent (Register b d # cs)\<rparr>) = c\<lparr>cn_buffer := sent (Register b d # cs)\<rparr>"
    "read_list_command (c\<lparr>cn_buffer := sent []\<rparr>) = c\<lparr>cn_buffer := sent []\<rparr>"
    by (simp_all add: read_list_command_def match_list_sent(2,3) del: list.map concat.simps)
qed

lemma read_register_sent:
  "read_register_command (c\<lparr>cn_buffer := sent (Register b d # cs)\<rparr>) = (obeyed (Register b d) c)\<lparr>cn_buffer := sent cs\<rparr>"
  "read_register_command (c\<lparr>cn_buffer := sent (GetBoards # cs)\<rparr>) = c\<lparr>cn_buffer := sent (GetBoards # cs)\<rparr>"
  "read_register_command (c\<lparr>cn_buffer := sent []\<rparr>) = c\<lparr>cn_buffer := sent []\<rparr>"
proof -
  have "drop (length (decode (message_of (Register b d)))) (sent (Register b d # cs)) = sent cs" by simp
  then show "read_register_command (c\<lparr>cn_buffer := sent (Register b d # cs)\<rparr>) = (obeyed (Register b d) c)\<lparr>cn_buffer := sent cs\<rparr>"
    by (simp add: read_register_command_def match_register_sent(1) integer_decimal del: list.map concat.simps)
  show "read_register_command (c\<lparr>cn_buffer := sent (GetBoards # cs)\<rparr>) = c\<lparr>cn_buffer := sent (GetBoards # cs)\<rparr>"
    "read_register_command (c\<lparr>cn_buffer := sent []\<rparr>) = c\<lparr>cn_buffer := sent []\<rparr>"
    by (simp_all add: read_register_command_def match_register_sent(2,3) del: list.map concat.simps)
qed

lemma sent_long: "cs \<noteq> [] \<Longrightarrow> 22 \<le> length (sent cs)"
proof (cases cs)
  case (Cons c cs')
  have "1 \<le> length (decimal n)" for n by (cases "decimal n") simp_all
  then have "2 \<le> length (decimal m) + length (decimal n)" for m n by (metis add_mono one_add_one)
  then have "22 \<le> length (decode (message_of c))"
    by (cases c) (simp_all add: decode_list decode_register)
  then show ?thesis using Cons by (simp add: trans_le_add1)
qed simp

lemma read_loop_sent: "read_loop (c\<lparr>cn_buffer := sent cs\<rparr>) = Some ((fold obeyed cs c)\<lparr>cn_buffer := []\<rparr>)"
proof (induction "length cs" arbitrary: cs c rule: less_induct)
  case less
  show ?case
  proof (cases cs)
    case Nil
    then show ?thesis by (subst read_loop.simps) (simp add: CMD_MIN_LENGTH_def)
  next
    case (Cons x ys)
    let ?c = "c\<lparr>cn_buffer := sent cs\<rparr>"
    have "22 \<le> length (sent cs)" using Cons by (intro sent_long) simp
    then have step: "read_loop ?c = read_loop (read_register_command (read_list_command ?c))"
      by (subst read_loop.simps) (simp add: CMD_MIN_LENGTH_def)
    show ?thesis
    proof (cases x)
      case (Register b d)
      have "read_register_command (read_list_command ?c) = (obeyed x c)\<lparr>cn_buffer := sent ys\<rparr>"
        unfolding Cons Register read_list_sent read_register_sent ..
      with step less [of ys "obeyed x c"] Cons show ?thesis by simp
    next
      case GetBoards
      have l: "read_list_command ?c = (obeyed x c)\<lparr>cn_buffer := sent ys\<rparr>"
        unfolding Cons GetBoards read_list_sent ..
      show ?thesis
      proof (cases "\<exists>b d zs. ys = Register b d # zs")
        case True
        then obtain b d zs where ys: "ys = Register b d # zs" by blast
        have "read_register_command (read_list_command ?c) = (obeyed (Register b d) (obeyed x c))\<lparr>cn_buffer := sent zs\<rparr>"
          unfolding l ys read_register_sent ..
        with step less [of zs "obeyed (Register b d) (obeyed x c)"] Cons ys show ?thesis by simp
      next
        case False
        then have "ys = [] \<or> (\<exists>zs. ys = GetBoards # zs)" by (metis command.exhaust neq_Nil_conv)
        then have "read_register_command (read_list_command ?c) = (obeyed x c)\<lparr>cn_buffer := sent ys\<rparr>"
          unfolding l by (elim disjE exE) (simp_all only: read_register_sent)
        with step less [of ys "obeyed x c"] Cons show ?thesis by simp
      qed
    qed
  qed
qed

text \<open>
  C15: Any sequence of requests that the coder encodes, sent in one piece to a new connection of the
  simulator, is read back completely: the loop ends with an empty buffer, the connection is a listener
  of the list of boards exactly when such a request was sent, and is bound to the board and device of
  the last registration (a device number from \<open>2 ^ 31\<close> on is read as 0).
\<close>
theorem requests_read_back:
  "\<exists>c. readyRead (concat (map (\<lambda>x. decode (message_of x)) cs)) new_connection = Some c \<and> cn_buffer c = []
    \<and> cn_ktr c = (GetBoards \<in> set cs)
    \<and> cn_board c = (case filter (\<lambda>x. x \<noteq> GetBoards) cs of [] \<Rightarrow> None
        | xs \<Rightarrow> (case last xs of Register b d \<Rightarrow> Some (as_int (unat b), as_int (unat d))))"
proof -
  have "cn_ktr (fold obeyed cs c) = (GetBoards \<in> set cs \<or> cn_ktr c)" for c
  proof (induction cs arbitrary: c)
    case (Cons x cs)
    then show ?case by (cases x) auto
  qed simp
  moreover have "cn_board (fold obeyed cs c) = (case filter (\<lambda>x. x \<noteq> GetBoards) cs of [] \<Rightarrow> cn_board c
      | xs \<Rightarrow> (case last xs of Register b d \<Rightarrow> Some (as_int (unat b), as_int (unat d))))" for c
  proof (induction cs arbitrary: c)
    case (Cons x cs)
    then show ?case by (cases x) (auto split: list.splits)
  qed simp
  moreover have "readyRead (sent cs) new_connection = Some ((fold obeyed cs new_connection)\<lparr>cn_buffer := []\<rparr>)"
    using read_loop_sent [where c = new_connection and cs = cs] by (simp add: readyRead_def new_connection_def)
  moreover have "cn_ktr new_connection = False" "cn_board new_connection = None" by (simp_all add: new_connection_def)
  ultimately show ?thesis by (simp split: list.split)
qed

text \<open>
  C16: The loop of the simulator never ends on a buffer of at least 22 bytes that starts with neither
  command: the simulator hangs on any other data of that length.
\<close>
theorem other_data_hang_the_simulator:
  assumes "CMD_MIN_LENGTH \<le> length (cn_buffer c)"
    and "match_list (cn_buffer c) = None" and "match_register (cn_buffer c) = None"
  shows "read_loop c = None"
proof -
  let ?stuck = "\<lambda>c. CMD_MIN_LENGTH \<le> length (cn_buffer c) \<and> match_list (cn_buffer c) = None \<and> match_register (cn_buffer c) = None"
  have "\<not> ?stuck c" if "read_loop c = Some y" for c y
  proof (rule read_loop.raw_induct [of "\<lambda>c y. \<not> ?stuck c", OF _ that])
    fix loop c y
    assume ih: "\<And>c y. loop c = Some y \<Longrightarrow> \<not> ?stuck c"
      and run: "(if length (cn_buffer c) < CMD_MIN_LENGTH then Some c else loop (read_register_command (read_list_command c))) = Some y"
    show "\<not> ?stuck c"
    proof
      assume stuck: "?stuck c"
      then have "read_register_command (read_list_command c) = c"
        by (simp add: read_list_command_def read_register_command_def)
      with stuck run have "loop c = Some y" by simp
      with ih stuck show False by blast
    qed
  qed
  with assms show ?thesis by (cases "read_loop c") blast+
qed

lemma other_data_hang_the_simulator_witness:
  "read_loop (new_connection\<lparr>cn_buffer := replicate 22 65\<rparr>) = None"
  by (rule other_data_hang_the_simulator) code_simp+

section \<open>The list of boards\<close>

lemma low_bytes: "word_of_int (uint (low_byte 1 (uint i)) * 256 + uint (low_byte 0 (uint i))) = (ucast (i :: u32) :: u16)"
proof -
  have "(uint i div 256) mod 256 * 256 + uint i mod 256 = uint i mod 65536"
    using zmod_zmult2_eq [of 256 "uint i" 256] by (simp add: algebra_simps)
  moreover have "uint (low_byte 1 (uint i)) = uint i div 256 mod 256" "uint (low_byte 0 (uint i)) = uint i mod 256"
    by (simp_all only: low_byte_def power_0 power_one_right div_by_1 uint_word_of_int) simp_all
  ultimately have "uint (low_byte 1 (uint i)) * 256 + uint (low_byte 0 (uint i)) = uint i mod 2 ^ 16" by simp
  then have "word_of_int (uint (low_byte 1 (uint i)) * 256 + uint (low_byte 0 (uint i))) = (word_of_int (uint i mod 2 ^ 16) :: u16)"
    by (rule arg_cong)
  also have "\<dots> = word_of_int (uint i)"
    by (rule word_of_int_eq_iff [THEN iffD2]) (simp add: take_bit_eq_mod)
  finally show ?thesis by simp
qed

definition board_block :: "u32 \<Rightarrow> u8 list" where
  "board_block i = [low_byte 0 (uint i), low_byte 1 (uint i)] @ replicate 22 32"

lemma length_board_blocks [simp]: "length (concat (map board_block ids)) = 24 * length ids"
  by (induction ids) (simp_all add: board_block_def)

lemma board_id_block:
  assumes "i < length ids"
  shows "board_id (n # s # concat (map board_block ids)) i = Some (ucast (ids ! i))"
proof -
  have ids: "ids = take i ids @ ids ! i # drop (Suc i) ids" using assms by (rule id_take_nth_drop)
  have "concat (map board_block ids) = concat (map board_block (take i ids)) @ board_block (ids ! i) @ concat (map board_block (drop (Suc i) ids))"
    by (subst ids) simp
  moreover have "length (concat (map board_block (take i ids))) = 24 * i" using assms by simp
  ultimately have at: "concat (map board_block ids) ! (24 * i) = low_byte 0 (uint (ids ! i))"
    "concat (map board_block ids) ! (24 * i + 1) = low_byte 1 (uint (ids ! i))"
    by (simp_all add: nth_append board_block_def)
  have len: "3 + i * 24 < length (n # s # concat (map board_block ids))" using assms by simp
  have "3 + i * 24 = Suc (Suc (24 * i + 1))" "2 + i * 24 = Suc (Suc (24 * i))" by simp_all
  then have nth: "(n # s # concat (map board_block ids)) ! (3 + i * 24) = low_byte 1 (uint (ids ! i))"
    "(n # s # concat (map board_block ids)) ! (2 + i * 24) = low_byte 0 (uint (ids ! i))"
    by (simp_all only: nth_Cons_Suc at)
  show ?thesis unfolding board_id_def byte_def if_P [OF len] nth low_bytes ..
qed

lemma board_ids_block:
  "i + k \<le> length ids \<Longrightarrow> board_ids (n # s # concat (map board_block ids)) i k = Some (map ucast (take k (drop i ids)))"
proof (induction k arbitrary: i)
  case (Suc k)
  then have "i < length ids" by simp
  then have "take (Suc k) (drop i ids) = ids ! i # take k (drop (Suc i) ids)" by (simp add: Cons_nth_drop_Suc [symmetric])
  with Suc board_id_block [OF \<open>i < length ids\<close>] show ?case by simp
qed simp

lemma parse_encodeBplaList:
  "parseBoardList (encodeBplaList ids) = Some (boards_message
     (if length ids mod 256 < 128 then map ucast (take (length ids mod 256) ids) else []))"
proof -
  let ?n = "word_of_nat (length ids) :: u8"
  let ?d = "?n # 32 # concat (map board_block ids)"
  have d: "drop 12 (encodeBplaList ids) = ?d"
    by (simp add: encodeBplaList_def board_block_def [abs_def] ascii_def)
  have n: "uint ?n = int (length ids mod 256)" by (simp add: uint_nat unat_of_nat)
  have "sint ?n = (int (length ids mod 256) + 128) mod 256 - 128"
    by (simp add: sint_uint n signed_take_bit_eq_take_bit_shift take_bit_eq_mod)
  moreover have "nat ((int m + 128) mod 256 - 128) = (if m < 128 then m else 0)" if "m < 256" for m
  proof (cases "m < 128")
    case False
    then have "(int m + 128) mod 256 = int m - 128" using that by (simp add: mod_pos_geq mod_pos_pos_trivial)
    then show ?thesis using False that by simp
  qed (simp add: mod_pos_pos_trivial)
  ultimately have "nat (sint ?n) = (if length ids mod 256 < 128 then length ids mod 256 else 0)"
    by (simp only: mod_less_divisor zero_less_numeral)
  moreover have "board_ids ?d 0 k = Some (map ucast (take k ids))" if "k \<le> length ids" for k
    using board_ids_block [of 0 k ids ?n 32] that by simp
  ultimately have "board_ids ?d 0 (nat (char_at ?d 0)) =
      Some (if length ids mod 256 < 128 then map ucast (take (length ids mod 256) ids) else [])"
    by (simp add: char_at_def)
  then show ?thesis by (simp add: parseBoardList_def d)
qed

text \<open>
  The simulated list never looks like a text of positions: no three characters of \<open>KTPGA\<close> follow each
  other in it, whatever the ids.
\<close>

fun no_marker :: "string \<Rightarrow> bool" where
  "no_marker (a # b # c # s) \<longleftrightarrow> \<not> (a \<in> set ''KTPGA'' \<and> b \<in> set ''KTPGA'' \<and> c \<in> set ''KTPGA'') \<and> no_marker (b # c # s)"
| "no_marker _ \<longleftrightarrow> True"

lemma no_marker_take: "no_marker s \<Longrightarrow> no_marker (take n s)"
proof (induction s arbitrary: n rule: no_marker.induct)
  case (1 a b c s)
  show ?case
  proof (cases "3 \<le> n")
    case True
    then have "n = Suc (Suc (Suc (n - 3)))" by simp
    then obtain m where n: "n = Suc (Suc (Suc m))" ..
    from "1.prems" have "no_marker (b # c # s)" by simp
    from "1.IH" [OF this, of "Suc (Suc m)"] "1.prems" show ?thesis by (simp add: n)
  next
    case False
    then have "n = 0 \<or> n = 1 \<or> n = 2" by arith
    then show ?thesis by (auto simp: numeral_2_eq_2)
  qed
qed (auto simp: take_Cons')

lemma char_of_space: "char_of (32 :: nat) = CHR '' ''"
  by code_simp

lemma no_marker_tl: "no_marker (c # s) \<Longrightarrow> no_marker s"
  by (cases "c # s" rule: no_marker.cases) auto

lemma split_no_marker: "no_marker s \<Longrightarrow> split_from ''$KTPGA,'' 0 acc s = [rev acc @ s]"
proof (induction s arbitrary: acc)
  case (Cons c s)
  have differs: "take (length ''$KTPGA,'') (c # s) \<noteq> ''$KTPGA,''"
  proof
    assume "take (length ''$KTPGA,'') (c # s) = ''$KTPGA,''"
    with no_marker_take [OF Cons.prems, of "length ''$KTPGA,''"] show False by simp
  qed
  have "split_from ''$KTPGA,'' 0 acc (c # s) = split_from ''$KTPGA,'' 0 (c # acc) s"
    by (simp only: split_from.simps differs if_False less_irrefl)
  with Cons.IH [OF no_marker_tl [OF Cons.prems]] show ?case by simp
qed simp

lemma after_space: "no_marker s \<Longrightarrow> no_marker (a # CHR '' '' # s)"
  by (cases s rule: no_marker.cases) simp_all

lemma no_marker_blocks: "no_marker (map (\<lambda>b. char_of (unat b)) (concat (map board_block ids)))"
proof (induction ids)
  case (Cons i ids)
  have block: "board_block i = [low_byte 0 (uint i), low_byte 1 (uint i), 32, 32, 32, 32, 32, 32, 32, 32, 32, 32, 32,
      32, 32, 32, 32, 32, 32, 32, 32, 32, 32, 32]"
    by (simp add: board_block_def eval_nat_numeral)
  show ?case using after_space [OF Cons.IH] by (simp add: block char_of_space)
qed simp

lemma encodeBplaList_not_text: "\<not> is_ktr_text (encodeBplaList ids)"
proof -
  let ?s = "map (\<lambda>b. char_of (unat b)) (encodeBplaList ids)"
  have "map (\<lambda>b. char_of (unat b)) (ascii t) = t" for t
    by (simp add: ascii_def comp_def)
  then have "?s = ''control link'' @ char_of (unat (word_of_nat (length ids) :: u8)) # CHR '' '' #
      map (\<lambda>b. char_of (unat b)) (concat (map board_block ids))"
    by (simp add: encodeBplaList_def board_block_def [abs_def] char_of_space)
  with after_space [OF no_marker_blocks, of _ ids] have "no_marker ?s" by simp
  moreover obtain n where "text_of (encodeBplaList ids) = take n ?s"
    unfolding text_of_def by (metis takeWhile_eq_take take_map)
  ultimately have "no_marker (text_of (encodeBplaList ids))" by (simp add: no_marker_take)
  then show ?thesis by (simp add: is_ktr_text_def text_split_def split_no_marker)
qed

lemma encode_encodeBplaList:
  "encode j (encodeBplaList ids) k = (Some (boards_message
     (if length ids mod 256 < 128 then map ucast (take (length ids mod 256) ids) else [])), k)"
proof -
  have "take 12 (encodeBplaList ids) = ascii ''control link''" by (simp add: encodeBplaList_def ascii_def)
  then show ?thesis by (simp add: encode_def encodeBplaList_not_text parse_encodeBplaList)
qed

text \<open>
  C17: The coder reads the list of boards that the simulator writes: the 16-bit ids of all boards, as
  long as there are fewer than 128. The number is one byte and read as signed: from 128 to 255 boards
  the list is empty, and it starts again with 256.
\<close>
theorem board_list_roundtrip:
  "fst (encode j (encodeBplaList ids) k) = Some (boards_message
     (if length ids mod 256 < 128 then map ucast (take (length ids mod 256) ids) else []))"
  by (simp only: encode_encodeBplaList fst_conv)

section \<open>Positions of a board\<close>

text \<open>The angle a number of degrees, minutes and thousandths stands for.\<close>

definition exact_angle :: "int \<Rightarrow> rat" where
  "exact_angle v = of_int (v div 100000) + (of_int (v mod 100000 div 1000) + of_int (v mod 1000) / 1000) / 60"

lemma angle_parts:
  "(v - v div 100000 * 100000) div 1000 = v mod 100000 div (1000 :: int)"
  "v - v div 100000 * 100000 - (v - v div 100000 * 100000) div 1000 * 1000 = v mod (1000 :: int)"
proof -
  have r: "v - v div 100000 * 100000 = v mod 100000" by (simp add: minus_div_mult_eq_mod)
  then show "(v - v div 100000 * 100000) div 1000 = v mod 100000 div 1000" by simp
  have "v mod 100000 mod 1000 = v mod 1000" by (rule mod_mod_cancel) simp
  then show "v - v div 100000 * 100000 - (v - v div 100000 * 100000) div 1000 * 1000 = v mod 1000"
    unfolding r by (simp add: minus_div_mult_eq_mod)
qed

text \<open>
  C18: An angle of three bytes is decoded in floating point with an error of at most \<open>2 ^ (- 44)\<close> degrees
  (less than a hundredth of a millimetre on the ground).
\<close>
theorem angle_error_is_small:
  assumes "0 \<le> v" and "v < 2 ^ 24"
  shows "\<exists>r. angle_of v = Fin r \<and> \<bar>r - exact_angle v\<bar> \<le> 1 / 2 ^ 44"
proof -
  define deg min part where "deg = v div 100000" and "min = v mod 100000 div 1000" and "part = v mod 1000"
  have b: "0 \<le> deg" "deg \<le> 167" "0 \<le> min" "min \<le> 99" "0 \<le> part" "part \<le> 999"
    using assms zdiv_mono1 [of v 16777215 100000] zdiv_mono1 [of "v mod 100000" 99999 1000]
      pos_mod_bound [of 100000 v] pos_mod_bound [of 1000 v]
    by (simp_all add: deg_def min_def part_def pos_imp_zdiv_nonneg_iff)
  let ?deg = "of_int deg :: rat" and ?min = "of_int min :: rat" and ?part = "of_int part :: rat"
  have q: "0 \<le> ?deg" "?deg \<le> 167" "0 \<le> ?min" "?min \<le> 99" "0 \<le> ?part" "?part \<le> 999"
    using b by (simp_all add: of_int_le_numeral_iff)
  have ex: "d_of_int deg = Fin ?deg" "d_of_int min = Fin ?min" "d_of_int part = Fin ?part"
    "d_of_int 1000 = Fin 1000" "d_of_int 60 = Fin 60"
    using b d_of_int_exact [of deg] d_of_int_exact [of min] d_of_int_exact [of part]
      d_of_int_exact [of 1000] d_of_int_exact [of 60] by simp_all
  have p: "pow2 0 = 1" "pow2 7 = 128" "pow2 1 = 2" "pow2 8 = 256" "pow2 (0 - 53) = 1 / 9007199254740992"
    "pow2 (7 - 53) = 1 / 70368744177664" "pow2 (1 - 53) = 1 / 4503599627370496" "pow2 (8 - 53) = 1 / 35184372088832" by (simp_all add: pow2_def)
  have step: "\<exists>r. dround x = Fin r \<and> r - x \<le> pow2 (k - 53) \<and> x - r \<le> pow2 (k - 53)"
    if "x \<le> pow2 k" "- x \<le> pow2 k" "0 \<le> k" "k \<le> 8" for x k
    using dround_error [of x k] that by (force simp: abs_le_iff)
  have "?part / 1000 \<le> 1" "- (?part / 1000) \<le> 1" using q(5,6) by simp_all
  then obtain r1 where r1: "dround (?part / 1000) = Fin r1" "r1 - ?part / 1000 \<le> 1 / 9007199254740992" "?part / 1000 - r1 \<le> 1 / 9007199254740992"
    using step [of "?part / 1000" 0] unfolding p by fastforce
  have "r1 + ?min \<le> 128 \<and> - (r1 + ?min) \<le> 128" using q r1(2,3) by (intro conjI; linarith)
  then obtain r2 where r2: "dround (r1 + ?min) = Fin r2" "r2 - (r1 + ?min) \<le> 1 / 70368744177664" "r1 + ?min - r2 \<le> 1 / 70368744177664"
    using step [of "r1 + ?min" 7] unfolding p by fastforce
  have "r2 / 60 \<le> 2 \<and> - (r2 / 60) \<le> 2" using q r1(2,3) r2(2,3) by (intro conjI; linarith)
  then obtain r3 where r3: "dround (r2 / 60) = Fin r3" "r3 - r2 / 60 \<le> 1 / 4503599627370496" "r2 / 60 - r3 \<le> 1 / 4503599627370496"
    using step [of "r2 / 60" 1] unfolding p by fastforce
  have "r3 + ?deg \<le> 256 \<and> - (r3 + ?deg) \<le> 256" using q r1(2,3) r2(2,3) r3(2,3) by (intro conjI; linarith)
  then obtain r4 where r4: "dround (r3 + ?deg) = Fin r4" "r4 - (r3 + ?deg) \<le> 1 / 35184372088832" "r3 + ?deg - r4 \<le> 1 / 35184372088832"
    using step [of "r3 + ?deg" 8] unfolding p by fastforce
  have angle: "angle_of v = Fin r4"
    using angle_parts [of v]
    by (simp add: angle_of_def Let_def deg_def [symmetric] min_def [symmetric] part_def [symmetric] ex r1(1) r2(1) r3(1) r4(1))
  have "exact_angle v = ?deg + (?min + ?part / 1000) / 60"
    by (simp add: exact_angle_def deg_def min_def part_def)
  moreover have "r2 - (?min + ?part / 1000) \<le> 1 / 35184372088832 \<and> ?min + ?part / 1000 - r2 \<le> 1 / 35184372088832"
    using r1(2,3) r2(2,3) by (intro conjI; linarith)
  ultimately have "r4 - exact_angle v \<le> 1 / 17592186044416 \<and> exact_angle v - r4 \<le> 1 / 17592186044416"
    using r3(2,3) r4(2,3) by (intro conjI; simp add: add_divide_distrib; linarith)
  then have "\<bar>r4 - exact_angle v\<bar> \<le> 1 / 17592186044416" by (simp only: abs_le_iff minus_diff_eq simp_thms)
  with angle show ?thesis by simp
qed

theorem angle_error_is_small_witness:
  "(0 :: int) \<le> 5545123 \<and> (5545123 :: int) < 2 ^ 24 \<and>
   (\<exists>r. angle_of 5545123 = Fin r \<and> \<bar>r - exact_angle 5545123\<bar> \<le> 1 / 2 ^ 44)"
  using angle_error_is_small [of 5545123] by simp

text \<open>
  The message of a board position carries one position with the decoded coordinates and with the
  altitude of the last altitude packet. The altitude by GPS and the air speed that were decoded are
  lost: the vector copies the position, and what is streamed for them is memory nobody wrote.
\<close>
theorem board_position_loses_fields:
  "fst (read_vector read_position (new_position m) (msg_data (parseLocationFromBoard j d k))) =
     [(new_position (j 0))\<lparr>pd_latitude := angle_of (unsigned3 d 2), pd_longitude := angle_of (unsigned3 d 5),
        pd_altitude := kc_altitude k, pd_speed := d_mul (d_div (d_of_int (unsigned2 d 8)) (d_of_int 10)) (dround (18 / 10)),
        pd_course := d_div (d_of_int (unsigned2 d 10)) (d_of_int 10), pd_sourceType := 1,
        pd_altitudeGPS := mem_altitudeGPS (j 1), pd_aSpeed := mem_aSpeed (j 1)\<rparr>]"
  by (simp add: parseLocationFromBoard_def positions_message_def push_position_def copy_position_def Let_def
    position.read_vector_write [where ts = "[]", simplified] kept_position_def new_position_def)

end
