(* ===== verification/RpcServerProps.thy ===== *)
theory RpcServerProps
  imports RpcServer
begin

text \<open>
  What the RPC server of the station guarantees its clients. Its abstract state is the set of connected
  clients and the set of those that gave their id: the runs of the server carry both along, and a
  message of a subscribed type reaches exactly the second set.
\<close>

section \<open>Runs\<close>


section \<open>The invariant\<close>









section \<open>Delivery\<close>





definition attached_names :: "string set" where
  "attached_names = {RPC_SLOT_SERVER_SEND_ATLANT_DIRECTION, RPC_SLOT_SERVER_SEND_ATLANT_POSITION,
     RPC_SLOT_SERVER_SEND_BPLA_POINTS, RPC_SLOT_SERVER_SEND_BPLA_POINTS_AUTO, RPC_SLOT_SERVER_SEND_BLA_POINTS,
     RPC_SLOT_SERVER_SEND_HYPERBOLA, RPC_SLOT_SERVER_SEND_AIS_DATA, RPC_SLOT_SERVER_SEND_NIIPP_DATA,
     RPC_SLOT_SERVER_SEND_NIIPP_CONNECTION_STATUS, RPC_SLOT_SERVER_SEND_ADSB_DATA}"

lemma single_not_attached: "RPC_SLOT_SERVER_SEND_BPLA_POINTS_SINGLE \<notin> attached_names"
  by (simp add: attached_names_def rpc_names)

text \<open>A chain of comparisons as one membership.\<close>

lemma call_chain:
  "(if n = a then [PeerCallAll a x] else []) = (if n \<in> {a} then [PeerCallAll n x] else [])"
  "(if n = a then [PeerCallAll a x] else if n \<in> S then [PeerCallAll n x] else [])
    = (if n \<in> insert a S then [PeerCallAll n x] else [])"
  by simp_all

lemma call_chain_skip:
  "a \<notin> S \<Longrightarrow> (if n = a then [] else if n \<in> S then [PeerCallAll n x] else []) = (if n \<in> S then [PeerCallAll n x] else [])"
  by auto

lemma sendDataByRpc_attached: "sv_sendDataByRpc name d = (if name \<in> attached_names then [PeerCallAll name (ArgBytes d)] else [])"
proof -
  have "RPC_SLOT_SERVER_SEND_BPLA_POINTS_SINGLE \<notin> {RPC_SLOT_SERVER_SEND_BLA_POINTS, RPC_SLOT_SERVER_SEND_HYPERBOLA,
      RPC_SLOT_SERVER_SEND_AIS_DATA, RPC_SLOT_SERVER_SEND_NIIPP_DATA, RPC_SLOT_SERVER_SEND_NIIPP_CONNECTION_STATUS,
      RPC_SLOT_SERVER_SEND_ADSB_DATA}"
    using single_not_attached unfolding attached_names_def by blast
  note skip = call_chain_skip [OF this]
  show ?thesis
    by (simp only: sv_sendDataByRpc_def sendDataByRpcSlot_def attached_names_def call_chain skip)
qed

text \<open>
  A message that a device hands over by the name of a remote method goes to all clients under that
  name, except for the points of the single mode: their signal is not attached to the peer, and they
  are lost, as is every unknown name.
\<close>
theorem device_messages_by_name:
  "sv_sendDataByRpc name d = (if name \<in> attached_names then [PeerCallAll name (ArgBytes d)] else [])
   \<and> sv_sendDataByRpc RPC_SLOT_SERVER_SEND_BPLA_POINTS_SINGLE d = []"
  using single_not_attached by (simp only: sendDataByRpc_attached if_False simp_thms)

section \<open>Concrete servers\<close>






end
