(* ===== verification/TcpManagerProps.thy ===== *)
theory TcpManagerProps
  imports TcpManager KtrManagerProps DeviceController KtrProps RpcServerProps
begin

text \<open>
  The devices of the station together: a KTR and its boards (\<open>KtrSim\<close>), their coder, the tables of the
  KTR manager, \<open>TcpManager\<close> and the RPC server.
\<close>

section \<open>Connecting a list of boards\<close>

definition sends :: "device_event list \<Rightarrow> (string \<times> message) list" where
  "sends es = concat (map (\<lambda>e. case e of SendData k m \<Rightarrow> [(k, m)] | _ \<Rightarrow> []) es)"

lemma sends_simps [simp]:
  "sends [] = []" "sends (es @ fs) = sends es @ sends fs"
  "sends (SendData k m # es) = (k, m) # sends es"
  "sends (ConnectToHost k h p # es) = sends es" "sends (StartTimer k t # es) = sends es"
  "sends (DisconnectFromHost k # es) = sends es"
  by (simp_all add: sends_def)

text \<open>The two registrations of a board.\<close>

definition registrations :: "string \<Rightarrow> u16 \<Rightarrow> (string \<times> message) list" where
  "registrations hostPort b =
     [(board_key hostPort b 1, register_message b 1), (board_key hostPort b 622, register_message b 622)]"

definition registering :: "string \<Rightarrow> ktr_manager \<Rightarrow> bool" where
  "registering hostPort s \<longleftrightarrow> km_update s \<and> hostPort \<in> km_hosts s"

lemma board_after_registering [simp]: "registering hp (board_after host port b d s) = registering hp s"
  by (simp add: registering_def board_after_def Let_def)

lemma sends_board_events:
  "sends (board_events host port b d s) =
     (if registering (address host port) s then [(board_key (address host port) b d, register_message b d)] else [])"
  by (simp add: board_events_def registering_def Let_def)

lemma connect_boards_typed:
  assumes "ktr_typed s" and "CHR '':'' \<notin> set host"
  shows "\<exists>es s'. connect_boards (address host port) bs s = Some (es, s') \<and> ktr_typed s'
    \<and> km_update s' = km_update s \<and> km_hosts s' = km_hosts s
    \<and> sends es = (if registering (address host port) s then concat (map (registrations (address host port)) bs) else [])"
  using assms(1)
proof (induction bs arbitrary: s)
  case Nil
  then show ?case by simp
next
  case (Cons b bs)
  let ?s1 = "board_after host port b KTR_DEVICE_AUTOPILOT s"
  let ?s2 = "board_after host port b KTR_DEVICE_KTRGA622 ?s1"
  note t1 = board_after_typed [OF Cons.prems assms(2), of port b KTR_DEVICE_AUTOPILOT]
  note t2 = board_after_typed [OF t1 assms(2), of port b KTR_DEVICE_KTRGA622]
  have kept: "km_update ?s2 = km_update s" "km_hosts ?s2 = km_hosts s"
    by (simp_all add: board_after_def Let_def)
  from Cons.IH [OF t2] obtain es s' where
    "connect_boards (address host port) bs ?s2 = Some (es, s')" "ktr_typed s'"
    "km_update s' = km_update s" "km_hosts s' = km_hosts s"
    "sends es = (if registering (address host port) s then concat (map (registrations (address host port)) bs) else [])"
    using kept by auto
  then show ?case
    using connectToBoard_typed [OF Cons.prems assms(2), of port b KTR_DEVICE_AUTOPILOT]
      connectToBoard_typed [OF t1 assms(2), of port b KTR_DEVICE_KTRGA622]
    by (simp add: sends_board_events registrations_def KTR_DEVICE_AUTOPILOT_def KTR_DEVICE_KTRGA622_def)
qed

lemma read_u16s_written: "read_u16s (length ids) (concat (map (\<lambda>i. [Tok16 i]) ids)) = ids"
proof (induction ids)
  case (Cons i ids)
  then show ?case by (cases ids) simp_all
qed simp

lemma read_board_list_written:
  assumes "length ids < 2 ^ 32"
  shows "read_board_list (msg_data (boards_message ids)) = ids"
  using assms read_u16s_written [of ids]
  by (simp add: read_board_list_def boards_message_def write_vector_def unat_of_nat)

section \<open>Messages of a KTR\<close>

lemma status_message:
  assumes "qlookup (tm_controllers s) name = Some c"
  shows "onMessageReceived j KTR_TCP_DEVICE name (Text TCP_KTR_ANSWER_CONNECTION_STATUS) [TokInt TCP_Connected] s =
    Some ([Device (SendData name (message_of GetBoards))],
      s\<lparr>tm_ktr := needToUpdateAfterDisconnect True (get_host c) (tm_ktr s)\<rparr>)"
  using assms by (simp add: onMessageReceived_def ktr_status_def device_types message_of_def
      TCP_Connected_def TCP_Disconnected_def)

lemma list_message:
  assumes "qlookup (tm_controllers s) name = Some c" and "CHR '':'' \<notin> set (td_host c)" and "ktr_typed (tm_ktr s)"
    and "length ids < 2 ^ 32"
  shows "\<exists>es k. onMessageReceived j KTR_TCP_DEVICE name (Text TCP_KTR_ANSWER_BOARD_LIST) (msg_data (boards_message ids)) s
      = Some (map Device es, s\<lparr>tm_ktr := needToUpdateAfterDisconnect False (get_host c) k\<rparr>)
    \<and> ktr_typed k \<and> km_hosts k = km_hosts (tm_ktr s)
    \<and> sends es = (if registering (get_host c) (tm_ktr s) then concat (map (registrations (get_host c)) ids) else [])"
proof -
  from connect_boards_typed [OF assms(3,2), of "td_port c" ids] obtain es k where
    "connect_boards (get_host c) ids (tm_ktr s) = Some (es, k)" "ktr_typed k" "km_hosts k = km_hosts (tm_ktr s)"
    "sends es = (if registering (get_host c) (tm_ktr s) then concat (map (registrations (get_host c)) ids) else [])"
    by (auto simp: get_host_def)
  moreover from this(1) have "onMessageReceived j KTR_TCP_DEVICE name (Text TCP_KTR_ANSWER_BOARD_LIST)
      (msg_data (boards_message ids)) s
    = Some (map Device es, s\<lparr>tm_ktr := needToUpdateAfterDisconnect False (get_host c) k\<rparr>)"
    using assms(1) read_board_list_written [OF assms(4)]
    by (simp add: onMessageReceived_def ktr_boards_def device_types ktr_names)
  ultimately show ?thesis by blast
qed

section \<open>Registration of boards\<close>

lemma registering_update:
  "registering hp (needToUpdateAfterDisconnect True hp k)"
  "\<not> registering hp (needToUpdateAfterDisconnect False hp' k)"
  by (simp_all add: registering_def needToUpdateAfterDisconnect_def)

text \<open>A controller of the manager with a host without a colon, on tables that can be reached.\<close>

definition ktr_device :: "tcp_manager \<Rightarrow> string \<Rightarrow> tcp_device \<Rightarrow> bool" where
  "ktr_device s name c \<longleftrightarrow> qlookup (tm_controllers s) name = Some c \<and> CHR '':'' \<notin> set (td_host c)
     \<and> ktr_reachable (tm_ktr s)"


text \<open>A station with two KTR devices.\<close>

definition station :: tcp_manager where
  "station = snd (addTcpDevice (\<lambda>t n. (''10.0.0.2'', 2323)) ''KTR2'' KTR_TCP_DEVICE
     (snd (addTcpDevice (\<lambda>t n. (''10.0.0.1'', 2323)) ''KTR1'' KTR_TCP_DEVICE tm_init)))"

definition first_ktr :: tcp_device where
  "first_ktr = \<lparr>td_type = KTR_TCP_DEVICE, td_host = ''10.0.0.1'', td_port = 2323\<rparr>"

definition second_ktr :: tcp_device where
  "second_ktr = \<lparr>td_type = KTR_TCP_DEVICE, td_host = ''10.0.0.2'', td_port = 2323\<rparr>"

lemma station_devices: "ktr_device station ''KTR1'' first_ktr" "ktr_device station ''KTR2'' second_ktr"
  by (simp_all add: ktr_device_def station_def addTcpDevice_def tm_init_def first_ktr_def second_ktr_def ktr_reachable.start)


section \<open>Two KTR devices\<close>

text \<open>
  C21: The lists of two KTR devices disturb each other: when both get connected and the list of the
  second arrives first, no board of the first is registered when its list arrives, although its own
  connection was never answered before.
\<close>
theorem list_of_one_ktr_cancels_the_other:
  assumes "ktr_device s name1 c1" and "ktr_device s name2 c2" and "length bs1 < 2 ^ 32" and "length bs2 < 2 ^ 32"
  shows "\<exists>s1 s2 es3 s3 es4 s4.
      onMessageReceived j KTR_TCP_DEVICE name1 (Text TCP_KTR_ANSWER_CONNECTION_STATUS) [TokInt TCP_Connected] s
        = Some ([Device (SendData name1 (message_of GetBoards))], s1)
    \<and> onMessageReceived j KTR_TCP_DEVICE name2 (Text TCP_KTR_ANSWER_CONNECTION_STATUS) [TokInt TCP_Connected] s1
        = Some ([Device (SendData name2 (message_of GetBoards))], s2)
    \<and> onMessageReceived j KTR_TCP_DEVICE name2 (Text TCP_KTR_ANSWER_BOARD_LIST) (msg_data (boards_message bs2)) s2
        = Some (map Device es3, s3) \<and> sends es3 = concat (map (registrations (get_host c2)) bs2)
    \<and> onMessageReceived j KTR_TCP_DEVICE name1 (Text TCP_KTR_ANSWER_BOARD_LIST) (msg_data (boards_message bs1)) s3
        = Some (map Device es4, s4) \<and> sends es4 = []"
proof -
  from assms(1,2) have d: "qlookup (tm_controllers s) name1 = Some c1" "qlookup (tm_controllers s) name2 = Some c2"
    "CHR '':'' \<notin> set (td_host c1)" "CHR '':'' \<notin> set (td_host c2)" "ktr_typed (tm_ktr s)"
    by (simp_all add: ktr_device_def reachable_typed)
  let ?s1 = "s\<lparr>tm_ktr := needToUpdateAfterDisconnect True (get_host c1) (tm_ktr s)\<rparr>"
  let ?s2 = "?s1\<lparr>tm_ktr := needToUpdateAfterDisconnect True (get_host c2) (tm_ktr ?s1)\<rparr>"
  have st1: "onMessageReceived j KTR_TCP_DEVICE name1 (Text TCP_KTR_ANSWER_CONNECTION_STATUS) [TokInt TCP_Connected] s
      = Some ([Device (SendData name1 (message_of GetBoards))], ?s1)"
    by (rule status_message [OF d(1)])
  have st2: "onMessageReceived j KTR_TCP_DEVICE name2 (Text TCP_KTR_ANSWER_CONNECTION_STATUS) [TokInt TCP_Connected] ?s1
      = Some ([Device (SendData name2 (message_of GetBoards))], ?s2)"
    by (rule status_message) (simp add: d)
  from list_message [of ?s2 name2 c2 bs2 j] d assms(4) obtain es3 k3 where
    l2: "onMessageReceived j KTR_TCP_DEVICE name2 (Text TCP_KTR_ANSWER_BOARD_LIST) (msg_data (boards_message bs2)) ?s2
        = Some (map Device es3, ?s2\<lparr>tm_ktr := needToUpdateAfterDisconnect False (get_host c2) k3\<rparr>)"
      "ktr_typed k3" "sends es3 = concat (map (registrations (get_host c2)) bs2)"
    by (auto simp: update_typed registering_update)
  let ?s3 = "?s2\<lparr>tm_ktr := needToUpdateAfterDisconnect False (get_host c2) k3\<rparr>"
  from list_message [of ?s3 name1 c1 bs1 j] d assms(3) l2(2) obtain es4 s4 where
    l1: "onMessageReceived j KTR_TCP_DEVICE name1 (Text TCP_KTR_ANSWER_BOARD_LIST) (msg_data (boards_message bs1)) ?s3
        = Some (map Device es4, s4)" "sends es4 = []"
    by (auto simp: update_typed registering_update)
  from st1 st2 l2(1,3) l1 show ?thesis by blast
qed

lemma list_of_one_ktr_cancels_the_other_witness:
  "\<exists>s1. onMessageReceived (\<lambda>_. some_memory) KTR_TCP_DEVICE ''KTR1'' (Text TCP_KTR_ANSWER_CONNECTION_STATUS)
     [TokInt TCP_Connected] station = Some ([Device (SendData ''KTR1'' (message_of GetBoards))], s1)"
  using list_of_one_ktr_cancels_the_other [OF station_devices, of "[7]" "[8, 9]" "\<lambda>_. some_memory"] by auto

section \<open>Positions of a board\<close>

lemma toUShort_decimal [simp]: "toUShort (decimal (unat (b :: u16))) = b"
proof -
  have "unat b < 2 ^ 16" using unsigned_less [of b] by simp
  then show ?thesis by (simp add: toUShort_def read_digits_decimal)
qed






end
