(* ===== verification/CheckSums.thy ===== *)
theory CheckSums
  imports Prelude
begin

text \<open>
  \<open>CRCs\<close> (\<open>server/core/Common/CRCs.cpp\<close>): the check sums of the server, by tables. The data are a buffer
  and a length; \<open>None\<close> stands for reading past the end of the buffer, which a negative length leads to
  as well. The tables are compared with the polynomials they stand for, \<open>0x31\<close> and \<open>0x1021\<close>.
\<close>

unbundle bit_operations_syntax

section \<open>Tables\<close>

definition Crc8Table :: "u8 list" where
  "Crc8Table =
    [0x00, 0x31, 0x62, 0x53, 0xC4, 0xF5, 0xA6, 0x97,
     0xB9, 0x88, 0xDB, 0xEA, 0x7D, 0x4C, 0x1F, 0x2E,
     0x43, 0x72, 0x21, 0x10, 0x87, 0xB6, 0xE5, 0xD4,
     0xFA, 0xCB, 0x98, 0xA9, 0x3E, 0x0F, 0x5C, 0x6D,
     0x86, 0xB7, 0xE4, 0xD5, 0x42, 0x73, 0x20, 0x11,
     0x3F, 0x0E, 0x5D, 0x6C, 0xFB, 0xCA, 0x99, 0xA8,
     0xC5, 0xF4, 0xA7, 0x96, 0x01, 0x30, 0x63, 0x52,
     0x7C, 0x4D, 0x1E, 0x2F, 0xB8, 0x89, 0xDA, 0xEB,
     0x3D, 0x0C, 0x5F, 0x6E, 0xF9, 0xC8, 0x9B, 0xAA,
     0x84, 0xB5, 0xE6, 0xD7, 0x40, 0x71, 0x22, 0x13,
     0x7E, 0x4F, 0x1C, 0x2D, 0xBA, 0x8B, 0xD8, 0xE9,
     0xC7, 0xF6, 0xA5, 0x94, 0x03, 0x32, 0x61, 0x50,
     0xBB, 0x8A, 0xD9, 0xE8, 0x7F, 0x4E, 0x1D, 0x2C,
     0x02, 0x33, 0x60, 0x51, 0xC6, 0xF7, 0xA4, 0x95,
     0xF8, 0xC9, 0x9A, 0xAB, 0x3C, 0x0D, 0x5E, 0x6F,
     0x41, 0x70, 0x23, 0x12, 0x85, 0xB4, 0xE7, 0xD6,
     0x7A, 0x4B, 0x18, 0x29, 0xBE, 0x8F, 0xDC, 0xED,
     0xC3, 0xF2, 0xA1, 0x90, 0x07, 0x36, 0x65, 0x54,
     0x39, 0x08, 0x5B, 0x6A, 0xFD, 0xCC, 0x9F, 0xAE,
     0x80, 0xB1, 0xE2, 0xD3, 0x44, 0x75, 0x26, 0x17,
     0xFC, 0xCD, 0x9E, 0xAF, 0x38, 0x09, 0x5A, 0x6B,
     0x45, 0x74, 0x27, 0x16, 0x81, 0xB0, 0xE3, 0xD2,
     0xBF, 0x8E, 0xDD, 0xEC, 0x7B, 0x4A, 0x19, 0x28,
     0x06, 0x37, 0x64, 0x55, 0xC2, 0xF3, 0xA0, 0x91,
     0x47, 0x76, 0x25, 0x14, 0x83, 0xB2, 0xE1, 0xD0,
     0xFE, 0xCF, 0x9C, 0xAD, 0x3A, 0x0B, 0x58, 0x69,
     0x04, 0x35, 0x66, 0x57, 0xC0, 0xF1, 0xA2, 0x93,
     0xBD, 0x8C, 0xDF, 0xEE, 0x79, 0x48, 0x1B, 0x2A,
     0xC1, 0xF0, 0xA3, 0x92, 0x05, 0x34, 0x67, 0x56,
     0x78, 0x49, 0x1A, 0x2B, 0xBC, 0x8D, 0xDE, 0xEF,
     0x82, 0xB3, 0xE0, 0xD1, 0x46, 0x77, 0x24, 0x15,
     0x3B, 0x0A, 0x59, 0x68, 0xFF, 0xCE, 0x9D, 0xAC]"

definition Crc16Table :: "u16 list" where
  "Crc16Table =
    [0x0000, 0x1021, 0x2042, 0x3063, 0x4084, 0x50A5, 0x60C6, 0x70E7,
     0x8108, 0x9129, 0xA14A, 0xB16B, 0xC18C, 0xD1AD, 0xE1CE, 0xF1EF,
     0x1231, 0x0210, 0x3273, 0x2252, 0x52B5, 0x4294, 0x72F7, 0x62D6,
     0x9339, 0x8318, 0xB37B, 0xA35A, 0xD3BD, 0xC39C, 0xF3FF, 0xE3DE,
     0x2462, 0x3443, 0x0420, 0x1401, 0x64E6, 0x74C7, 0x44A4, 0x5485,
     0xA56A, 0xB54B, 0x8528, 0x9509, 0xE5EE, 0xF5CF, 0xC5AC, 0xD58D,
     0x3653, 0x2672, 0x1611, 0x0630, 0x76D7, 0x66F6, 0x5695, 0x46B4,
     0xB75B, 0xA77A, 0x9719, 0x8738, 0xF7DF, 0xE7FE, 0xD79D, 0xC7BC,
     0x48C4, 0x58E5, 0x6886, 0x78A7, 0x0840, 0x1861, 0x2802, 0x3823,
     0xC9CC, 0xD9ED, 0xE98E, 0xF9AF, 0x8948, 0x9969, 0xA90A, 0xB92B,
     0x5AF5, 0x4AD4, 0x7AB7, 0x6A96, 0x1A71, 0x0A50, 0x3A33, 0x2A12,
     0xDBFD, 0xCBDC, 0xFBBF, 0xEB9E, 0x9B79, 0x8B58, 0xBB3B, 0xAB1A,
     0x6CA6, 0x7C87, 0x4CE4, 0x5CC5, 0x2C22, 0x3C03, 0x0C60, 0x1C41,
     0xEDAE, 0xFD8F, 0xCDEC, 0xDDCD, 0xAD2A, 0xBD0B, 0x8D68, 0x9D49,
     0x7E97, 0x6EB6, 0x5ED5, 0x4EF4, 0x3E13, 0x2E32, 0x1E51, 0x0E70,
     0xFF9F, 0xEFBE, 0xDFDD, 0xCFFC, 0xBF1B, 0xAF3A, 0x9F59, 0x8F78,
     0x9188, 0x81A9, 0xB1CA, 0xA1EB, 0xD10C, 0xC12D, 0xF14E, 0xE16F,
     0x1080, 0x00A1, 0x30C2, 0x20E3, 0x5004, 0x4025, 0x7046, 0x6067,
     0x83B9, 0x9398, 0xA3FB, 0xB3DA, 0xC33D, 0xD31C, 0xE37F, 0xF35E,
     0x02B1, 0x1290, 0x22F3, 0x32D2, 0x4235, 0x5214, 0x6277, 0x7256,
     0xB5EA, 0xA5CB, 0x95A8, 0x8589, 0xF56E, 0xE54F, 0xD52C, 0xC50D,
     0x34E2, 0x24C3, 0x14A0, 0x0481, 0x7466, 0x6447, 0x5424, 0x4405,
     0xA7DB, 0xB7FA, 0x8799, 0x97B8, 0xE75F, 0xF77E, 0xC71D, 0xD73C,
     0x26D3, 0x36F2, 0x0691, 0x16B0, 0x6657, 0x7676, 0x4615, 0x5634,
     0xD94C, 0xC96D, 0xF90E, 0xE92F, 0x99C8, 0x89E9, 0xB98A, 0xA9AB,
     0x5844, 0x4865, 0x7806, 0x6827, 0x18C0, 0x08E1, 0x3882, 0x28A3,
     0xCB7D, 0xDB5C, 0xEB3F, 0xFB1E, 0x8BF9, 0x9BD8, 0xABBB, 0xBB9A,
     0x4A75, 0x5A54, 0x6A37, 0x7A16, 0x0AF1, 0x1AD0, 0x2AB3, 0x3A92,
     0xFD2E, 0xED0F, 0xDD6C, 0xCD4D, 0xBDAA, 0xAD8B, 0x9DE8, 0x8DC9,
     0x7C26, 0x6C07, 0x5C64, 0x4C45, 0x3CA2, 0x2C83, 0x1CE0, 0x0CC1,
     0xEF1F, 0xFF3E, 0xCF5D, 0xDF7C, 0xAF9B, 0xBFBA, 0x8FD9, 0x9FF8,
     0x6E17, 0x7E36, 0x4E55, 0x5E74, 0x2E93, 0x3EB2, 0x0ED1, 0x1EF0]"

section \<open>Sums\<close>

fun crc8_loop :: "nat \<Rightarrow> u8 \<Rightarrow> u8 list \<Rightarrow> u8 option" where
  "crc8_loop 0 crc data = Some crc"
| "crc8_loop (Suc len) crc [] = None"
| "crc8_loop (Suc len) crc (b # data) = crc8_loop len (Crc8Table ! unat (crc XOR b)) data"

definition crc8 :: "u8 list \<Rightarrow> int \<Rightarrow> u8 option" where
  "crc8 data len = (if len < 0 then None else crc8_loop (nat len) 0xFF data)"

fun crc16_loop :: "nat \<Rightarrow> u16 \<Rightarrow> u8 list \<Rightarrow> u16 option" where
  "crc16_loop 0 crc data = Some crc"
| "crc16_loop (Suc len) crc [] = None"
| "crc16_loop (Suc len) crc (b # data) =
     crc16_loop len (push_bit 8 crc XOR Crc16Table ! unat (drop_bit 8 crc XOR ucast b)) data"

definition crc16 :: "u8 list \<Rightarrow> int \<Rightarrow> u16 option" where
  "crc16 data len = (if len < 0 then None else crc16_loop (nat len) 0xFFFF data)"

definition calcCRC :: "u8 list \<Rightarrow> u8" where
  "calcCRC aForCrcCount = (if length aForCrcCount \<le> 12 then fold (\<lambda>b c. c + b) aForCrcCount 0 + 1 else 0)"

section \<open>The polynomials\<close>

definition poly_step :: "'a::len word \<Rightarrow> 'a word \<Rightarrow> 'a word" where
  "poly_step g c = (if bit c (LENGTH('a) - 1) then push_bit 1 c XOR g else push_bit 1 c)"

definition poly8 :: "u8 \<Rightarrow> u8" where
  "poly8 c = (poly_step 0x31 ^^ 8) c"

definition poly16 :: "u16 \<Rightarrow> u16" where
  "poly16 c = (poly_step 0x1021 ^^ 8) c"

text \<open>Both are linear, so a table grows by doubling.\<close>

lemma poly_step_xor: "poly_step g (a XOR b) = poly_step g a XOR poly_step g b"
  by (simp add: poly_step_def bit_xor_iff push_bit_xor ac_simps)

lemma poly_steps_xor: "(poly_step g ^^ k) (a XOR b) = (poly_step g ^^ k) a XOR (poly_step g ^^ k) b"
  by (induction k arbitrary: a b) (simp_all add: poly_step_xor)

lemma high_bit_xor:
  assumes "n < 2 ^ k"
  shows "2 ^ k + n = 2 ^ k XOR (n :: nat)"
proof -
  have "2 ^ k AND n = 0"
  proof (rule bit_eqI)
    have "\<not> bit n k" using assms by (simp add: bit_iff_odd)
    then show "bit (2 ^ k AND n) i = bit 0 i" for i by (auto simp: bit_and_iff bit_exp_iff)
  qed
  then show ?thesis by (rule disjunctive_add_eq_xor)
qed

lemma table_doubles:
  fixes p :: "'a::len word \<Rightarrow> 'a word"
  assumes "\<And>a b. p (a XOR b) = p a XOR p b"
  shows "map (\<lambda>n. p (word_of_nat n)) [0..<2 ^ Suc k]
    = map (\<lambda>n. p (word_of_nat n)) [0..<2 ^ k] @ map (\<lambda>w. p (word_of_nat (2 ^ k)) XOR w) (map (\<lambda>n. p (word_of_nat n)) [0..<2 ^ k])"
proof -
  have "[0..<2 ^ Suc k] = [0..<2 ^ k] @ map (\<lambda>n. 2 ^ k + n) [0..<2 ^ k]"
    using upt_add_eq_append [of 0 "2 ^ k" "2 ^ k"] map_add_upt [of "2 ^ k" "2 ^ k"] by (simp add: mult_2 add.commute)
  moreover have "p (word_of_nat (2 ^ k + n)) = p (word_of_nat (2 ^ k)) XOR p (word_of_nat n)" if "n < 2 ^ k" for n
    unfolding high_bit_xor [OF that] of_nat_xor_eq assms ..
  ultimately show ?thesis by simp
qed

lemma first_entry: "map (\<lambda>n. p (word_of_nat n)) [0..<2 ^ 0] = [p 0]"
  by simp

lemma poly8_xor: "poly8 (a XOR b) = poly8 a XOR poly8 b"
  by (simp add: poly8_def poly_steps_xor)

lemma poly16_xor: "poly16 (a XOR b) = poly16 a XOR poly16 b"
  by (simp add: poly16_def poly_steps_xor)

lemma poly8_bits:
  "poly8 0 = 0" "poly8 1 = 0x31" "poly8 2 = 0x62" "poly8 4 = 0xC4" "poly8 8 = 0xB9" "poly8 16 = 0x43" "poly8 32 = 0x86"
  "poly8 64 = 0x3D" "poly8 128 = 0x7A"
  by code_simp+

lemma poly8_table: "Crc8Table = map (\<lambda>n. poly8 (word_of_nat n)) [0..<256]"
proof -
  note double = table_doubles [where p = poly8, OF poly8_xor]
  have 3: "map (\<lambda>n. poly8 (word_of_nat n)) [0..<2 ^ Suc (Suc (Suc 0))] = take 8 Crc8Table"
    by (simp only: double first_entry) (simp add: poly8_bits Crc8Table_def)
  have "map (\<lambda>n. poly8 (word_of_nat n)) [0..<2 ^ Suc (Suc (Suc (Suc (Suc (Suc (Suc (Suc 0)))))))] = Crc8Table"
    by (simp only: double first_entry) (simp add: poly8_bits Crc8Table_def)
  then show ?thesis by simp
qed

lemma poly16_bits:
  "poly16 0 = 0" "poly16 0x100 = 0x1021" "poly16 0x200 = 0x2042" "poly16 0x400 = 0x4084" "poly16 0x800 = 0x8108"
  "poly16 0x1000 = 0x1231" "poly16 0x2000 = 0x2462" "poly16 0x4000 = 0x48C4" "poly16 0x8000 = 0x9188"
  by code_simp+

lemma poly16_table: "Crc16Table = map (\<lambda>n. poly16 (push_bit 8 (word_of_nat n))) [0..<256]"
proof -
  have "poly16 (push_bit 8 (a XOR b)) = poly16 (push_bit 8 a) XOR poly16 (push_bit 8 b)" for a b
    by (simp add: push_bit_xor poly16_xor)
  note double = table_doubles [where p = "\<lambda>w. poly16 (push_bit 8 w)", OF this]
  have "map (\<lambda>n. poly16 (push_bit 8 (word_of_nat n))) [0..<2 ^ Suc (Suc (Suc (Suc (Suc (Suc (Suc (Suc 0)))))))] = Crc16Table"
    by (simp only: double first_entry [of "\<lambda>w. poly16 (push_bit 8 w)"]) (simp add: poly16_bits Crc16Table_def)
  then show ?thesis by simp
qed

lemma bit_push_word: "bit (push_bit m a) n \<longleftrightarrow> m \<le> n \<and> n < LENGTH('a) \<and> bit (a :: 'a::len word) (n - m)"
  by (simp add: bit_push_bit_iff)

lemma poly_step_0 [simp]: "poly_step g 0 = 0"
  by (simp add: poly_step_def)

lemma poly_step_eq_0:
  assumes "odd g"
  shows "poly_step g x = 0 \<longleftrightarrow> x = (0 :: 'a::len word)"
proof
  assume z: "poly_step g x = 0"
  show "x = 0"
  proof (cases "bit x (LENGTH('a) - 1)")
    case True
    with z have "push_bit 1 x XOR g = 0" by (simp add: poly_step_def)
    moreover have "odd (push_bit 1 x XOR g)" using assms by (simp add: even_xor_iff)
    ultimately show ?thesis by simp
  next
    case False
    with z have z: "push_bit 1 x = 0" by (simp add: poly_step_def)
    have "\<not> bit x n" if "Suc n < LENGTH('a)" for n
      using that arg_cong [OF z, of "\<lambda>w. bit w (Suc n)"] by (simp only: bit_push_word) simp
    with False show ?thesis by (intro bit_word_eqI) (metis Suc_lessI bit_0_eq bot_apply bot_bool_def diff_Suc_1)
  qed
qed simp

lemma poly_step_inject:
  assumes "odd g"
  shows "poly_step g x = poly_step g y \<longleftrightarrow> x = (y :: 'a::len word)"
proof -
  have "poly_step g x = poly_step g y \<longleftrightarrow> poly_step g (x XOR y) = 0" unfolding poly_step_xor by (metis xor_self_eq xor.assoc xor.left_neutral)
  then show ?thesis unfolding poly_step_eq_0 [OF assms] by (metis xor_self_eq xor.assoc xor.left_neutral)
qed

lemma poly_steps_inject:
  assumes "odd g"
  shows "(poly_step g ^^ k) x = (poly_step g ^^ k) y \<longleftrightarrow> x = (y :: 'a::len word)"
  by (induction k arbitrary: x y) (simp_all add: poly_step_inject [OF assms])

lemma poly8_inject: "poly8 x = poly8 y \<longleftrightarrow> x = y"
  unfolding poly8_def by (rule poly_steps_inject) simp

lemma poly16_inject: "poly16 x = poly16 y \<longleftrightarrow> x = y"
  unfolding poly16_def by (rule poly_steps_inject) simp

text \<open>Where no bit is shifted out, steps shift.\<close>

lemma poly_steps_shift:
  assumes "\<And>n. bit x n \<Longrightarrow> n + k < LENGTH('a)"
  shows "(poly_step g ^^ k) x = push_bit k (x :: 'a::len word)"
  using assms
proof (induction k)
  case (Suc k)
  have "\<not> bit (push_bit k x) (LENGTH('a) - 1)"
  proof
    assume "bit (push_bit k x) (LENGTH('a) - 1)"
    then have "k \<le> LENGTH('a) - 1" "bit x (LENGTH('a) - 1 - k)" by (simp_all only: bit_push_word)
    with Suc.prems [of "LENGTH('a) - 1 - k"] show False by simp
  qed
  then have "poly_step g (push_bit k x) = push_bit 1 (push_bit k x)" by (simp only: poly_step_def if_False)
  moreover have "(poly_step g ^^ k) x = push_bit k x"
  proof (rule Suc.IH)
    show "n + k < LENGTH('a)" if "bit x n" for n using Suc.prems [OF that] by simp
  qed
  ultimately show ?case by (simp only: funpow.simps comp_apply push_bit_push_bit plus_1_eq_Suc)
qed simp

lemma poly16_low: "poly16 (ucast (b :: u8)) = push_bit 8 (ucast b)"
  unfolding poly16_def by (rule poly_steps_shift) (auto simp: bit_ucast_iff dest: bit_imp_le_length)

lemma poly16_take: "poly16 (take_bit 8 c) = push_bit 8 c"
proof -
  have "poly16 (take_bit 8 c) = push_bit 8 (take_bit 8 c)"
    unfolding poly16_def by (rule poly_steps_shift) (auto simp: bit_take_bit_iff)
  also have "\<dots> = push_bit 8 c" by (rule bit_word_eqI) (auto simp: bit_push_word bit_take_bit_iff)
  finally show ?thesis .
qed

section \<open>The sums as polynomials\<close>

definition crc8_step :: "u8 \<Rightarrow> u8 \<Rightarrow> u8" where
  "crc8_step b c = poly8 (c XOR b)"

definition crc16_step :: "u8 \<Rightarrow> u16 \<Rightarrow> u16" where
  "crc16_step b c = poly16 (c XOR push_bit 8 (ucast b))"

lemma table8_entry: "Crc8Table ! unat (b :: u8) = poly8 b"
proof -
  have "unat b < 256" using unsigned_less [of b, where ?'a = nat] by simp
  then show ?thesis by (simp add: poly8_table)
qed

lemma table16_entry: "Crc16Table ! unat (drop_bit 8 c XOR ucast b) = poly16 (push_bit 8 (drop_bit 8 c XOR ucast (b :: u8)))"
proof -
  have "drop_bit 8 c XOR ucast b = ucast (ucast (drop_bit 8 c) XOR b)"
    by (rule bit_word_eqI) (auto simp: bit_simps dest: bit_imp_le_length)
  moreover have "unat (ucast (w :: u8) :: u16) < 256" for w
    using unsigned_less [of w, where ?'a = nat] by (simp add: unsigned_ucast_eq take_bit_nat_eq_self)
  ultimately have "unat (drop_bit 8 c XOR ucast b) < 256" by metis
  then show ?thesis by (simp add: poly16_table)
qed

lemma crc16_table_step: "push_bit 8 c XOR Crc16Table ! unat (drop_bit 8 c XOR ucast b) = crc16_step b c"
proof -
  have "c = take_bit 8 c XOR push_bit 8 (drop_bit 8 c)"
    by (rule bit_word_eqI) (auto simp: bit_simps)
  then have "crc16_step b c = poly16 (take_bit 8 c) XOR poly16 (push_bit 8 (drop_bit 8 c) XOR push_bit 8 (ucast b))"
    unfolding crc16_step_def poly16_xor [symmetric] by (metis xor.assoc)
  then show ?thesis by (simp add: poly16_take table16_entry push_bit_xor)
qed

lemma crc8_table_step: "Crc8Table ! unat (c XOR b) = crc8_step b c"
  by (simp add: table8_entry crc8_step_def)

lemma crc8_loop_fold:
  "crc8_loop n crc data = (if n \<le> length data then Some (fold crc8_step (take n data) crc) else None)"
  by (induction n crc data rule: crc8_loop.induct) (simp_all add: crc8_table_step)

lemma crc16_loop_fold:
  "crc16_loop n crc data = (if n \<le> length data then Some (fold crc16_step (take n data) crc) else None)"
  by (induction n crc data rule: crc16_loop.induct) (simp_all add: crc16_table_step)

text \<open>
  C27: The table driven check sums are the division of the data, bit by bit, by the polynomials
  \<open>0x31\<close> and \<open>0x1021\<close> with all bits set at the start, over exactly \<open>len\<close> bytes: the two tables have no
  wrong entry. A length that is negative or beyond the data makes them read outside of the buffer.
\<close>
theorem crcs_are_the_polynomials:
  "crc8 data len = (if 0 \<le> len \<and> len \<le> int (length data)
      then Some (fold (\<lambda>b c. (poly_step 0x31 ^^ 8) (c XOR b)) (take (nat len) data) 0xFF) else None)
    \<and> crc16 data len = (if 0 \<le> len \<and> len \<le> int (length data)
      then Some (fold (\<lambda>b c. (poly_step 0x1021 ^^ 8) (c XOR push_bit 8 (ucast b))) (take (nat len) data) 0xFFFF) else None)"
proof -
  have "crc8_step = (\<lambda>b c. (poly_step 0x31 ^^ 8) (c XOR b))" by (simp add: fun_eq_iff crc8_step_def poly8_def)
  moreover have "crc16_step = (\<lambda>b c. (poly_step 0x1021 ^^ 8) (c XOR push_bit 8 (ucast b)))"
    by (simp add: fun_eq_iff crc16_step_def poly16_def)
  ultimately show ?thesis
    unfolding crc8_def crc16_def crc8_loop_fold crc16_loop_fold by (simp add: nat_le_iff)
qed

section \<open>Errors\<close>

lemma xor_same_left: "a XOR b = a XOR c \<longleftrightarrow> b = (c :: 'a::len word)"
  by (auto simp: bit_eq_iff bit_xor_iff)

lemma xor_same_right: "b XOR a = c XOR a \<longleftrightarrow> b = (c :: 'a::len word)"
  by (auto simp: bit_eq_iff bit_xor_iff)

lemma xor_is_0: "a XOR b = 0 \<longleftrightarrow> a = (b :: 'a::len word)"
  by (auto simp: bit_eq_iff bit_xor_iff)

lemma xor_exchange: "a XOR b = c XOR d \<longleftrightarrow> a XOR c = b XOR (d :: 'a::len word)"
  by (auto simp: bit_eq_iff bit_xor_iff)

lemma crc8_step_inject: "crc8_step b c = crc8_step b c' \<longleftrightarrow> c = c'"
  by (simp add: crc8_step_def poly8_inject xor_same_right)

lemma crc16_step_inject: "crc16_step b c = crc16_step b c' \<longleftrightarrow> c = c'"
  by (simp add: crc16_step_def poly16_inject xor_same_right)

lemma crc8_fold_inject: "fold crc8_step ys c = fold crc8_step ys c' \<longleftrightarrow> c = c'"
  by (induction ys arbitrary: c c') (simp_all add: crc8_step_inject)

lemma crc16_fold_inject: "fold crc16_step ys c = fold crc16_step ys c' \<longleftrightarrow> c = c'"
  by (induction ys arbitrary: c c') (simp_all add: crc16_step_inject)

lemma crc8_byte: "crc8_step a c = crc8_step b c \<longleftrightarrow> a = b"
  by (simp add: crc8_step_def poly8_inject xor_same_left)

lemma high_low_disjoint: "push_bit 8 (ucast (a :: u8)) = (ucast (b :: u8) :: u16) \<longleftrightarrow> a = 0 \<and> b = 0"
proof
  assume eq: "push_bit 8 (ucast a) = (ucast b :: u16)"
  have bits: "bit (push_bit 8 (ucast a) :: u16) n = bit (ucast b :: u16) n" for n by (simp only: eq)
  have "\<not> bit a n" for n
    using bits [of "n + 8"] by (auto simp: bit_push_word bit_ucast_iff dest: bit_imp_le_length)
  moreover have "\<not> bit b n" for n
    using bits [of n] by (auto simp: bit_push_word bit_ucast_iff dest: bit_imp_le_length)
  ultimately show "a = 0 \<and> b = 0" by (simp add: bit_eq_iff)
qed simp

lemma crc16_two_bytes: "crc16_step b (crc16_step a c) = crc16_step b' (crc16_step a' c) \<longleftrightarrow> a = a' \<and> b = b'"
proof -
  let ?d = "a XOR a'" and ?e = "b XOR b'"
  have ucast_xor: "(ucast u XOR ucast v :: u16) = ucast (u XOR v)" for u v :: u8
    by (rule bit_word_eqI) (simp add: bit_ucast_iff bit_xor_iff)
  have "crc16_step b (crc16_step a c) = crc16_step b' (crc16_step a' c)
      \<longleftrightarrow> crc16_step a c XOR crc16_step a' c = push_bit 8 (ucast ?e)"
    unfolding crc16_step_def [of b] crc16_step_def [of b'] poly16_inject
    by (subst xor_exchange) (simp only: ucast_xor [symmetric] push_bit_xor)
  also have "crc16_step a c XOR crc16_step a' c = poly16 (push_bit 8 (ucast ?d))"
  proof -
    have "(c XOR x) XOR (c XOR y) = x XOR y" for x y :: u16 by (auto simp: bit_eq_iff bit_xor_iff)
    then show ?thesis by (simp only: crc16_step_def poly16_xor [symmetric] ucast_xor [symmetric] push_bit_xor)
  qed
  also have "\<dots> = push_bit 8 (ucast ?e) \<longleftrightarrow> push_bit 8 (ucast ?d) = (ucast ?e :: u16)"
    unfolding poly16_low [symmetric] poly16_inject ..
  finally show ?thesis by (simp add: high_low_disjoint xor_is_0)
qed

lemma crc8_append: "crc8 (xs @ ys) (int (length (xs @ ys))) = Some (fold crc8_step ys (fold crc8_step xs 0xFF))"
  by (simp add: crc8_def crc8_loop_fold nat_int_add)

lemma crc16_append: "crc16 (xs @ ys) (int (length (xs @ ys))) = Some (fold crc16_step ys (fold crc16_step xs 0xFFFF))"
  by (simp add: crc16_def crc16_loop_fold nat_int_add)

text \<open>
  What the check sums detect: \<open>crc8\<close> tells any two data apart that differ in one byte, \<open>crc16\<close> any
  two that differ in two adjacent bytes, wherever they stand and whatever surrounds them.
\<close>
theorem crcs_detect_changed_bytes:
  "(crc8 (xs @ [a] @ ys) (int (length (xs @ [a] @ ys))) = crc8 (xs @ [b] @ ys) (int (length (xs @ [b] @ ys))) \<longleftrightarrow> a = b)
    \<and> (crc16 (xs @ [a, c] @ ys) (int (length (xs @ [a, c] @ ys))) = crc16 (xs @ [b, d] @ ys) (int (length (xs @ [b, d] @ ys)))
      \<longleftrightarrow> a = b \<and> c = d)"
  unfolding crc8_append crc16_append
  by (simp add: crc8_fold_inject crc16_fold_inject crc8_byte crc16_two_bytes)

end
