(* ===== verification/TreeModel.thy ===== *)
theory TreeModel
  imports QtContainers
begin

text \<open>
  \<open>TreeItem\<close> and \<open>TreeModelBase\<close> (\<open>CISCommonLib/src/TreeModel\<close>): a tree of items behind the item model
  interface of Qt. A pointer to an item is its path from the root, the list of its rows; the pointers in
  a model index are those of the tree the index was made for. The null pointer of an invalid index is
  \<open>None\<close>; where the code follows it, the result is \<open>None\<close> as well.
\<close>

section \<open>Items\<close>

datatype qvariant = NoValue | ValInt int | ValText string | ValSize int int

record base_item =
  bi_id :: int
  bi_pid :: int
  bi_name :: string
  bi_value :: qvariant
  bi_state :: int
  bi_isEditable :: bool

definition new_item :: base_item where
  "new_item = \<lparr>bi_id = 0, bi_pid = 0, bi_name = [], bi_value = NoValue, bi_state = 0, bi_isEditable = False\<rparr>"

datatype tree_item = Item (item_data: base_item) (item_children: "tree_item list")

definition appendChild :: "tree_item \<Rightarrow> tree_item \<Rightarrow> tree_item" where
  "appendChild c t = Item (item_data t) (item_children t @ [c])"

definition child :: "int \<Rightarrow> tree_item \<Rightarrow> tree_item option" where
  "child row t = (if 0 \<le> row \<and> row < int (length (item_children t)) then Some (item_children t ! nat row) else None)"

definition childCount :: "tree_item \<Rightarrow> int" where
  "childCount t = int (length (item_children t))"

definition updateItem :: "base_item \<Rightarrow> tree_item \<Rightarrow> tree_item" where
  "updateItem d t = Item d (item_children t)"

definition removeChildren :: "int \<Rightarrow> int \<Rightarrow> tree_item \<Rightarrow> bool \<times> tree_item" where
  "removeChildren position count t =
     (let cs = item_children t
      in if position < 0 \<or> position + count > int (length cs) then (False, t)
         else (True, Item (item_data t) (take (nat position) cs @ drop (nat position + nat count) cs)))"

text \<open>\<open>removeChild\<close> takes the pointer of a child; \<open>i\<close> is its row.\<close>

definition removeChild :: "nat \<Rightarrow> tree_item \<Rightarrow> tree_item" where
  "removeChild i t = Item (item_data t) (remove_at i (item_children t))"

section \<open>Pointers\<close>

type_synonym path = "nat list"

fun item_at :: "path \<Rightarrow> tree_item \<Rightarrow> tree_item option" where
  "item_at [] t = Some t"
| "item_at (i # p) t = (if i < length (item_children t) then item_at p (item_children t ! i) else None)"

fun change_at :: "path \<Rightarrow> (tree_item \<Rightarrow> tree_item) \<Rightarrow> tree_item \<Rightarrow> tree_item" where
  "change_at [] f t = f t"
| "change_at (i # p) f t = Item (item_data t)
     (if i < length (item_children t)
      then (item_children t)[i := change_at p f (item_children t ! i)] else item_children t)"

text \<open>\<open>TreeItem::parent\<close> and \<open>TreeItem::row\<close>; the root has no parent and row 0.\<close>

definition item_parent :: "path \<Rightarrow> path option" where
  "item_parent p = (if p = [] then None else Some (butlast p))"

definition item_row :: "path \<Rightarrow> int" where
  "item_row p = (if p = [] then 0 else int (last p))"

section \<open>The model\<close>

record tree_model =
  tr_root :: tree_item
  tr_headers :: "string list"

definition tr_init :: "string list \<Rightarrow> tree_model" where
  "tr_init headers = \<lparr>tr_root = Item new_item [], tr_headers = headers\<rparr>"

text \<open>A model index: row, column and pointer; \<open>None\<close> is the invalid one.\<close>

type_synonym model_index = "(int \<times> int \<times> path) option"

datatype item_role = DisplayRole | EditRole | CheckStateRole | SizeHintRole | OtherRole

datatype orientation = Horizontal | Vertical

datatype item_flag = ItemIsEnabled | ItemIsSelectable | ItemIsEditable

datatype model_event =
    LayoutAboutToBeChanged
  | LayoutChanged
  | ItemAdded
  | DataChanged model_index model_index
  | DataChangedRange "int \<times> int" "int \<times> int"

definition columnCount :: "tree_model \<Rightarrow> int" where
  "columnCount m = int (length (tr_headers m))"

definition rowCount :: "tree_model \<Rightarrow> model_index \<Rightarrow> int" where
  "rowCount m parent =
     (case (case parent of None \<Rightarrow> Some (tr_root m) | Some (r, c, p) \<Rightarrow> item_at p (tr_root m)) of
        None \<Rightarrow> 0
      | Some t \<Rightarrow> childCount t)"

text \<open>\<open>QAbstractItemModel::hasIndex\<close>.\<close>

definition hasIndex :: "tree_model \<Rightarrow> int \<Rightarrow> int \<Rightarrow> model_index \<Rightarrow> bool" where
  "hasIndex m row column parent \<longleftrightarrow> 0 \<le> row \<and> 0 \<le> column \<and> row < rowCount m parent \<and> column < columnCount m"

definition parent_path :: "model_index \<Rightarrow> path" where
  "parent_path parent = (case parent of None \<Rightarrow> [] | Some (r, c, p) \<Rightarrow> p)"

definition tr_index :: "tree_model \<Rightarrow> int \<Rightarrow> int \<Rightarrow> model_index \<Rightarrow> model_index" where
  "tr_index m row column parent =
     (if \<not> hasIndex m row column parent then None
      else case item_at (parent_path parent) (tr_root m) of
             None \<Rightarrow> None
           | Some t \<Rightarrow> (case child row t of
                          None \<Rightarrow> None
                        | Some c \<Rightarrow> Some (row, column, parent_path parent @ [nat row])))"

text \<open>The parent of an index is \<open>None\<close> when the pointer of the root is followed up.\<close>

definition tr_parent :: "model_index \<Rightarrow> model_index option" where
  "tr_parent i =
     (case i of
        None \<Rightarrow> Some None
      | Some (r, c, p) \<Rightarrow>
          (case item_parent p of
             None \<Rightarrow> None
           | Some q \<Rightarrow> Some (if q = [] then None else Some (item_row q, 0, q))))"

definition tr_data :: "tree_model \<Rightarrow> model_index \<Rightarrow> item_role \<Rightarrow> qvariant" where
  "tr_data m i role =
     (case i of
        None \<Rightarrow> NoValue
      | Some (r, c, p) \<Rightarrow>
          (case item_at p (tr_root m) of
             None \<Rightarrow> NoValue
           | Some t \<Rightarrow>
               (case role of
                  DisplayRole \<Rightarrow> if c = 0 then ValText (bi_name (item_data t))
                                 else if c = 1 then bi_value (item_data t) else NoValue
                | SizeHintRole \<Rightarrow> ValSize 150 18
                | CheckStateRole \<Rightarrow> NoValue
                | EditRole \<Rightarrow> if c = 0 then ValText (bi_name (item_data t))
                              else if c = 1 then bi_value (item_data t) else NoValue
                | OtherRole \<Rightarrow> NoValue)))"

definition tr_flags :: "tree_model \<Rightarrow> model_index \<Rightarrow> item_flag set" where
  "tr_flags m i =
     (case i of
        None \<Rightarrow> {}
      | Some (r, c, p) \<Rightarrow>
          (case item_at p (tr_root m) of
             None \<Rightarrow> {}
           | Some t \<Rightarrow> {ItemIsEnabled, ItemIsSelectable}
               \<union> (if c \<noteq> 0 \<and> bi_isEditable (item_data t) then {ItemIsEditable} else {})))"

definition headerData :: "tree_model \<Rightarrow> int \<Rightarrow> orientation \<Rightarrow> item_role \<Rightarrow> qvariant option" where
  "headerData m section orientation role =
     (if \<not> (orientation = Horizontal \<and> role = DisplayRole) then Some NoValue
      else if section > int (length (tr_headers m)) then Some NoValue
      else if 0 \<le> section \<and> section < int (length (tr_headers m)) then Some (ValText (tr_headers m ! nat section))
      else None)"

definition removeRows :: "tree_model \<Rightarrow> int \<Rightarrow> int \<Rightarrow> model_index \<Rightarrow> (bool \<times> tree_model) option" where
  "removeRows m position rows parent =
     (case parent of
        None \<Rightarrow> None
      | Some (r, c, p) \<Rightarrow>
          (case item_at p (tr_root m) of
             None \<Rightarrow> None
           | Some t \<Rightarrow>
               let (success, t) = removeChildren position rows t
               in Some (success, m\<lparr>tr_root := change_at p (\<lambda>_. t) (tr_root m)\<rparr>)))"

text \<open>\<open>updateModelData\<close> is overridden by the models; it says whether the edit was accepted.\<close>

definition setData :: "(tree_item \<Rightarrow> bool) \<Rightarrow> tree_model \<Rightarrow> model_index \<Rightarrow> qvariant \<Rightarrow> item_role \<Rightarrow>
    (bool \<times> model_event list \<times> tree_model) option" where
  "setData updateModelData m i v role =
     (if role \<noteq> EditRole \<or> v = NoValue then Some (False, [], m)
      else case i of
             None \<Rightarrow> None
           | Some (r, c, p) \<Rightarrow>
               (case item_at p (tr_root m) of
                  None \<Rightarrow> None
                | Some t \<Rightarrow>
                    let t = updateItem ((item_data t)\<lparr>bi_value := v\<rparr>) t;
                        m = m\<lparr>tr_root := change_at p (\<lambda>_. t) (tr_root m)\<rparr>
                    in if updateModelData t then Some (True, [DataChanged i i], m) else Some (False, [], m)))"

definition refreshModel :: "tree_model \<Rightarrow> model_event list" where
  "refreshModel m =
     (let cs = item_children (tr_root m); n = childCount (tr_root m) + sum_list (map childCount cs)
      in [DataChangedRange (0, 0) (n, columnCount m - 1)])"

section \<open>Indexes\<close>

lemma item_at_append: "item_at (p @ q) t = (case item_at p t of None \<Rightarrow> None | Some u \<Rightarrow> item_at q u)"
  by (induction p arbitrary: t) auto

lemma item_at_change: "item_at p t = Some u \<Longrightarrow> item_at p (change_at p f t) = Some (f u)"
  by (induction p arbitrary: t) (auto split: if_splits)

text \<open>The indexes a view can get hold of: it starts with the invalid one and asks for children.\<close>

inductive reachable_index :: "tree_model \<Rightarrow> model_index \<Rightarrow> bool" for m where
  root: "reachable_index m None"
| step: "reachable_index m i \<Longrightarrow> hasIndex m r c i \<Longrightarrow> reachable_index m (tr_index m r c i)"

inductive_cases reachable_SomeE: "reachable_index m (Some x)"

lemma reachable_item: "reachable_index m i \<Longrightarrow> \<exists>t. item_at (parent_path i) (tr_root m) = Some t"
proof (induction rule: reachable_index.induct)
  case (step i r c)
  then obtain t where t: "item_at (parent_path i) (tr_root m) = Some t" by blast
  then show ?case
    by (auto simp: tr_index_def parent_path_def child_def item_at_append split: option.splits)
qed (simp add: parent_path_def)

lemma rowCount_path: "item_at (parent_path i) (tr_root m) = Some t \<Longrightarrow> rowCount m i = childCount t"
  by (auto simp: rowCount_def parent_path_def split: option.splits)

lemma tr_index_Some:
  assumes "reachable_index m i" and "hasIndex m r c i"
  shows "tr_index m r c i = Some (r, c, parent_path i @ [nat r])" and "0 \<le> r"
proof -
  obtain t where t: "item_at (parent_path i) (tr_root m) = Some t" using reachable_item [OF assms(1)] by blast
  with assms(2) have r: "0 \<le> r" "r < childCount t" using rowCount_path [OF t] by (simp_all add: hasIndex_def)
  with t assms(2) show "tr_index m r c i = Some (r, c, parent_path i @ [nat r])" "0 \<le> r"
    by (simp_all add: tr_index_def child_def childCount_def)
qed

text \<open>The same index in the first column, where children hang.\<close>

definition first_column :: "model_index \<Rightarrow> model_index" where
  "first_column i = (case i of None \<Rightarrow> None | Some (r, c, p) \<Rightarrow> Some (r, 0, p))"

lemma parent_path_first [simp]: "parent_path (first_column i) = parent_path i"
  by (cases i) (auto simp: parent_path_def first_column_def)

lemma reachable_shape:
  assumes "reachable_index m i" and "i = Some (r, c, p)"
  shows "p \<noteq> [] \<and> r = item_row p"
  using assms(1)
proof (cases rule: reachable_index.cases)
  case (step j r' c')
  from tr_index_Some [OF step(2,3)] assms(2) step(1) show ?thesis by (auto simp: item_row_def)
qed (use assms(2) in simp)

lemma parent_of_index:
  assumes "reachable_index m i" and "hasIndex m r c i"
  shows "tr_parent (tr_index m r c i) = Some (first_column i)"
proof -
  note ix = tr_index_Some [OF assms]
  show ?thesis
  proof (cases i)
    case None
    then show ?thesis unfolding ix(1) by (simp add: tr_parent_def item_parent_def parent_path_def first_column_def)
  next
    case (Some x)
    obtain r' c' p where x: "x = (r', c', p)" by (cases x) auto
    with reachable_shape [OF assms(1)] Some have "p \<noteq> []" "r' = item_row p" by blast+
    then show ?thesis
      unfolding ix(1) by (simp add: Some x tr_parent_def item_parent_def parent_path_def first_column_def)
  qed
qed

text \<open>
  C26: The tree model keeps the rules of Qt's item models for every index a view can get hold of: the
  parent of the index of a child is the index the child was asked of (in the first column), its row is
  the row it was asked for, it shows the name of the child in the first column, and there is an index
  exactly for the rows and columns that are counted.
\<close>
theorem tree_indexes_are_consistent:
  assumes "reachable_index m i"
  shows "(tr_index m r c i \<noteq> None \<longleftrightarrow> 0 \<le> r \<and> r < rowCount m i \<and> 0 \<le> c \<and> c < columnCount m)
    \<and> (tr_index m r c i \<noteq> None \<longrightarrow> tr_parent (tr_index m r c i) = Some (first_column i)
        \<and> (\<exists>p t u. tr_index m r c i = Some (r, c, p) \<and> item_at (parent_path i) (tr_root m) = Some t
            \<and> child r t = Some u \<and> item_at p (tr_root m) = Some u \<and> rowCount m (tr_index m r c i) = childCount u
            \<and> tr_data m (tr_index m r 0 i) DisplayRole = ValText (bi_name (item_data u))))"
proof (cases "hasIndex m r c i")
  case False
  then show ?thesis by (auto simp: tr_index_def hasIndex_def)
next
  case True
  note ix = tr_index_Some [OF assms True]
  have c0: "hasIndex m r 0 i" using True by (auto simp: hasIndex_def)
  obtain t where t: "item_at (parent_path i) (tr_root m) = Some t" using reachable_item [OF assms] by blast
  have r: "r < childCount t" using True rowCount_path [OF t] by (simp add: hasIndex_def)
  let ?u = "item_children t ! nat r"
  have u: "child r t = Some ?u" "item_at (parent_path i @ [nat r]) (tr_root m) = Some ?u"
    using ix(2) r t by (simp_all add: child_def childCount_def item_at_append nat_less_iff)
  have rc: "rowCount m (Some (r, c, parent_path i @ [nat r])) = childCount ?u"
    by (rule rowCount_path) (simp add: parent_path_def [of "Some _"] u(2))
  have d: "tr_data m (tr_index m r 0 i) DisplayRole = ValText (bi_name (item_data ?u))"
    by (simp add: tr_index_Some(1) [OF assms c0] tr_data_def u(2))
  show ?thesis
    using parent_of_index [OF assms True] True t u rc d by (simp add: ix(1) hasIndex_def)
qed

definition small_tree :: tree_model where
  "small_tree = \<lparr>tr_root = Item new_item [Item (new_item\<lparr>bi_name := ''101''\<rparr>) [Item new_item []]], tr_headers = [''a'', ''b'']\<rparr>"

lemma tree_indexes_are_consistent_witness:
  "tr_index small_tree 0 1 (tr_index small_tree 0 0 None) \<noteq> None
   \<and> tr_parent (tr_index small_tree 0 1 (tr_index small_tree 0 0 None)) = Some (tr_index small_tree 0 0 None)"
proof -
  have "hasIndex small_tree 0 0 None" by (simp add: small_tree_def hasIndex_def rowCount_def columnCount_def childCount_def)
  from reachable_index.step [OF reachable_index.root this] tree_indexes_are_consistent
  have *: "reachable_index small_tree (tr_index small_tree 0 0 None)" by blast
  have "rowCount small_tree (tr_index small_tree 0 0 None) = 1 \<and> columnCount small_tree = 2
      \<and> first_column (tr_index small_tree 0 0 None) = tr_index small_tree 0 0 None"
    by (simp add: small_tree_def tr_index_def hasIndex_def rowCount_def columnCount_def childCount_def child_def
        parent_path_def first_column_def)
  with tree_indexes_are_consistent [OF *, of 0 1] show ?thesis by simp
qed

end
