(* ===== verification/UavTree.thy ===== *)
theory UavTree
  imports TreeModel KtrCoder
begin

text \<open>
  \<open>UavTreeModel\<close> (\<open>view/core/Tabs/Tree/UavTreeModel.cpp\<close>): the tree of the UAVs of one role, a listener
  of the UAV manager. A UAV is a child of the root, its sources are its children, and the coordinates
  are the children of a source. \<open>ov\<close> is what a conversion of an out of range double to \<open>int\<close> gives.
\<close>

section \<open>Names\<close>

definition LAT_PROPERTY_ID :: int where "LAT_PROPERTY_ID = 1"
definition LON_PROPERTY_ID :: int where "LON_PROPERTY_ID = 2"
definition ALT_PROPERTY_ID :: int where "ALT_PROPERTY_ID = 3"

definition UAV_AUTOPILOT_SOURCE :: u32 where "UAV_AUTOPILOT_SOURCE = 1"
definition UAV_SOLVER_AUTO_SOURCE :: u32 where "UAV_SOLVER_AUTO_SOURCE = 100"
definition UAV_SOLVER_MANUAL_SOURCE :: u32 where "UAV_SOLVER_MANUAL_SOURCE = 101"
definition UAV_SOLVER_SINGLE_1_SOURCE :: u32 where "UAV_SOLVER_SINGLE_1_SOURCE = 102"
definition UAV_SOLVER_SINGLE_2_SOURCE :: u32 where "UAV_SOLVER_SINGLE_2_SOURCE = 103"
definition UAV_SLICES_SOURCE :: u32 where "UAV_SLICES_SOURCE = 622"

lemmas source_types = UAV_AUTOPILOT_SOURCE_def UAV_SOLVER_AUTO_SOURCE_def UAV_SOLVER_MANUAL_SOURCE_def
  UAV_SOLVER_SINGLE_1_SOURCE_def UAV_SOLVER_SINGLE_2_SOURCE_def UAV_SLICES_SOURCE_def

record uav_tree = tree_model +
  ut_needRedraw :: bool
  ut_targetRole :: string

definition ut_init :: "string list \<Rightarrow> uav_tree" where
  "ut_init headers = \<lparr>tr_root = Item new_item [], tr_headers = headers, ut_needRedraw = False, ut_targetRole = OUR_UAV_ROLE\<rparr>"

definition setTargetRole :: "string \<Rightarrow> uav_tree \<Rightarrow> uav_tree" where
  "setTargetRole role t = t\<lparr>ut_targetRole := role\<rparr>"

text \<open>\<open>QString::toInt(&ok)\<close>: whether a name is a number, which the code takes for a UAV that is not historical.\<close>

definition isReal :: "string \<Rightarrow> bool" where
  "isReal name = (case integer (trimmed name) of None \<Rightarrow> False | Some i \<Rightarrow> - (2 ^ 31) \<le> i \<and> i < 2 ^ 31)"

section \<open>UAVs\<close>

definition coordinate_item :: "u32 \<Rightarrow> int \<Rightarrow> string \<Rightarrow> tree_item" where
  "coordinate_item uavId i name =
     Item \<lparr>bi_id = i, bi_pid = sint uavId, bi_name = name, bi_value = ValInt 0, bi_state = 0, bi_isEditable = False\<rparr> []"

definition source_item :: "u32 \<Rightarrow> string \<Rightarrow> u32 \<Rightarrow> tree_item" where
  "source_item sourceType name uavId =
     Item (new_item\<lparr>bi_id := sint sourceType, bi_name := name\<rparr>)
       ([coordinate_item uavId LAT_PROPERTY_ID ''lat'', coordinate_item uavId LON_PROPERTY_ID ''lon'']
        @ (if sourceType \<noteq> UAV_SLICES_SOURCE then [coordinate_item uavId ALT_PROPERTY_ID ''alt''] else []))"

definition addSourceNode :: "u32 \<Rightarrow> string \<Rightarrow> u32 \<Rightarrow> tree_item \<Rightarrow> tree_item" where
  "addSourceNode sourceType name uavId item = appendChild (source_item sourceType name uavId) item"

definition station_item :: "Uav \<Rightarrow> string \<Rightarrow> tree_item" where
  "station_item uav role =
     (let item = Item (new_item\<lparr>bi_id := sint (uav_uavId uav), bi_name := uav_name uav\<rparr>) []; i = uav_uavId uav
      in if role = OUR_UAV_ROLE
         then addSourceNode UAV_SLICES_SOURCE ''KTR'' i (addSourceNode UAV_AUTOPILOT_SOURCE ''Autopilot'' i item)
         else if role = ENEMY_UAV_ROLE
         then addSourceNode UAV_SOLVER_SINGLE_2_SOURCE ''Single mode: Point 2'' i
                (addSourceNode UAV_SOLVER_SINGLE_1_SOURCE ''Single mode: Point 1'' i
                  (addSourceNode UAV_SOLVER_MANUAL_SOURCE ''Manual mode'' i
                    (addSourceNode UAV_SOLVER_AUTO_SOURCE ''Auto mode'' i item)))
         else item)"

definition change_stations :: "(tree_item list \<Rightarrow> tree_item list) \<Rightarrow> uav_tree \<Rightarrow> uav_tree" where
  "change_stations f t = t\<lparr>tr_root := Item (item_data (tr_root t)) (f (item_children (tr_root t)))\<rparr>"

definition ut_onUavAdded :: "Uav \<Rightarrow> string \<Rightarrow> uav_tree \<Rightarrow> model_event list \<times> uav_tree" where
  "ut_onUavAdded uav uavRole t =
     (if uavRole \<noteq> ut_targetRole t then ([], t)
      else ([LayoutAboutToBeChanged, LayoutChanged, ItemAdded], change_stations (\<lambda>cs. cs @ [station_item uav uavRole]) t))"

text \<open>The first child with the id of the UAV whose name fits its kind.\<close>

fun station_row :: "Uav \<Rightarrow> tree_item list \<Rightarrow> nat option" where
  "station_row uav [] = None"
| "station_row uav (c # cs) =
     (if word_of_int (bi_id (item_data c)) \<noteq> uav_uavId uav \<or> uav_historical uav = isReal (bi_name (item_data c))
      then map_option Suc (station_row uav cs) else Some 0)"

definition ut_onUavRemoved :: "Uav \<Rightarrow> string \<Rightarrow> uav_tree \<Rightarrow> model_event list \<times> uav_tree" where
  "ut_onUavRemoved uav uavRole t =
     (if uavRole \<noteq> ut_targetRole t then ([], t)
      else case station_row uav (item_children (tr_root t)) of
             None \<Rightarrow> ([], t)
           | Some i \<Rightarrow> ([LayoutAboutToBeChanged, LayoutChanged], t\<lparr>tr_root := removeChild i (tr_root t)\<rparr>))"

section \<open>Samples\<close>

definition in_flight :: "UavInfo \<Rightarrow> bool" where
  "in_flight i \<longleftrightarrow> info_source i = UAV_SLICES_SOURCE \<or> d_less (Fin 0) (info_alt i)"

text \<open>The loop over the sources: the common state and the first source of the sample.\<close>

fun station_state :: "int \<Rightarrow> tree_item list \<Rightarrow> int" where
  "station_state s [] = s"
| "station_state s (c # cs) = station_state (if s = 0 \<and> bi_state (item_data c) = 1 then 1 else s) cs"

fun first_with_id :: "(int \<Rightarrow> bool) \<Rightarrow> tree_item list \<Rightarrow> nat option" where
  "first_with_id P [] = None"
| "first_with_id P (c # cs) = (if P (bi_id (item_data c)) then Some 0 else map_option Suc (first_with_id P cs))"

definition update_source :: "int \<Rightarrow> base_item \<Rightarrow> tree_item \<Rightarrow> tree_item" where
  "update_source s prop src =
     (let cs = item_children src
      in Item ((item_data src)\<lparr>bi_state := s\<rparr>)
           (case first_with_id (\<lambda>i. i = bi_id prop) cs of
              None \<Rightarrow> cs
            | Some j \<Rightarrow> cs[j := updateItem prop (cs ! j)]))"

definition update_station :: "UavInfo \<Rightarrow> base_item \<Rightarrow> tree_item \<Rightarrow> tree_item" where
  "update_station i prop station =
     (let d = item_data station; cs = item_children station
      in if bi_id d \<noteq> bi_pid prop then station
         else if info_historical i = isReal (bi_name d) then station
         else let sourceState = (if in_flight i then 1 else 0)
              in case first_with_id (\<lambda>j. word_of_int j = info_source i) cs of
                   None \<Rightarrow> station
                 | Some j \<Rightarrow> Item (d\<lparr>bi_state := station_state sourceState cs\<rparr>)
                              (cs[j := update_source sourceState prop (cs ! j)]))"

definition property_of :: "UavInfo \<Rightarrow> int \<Rightarrow> string \<Rightarrow> qvariant \<Rightarrow> base_item" where
  "property_of i propId name v =
     \<lparr>bi_id = propId, bi_pid = sint (info_uavId i), bi_name = name, bi_value = v, bi_state = 0, bi_isEditable = False\<rparr>"

definition onPropertyChanged :: "UavInfo \<Rightarrow> int \<Rightarrow> string \<Rightarrow> qvariant \<Rightarrow> uav_tree \<Rightarrow> uav_tree" where
  "onPropertyChanged i propId name v = change_stations (map (update_station i (property_of i propId name v)))"

definition to_int :: "(double \<Rightarrow> int) \<Rightarrow> double \<Rightarrow> int" where
  "to_int ov x = (case d_to_int x of None \<Rightarrow> ov x | Some i \<Rightarrow> i)"

definition ut_onUavInfoChanged :: "(double \<Rightarrow> int) \<Rightarrow> UavInfo \<Rightarrow> string \<Rightarrow> uav_tree \<Rightarrow> uav_tree" where
  "ut_onUavInfoChanged ov i uavRole t =
     (if uavRole \<noteq> ut_targetRole t then t
      else
        let t = onPropertyChanged i LAT_PROPERTY_ID ''lat'' (ValText (number_fixed 4 (info_lat i))) t;
            t = onPropertyChanged i LON_PROPERTY_ID ''lon'' (ValText (number_fixed 4 (info_lon i))) t;
            t = (if UAV_SLICES_SOURCE \<noteq> info_source i
                 then onPropertyChanged i ALT_PROPERTY_ID ''alt'' (ValText (number_int (to_int ov (info_alt i)))) t else t)
        in t\<lparr>ut_needRedraw := True\<rparr>)"

section \<open>The view\<close>

definition ut_updateData :: "uav_tree \<Rightarrow> model_event list \<times> uav_tree" where
  "ut_updateData t =
     (if ut_needRedraw t then (refreshModel (tree_model.truncate t), t\<lparr>ut_needRedraw := False\<rparr>) else ([], t))"

text \<open>\<open>Qt::Checked\<close> is 2, \<open>Qt::Unchecked\<close> is 0.\<close>

definition ut_data :: "uav_tree \<Rightarrow> model_index \<Rightarrow> item_role \<Rightarrow> qvariant" where
  "ut_data t i role =
     (case i of
        None \<Rightarrow> NoValue
      | Some (r, c, p) \<Rightarrow>
          (case item_at p (tr_root t) of
             None \<Rightarrow> NoValue
           | Some item \<Rightarrow>
               if role = CheckStateRole
               then (if bi_pid (item_data item) \<noteq> 0 \<or> c \<noteq> 0 then NoValue
                     else ValInt (if bi_state (item_data item) > 0 then 2 else 0))
               else tr_data (tree_model.truncate t) i role))"

definition ut_updateModelData :: "tree_item \<Rightarrow> bool" where
  "ut_updateModelData item = False"

end
