(* ===== verification/NiippControl.thy ===== *)
theory NiippControl
  imports UavTree NiippCoder TcpManager
begin

text \<open>
  The control of a NIIPP in the client: \<open>Niipp\<close> (\<open>view/core/NIIPP/Niipp.cpp\<close>), the model of the device,
  and \<open>NiippController\<close>, which is told of samples and of calls of the server. What the view shows is an
  input (\<open>niipp_view\<close>), what is asked of view, map and parent tab is the list of events. The controller
  is modelled from the call of \<open>appendView\<close> on. \<open>None\<close> stands for a read outside of the tables of zones.
\<close>

section \<open>State\<close>

definition m_zone :: "double list" where
  "m_zone = map Fin [1, 3 / 2, 2, 5 / 2, 3, 7 / 2, 4, 9 / 2, 5, 6, 7, 8, 9, 10, 11, 12, 14, 16, 18, 20, 22, 24, 28, 30]"

definition m_zoneDir :: "double list" where
  "m_zoneDir = map Fin [5 / 2, 3, 4, 5, 6, 7, 8, 9, 10, 11, 12, 14, 16, 18, 20, 22, 26, 29, 33, 37, 41, 47, 52, 57, 62, 68, 72, 76]"

datatype work_mode = Disabled | Radiation | Adduction | RoundView

record niipp =
  np_id :: int
  np_name :: string
  np_latlon :: point
  np_tab :: bool
  np_numberCommand :: string
  np_antenaType :: int
  np_widthAngle :: double
  np_modeIndex :: work_mode
  np_type :: int
  np_mode :: int
  np_antenaIndex :: int
  np_power :: int
  np_radiusSector :: double
  np_radiusCircle :: double
  np_angle :: double
  np_enable :: bool
  np_pointUvoda :: point
  np_pointBPLA :: point

definition new_niipp :: "int \<Rightarrow> string \<Rightarrow> point \<Rightarrow> bool \<Rightarrow> niipp" where
  "new_niipp i name latlon tab =
     \<lparr>np_id = i, np_name = name, np_latlon = latlon, np_tab = tab, np_numberCommand = ''0200'', np_antenaType = 0,
      np_widthAngle = Fin 25, np_modeIndex = Disabled, np_type = 0, np_mode = 0, np_antenaIndex = 0, np_power = 0,
      np_radiusSector = Fin 0, np_radiusCircle = Fin 0, np_angle = Fin 0, np_enable = False,
      np_pointUvoda = (Fin 0, Fin 0), np_pointBPLA = (Fin 0, Fin 0)\<rparr>"

text \<open>A command for the parent tab: its type and its data.\<close>

type_synonym command = "int \<times> stream"

definition COMMAND_SET_NIIPP_BPLA :: int where "COMMAND_SET_NIIPP_BPLA = 401"
definition COMMAND_GET_NIIPP_CONNECTION_STATUS :: int where "COMMAND_GET_NIIPP_CONNECTION_STATUS = 402"

text \<open>What the code takes from outside: the current date and time and conversions out of range.\<close>

record niipp_clock =
  nk_date :: int
  nk_time :: qtime
  nk_overflow :: "double \<Rightarrow> int"

section \<open>Commands\<close>

definition command_data :: "niipp_clock \<Rightarrow> string \<Rightarrow> int \<Rightarrow> int \<Rightarrow> int \<Rightarrow> niipp \<Rightarrow> stream" where
  "command_data k status alt direction zone n =
     [TokInt (np_id n), TokDate (nk_date k), TokTime (nk_time k), TokText status, TokPoint (np_pointBPLA n),
      TokText ''N'', TokText ''E'', TokInt alt, TokInt direction, TokInt zone,
      TokPoint (np_pointUvoda n), TokText ''N'', TokText ''E'']"

definition stopCommad :: "niipp_clock \<Rightarrow> niipp \<Rightarrow> command list \<times> niipp" where
  "stopCommad k n =
     (if \<not> np_tab n then ([], n)
      else ([(COMMAND_SET_NIIPP_BPLA, command_data k ''0300'' 0 0 0 n)], n\<lparr>np_enable := False\<rparr>))"

definition startCommand :: "niipp \<Rightarrow> niipp" where
  "startCommand n = n\<lparr>np_enable := True\<rparr>"

definition np_enableComplex :: "niipp_clock \<Rightarrow> bool \<Rightarrow> niipp \<Rightarrow> command list" where
  "np_enableComplex k state n =
     (if \<not> np_tab n then []
      else [(COMMAND_SET_NIIPP_BPLA, command_data k (if state then ''0000'' else ''0001'') 0 0 0 n)])"

definition command_code :: "niipp \<Rightarrow> string" where
  "command_code n =
     (if np_antenaIndex n = 1 then ''0100''
      else if np_mode n = 0 then ''0201'' else if np_mode n = 1 then ''0202''
      else if np_mode n = 2 then ''0204'' else ''0200'')"

text \<open>
  \<open>sendEvil\<close> takes its point by reference. The point may be the field \<open>m_pointBPLA\<close> of the object itself,
  and the field is written in two steps that read the point.
\<close>

datatype point_ref = Point point | PointBPLA

definition deref :: "niipp \<Rightarrow> point_ref \<Rightarrow> point" where
  "deref n r = (case r of Point p \<Rightarrow> p | PointBPLA \<Rightarrow> np_pointBPLA n)"

definition store_target :: "point_ref \<Rightarrow> niipp \<Rightarrow> niipp" where
  "store_target r n =
     (let n = n\<lparr>np_pointBPLA := (snd (deref n r), snd (np_pointBPLA n))\<rparr>
      in n\<lparr>np_pointBPLA := (fst (np_pointBPLA n), fst (deref n r))\<rparr>)"

definition sendEvil :: "niipp_clock \<Rightarrow> point_ref \<Rightarrow> double \<Rightarrow> double \<Rightarrow> niipp \<Rightarrow> command list \<times> niipp" where
  "sendEvil k point alt bearing n =
     (if \<not> np_tab n \<or> \<not> np_enable n then ([], n)
      else
        let str_temp = command_code n; n = store_target point n
        in ([(COMMAND_SET_NIIPP_BPLA,
              command_data k str_temp (to_int (nk_overflow k) alt) (to_int (nk_overflow k) bearing) (np_power n) n)], n))"

definition np_clear :: "niipp \<Rightarrow> niipp" where
  "np_clear n = n\<lparr>np_pointUvoda := (Fin 0, Fin 0)\<rparr>"

definition zone_at :: "double list \<Rightarrow> int \<Rightarrow> double option" where
  "zone_at zs i = (if 0 \<le> i \<and> i < int (length zs) then Some (zs ! nat i) else None)"

definition np_changeValuePower :: "niipp_clock \<Rightarrow> int \<Rightarrow> int \<Rightarrow> niipp \<Rightarrow> (command list \<times> niipp) option" where
  "np_changeValuePower k source v n =
     (let n' = (if np_antenaType n = 0
                then map_option (\<lambda>z. n\<lparr>np_radiusSector := d_mul z (d_of_int 1000)\<rparr>) (zone_at m_zoneDir v)
                else if np_antenaType n = 1
                then map_option (\<lambda>z. n\<lparr>np_radiusCircle := d_mul z (d_of_int 1000)\<rparr>) (zone_at m_zone v)
                else Some n)
      in map_option (\<lambda>n. if source = 0 then sendEvil k PointBPLA (Fin 0) (Fin 0) n else ([], n)) n')"

definition np_setAntennaType :: "niipp_clock \<Rightarrow> int \<Rightarrow> int \<Rightarrow> niipp \<Rightarrow> command list \<times> niipp" where
  "np_setAntennaType k source v n =
     (let n = n\<lparr>np_antenaType := v\<rparr>
      in if source = 0 then sendEvil k PointBPLA (Fin 0) (Fin 0) n else ([], n))"

definition np_changeMode :: "niipp_clock \<Rightarrow> int \<Rightarrow> niipp \<Rightarrow> command list \<times> niipp" where
  "np_changeMode k v n = sendEvil k PointBPLA (Fin 0) (Fin 0) (n\<lparr>np_mode := v\<rparr>)"

definition np_setMode :: "int \<Rightarrow> niipp \<Rightarrow> niipp" where
  "np_setMode v n = n\<lparr>np_modeIndex :=
     (if v = - 1 then Disabled else if v = 0 then Radiation else if v = 1 then Adduction
      else if v = 2 then RoundView else Radiation)\<rparr>"

definition np_setPoint :: "point \<Rightarrow> niipp \<Rightarrow> niipp" where
  "np_setPoint coord n = n\<lparr>np_pointUvoda := (snd coord, fst coord)\<rparr>"

definition np_getRadius :: "niipp \<Rightarrow> double" where
  "np_getRadius n = (if np_antenaType n = 0 then np_radiusSector n
     else if np_antenaType n = 1 then np_radiusCircle n else Fin 0)"

definition np_encode :: "string list \<Rightarrow> niipp \<Rightarrow> stream" where
  "np_encode list n =
     (let str = text_join '','' list; c = crc (ascii str)
      in [TokInt (np_id n), TokText (str @ '',*'' @ decimal (unat c) @ [CHR 0x5C, CHR ''r'', CHR 0x5C, CHR ''n''])])"

definition getStatusConnection :: "niipp \<Rightarrow> command list" where
  "getStatusConnection n = (if \<not> np_tab n then [] else [(COMMAND_GET_NIIPP_CONNECTION_STATUS, [TokInt (np_id n)])])"

section \<open>The controller\<close>

text \<open>The state of the widget the controller reads.\<close>

record niipp_view =
  nv_complex :: bool
  nv_start :: bool
  nv_mode :: int
  nv_antena :: int
  nv_power :: int

datatype control_event =
    Command command
  | StatusText int
  | StatusConnection int
  | ShowPower int double double int
  | ShowAntenna int work_mode
  | LatText string
  | LonText string
  | UpdatePowerZone niipp
  | RemovePoint

definition nc_init :: "int \<Rightarrow> string \<Rightarrow> point \<Rightarrow> bool \<Rightarrow> control_event list \<times> niipp" where
  "nc_init i name latlon tab = (let n = new_niipp i name latlon tab in ([UpdatePowerZone n], n))"

definition getState :: "niipp_view \<Rightarrow> bool" where
  "getState w = nv_complex w"

definition nc_setData :: "stream \<Rightarrow> control_event list" where
  "nc_setData d = [StatusText (fst (getInt d))]"

definition slotStopClicked :: "niipp_clock \<Rightarrow> niipp \<Rightarrow> control_event list \<times> niipp" where
  "slotStopClicked k n = map_prod (map Command) (\<lambda>n. n) (stopCommad k n)"

definition slotStartClicked :: "niipp \<Rightarrow> niipp" where
  "slotStartClicked n = startCommand n"

definition nc_enableComplex :: "niipp_clock \<Rightarrow> bool \<Rightarrow> niipp \<Rightarrow> control_event list" where
  "nc_enableComplex k state n = map Command (np_enableComplex k state n)"

definition nc_clear :: "niipp \<Rightarrow> control_event list \<times> niipp" where
  "nc_clear n = ([RemovePoint], np_clear n)"

definition nc_changeValuePower :: "niipp_clock \<Rightarrow> int \<Rightarrow> niipp \<Rightarrow> (control_event list \<times> niipp) option" where
  "nc_changeValuePower k v n =
     map_option (\<lambda>(cs, n). (map Command cs
         @ [ShowPower v (np_radiusCircle n) (np_radiusSector n) (np_antenaType n), UpdatePowerZone n], n))
       (np_changeValuePower k 0 v (n\<lparr>np_power := v\<rparr>))"

definition nc_changeAngel :: "double \<Rightarrow> niipp \<Rightarrow> niipp" where
  "nc_changeAngel v n = n\<lparr>np_angle := v\<rparr>"

definition nc_setAntennaType :: "niipp_clock \<Rightarrow> niipp_view \<Rightarrow> int \<Rightarrow> niipp \<Rightarrow> control_event list \<times> niipp" where
  "nc_setAntennaType k w v n =
     (let n = (if v = 1 then np_setMode (nv_mode w) n else n);
          (cs, n) = np_setAntennaType k 0 v (n\<lparr>np_antenaIndex := v\<rparr>)
      in (map Command cs @ [ShowAntenna (np_antenaType n) (np_modeIndex n), UpdatePowerZone n], n))"

definition nc_setPoint :: "point \<Rightarrow> niipp \<Rightarrow> control_event list \<times> niipp" where
  "nc_setPoint coord n = ([LatText (number_fixed 4 (snd coord)), LonText (number_fixed 4 (fst coord))], np_setPoint coord n)"

definition sendEnemyBpla :: "niipp_clock \<Rightarrow> niipp_view \<Rightarrow> point \<Rightarrow> double \<Rightarrow> double \<Rightarrow> niipp \<Rightarrow> control_event list \<times> niipp" where
  "sendEnemyBpla k w p alt bearing n =
     (if \<not> nv_start w then ([], n)
      else map_prod (map Command) (\<lambda>n. n)
             (sendEvil k (Point p) alt bearing (n\<lparr>np_antenaIndex := nv_antena w, np_power := nv_power w\<rparr>)))"

definition nc_changeMode :: "niipp_clock \<Rightarrow> int \<Rightarrow> niipp \<Rightarrow> control_event list \<times> niipp" where
  "nc_changeMode k v n = map_prod (map Command) (\<lambda>n. n) (np_changeMode k v n)"

definition nc_onUavInfoChanged :: "niipp_clock \<Rightarrow> niipp_view \<Rightarrow> UavInfo \<Rightarrow> string \<Rightarrow> niipp \<Rightarrow> control_event list \<times> niipp" where
  "nc_onUavInfoChanged k w i uavRole n =
     (if uavRole \<noteq> ENEMY_UAV_ROLE then ([], n)
      else if info_source i \<noteq> UAV_SOLVER_MANUAL_SOURCE \<and> info_source i \<noteq> UAV_SOLVER_AUTO_SOURCE then ([], n)
      else if np_id n = 100 \<or> np_id n = 101
        then sendEnemyBpla k w (info_lon i, info_lat i) (info_alt i) (info_yaw i) n
      else ([], n))"

definition nc_data :: "niipp_clock \<Rightarrow> stream \<Rightarrow> niipp \<Rightarrow> (control_event list \<times> niipp) option" where
  "nc_data k ds n =
     (let (i, ds) = getInt ds; (dt, ds) = getDateTime ds; (time, ds) = getTime ds; (mode, ds) = getInt ds;
          (p, ds) = getPoint ds; (NS, ds) = getText ds; (EW, ds) = getText ds; (alt, ds) = getInt ds;
          (zone, ds) = getInt ds; (course, ds) = getInt ds; (angle, ds) = getInt ds
      in if np_id n \<noteq> i then Some ([], n)
         else
           let n = snd (np_setAntennaType k 1 (if mode = 1 then 1 else 0) n)
           in map_option (\<lambda>(cs, n). let n = n\<lparr>np_angle := d_of_int course\<rparr>
                                    in (map Command cs @ [StatusText mode, UpdatePowerZone n], n))
                (np_changeValuePower k 1 zone n))"

definition nc_onMethodCalled :: "niipp_clock \<Rightarrow> string \<Rightarrow> stream \<Rightarrow> niipp \<Rightarrow> (control_event list \<times> niipp) option" where
  "nc_onMethodCalled k method d n =
     (if method = RPC_SLOT_SERVER_SEND_NIIPP_CONNECTION_STATUS then
        let (i, ds) = getInt d; (status, ds) = getInt ds
        in Some (if np_id n \<noteq> i then [] else [StatusConnection status], n)
      else if method = RPC_SLOT_SERVER_SEND_NIIPP_DATA then nc_data k d n
      else Some ([], n))"

definition onGetConnectionStatus :: "niipp \<Rightarrow> control_event list" where
  "onGetConnectionStatus n = map Command (getStatusConnection n)"

end
