(* ===== verification/ViewClient.thy ===== *)
theory ViewClient
  imports NiippControl
begin

text \<open>
  The client's end of the RPC connection: \<open>RpcClientBase\<close> (\<open>CISCommonLib/src/Rpc/RpcClientBase.cpp\<close>), which
  connects again by a timer, \<open>RPCClient\<close> (\<open>view/core/Tabs/RPC/Rpcclient.cpp\<close>), which turns commands into
  calls of the server and calls of the server into calls of its listeners, and \<open>RpcClientWrapper\<close>. The peer
  belongs to a library: what it is asked for are events, its signals are operations.
\<close>

section \<open>Names\<close>

definition COMMAND_SET_SOLVER :: int where "COMMAND_SET_SOLVER = 501"
definition COMMAND_SET_SOLVER_AUTO :: int where "COMMAND_SET_SOLVER_AUTO = 502"
definition COMMAND_SET_SOLVER_CLEAR :: int where "COMMAND_SET_SOLVER_CLEAR = 503"
definition COMMAND_SET_ADSB :: int where "COMMAND_SET_ADSB = 601"

lemmas command_types = COMMAND_SET_NIIPP_BPLA_def COMMAND_GET_NIIPP_CONNECTION_STATUS_def COMMAND_SET_SOLVER_def
  COMMAND_SET_SOLVER_AUTO_def COMMAND_SET_SOLVER_CLEAR_def COMMAND_SET_ADSB_def

definition RPC_SLOT_SET_CLIENT_ID :: string where "RPC_SLOT_SET_CLIENT_ID = ''rpc_slot_set_client_id''"

section \<open>The base client\<close>

text \<open>The timer is its interval while it runs.\<close>

record rpc_client_base =
  rb_port :: u16
  rb_address :: string
  rb_timer :: "int option"

datatype view_event =
    PeerConnect string u16
  | PeerDisconnectAll
  | CallServer string stream
  | CallServerId string int
  | BaseConnected
  | BaseDisconnected
  | ArmrConnect bool
  | CallListener listener string stream

definition rb_init :: rpc_client_base where
  "rb_init = \<lparr>rb_port = 0, rb_address = [], rb_timer = None\<rparr>"

definition connectToServer :: "'x rpc_client_base_scheme \<Rightarrow> view_event list" where
  "connectToServer b = [PeerConnect (rb_address b) (rb_port b)]"

definition rb_start :: "u16 \<Rightarrow> string \<Rightarrow> 'x rpc_client_base_scheme \<Rightarrow> view_event list \<times> 'x rpc_client_base_scheme" where
  "rb_start port addr b = (let b = b\<lparr>rb_port := port, rb_address := addr\<rparr> in (connectToServer b, b))"

definition rb_stop :: "view_event list" where
  "rb_stop = [PeerDisconnectAll]"

definition rb_internalCall :: "string \<Rightarrow> stream \<Rightarrow> view_event list" where
  "rb_internalCall method arg = [CallServer method arg]"

definition connectedToServerSlot :: "'x rpc_client_base_scheme \<Rightarrow> view_event list \<times> 'x rpc_client_base_scheme" where
  "connectedToServerSlot b = ([BaseConnected, ArmrConnect True], b\<lparr>rb_timer := None\<rparr>)"

definition connectionToServerFailedSlot :: "'x rpc_client_base_scheme \<Rightarrow> view_event list \<times> 'x rpc_client_base_scheme" where
  "connectionToServerFailedSlot b = ([BaseDisconnected, ArmrConnect False], b\<lparr>rb_timer := Some 1000\<rparr>)"

section \<open>The client of the view\<close>

record view_client = rpc_client_base +
  vc_station :: "int option"
  vc_solverAuto :: bool
  vc_receivers :: "listener subject"

definition vc_init :: view_client where
  "vc_init = \<lparr>rb_port = 0, rb_address = [], rb_timer = None, vc_station = None, vc_solverAuto = True, vc_receivers = []\<rparr>"

definition setStation :: "int option \<Rightarrow> view_client \<Rightarrow> view_client" where
  "setStation st c = c\<lparr>vc_station := st\<rparr>"

text \<open>The names the slots of the client are attached to; each slot passes the call on under its own name.\<close>

definition attached_slots :: "(string \<times> string) list" where
  "attached_slots =
     [(RPC_SLOT_SERVER_SEND_BLA_POINTS, RPC_SLOT_SERVER_SEND_BLA_POINTS),
      (RPC_SLOT_SERVER_SEND_AIS_DATA, RPC_SLOT_SERVER_SEND_AIS_DATA),
      (RPC_SLOT_SERVER_SEND_BPLA_POINTS, RPC_SLOT_SERVER_SEND_BPLA_POINTS),
      (RPC_SLOT_SERVER_SEND_BPLA_POINTS_AUTO, RPC_SLOT_SERVER_SEND_BPLA_POINTS_AUTO),
      (RPC_SLOT_SERVER_SEND_BPLA_POINTS_SINGLE, RPC_SLOT_SERVER_SEND_BPLA_POINTS_SINGLE),
      (RPC_SLOT_SERVER_SEND_HYPERBOLA, RPC_SLOT_SERVER_SEND_HYPERBOLA),
      (RPC_SLOT_SERVER_SEND_NIIPP_DATA, RPC_SLOT_SERVER_SEND_NIIPP_DATA),
      (RPC_SLOT_SERVER_SEND_NIIPP_CONNECTION_STATUS, RPC_SLOT_SERVER_SEND_NIIPP_CONNECTION_STATUS),
      (RPC_SLOT_SERVER_SEND_ATLANT_DIRECTION, RPC_SLOT_SERVER_SEND_ATLANT_DIRECTION),
      (RPC_SLOT_SERVER_SEND_ATLANT_POSITION, RPC_SLOT_SERVER_SEND_ATLANT_POSITION),
      (RPC_SLOT_SERVER_SEND_ADSB_DATA, RPC_SLOT_SERVER_SEND_ADSB_DATA)]"

definition called_by_server :: "string \<Rightarrow> stream \<Rightarrow> view_client \<Rightarrow> view_event list" where
  "called_by_server name d c =
     (case map_of attached_slots name of
        None \<Rightarrow> []
      | Some method \<Rightarrow> notify (\<lambda>r. CallListener r method d) (vc_receivers c))"

text \<open>The id of the station; without a station a null pointer is followed.\<close>

definition vc_slotRCPConnetion :: "view_client \<Rightarrow> view_event list option" where
  "vc_slotRCPConnetion c = map_option (\<lambda>i. [CallServerId RPC_SLOT_SET_CLIENT_ID i]) (vc_station c)"

text \<open>The signal \<open>connectedToServer\<close> of the peer: the slots run in the order they were connected in.\<close>

definition peer_connected :: "view_client \<Rightarrow> (view_event list \<times> view_client) option" where
  "peer_connected c =
     map_option (\<lambda>es. let (es', c) = connectedToServerSlot c in (es @ es', c)) (vc_slotRCPConnetion c)"

definition setSolverAuto :: "stream \<Rightarrow> view_client \<Rightarrow> view_client" where
  "setSolverAuto d c = c\<lparr>vc_solverAuto := fst (getBool d)\<rparr>"

definition formCommand :: "command \<Rightarrow> view_client \<Rightarrow> view_event list \<times> view_client" where
  "formCommand msg c =
     (let (type, d) = msg
      in if type = COMMAND_SET_NIIPP_BPLA then ([CallServer RPC_SLOT_SET_NIIPP_BPLA d], c)
         else if type = COMMAND_GET_NIIPP_CONNECTION_STATUS then ([CallServer RPC_SLOT_GET_NIIPP_CONNECTION_STATUS d], c)
         else if type = COMMAND_SET_SOLVER then ([CallServer RPC_SLOT_SET_SOLVER_DATA d], c)
         else if type = COMMAND_SET_SOLVER_AUTO then ([], setSolverAuto d c)
         else if type = COMMAND_SET_SOLVER_CLEAR then ([CallServer RPC_SLOT_SET_SOLVER_CLEAR d], c)
         else if type = COMMAND_SET_ADSB then ([CallServer RPC_SLOT_SET_ADSB_ENABLE d], c)
         else ([], c))"

section \<open>The wrapper\<close>

text \<open>\<open>None\<close> is the client that was not created yet: every operation on it is left out.\<close>

record client_wrapper =
  cw_client :: "view_client option"
  cw_address :: string
  cw_port :: u16
  cw_station :: "int option"

definition cw_new :: client_wrapper where
  "cw_new = \<lparr>cw_client = None, cw_address = [], cw_port = 0, cw_station = None\<rparr>"

definition cw_init :: "u16 \<Rightarrow> string \<Rightarrow> int option \<Rightarrow> client_wrapper \<Rightarrow> view_event list \<times> client_wrapper" where
  "cw_init port addr station w =
     (let w = w\<lparr>cw_address := addr, cw_port := port, cw_station := station\<rparr>;
          (es, c) = rb_start (cw_port w) (cw_address w) (setStation (cw_station w) vc_init)
      in (es, w\<lparr>cw_client := Some c\<rparr>))"

definition cw_registerReceiver :: "listener \<Rightarrow> client_wrapper \<Rightarrow> client_wrapper" where
  "cw_registerReceiver r w = w\<lparr>cw_client := map_option (\<lambda>c. c\<lparr>vc_receivers := registerReceiver r (vc_receivers c)\<rparr>) (cw_client w)\<rparr>"

definition cw_deregisterReceiver :: "listener \<Rightarrow> client_wrapper \<Rightarrow> client_wrapper" where
  "cw_deregisterReceiver r w = w\<lparr>cw_client := map_option (\<lambda>c. c\<lparr>vc_receivers := deregisterReceiver r (vc_receivers c)\<rparr>) (cw_client w)\<rparr>"

definition cw_stop :: "client_wrapper \<Rightarrow> view_event list" where
  "cw_stop w = (case cw_client w of None \<Rightarrow> [] | Some c \<Rightarrow> rb_stop)"

definition cw_setCommand :: "command \<Rightarrow> client_wrapper \<Rightarrow> view_event list \<times> client_wrapper" where
  "cw_setCommand msg w =
     (case cw_client w of
        None \<Rightarrow> ([], w)
      | Some c \<Rightarrow> let (es, c) = formCommand msg c in (es, w\<lparr>cw_client := Some c\<rparr>))"

end
