(* ===== verification/NiippProps.thy ===== *)
theory NiippProps
  imports NiippCoder DeviceController KtrProps
begin

text \<open>
  The texts of the NIIPP device: what its controller does with any data, the check sum of a request,
  and how far an angle is from itself after it was printed into a request and read from an answer.
\<close>

section \<open>Answers\<close>

lemma niipp_encode_Nil: "niipp_encode F ident [] k = (None, k)"
  by (simp add: niipp_encode_def text_of_def text_split_def)

text \<open>
  C23: Whatever the NIIPP sends, its controller runs out of range of a list: data with fewer than eleven
  parts at once, and every good answer right after it was delivered, because the controller then asks
  the coder again with no data. No data at all ever come through.
\<close>
theorem niipp_data_run_out_of_range:
  "onDataReceived (niipp_encode F ident) d () = None
   \<and> (11 \<le> length (text_split '','' (text_of d)) \<longleftrightarrow> fst (niipp_encode F ident d ()) \<noteq> None)"
proof -
  have "fst (niipp_encode F ident d ()) = None \<or> (\<exists>m. fst (niipp_encode F ident d ()) = Some m \<and> msg_data m \<noteq> [])"
    by (simp add: niipp_encode_def Let_def)
  then have "onDataReceived (niipp_encode F ident) d () = None"
    by (auto simp: onDataReceived_def drain.simps niipp_encode_Nil split: option.split prod.split)
  then show ?thesis by (simp add: niipp_encode_def Let_def)
qed

section \<open>The check sum\<close>

lemma crc_from: "fold (\<lambda>b c. xor c b) d c = xor c (crc d)"
proof (induction d arbitrary: c)
  case (Cons b d)
  show ?case
    using Cons [of "xor c b"] Cons [of b] by (simp add: crc_def xor.assoc)
qed (simp add: crc_def)

lemma crc_Nil [simp]: "crc [] = 0"
  by (simp add: crc_def)

lemma crc_append: "crc (d @ e) = xor (crc d) (crc e)"
  by (simp add: crc_def [of "d @ e"] crc_from flip: crc_def [of d])

lemma crc_Cons: "crc (b # d) = xor b (crc d)"
  using crc_append [of "[b]" d] by (simp add: crc_def [of "[b]"])

lemma crc_update:
  assumes "i < length d"
  shows "crc (d[i := b]) = xor (crc d) (xor (d ! i) b)"
proof -
  have "crc (d[i := b]) = xor (crc (take i d)) (xor b (crc (drop (Suc i) d)))"
    using assms by (simp add: upd_conv_take_nth_drop crc_append crc_Cons)
  moreover have "crc d = xor (crc (take i d)) (xor (d ! i) (crc (drop (Suc i) d)))"
    using assms by (subst id_take_nth_drop [OF assms]) (simp add: crc_append crc_Cons)
  ultimately show ?thesis by (simp add: xor.assoc xor.left_commute xor.commute)
qed

section \<open>Angles as texts\<close>

lemma read_digits_acc: "read_digits acc s = map_option (\<lambda>n. acc * 10 ^ length s + n) (read_digits 0 s)"
proof (induction s arbitrary: acc)
  case (Cons c s)
  show ?case
  proof (cases "char_digit c")
    case (Some d)
    then show ?thesis
      using Cons [of "acc * 10 + d"] Cons [of d] by (cases "read_digits 0 s") (simp_all add: algebra_simps)
  qed simp
qed simp

lemma read_zeros: "read_digits 0 (replicate k (CHR ''0'') @ s) = read_digits 0 s"
  by (induction k) (simp_all add: char_digit_def)

lemma length_decimal: "b < 10 ^ Suc k \<Longrightarrow> length (decimal b) \<le> Suc k"
proof (induction k arbitrary: b)
  case 0
  then show ?case by (simp add: decimal.simps)
next
  case (Suc k)
  then have "b div 10 < 10 ^ Suc k" by (simp add: div_less_iff_less_mult)
  from Suc.IH [OF this] show ?case by (subst decimal.simps) simp
qed

lemma digit_zero: "is_digit (CHR ''0'')"
  by (simp add: is_digit_def char_digit_def)

lemma not_digit: "\<not> is_digit (CHR ''.'')" "\<not> is_digit (CHR ''n'')" "\<not> is_digit (CHR ''i'')"
  by (simp_all add: is_digit_def char_digit_def)

lemma six_digits:
  assumes "b < 1000000"
  shows "length (padded 6 b) = 6" and "\<forall>c \<in> set (padded 6 b). is_digit c"
    and "read_digits 0 (padded 6 b) = Some b"
  using length_decimal [of b 5] assms decimal_digits [of b]
  by (auto simp: padded_def digit_zero read_zeros read_digits_decimal)

lemma two_digits:
  assumes "m < 100"
  shows "length (two_digits (decimal m)) = 2" and "text_toInt (two_digits (decimal m)) = int m"
proof -
  have l: "length (decimal m) \<le> 2" using length_decimal [of m 1] assms by simp
  have "1 \<le> length (decimal m)" by (cases "decimal m") simp_all
  with l show "length (two_digits (decimal m)) = 2" by (auto simp: two_digits_def)
  have "read_digits 0 (two_digits (decimal m)) = Some m"
    using read_zeros [of 1 "decimal m"] by (simp add: two_digits_def read_digits_decimal)
  moreover have "\<forall>c \<in> set (two_digits (decimal m)). is_digit c"
    using decimal_digits [of m] digit_zero by (simp add: two_digits_def)
  moreover have "two_digits (decimal m) \<noteq> []" by (simp add: two_digits_def)
  ultimately have "text_toInt (two_digits (decimal m)) = as_int m" by (intro text_toInt_digits)
  moreover have "m < 2 ^ 31" by (rule less_trans [OF assms]) simp
  ultimately show "text_toInt (two_digits (decimal m)) = int m" by (simp only: as_int_def if_True)
qed

text \<open>Reading digits, and digits with six decimals, as a double.\<close>

lemma toDouble_plain:
  assumes "\<forall>c \<in> set s. is_digit c \<or> c = CHR ''.''" and "s = c # cs" and "is_digit c" and "mantissa s = Some q"
  shows "text_toDouble s = dround q"
proof -
  have "\<not> is_space (CHR ''.'') \<and> \<not> is_exponent_mark (CHR ''.'')" by (simp add: is_space_def is_exponent_mark_def)
  then have plain: "\<not> is_space x \<and> \<not> is_exponent_mark x" if "x \<in> set s" for x
    using assms(1) that is_digit_plain [of x] by blast
  then have t: "trimmed s = s" by (intro trimmed_plain) blast
  have sg: "sign_of s = (False, s)"
    using assms(2) is_digit_plain [OF assms(3)] by (simp add: sign_of_def)
  have m: "takeWhile (\<lambda>c. \<not> is_exponent_mark c) s = s" "dropWhile (\<lambda>c. \<not> is_exponent_mark c) s = []"
    using plain by simp_all
  have "s \<noteq> ''nan''" "s \<noteq> ''inf''" using assms(2,3) not_digit by auto
  then have "unsigned_double s = Some (dround q)"
    unfolding unsigned_double_def Let_def m by (simp add: assms(4) scale10_def)
  then show ?thesis by (simp add: text_toDouble_def t sg)
qed

lemma toDouble_decimal: "text_toDouble (decimal a) = d_of_int (int a)"
proof -
  obtain c cs where d: "decimal a = c # cs" by (cases "decimal a") simp_all
  have "mantissa (decimal a) = Some (of_nat a)"
  proof -
    have whole: "takeWhile is_digit (decimal a) = decimal a" "dropWhile is_digit (decimal a) = []"
      using decimal_digits [of a] by simp_all
    show ?thesis unfolding mantissa_def Let_def whole by (simp add: read_digits_decimal)
  qed
  from toDouble_plain [OF _ d _ this] show ?thesis
    using decimal_digits [of a] by (simp add: d d_of_int_def)
qed

lemma toDouble_fixed:
  assumes "b < 1000000"
  shows "text_toDouble (decimal a @ ''.'' @ padded 6 b) = dround (of_nat a + of_nat b / 1000000)"
proof -
  let ?s = "decimal a @ ''.'' @ padded 6 b"
  obtain c cs where d: "?s = c # cs" by (cases ?s) simp_all
  have c: "is_digit c" using d decimal_digits [of a] by (cases "decimal a") simp_all
  note six = six_digits [OF assms]
  have "read_digits 0 (decimal a @ padded 6 b) = Some (a * 1000000 + b)"
    using six(1,3) read_digits_acc [of a "padded 6 b"] by (simp add: read_digits_append read_digits_decimal)
  moreover have whole: "takeWhile is_digit ?s = decimal a" "dropWhile is_digit ?s = CHR ''.'' # padded 6 b"
    using decimal_digits [of a] not_digit by (simp_all add: takeWhile_append dropWhile_append)
  ultimately have "mantissa ?s = Some (of_nat (a * 1000000 + b) / 1000000)"
    using six(1,2) unfolding mantissa_def Let_def whole by (simp add: list_all_iff)
  from toDouble_plain [OF _ d c this] show ?thesis
    using six(2) decimal_digits [of a] by (auto simp: d [symmetric] add_divide_distrib)
qed

section \<open>Reading an angle\<close>

lemma exact_ints:
  "n < 1000 \<Longrightarrow> d_of_int (int n) = Fin (of_nat n)"
  "d_of_int 60 = Fin 60" "d_of_int 3600 = Fin 3600"
  using d_of_int_exact [of "int n"] d_of_int_exact [of 60] d_of_int_exact [of 3600] by simp_all

lemma read_angle:
  assumes "a \<le> 360" and "m < 100" and "sec < 100"
  shows "\<exists>r. niipp_degrees (decimal a @ two_digits (decimal m) @ two_digits (decimal sec)) = Fin r
    \<and> r - (of_nat a + of_nat m / 60 + of_nat sec / 3600) \<le> 1 / 1000000000000
    \<and> of_nat a + of_nat m / 60 + of_nat sec / 3600 - r \<le> 1 / 1000000000000"
proof -
  let ?s = "decimal a @ two_digits (decimal m) @ two_digits (decimal sec)"
  note M = two_digits [OF assms(2)] and S = two_digits [OF assms(3)]
  have "text_right 2 ?s = two_digits (decimal sec)"
    "text_left 2 (text_right 4 ?s) = two_digits (decimal m)"
    "text_left (int (length ?s) - 4) ?s = decimal a"
    using M(1) S(1) by (simp_all add: text_right_def text_left_def nat_diff_distrib)
  moreover have "text_toInt (decimal a) = int a"
  proof -
    have "a < 2 ^ 31" by (rule le_less_trans [OF assms(1)]) simp
    then show ?thesis by (simp only: integer_decimal as_int_def if_True)
  qed
  ultimately have eq: "niipp_degrees ?s = d_add (d_add (Fin (of_nat a)) (d_div (Fin (of_nat m)) (Fin 60)))
      (d_div (Fin (of_nat sec)) (Fin 3600))"
    using assms by (simp only: niipp_degrees_def Let_def M(2) S(2)) (simp add: exact_ints)
  let ?a = "of_nat a :: rat" and ?m = "of_nat m :: rat" and ?sec = "of_nat sec :: rat"
  have b: "0 \<le> ?a" "?a \<le> 360" "0 \<le> ?m" "?m \<le> 100" "0 \<le> ?sec" "?sec \<le> 100"
    using assms by (simp_all add: of_nat_le_iff [of a 360, simplified] of_nat_le_iff [of m 100, simplified]
        of_nat_le_iff [of sec 100, simplified])
  obtain r1 where r1: "dround (?m / 60) = Fin r1" "r1 - ?m / 60 \<le> 1 / 17592186044416" "?m / 60 - r1 \<le> 1 / 17592186044416"
    by (rule dround_512 [of "?m / 60"]) (use b in linarith)+
  obtain r2 where r2: "dround (?sec / 3600) = Fin r2" "r2 - ?sec / 3600 \<le> 1 / 17592186044416" "?sec / 3600 - r2 \<le> 1 / 17592186044416"
    by (rule dround_512 [of "?sec / 3600"]) (use b in linarith)+
  obtain r3 where r3: "dround (?a + r1) = Fin r3" "r3 - (?a + r1) \<le> 1 / 17592186044416" "?a + r1 - r3 \<le> 1 / 17592186044416"
    by (rule dround_512 [of "?a + r1"]) (use b r1(2,3) in linarith)+
  obtain r4 where r4: "dround (r3 + r2) = Fin r4" "r4 - (r3 + r2) \<le> 1 / 17592186044416" "r3 + r2 - r4 \<le> 1 / 17592186044416"
    by (rule dround_512 [of "r3 + r2"]) (use b r1(2,3) r2(2,3) r3(2,3) in linarith)+
  have "niipp_degrees ?s = Fin r4" by (simp add: eq r1(1) r2(1) r3(1) r4(1))
  moreover have "r4 - (?a + ?m / 60 + ?sec / 3600) \<le> 1 / 1000000000000" "?a + ?m / 60 + ?sec / 3600 - r4 \<le> 1 / 1000000000000"
    using r1(2,3) r2(2,3) r3(2,3) r4(2,3) by linarith+
  ultimately show ?thesis by blast
qed

section \<open>Printing an angle\<close>

lemma trunc_near:
  assumes "- 1 < x" and "x < of_nat n"
  obtains k where "k < Suc n" and "rat_trunc x = int k" and "of_nat k - x < 1" and "x - of_nat k < 1"
    and "0 \<le> x \<Longrightarrow> of_nat k \<le> x" and "x < 0 \<Longrightarrow> k = 0" and "k < n \<or> k = 0"
proof (cases "x < 0")
  case True
  then have "\<lfloor>- x\<rfloor> = 0" using assms(1) by (simp add: floor_eq_iff)
  then have "rat_trunc x = int 0" using True by (simp add: rat_trunc_def)
  with True assms(1) show ?thesis by (intro that [of 0]) simp_all
next
  case False
  let ?k = "nat \<lfloor>x\<rfloor>"
  have k: "rat_trunc x = int ?k" "of_nat ?k = (of_int \<lfloor>x\<rfloor> :: rat)" using False by (simp_all add: rat_trunc_def)
  have f: "of_int \<lfloor>x\<rfloor> \<le> x" "x < of_int \<lfloor>x\<rfloor> + 1" by linarith+
  have "\<lfloor>x\<rfloor> < int n" using f(1) assms(2) by linarith
  then have "?k < n" using False by linarith
  show ?thesis
  proof (rule that [of ?k])
    show "of_nat ?k - x < 1" "x - of_nat ?k < 1" "0 \<le> x \<Longrightarrow> of_nat ?k \<le> x"
      unfolding k(2) using f by linarith+
  qed (use \<open>?k < n\<close> k(1) False in simp_all)
qed

lemma d_to_int_small: "rat_trunc q = int k \<Longrightarrow> k < 1000 \<Longrightarrow> d_to_int (Fin q) = Some (int k)"
  by (simp add: d_to_int_def)

lemma rounded_six:
  assumes "0 < q" and "q \<le> 360"
  obtains a b where "a \<le> 360" and "b < 1000000" and "fixed 6 q = decimal a @ ''.'' @ padded 6 b"
    and "of_nat a + of_nat b / 1000000 - q \<le> 1 / 2000000" and "q - (of_nat a + of_nat b / 1000000) \<le> 1 / 2000000"
proof -
  let ?x = "q * 1000000"
  define N where "N = nat (round_half_even ?x)"
  have err: "of_int (round_half_even ?x) - ?x \<le> 1 / 2 \<and> ?x - of_int (round_half_even ?x) \<le> 1 / 2"
    using round_half_even_error [of ?x] by (simp only: abs_le_iff minus_diff_eq)
  then have "- 1 < (of_int (round_half_even ?x) :: rat)" "(of_int (round_half_even ?x) :: rat) < 360000001"
    using assms by linarith+
  then have N: "0 \<le> round_half_even ?x" "round_half_even ?x < 360000001" by linarith+
  then have ofN: "(of_nat N :: rat) = of_int (round_half_even ?x)" by (simp add: N_def)
  have "N \<le> 360000000" using N by (simp add: N_def)
  then have "N div 1000000 \<le> 360" using div_le_mono [of N 360000000 1000000] by simp
  moreover have "of_nat (N div 1000000) + of_nat (N mod 1000000) / 1000000 = (of_nat N / 1000000 :: rat)"
  proof -
    have "of_nat N = (of_nat (N div 1000000 * 1000000 + N mod 1000000) :: rat)" by (simp only: div_mult_mod_eq)
    then have "of_nat N = of_nat (N div 1000000) * 1000000 + (of_nat (N mod 1000000) :: rat)"
      by (simp only: of_nat_add of_nat_mult of_nat_numeral)
    then show ?thesis by linarith
  qed
  moreover have "fixed 6 q = decimal (N div 1000000) @ ''.'' @ padded 6 (N mod 1000000)"
    using assms(1) by (simp add: fixed_def N_def Let_def)
  moreover have "of_nat N / 1000000 - q \<le> 1 / 2000000" "q - of_nat N / 1000000 \<le> 1 / 2000000"
    using err unfolding ofN by linarith+
  ultimately show ?thesis by (intro that [of "N div 1000000" "N mod 1000000"]) simp_all
qed

text \<open>
  Degrees are exact, minutes and seconds are cut off: \<open>f\<close> is the number of minutes in floating point,
  \<open>g\<close> that of the seconds.
\<close>

lemma printed_angle:
  assumes "0 < q" and "q \<le> 360"
  obtains a m sec where "niipp_angle (Fin q) = Some (decimal a @ two_digits (decimal m) @ two_digits (decimal sec))"
    and "a \<le> 360" and "m < 100" and "sec < 100"
    and "of_nat a + of_nat m / 60 + of_nat sec / 3600 - q \<le> 1 / 3600 + 1 / 1000000"
    and "q - (of_nat a + of_nat m / 60 + of_nat sec / 3600) \<le> 1 / 3600 + 1 / 1000000"
proof -
  from rounded_six [OF assms] obtain a b where ab: "a \<le> 360" "b < 1000000"
    and printed: "fixed 6 q = decimal a @ ''.'' @ padded 6 b"
    and near: "of_nat a + of_nat b / 1000000 - q \<le> 1 / 2000000" "q - (of_nat a + of_nat b / 1000000) \<le> 1 / 2000000"
    by blast
  let ?a = "of_nat a :: rat" and ?b = "of_nat b :: rat"
  have B: "0 \<le> ?a" "?a \<le> 360" "0 \<le> ?b" "?b \<le> 999999"
    using ab of_nat_le_iff [of a 360, where 'a = rat] of_nat_le_iff [of b 999999, where 'a = rat] by simp_all
  obtain l where l: "dround (?a + ?b / 1000000) = Fin l" "l - (?a + ?b / 1000000) \<le> 1 / 17592186044416"
      "?a + ?b / 1000000 - l \<le> 1 / 17592186044416"
    by (rule dround_512 [of "?a + ?b / 1000000"]) (use B in linarith)+
  obtain m1 where m1: "dround (l - ?a) = Fin m1" "m1 - (l - ?a) \<le> 1 / 17592186044416" "l - ?a - m1 \<le> 1 / 17592186044416"
    by (rule dround_512 [of "l - ?a"]) (use B l(2,3) in linarith)+
  obtain f where f: "dround (m1 * 60) = Fin f" "f - m1 * 60 \<le> 1 / 17592186044416" "m1 * 60 - f \<le> 1 / 17592186044416"
    by (rule dround_512 [of "m1 * 60"]) (use B l(2,3) m1(2,3) in linarith)+
  have "- 1 < f" "f < of_nat 60" using B l(2,3) m1(2,3) f(2,3) by (simp_all only: of_nat_numeral)
  then obtain m where m: "m < Suc 60" "rat_trunc f = int m" "of_nat m - f < 1" "f - of_nat m < 1"
      "0 \<le> f \<Longrightarrow> of_nat m \<le> f" "f < 0 \<Longrightarrow> m = 0"
    by (rule trunc_near) blast
  let ?m = "of_nat m :: rat"
  have M: "f - ?m < 1" "- (1 / 100000) < f - ?m"
    using m(4-6) B l(2,3) m1(2,3) f(2,3) by (cases "0 \<le> f"; simp; linarith)+
  obtain s1 where s1: "dround (f - ?m) = Fin s1" "s1 - (f - ?m) \<le> 1 / 17592186044416" "f - ?m - s1 \<le> 1 / 17592186044416"
    by (rule dround_512 [of "f - ?m"]) (use M in linarith)+
  obtain g where g: "dround (s1 * 60) = Fin g" "g - s1 * 60 \<le> 1 / 17592186044416" "s1 * 60 - g \<le> 1 / 17592186044416"
    by (rule dround_512 [of "s1 * 60"]) (use M s1(2,3) in linarith)+
  have "- 1 < g" "g < of_nat 61" using M s1(2,3) g(2,3) by (simp_all only: of_nat_numeral)
  then obtain sec where sec: "sec < Suc 61" "rat_trunc g = int sec" "of_nat sec - g < 1" "g - of_nat sec < 1"
      "0 \<le> g \<Longrightarrow> of_nat sec \<le> g" "g < 0 \<Longrightarrow> sec = 0"
    by (rule trunc_near) blast
  let ?sec = "of_nat sec :: rat"
  have S: "g - ?sec < 1" "- (1 / 1000) < g - ?sec"
    using sec(4-6) M s1(2,3) g(2,3) by (cases "0 \<le> g"; simp; linarith)+
  have "CHR ''.'' \<notin> set (decimal a)" using decimal_digits [of a] not_digit by blast
  then have "hd (text_split ''.'' (fixed 6 q)) = decimal a" by (simp add: printed text_split_first)
  then have "niipp_angle (Fin q) = Some (decimal a @ two_digits (decimal m) @ two_digits (decimal sec))"
    using assms(1) ab m(1) sec(1) l(1) m1(1) f(1) s1(1) g(1) toDouble_fixed [OF ab(2), of a]
      d_to_int_small [OF m(2)] d_to_int_small [OF sec(2)]
    by (simp add: niipp_angle_def number_fixed_def toDouble_decimal exact_ints printed number_int_def Let_def)
  then show ?thesis
  proof (rule that)
    show "a \<le> 360" "m < 100" "sec < 100" using ab m(1) sec(1) by simp_all
    show "?a + ?m / 60 + ?sec / 3600 - q \<le> 1 / 3600 + 1 / 1000000" "q - (?a + ?m / 60 + ?sec / 3600) \<le> 1 / 3600 + 1 / 1000000"
      using near l(2,3) m1(2,3) f(2,3) s1(2,3) g(2,3) S by linarith+
  qed
qed

text \<open>
  An angle above 0 and up to 360 degrees that is printed into a request reads back from the same
  text with an error below one second of arc and a millionth of a degree, which is what cutting off the
  seconds and rounding to six decimals may lose.
\<close>
theorem niipp_angle_roundtrip:
  assumes "0 < q" and "q \<le> 360"
  shows "\<exists>t r. niipp_angle (Fin q) = Some t \<and> niipp_degrees t = Fin r \<and> \<bar>r - q\<bar> < 1 / 3600 + 2 / 1000000"
proof -
  from printed_angle [OF assms] obtain a m sec where
    t: "niipp_angle (Fin q) = Some (decimal a @ two_digits (decimal m) @ two_digits (decimal sec))"
    and b: "a \<le> 360" "m < 100" "sec < 100"
    and v: "of_nat a + of_nat m / 60 + of_nat sec / 3600 - q \<le> 1 / 3600 + 1 / 1000000"
      "q - (of_nat a + of_nat m / 60 + of_nat sec / 3600) \<le> 1 / 3600 + 1 / 1000000" .
  from read_angle [OF b] obtain r where
    r: "niipp_degrees (decimal a @ two_digits (decimal m) @ two_digits (decimal sec)) = Fin r"
      "r - (of_nat a + of_nat m / 60 + of_nat sec / 3600) \<le> 1 / 1000000000000"
      "of_nat a + of_nat m / 60 + of_nat sec / 3600 - r \<le> 1 / 1000000000000" by blast
  have "r - q < 1 / 3600 + 2 / 1000000 \<and> q - r < 1 / 3600 + 2 / 1000000"
    using v r(2,3) by (intro conjI; linarith)
  then have "\<bar>r - q\<bar> < 1 / 3600 + 2 / 1000000" by (simp only: abs_less_iff minus_diff_eq simp_thms)
  with t r(1) show ?thesis by blast
qed

lemma niipp_angle_roundtrip_witness:
  "\<exists>t r. niipp_angle (Fin (5976321 / 100000)) = Some t \<and> niipp_degrees t = Fin r
    \<and> \<bar>r - 5976321 / 100000\<bar> < 1 / 3600 + 2 / 1000000"
  by (rule niipp_angle_roundtrip) simp_all

text \<open>
  The check sum of a request is sound: it is printed right behind the text it is taken over and
  reads back, the text together with the sum has check sum 0, and changing any one byte of the text is
  noticed.
\<close>
theorem niipp_check_sum_detects_a_changed_byte:
  "\<exists>t. t = ascii (text_join '','' list)
    \<and> prepareDataToSend list = t @ ascii ('',*'' @ decimal (unat (crc t)) @ [CHR 0x5C, CHR ''r'', CHR 0x5C, CHR ''n''])
    \<and> read_digits 0 (decimal (unat (crc t))) = Some (unat (crc t))
    \<and> crc (t @ [crc t]) = 0
    \<and> (\<forall>i < length t. \<forall>b. crc (t[i := b]) = crc t \<longleftrightarrow> b = t ! i)"
proof (intro exI conjI allI impI)
  fix i b assume i: "i < length (ascii (text_join '','' list))"
  have "xor c (xor x y) = c \<longleftrightarrow> y = x" for c x y :: u8
    by (metis xor.assoc xor.commute xor_self_eq xor.right_neutral)
  then show "crc ((ascii (text_join '','' list))[i := b]) = crc (ascii (text_join '','' list))
      \<longleftrightarrow> b = ascii (text_join '','' list) ! i"
    by (simp only: crc_update [OF i])
qed (simp_all add: prepareDataToSend_def Let_def ascii_append read_digits_decimal crc_append crc_Cons)

lemma niipp_check_sum_detects_a_changed_byte_witness:
  "crc ((ascii ''a,b'')[0 := 7]) \<noteq> crc (ascii ''a,b'')"
proof -
  from niipp_check_sum_detects_a_changed_byte [of "[''a'', ''b'']"] have
    "\<forall>i < length (ascii ''a,b''). \<forall>b. crc ((ascii ''a,b'')[i := b]) = crc (ascii ''a,b'') \<longleftrightarrow> b = ascii ''a,b'' ! i"
    by simp
  from this [rule_format, of 0 7] show ?thesis by (simp add: ascii_def)
qed

end
