(* ===== verification/UavTreeProps.thy ===== *)
theory UavTreeProps
  imports UavTree UavManagerProps
begin

text \<open>
  The tree of UAVs: what a sample changes in it, and that it shows the UAVs the manager tells it of.
\<close>

section \<open>Well-formed trees\<close>

definition source_ok :: "tree_item \<Rightarrow> bool" where
  "source_ok c \<longleftrightarrow> map (\<lambda>x. bi_id (item_data x)) (item_children c)
       = (if word_of_int (bi_id (item_data c)) = UAV_SLICES_SOURCE then [1, 2] else [1, 2, 3])
     \<and> (\<forall>x \<in> set (item_children c). item_children x = [])
     \<and> bi_state (item_data c) \<in> {0, 1}"

definition any_active :: "tree_item list \<Rightarrow> int" where
  "any_active cs = (if \<exists>c \<in> set cs. bi_state (item_data c) = 1 then 1 else 0)"

definition station_ok :: "tree_item \<Rightarrow> bool" where
  "station_ok st \<longleftrightarrow> (\<forall>c \<in> set (item_children st). source_ok c)
     \<and> bi_state (item_data st) = any_active (item_children st)"

definition ut_inv :: "uav_tree \<Rightarrow> bool" where
  "ut_inv t \<longleftrightarrow> (\<forall>st \<in> set (item_children (tr_root t)). station_ok st)"

section \<open>A sample as one change\<close>

text \<open>The properties a sample shows, and the station after the sample.\<close>

definition sample_items :: "(double \<Rightarrow> int) \<Rightarrow> UavInfo \<Rightarrow> tree_item list" where
  "sample_items ov i =
     [Item (property_of i LAT_PROPERTY_ID ''lat'' (ValText (number_fixed 4 (info_lat i)))) [],
      Item (property_of i LON_PROPERTY_ID ''lon'' (ValText (number_fixed 4 (info_lon i)))) []]
     @ (if info_source i \<noteq> UAV_SLICES_SOURCE
        then [Item (property_of i ALT_PROPERTY_ID ''alt'' (ValText (number_int (to_int ov (info_alt i))))) []] else [])"

definition sample_station :: "(double \<Rightarrow> int) \<Rightarrow> UavInfo \<Rightarrow> tree_item \<Rightarrow> tree_item" where
  "sample_station ov i st =
     (let d = item_data st; cs = item_children st
      in if bi_id d \<noteq> sint (info_uavId i) \<or> info_historical i = isReal (bi_name d) then st
         else case first_with_id (\<lambda>j. word_of_int j = info_source i) cs of
                None \<Rightarrow> st
              | Some j \<Rightarrow>
                  let cs = cs[j := Item ((item_data (cs ! j))\<lparr>bi_state := if in_flight i then 1 else 0\<rparr>) (sample_items ov i)]
                  in Item (d\<lparr>bi_state := any_active cs\<rparr>) cs)"

lemma station_state_any: "station_state s cs = (if s = 0 then any_active cs else s)"
  by (induction s cs rule: station_state.induct) (auto simp: any_active_def)

lemma first_with_id_less: "first_with_id P cs = Some j \<Longrightarrow> j < length cs \<and> P (bi_id (item_data (cs ! j)))"
  by (induction cs arbitrary: j) (auto split: if_splits)

lemma first_with_id_update:
  "first_with_id P cs = Some j \<Longrightarrow> bi_id (item_data x) = bi_id (item_data (cs ! j)) \<Longrightarrow> first_with_id P (cs[j := x]) = Some j"
  by (induction cs arbitrary: j) (auto split: if_splits)

lemma any_active_update:
  assumes "bi_state (item_data x) = bi_state (item_data y)"
  shows "any_active (cs[j := x]) = any_active (cs[j := y])"
proof -
  have any: "any_active cs = (if 1 \<in> set (map (\<lambda>c. bi_state (item_data c)) cs) then 1 else 0)" for cs
    by (auto simp: any_active_def)
  show ?thesis unfolding any map_update assms ..
qed

lemma any_active_at:
  assumes "j < length cs" and "bi_state (item_data x) = 1"
  shows "any_active (cs[j := x]) = 1"
  using set_update_memI [OF assms(1), of x] assms(2) by (auto simp: any_active_def)

lemma update_source_data [simp]:
  "item_data (update_source s p c) = (item_data c)\<lparr>bi_state := s\<rparr>"
  by (simp add: update_source_def Let_def)

text \<open>A second update of the same station settles its state.\<close>

lemma update_station_again:
  assumes j: "first_with_id (\<lambda>k. word_of_int k = info_source i) cs = Some j"
    and m: "bi_id d = sint (info_uavId i)" "info_historical i \<noteq> isReal (bi_name d)"
    and p: "bi_pid p = sint (info_uavId i)"
    and c: "bi_id (item_data c) = bi_id (item_data (cs ! j))" "bi_state (item_data c) = (if in_flight i then 1 else 0)"
  shows "update_station i p (Item d (cs[j := c]))
    = (let c = update_source (if in_flight i then 1 else 0) p c
       in Item (d\<lparr>bi_state := any_active (cs[j := c])\<rparr>) (cs[j := c]))"
proof -
  have l: "j < length cs" using first_with_id_less [OF j] by simp
  let ?s = "if in_flight i then 1 else 0 :: int"
  have "any_active (cs[j := c]) = any_active (cs[j := update_source ?s p c])"
    using c(2) by (intro any_active_update) simp
  moreover have "station_state ?s (cs[j := c]) = any_active (cs[j := c])"
    using c(2) any_active_at [OF l, of c] by (simp add: station_state_any)
  ultimately show ?thesis
    using first_with_id_update [OF j c(1)] m p l by (simp add: update_station_def Let_def)
qed

text \<open>The three properties of a source, one after the other.\<close>

definition lat_property :: "UavInfo \<Rightarrow> base_item" where
  "lat_property i = property_of i LAT_PROPERTY_ID ''lat'' (ValText (number_fixed 4 (info_lat i)))"

definition lon_property :: "UavInfo \<Rightarrow> base_item" where
  "lon_property i = property_of i LON_PROPERTY_ID ''lon'' (ValText (number_fixed 4 (info_lon i)))"

definition alt_property :: "(double \<Rightarrow> int) \<Rightarrow> UavInfo \<Rightarrow> base_item" where
  "alt_property ov i = property_of i ALT_PROPERTY_ID ''alt'' (ValText (number_int (to_int ov (info_alt i))))"

lemmas properties = lat_property_def lon_property_def alt_property_def property_of_def
  LAT_PROPERTY_ID_def LON_PROPERTY_ID_def ALT_PROPERTY_ID_def

lemma source_after:
  assumes "source_ok c" and "word_of_int (bi_id (item_data c)) = info_source i"
  shows "(let c = update_source s (lon_property i) (update_source s (lat_property i) c)
      in if info_source i \<noteq> UAV_SLICES_SOURCE then update_source s (alt_property ov i) c else c)
    = Item ((item_data c)\<lparr>bi_state := s\<rparr>) (sample_items ov i)"
proof (cases "info_source i = UAV_SLICES_SOURCE")
  case True
  then obtain x y where "item_children c = [x, y]" "bi_id (item_data x) = 1" "bi_id (item_data y) = 2"
      "item_children x = []" "item_children y = []"
    using assms by (auto simp: source_ok_def map_eq_Cons_conv)
  with True show ?thesis
    by (simp add: update_source_def Let_def updateItem_def sample_items_def properties)
next
  case False
  then obtain x y z where "item_children c = [x, y, z]" "bi_id (item_data x) = 1" "bi_id (item_data y) = 2"
      "bi_id (item_data z) = 3" "item_children x = []" "item_children y = []" "item_children z = []"
    using assms by (auto simp: source_ok_def map_eq_Cons_conv)
  with False show ?thesis
    by (simp add: update_source_def Let_def updateItem_def sample_items_def properties)
qed

lemma station_after:
  assumes ok: "station_ok st"
  shows "(let st = update_station i (lon_property i) (update_station i (lat_property i) st)
      in if info_source i \<noteq> UAV_SLICES_SOURCE then update_station i (alt_property ov i) st else st) = sample_station ov i st"
proof -
  obtain d cs where st: "st = Item d cs" by (cases st)
  have pid: "bi_pid (lat_property i) = sint (info_uavId i)" "bi_pid (lon_property i) = sint (info_uavId i)"
    "bi_pid (alt_property ov i) = sint (info_uavId i)" by (simp_all add: properties)
  show ?thesis
  proof (cases "bi_id d \<noteq> sint (info_uavId i) \<or> info_historical i = isReal (bi_name d)
      \<or> first_with_id (\<lambda>k. word_of_int k = info_source i) cs = None")
    case True
    have same: "update_station i p st = st" if "bi_pid p = sint (info_uavId i)" for p
      using True that by (elim disjE) (simp_all add: st update_station_def Let_def)
    have "sample_station ov i st = st" using True by (elim disjE) (simp_all add: st sample_station_def Let_def)
    then show ?thesis by (simp add: same pid)
  next
    case False
    then obtain j where j: "first_with_id (\<lambda>k. word_of_int k = info_source i) cs = Some j"
      and m: "bi_id d = sint (info_uavId i)" "info_historical i \<noteq> isReal (bi_name d)" by auto
    from first_with_id_less [OF j] have l: "j < length cs" and src: "word_of_int (bi_id (item_data (cs ! j))) = info_source i"
      by simp_all
    let ?s = "if in_flight i then 1 else 0 :: int"
    let ?c1 = "update_source ?s (lat_property i) (cs ! j)"
    let ?c2 = "update_source ?s (lon_property i) ?c1"
    let ?c3 = "update_source ?s (alt_property ov i) ?c2"
    let ?d1 = "d\<lparr>bi_state := station_state ?s cs\<rparr>"
    let ?d2 = "d\<lparr>bi_state := any_active (cs[j := ?c2])\<rparr>"
    have u1: "update_station i (lat_property i) st = Item ?d1 (cs[j := ?c1])"
      using j m by (simp add: st update_station_def Let_def pid)
    have u2: "update_station i (lon_property i) (Item ?d1 (cs[j := ?c1])) = Item ?d2 (cs[j := ?c2])"
      using update_station_again [OF j, of ?d1 "lon_property i" ?c1] m pid by (simp add: Let_def)
    have u3: "update_station i (alt_property ov i) (Item ?d2 (cs[j := ?c2])) = Item (d\<lparr>bi_state := any_active (cs[j := ?c3])\<rparr>) (cs[j := ?c3])"
      using update_station_again [OF j, of ?d2 "alt_property ov i" ?c2] m pid by (simp add: Let_def)
    have "source_ok (cs ! j)" using ok l by (simp add: station_ok_def st)
    from source_after [OF this src, of ?s ov]
    have "(if info_source i \<noteq> UAV_SLICES_SOURCE then ?c3 else ?c2) = Item ((item_data (cs ! j))\<lparr>bi_state := ?s\<rparr>) (sample_items ov i)"
      by (simp add: Let_def)
    then show ?thesis
      using j m unfolding u1 Let_def u2 u3 by (cases "info_source i = UAV_SLICES_SOURCE") (simp_all add: st sample_station_def Let_def)
  qed
qed

lemma change_stations_again:
  "change_stations f (change_stations g t) = change_stations (\<lambda>cs. f (g cs)) t"
  "ut_targetRole (change_stations f t) = ut_targetRole t"
  by (simp_all add: change_stations_def)

lemma sample_change:
  assumes "ut_inv t" and "role = ut_targetRole t"
  shows "ut_onUavInfoChanged ov i role t = (change_stations (map (sample_station ov i)) t)\<lparr>ut_needRedraw := True\<rparr>"
proof -
  have "map (\<lambda>st. let st = update_station i (lon_property i) (update_station i (lat_property i) st)
      in if info_source i \<noteq> UAV_SLICES_SOURCE then update_station i (alt_property ov i) st else st)
      (item_children (tr_root t)) = map (sample_station ov i) (item_children (tr_root t))"
    using assms(1) by (intro map_cong refl station_after) (simp add: ut_inv_def)
  then show ?thesis
    using assms(2)
    by (cases "info_source i = UAV_SLICES_SOURCE")
      (simp_all add: ut_onUavInfoChanged_def onPropertyChanged_def change_stations_def comp_def Let_def
        flip: lat_property_def lon_property_def alt_property_def)
qed

section \<open>Reachable trees\<close>

inductive tree_reachable :: "(double \<Rightarrow> int) \<Rightarrow> uav_tree \<Rightarrow> bool" for ov where
  start: "tree_reachable ov (ut_init headers)"
| role: "tree_reachable ov t \<Longrightarrow> tree_reachable ov (setTargetRole r t)"
| added: "tree_reachable ov t \<Longrightarrow> tree_reachable ov (snd (ut_onUavAdded u r t))"
| removed: "tree_reachable ov t \<Longrightarrow> tree_reachable ov (snd (ut_onUavRemoved u r t))"
| sample: "tree_reachable ov t \<Longrightarrow> tree_reachable ov (ut_onUavInfoChanged ov i r t)"
| redraw: "tree_reachable ov t \<Longrightarrow> tree_reachable ov (snd (ut_updateData t))"

lemma station_item_ok: "station_ok (station_item u r)"
  by (simp add: station_ok_def station_item_def addSourceNode_def appendChild_def source_item_def source_ok_def
      any_active_def coordinate_item_def new_item_def source_types LAT_PROPERTY_ID_def LON_PROPERTY_ID_def
      ALT_PROPERTY_ID_def Let_def)

lemma sample_items_ids:
  "map (\<lambda>x. bi_id (item_data x)) (sample_items ov i) = (if info_source i = UAV_SLICES_SOURCE then [1, 2] else [1, 2, 3])"
  "\<forall>x \<in> set (sample_items ov i). item_children x = []"
  by (simp_all add: sample_items_def properties)

lemma sample_station_ok:
  assumes "station_ok st"
  shows "station_ok (sample_station ov i st)"
proof -
  obtain d cs where st: "st = Item d cs" by (cases st)
  let ?s = "if in_flight i then 1 else 0 :: int"
  have "station_ok (Item (d\<lparr>bi_state := any_active cs'\<rparr>) cs')"
    if "j < length cs" "word_of_int (bi_id (item_data (cs ! j))) = info_source i"
      "cs' = cs[j := Item ((item_data (cs ! j))\<lparr>bi_state := ?s\<rparr>) (sample_items ov i)]" for j cs'
  proof -
    let ?new = "Item ((item_data (cs ! j))\<lparr>bi_state := ?s\<rparr>) (sample_items ov i)"
    have "source_ok ?new" using that(2) sample_items_ids [of ov i] by (simp add: source_ok_def)
    moreover have "\<forall>c \<in> set cs. source_ok c" using assms by (simp add: station_ok_def st)
    moreover have "set cs' \<subseteq> insert ?new (set cs)" unfolding that(3) by (rule set_update_subset_insert)
    ultimately have "\<forall>c \<in> set cs'. source_ok c" by blast
    then show ?thesis by (simp add: station_ok_def)
  qed
  then show ?thesis
    using assms first_with_id_less [of "\<lambda>k. word_of_int k = info_source i" cs]
    by (auto simp: st sample_station_def Let_def split: option.split)
qed

lemma tree_reachable_inv: "tree_reachable ov t \<Longrightarrow> ut_inv t"
proof (induction rule: tree_reachable.induct)
  case (start headers)
  then show ?case by (simp add: ut_inv_def ut_init_def)
next
  case (role t r)
  then show ?case by (simp add: ut_inv_def setTargetRole_def)
next
  case (added t u r)
  then show ?case by (auto simp: ut_inv_def ut_onUavAdded_def change_stations_def station_item_ok)
next
  case (removed t u r)
  then show ?case
    by (auto simp: ut_inv_def ut_onUavRemoved_def removeChild_def remove_at_def split: option.split
        dest: in_set_takeD in_set_dropD)
next
  case (sample t i r)
  show ?case
  proof (cases "r = ut_targetRole t")
    case True
    then show ?thesis
      using sample.IH sample_station_ok unfolding sample_change [OF sample.IH True]
      by (auto simp: ut_inv_def change_stations_def)
  next
    case False
    with sample.IH show ?thesis by (simp add: ut_onUavInfoChanged_def)
  qed
next
  case (redraw t)
  then show ?case by (simp add: ut_inv_def ut_updateData_def)
qed

text \<open>
  C25: A sample changes the tree in one well-defined way, although the code writes its three coordinates
  in three passes and computes the state of the UAV from outdated states of its sources: in every tree
  that can be reached, the first source of that type of every UAV with that id and kind shows the
  coordinates of the sample and whether it flies, nothing else of its sources changes, and every UAV is
  active exactly when one of its sources is.
\<close>
theorem samples_update_one_source:
  assumes "tree_reachable ov t"
  shows "ut_onUavInfoChanged ov i (ut_targetRole t) t
      = (change_stations (map (sample_station ov i)) t)\<lparr>ut_needRedraw := True\<rparr>
    \<and> (\<forall>st \<in> set (item_children (tr_root t)). bi_state (item_data st) = any_active (item_children st))"
  using sample_change [OF tree_reachable_inv [OF assms] refl] tree_reachable_inv [OF assms]
  by (simp add: ut_inv_def station_ok_def)

definition shown_tree :: uav_tree where
  "shown_tree = snd (ut_onUavAdded (known_uav\<lparr>uav_name := ''5''\<rparr>) OUR_UAV_ROLE (ut_init []))"

definition flying_sample :: UavInfo where
  "flying_sample = \<lparr>info_id = 0, info_uavId = 5, info_device = 1, info_source = UAV_AUTOPILOT_SOURCE, info_lat = Fin 54,
     info_lon = Fin 27, info_latStddev = Fin 0, info_lonStddev = Fin 0, info_alt = Fin 100, info_speed = Fin 0,
     info_yaw = Fin 0, info_restTime = 0, info_statusId = 1, info_dateTime = (0, 0), info_historical = False\<rparr>"

lemma samples_update_one_source_witness:
  "map (\<lambda>st. bi_state (item_data st)) (item_children (tr_root (ut_onUavInfoChanged (\<lambda>_. 0) flying_sample OUR_UAV_ROLE shown_tree))) = [1]"
proof -
  let ?uav = "known_uav\<lparr>uav_name := ''5''\<rparr>"
  let ?st = "station_item ?uav OUR_UAV_ROLE"
  have t: "tree_reachable (\<lambda>_. 0) shown_tree" unfolding shown_tree_def by (rule tree_reachable.added [OF tree_reachable.start])
  have tree: "ut_targetRole shown_tree = OUR_UAV_ROLE" "item_children (tr_root shown_tree) = [?st]"
    by (simp_all add: shown_tree_def ut_onUavAdded_def change_stations_def ut_init_def)
  have "first_with_id (\<lambda>j. word_of_int j = info_source flying_sample) (item_children ?st) = Some 0"
    "bi_id (item_data ?st) = sint (info_uavId flying_sample)" "isReal (bi_name (item_data ?st))"
    "\<not> info_historical flying_sample" "in_flight flying_sample" "item_children ?st \<noteq> []"
    by code_simp+
  then have "bi_state (item_data (sample_station (\<lambda>_. 0) flying_sample ?st)) = 1"
    by (simp add: sample_station_def any_active_at Let_def)
  then show ?thesis
    using samples_update_one_source [OF t, of flying_sample] tree by (simp add: change_stations_def)
qed

section \<open>The UAVs on display\<close>

text \<open>The calls of one listener.\<close>

fun show_event :: "(double \<Rightarrow> int) \<Rightarrow> 'l \<Rightarrow> 'l manager_event \<Rightarrow> uav_tree \<Rightarrow> uav_tree" where
  "show_event ov l (UavAdded k u r) t = (if k = l then snd (ut_onUavAdded u r t) else t)"
| "show_event ov l (UavRemoved k u r) t = (if k = l then snd (ut_onUavRemoved u r t) else t)"
| "show_event ov l (UavInfoChanged k i r a d) t = (if k = l then ut_onUavInfoChanged ov i r t else t)"
| "show_event ov l (HistoryLifeTime m) t = t"

text \<open>
  What the tree relies on: the role of a UAV does not change, and UAVs that are not historical have a
  number as their name.
\<close>

fun proper :: "(u32 \<Rightarrow> string) \<Rightarrow> 'l manager_event \<Rightarrow> bool" where
  "proper role (UavAdded k u r) \<longleftrightarrow> r = role (uav_uavId u) \<and> isReal (uav_name u)"
| "proper role (UavRemoved k u r) \<longleftrightarrow> r = role (uav_uavId u) \<and> \<not> uav_historical u"
| "proper role _ \<longleftrightarrow> True"

definition station_id :: "tree_item \<Rightarrow> u32" where
  "station_id st = word_of_int (bi_id (item_data st))"

definition tree_ids :: "uav_tree \<Rightarrow> u32 list" where
  "tree_ids t = map station_id (item_children (tr_root t))"

definition shows_uavs :: "(u32 \<Rightarrow> string) \<Rightarrow> u32 set \<Rightarrow> uav_tree \<Rightarrow> bool" where
  "shows_uavs role S t \<longleftrightarrow> distinct (tree_ids t) \<and> set (tree_ids t) = {i \<in> S. role i = ut_targetRole t}
     \<and> (\<forall>st \<in> set (item_children (tr_root t)). isReal (bi_name (item_data st)))"

lemma update_station_kept:
  "bi_id (item_data (update_station i p st)) = bi_id (item_data st)"
  "bi_name (item_data (update_station i p st)) = bi_name (item_data st)"
  by (simp_all add: update_station_def Let_def split: option.split)

lemma property_shows: "shows_uavs role S (onPropertyChanged i n x v t) = shows_uavs role S t"
  by (simp add: shows_uavs_def tree_ids_def onPropertyChanged_def change_stations_def comp_def station_id_def [abs_def]
      update_station_kept)

lemma property_target [simp]: "ut_targetRole (onPropertyChanged i n x v t) = ut_targetRole t"
  by (simp add: onPropertyChanged_def change_stations_def)

lemma sample_shows: "shows_uavs role S (ut_onUavInfoChanged ov i r t) = shows_uavs role S t"
proof -
  have "shows_uavs role S (t\<lparr>ut_needRedraw := b\<rparr>) = shows_uavs role S t" for t b
    by (simp add: shows_uavs_def tree_ids_def)
  then show ?thesis by (simp add: ut_onUavInfoChanged_def Let_def property_shows)
qed

lemma station_item_data: "item_data (station_item u r) = new_item\<lparr>bi_id := sint (uav_uavId u), bi_name := uav_name u\<rparr>"
  by (simp add: station_item_def addSourceNode_def appendChild_def Let_def)

lemma added_shows:
  assumes "shows_uavs role S t" and "uav_uavId u \<notin> S" and "proper role (UavAdded l u r)"
  shows "shows_uavs role (insert (uav_uavId u) S) (snd (ut_onUavAdded u r t))"
proof (cases "r = ut_targetRole t")
  case True
  have "station_id (station_item u r) = uav_uavId u" by (simp add: station_id_def station_item_data)
  with True assms show ?thesis
    by (auto simp: shows_uavs_def tree_ids_def ut_onUavAdded_def change_stations_def station_item_data)
next
  case False
  with assms show ?thesis by (auto simp: shows_uavs_def ut_onUavAdded_def)
qed

lemma station_row_real:
  assumes "\<not> uav_historical u" and "\<forall>st \<in> set cs. isReal (bi_name (item_data st))"
  shows "station_row u cs = (if uav_uavId u \<in> set (map station_id cs) then Some (index_of (uav_uavId u) (map station_id cs)) else None)"
  using assms by (induction cs) (auto simp: station_id_def)

lemma removed_shows:
  assumes "shows_uavs role S t" and "proper role (UavRemoved l u r)"
  shows "shows_uavs role (S - {uav_uavId u}) (snd (ut_onUavRemoved u r t))"
proof (cases "r = ut_targetRole t \<and> uav_uavId u \<in> set (tree_ids t)")
  case True
  let ?cs = "item_children (tr_root t)"
  have row: "station_row u ?cs = Some (index_of (uav_uavId u) (map station_id ?cs))"
    using assms True by (subst station_row_real) (auto simp: shows_uavs_def tree_ids_def)
  let ?cs' = "remove_at (index_of (uav_uavId u) (map station_id ?cs)) ?cs"
  have "map station_id ?cs' = remove1 (uav_uavId u) (map station_id ?cs)"
    by (simp add: remove_at_def take_map drop_map flip: remove_at_index_of)
  moreover have "set ?cs' \<subseteq> set ?cs" by (auto simp: remove_at_def dest: in_set_takeD in_set_dropD)
  ultimately show ?thesis
    using True assms
    by (auto simp: shows_uavs_def tree_ids_def ut_onUavRemoved_def row removeChild_def)
next
  case False
  then have "snd (ut_onUavRemoved u r t) = t"
    using assms station_row_real [of u "item_children (tr_root t)"]
    by (auto simp: shows_uavs_def tree_ids_def ut_onUavRemoved_def)
  moreover have "{i \<in> S - {uav_uavId u}. role i = ut_targetRole t} = {i \<in> S. role i = ut_targetRole t}"
    using False assms by (auto simp: shows_uavs_def)
  ultimately show ?thesis using assms(1) by (simp add: shows_uavs_def)
qed

lemma events_show:
  assumes "follows l S es = Some S'" and "\<forall>e \<in> set es. proper role e" and "shows_uavs role S t"
  shows "shows_uavs role S' (fold (show_event ov l) es t)"
  using assms
proof (induction l S es arbitrary: t rule: follows.induct)
  case (2 l S k u r es)
  then show ?case using added_shows [of role S t u k r] by (cases "k = l") (auto split: if_splits)
next
  case (3 l S k i r a d es)
  then show ?case by (cases "k = l") (auto simp: sample_shows split: if_splits)
next
  case (4 l S k u r es)
  then show ?case using removed_shows [of role S t k u r] by (cases "k = l") (auto split: if_splits)
qed simp_all

text \<open>
  C24: A tree that listens to the manager from its start shows, after any run of the manager, exactly the
  UAVs of its role that the manager knows, each once, provided that no UAV changes its role and that the
  manager's UAVs are named by numbers: the tree takes any other name for a UAV of the history and would
  never remove it.
\<close>
theorem tree_shows_the_known_uavs:
  assumes "manager_run db en positions enemies (um_init c time\<lparr>um_listeners := ls\<rparr>) es m'"
    and "distinct ls" and "l \<in> set ls" and "\<forall>e \<in> set es. proper role e"
  shows "distinct (tree_ids (fold (show_event ov l) es (ut_init headers)))
    \<and> set (tree_ids (fold (show_event ov l) es (ut_init headers)))
      = {i. qlookup (um_known m') i \<noteq> None \<and> role i = OUR_UAV_ROLE}"
proof -
  have "um_inv (um_init c time\<lparr>um_listeners := ls\<rparr>)" "shown (um_init c time\<lparr>um_listeners := ls\<rparr>) = {}"
    "um_listeners (um_init c time\<lparr>um_listeners := ls\<rparr>) = ls"
    by (simp_all add: um_init_def setLifeTime_def um_inv_def shown_def Let_def)
  with manager_run_good [OF assms(1)] assms(2,3) have "follows l {} es = Some (shown m')" by (simp add: good_step_def)
  moreover have "shows_uavs role {} (ut_init headers)" by (simp add: shows_uavs_def tree_ids_def ut_init_def)
  ultimately have "shows_uavs role (shown m') (fold (show_event ov l) es (ut_init headers))"
    using assms(4) by (intro events_show)
  moreover have "ut_targetRole (fold (show_event ov l) es (ut_init headers)) = OUR_UAV_ROLE"
  proof -
    have "ut_targetRole (show_event ov l e t) = ut_targetRole t" for e t
      by (cases e) (simp_all add: ut_onUavAdded_def ut_onUavRemoved_def ut_onUavInfoChanged_def change_stations_def
          Let_def split: option.split)
    then have "ut_targetRole (fold (show_event ov l) es t) = ut_targetRole t" for t
      by (induction es arbitrary: t) simp_all
    then show ?thesis by (simp add: ut_init_def)
  qed
  ultimately show ?thesis by (auto simp: shows_uavs_def shown_def)
qed

definition numbered_uav_db :: "unit uav_db" where
  "numbered_uav_db = one_uav_db\<lparr>db_getUavByUavId := (\<lambda>i c. (known_uav\<lparr>uav_name := ''5''\<rparr>, c)),
     db_getUavRole := (\<lambda>i c. (blank_role\<lparr>role_code := OUR_UAV_ROLE\<rparr>, c))\<rparr>"

text \<open>One sample of the UAV 5, for the witnesses.\<close>

definition one_sample :: "nat UavManager.manager_event list \<times> (unit, nat) manager" where
  "one_sample = addUavInfoToDb numbered_uav_db some_environment some_position OUR_UAV_ROLE [] [] [] [] True [] [] one_listener"

lemma one_sample_run:
  "manager_run numbered_uav_db some_environment (\<lambda>d::unit. [some_position]) (\<lambda>d. [])
      (um_init () 5000\<lparr>um_listeners := [1::nat]\<rparr>) (fst one_sample) (snd one_sample)"
  "dom (qlookup (um_known (snd one_sample))) = {5}"
proof -
  let ?call = "onMethodCalled numbered_uav_db some_environment (\<lambda>d::unit. [some_position]) (\<lambda>d. []) ''rpc_slot_server_send_bla_points'' () one_listener"
  have same: "?call = one_sample"
    by (simp add: one_sample_def onMethodCalled_def addUavInfoToDb_def sample_references_def find_or_add_uav_def
        find_or_add_device_def find_source_def find_or_add_def one_uav_db_def numbered_uav_db_def run_db_def known_uav_def)
  have "manager_step numbered_uav_db some_environment (\<lambda>d::unit. [some_position]) (\<lambda>d. []) one_listener (fst one_sample) (snd one_sample)"
    by (rule manager_step.Message [of _ _ _ _ "''rpc_slot_server_send_bla_points''" "()"])
      (simp only: same prod.collapse)
  from manager_run.Next [OF manager_run.Start this]
  show "manager_run numbered_uav_db some_environment (\<lambda>d::unit. [some_position]) (\<lambda>d. [])
      (um_init () 5000\<lparr>um_listeners := [1::nat]\<rparr>) (fst one_sample) (snd one_sample)" by (simp add: one_listener_def)
  have "qkeys (um_known (snd one_sample)) = [5]" by code_simp
  then show "dom (qlookup (um_known (snd one_sample))) = {5}" by (metis set_qkeys list.set(1,2))
qed

lemma tree_shows_the_known_uavs_witness:
  "set (tree_ids (fold (show_event (\<lambda>_. 0) 1) (fst one_sample) (ut_init []))) = {5}"
proof -
  have "list_all (proper (\<lambda>_. OUR_UAV_ROLE)) (fst one_sample)" by code_simp
  then have ok: "\<forall>e \<in> set (fst one_sample). proper (\<lambda>_. OUR_UAV_ROLE) e" by (simp only: list_all_iff)
  from tree_shows_the_known_uavs [OF one_sample_run(1) _ _ ok, of 1 "\<lambda>_. 0" "[]"] one_sample_run(2)
  show ?thesis by (simp add: dom_def)
qed

end
