(* ===== verification/NiippControlProps.thy ===== *)
theory NiippControlProps
  imports ViewClient NiippProps UavTreeProps
begin

text \<open>
  The control of the NIIPP from end to end: a sample of an enemy UAV on its way through the client and
  the server to the text the device gets, what the device answers on its way back, and what a change of
  the settings does to the target.
\<close>

section \<open>The way of a command\<close>








definition some_clock :: niipp_clock where
  "some_clock = \<lparr>nk_date = 0, nk_time = 0, nk_overflow = (\<lambda>_. 0)\<rparr>"





section \<open>Changes of the settings\<close>

lemma sendEvil_own_point:
  assumes "np_tab n" and "np_enable n" and "np_pointBPLA n = (lat, lon)"
  shows "sendEvil k PointBPLA alt bearing n =
    (let n' = n\<lparr>np_pointBPLA := (lon, lon)\<rparr>
     in ([(COMMAND_SET_NIIPP_BPLA, command_data k (command_code n) (to_int (nk_overflow k) alt)
            (to_int (nk_overflow k) bearing) (np_power n) n')], n'))"
  using assms by (simp add: sendEvil_def store_target_def deref_def Let_def)

text \<open>
  C29: While a NIIPP is at work, every change of its mode, antenna or power sends the target again, but
  with its longitude in both coordinates, and keeps it that way: \<open>sendEvil\<close> gets its own field
  \<open>m_pointBPLA\<close> by reference and overwrites it before it reads the second coordinate.
\<close>
theorem changes_of_settings_lose_the_latitude:
  assumes "np_tab n" and "np_enable n" and "np_pointBPLA n = (lat, lon)"
    and "r \<in> {np_changeMode k v n, np_setAntennaType k 0 v n} \<union> set_option (np_changeValuePower k 0 v n)"
  shows "np_pointBPLA (snd r) = (lon, lon)
    \<and> (\<exists>d. fst r = [(COMMAND_SET_NIIPP_BPLA, d)] \<and> d ! 4 = TokPoint (lon, lon))"
proof -
  have sent: "np_pointBPLA (snd (sendEvil k PointBPLA a b m)) = (lon, lon)
      \<and> (\<exists>d. fst (sendEvil k PointBPLA a b m) = [(COMMAND_SET_NIIPP_BPLA, d)] \<and> d ! 4 = TokPoint (lon, lon))"
    if "np_tab m" "np_enable m" "np_pointBPLA m = (lat, lon)" for m a b
    using that by (simp add: sendEvil_own_point Let_def command_data_def)
  from assms(4) consider "r = np_changeMode k v n" | "r = np_setAntennaType k 0 v n" | "np_changeValuePower k 0 v n = Some r"
    by (auto simp: elem_set)
  then show ?thesis
  proof cases
    case 1
    then show ?thesis using sent [of "n\<lparr>np_mode := v\<rparr>"] assms by (simp add: np_changeMode_def)
  next
    case 2
    then show ?thesis using sent [of "n\<lparr>np_antenaType := v\<rparr>"] assms by (simp add: np_setAntennaType_def)
  next
    case 3
    then obtain m where "r = sendEvil k PointBPLA (Fin 0) (Fin 0) m" "np_tab m = np_tab n" "np_enable m = np_enable n"
        "np_pointBPLA m = np_pointBPLA n"
      by (auto simp: np_changeValuePower_def split: if_splits)
    then show ?thesis using sent assms by simp
  qed
qed

lemma changes_of_settings_lose_the_latitude_witness:
  "np_pointBPLA (snd (np_changeMode some_clock 1 (startCommand (new_niipp 100 [] (Fin 0, Fin 0) True)\<lparr>np_pointBPLA := (Fin 54, Fin 27)\<rparr>)))
    = (Fin 27, Fin 27)"
  using changes_of_settings_lose_the_latitude [of "startCommand (new_niipp 100 [] (Fin 0, Fin 0) True)\<lparr>np_pointBPLA := (Fin 54, Fin 27)\<rparr>"
      "Fin 54" "Fin 27" _ some_clock 1]
  by (simp add: startCommand_def new_niipp_def)

section \<open>Answers\<close>

text \<open>
  C30: An answer of a NIIPP, decoded by the server and handed to the controllers of the client, changes
  only the one with its id: antenna, angle and the radius of the zone are those of the answer. A zone
  outside of the 24 zones of the circular or the 28 of the directional antenna is read out of range.
\<close>
theorem niipp_answers_set_the_zone:
  assumes "niipp_encode F j data () = (Some msg, ())"
  shows "nc_onMethodCalled k RPC_SLOT_SERVER_SEND_NIIPP_DATA (msg_data msg) n
    = (let list = text_split '','' (text_of data); mode = text_toInt (list ! 2); zone = text_toInt (list ! 8);
           n' = n\<lparr>np_antenaType := if mode = 1 then 1 else 0, np_angle := d_of_int (text_toInt (list ! 9))\<rparr>;
           n'' = (if mode = 1 then n'\<lparr>np_radiusCircle := d_mul (m_zone ! nat zone) (d_of_int 1000)\<rparr>
                  else n'\<lparr>np_radiusSector := d_mul (m_zoneDir ! nat zone) (d_of_int 1000)\<rparr>)
       in if np_id n \<noteq> j then Some ([], n)
          else if 0 \<le> zone \<and> zone < (if mode = 1 then 24 else 28) then Some ([StatusText mode, UpdatePowerZone n''], n'')
          else None)"
proof -
  have names: "RPC_SLOT_SERVER_SEND_NIIPP_DATA \<noteq> RPC_SLOT_SERVER_SEND_NIIPP_CONNECTION_STATUS" by (simp add: rpc_names)
  have zones: "length m_zone = 24" "length m_zoneDir = 28" by (simp_all add: m_zone_def m_zoneDir_def)
  show ?thesis
    using assms names
    by (auto simp: niipp_encode_def nc_onMethodCalled_def nc_data_def np_setAntennaType_def np_changeValuePower_def
        zone_at_def zones Let_def split: if_splits)
qed

definition niipp_answer :: string where
  "niipp_answer = ''010120,120000,01,0540000,N,0270000,E,100,5,90,0''"

lemma niipp_answers_set_the_zone_witness:
  "nc_onMethodCalled some_clock RPC_SLOT_SERVER_SEND_NIIPP_DATA
     (msg_data (the (fst (niipp_encode \<lparr>read_date = (\<lambda>_. 0), print_date = (\<lambda>_. []), read_time = (\<lambda>_. 0), print_time = (\<lambda>_. [])\<rparr>
        100 (ascii niipp_answer) ())))) (new_niipp 101 [] (Fin 0, Fin 0) True)
   = Some ([], new_niipp 101 [] (Fin 0, Fin 0) True)"
proof -
  let ?F = "\<lparr>read_date = (\<lambda>_. 0), print_date = (\<lambda>_. []), read_time = (\<lambda>_. 0), print_time = (\<lambda>_. [])\<rparr> :: formats"
  have "11 \<le> length (text_split '','' (text_of (ascii niipp_answer)))" by code_simp
  then have "niipp_encode ?F 100 (ascii niipp_answer) () = (Some (the (fst (niipp_encode ?F 100 (ascii niipp_answer) ()))), ())"
    by (simp add: niipp_encode_def Let_def)
  from niipp_answers_set_the_zone [OF this, of some_clock "new_niipp 101 [] (Fin 0, Fin 0) True"]
  show ?thesis by (simp add: new_niipp_def Let_def)
qed

end
