(* ===== verification/MapFeatures.thy ===== *)
theory MapFeatures
  imports NiippControl
begin

text \<open>
  The features of the map (\<open>view/core/Map/Features\<close>): UAVs with their tracks, direction finders, zones of
  the NIIPP, hyperbolas, ships and planes. The objects drawn by the map library are events: every
  \<open>updateMap\<close> draws an object, \<open>removeFromMap\<close> takes it from the map. Names, tool tips and styles are left
  out but for the style name of enemies, which the code compares. Two points are the same as far as
  \<open>QPointF\<close> compares them, which depends on the version of Qt: \<open>same\<close> is a parameter.
\<close>

section \<open>Objects of the map\<close>

datatype feature_id =
    FriendF string
  | EnemyF string
  | NiippF int
  | PelengatorF int
  | InterceptionF string
  | AisF string
  | AdsbF string
  | StationF string
  | CheckPointF nat
  | HyperboleF nat
  | NiippPointF

datatype feature_part = MarkerPart | TailPart | SlicesPart | CirclePart | SectorPart | PathPart

datatype map_event =
    UpdateMap feature_id feature_part
  | RemoveFromMap feature_id feature_part
  | NewFeature feature_id
  | AddLayer string
  | LayerVisible string bool
  | SetInterception int int stream stream

text \<open>The loop that keeps a track short.\<close>

fun trim_track :: "nat \<Rightarrow> 'a list \<Rightarrow> 'a list" where
  "trim_track n [] = []"
| "trim_track n (x # xs) = (if length (x # xs) > n then trim_track n xs else x # xs)"

definition TRACK_LENGTH :: nat where "TRACK_LENGTH = 100"
definition ADSB_TRACK_LENGTH :: nat where "ADSB_TRACK_LENGTH = 20"

section \<open>UAVs\<close>

text \<open>A position is longitude and latitude.\<close>

record bpla =
  bp_position :: point
  bp_altitude :: double
  bp_speed :: double
  bp_angle :: double
  bp_latStddev :: double
  bp_lonStddev :: double
  bp_tail :: "point list"
  bp_slices :: "point list"
  bp_sourceId :: u32
  bp_historical :: bool
  bp_tailEnabled :: bool
  bp_autoTail :: bool

definition bp_setPosition :: "point \<Rightarrow> 'x bpla_scheme \<Rightarrow> 'x bpla_scheme" where
  "bp_setPosition p b =
     (let b = b\<lparr>bp_position := p\<rparr>
      in if bp_tailEnabled b \<and> bp_autoTail b
         then b\<lparr>bp_tail := trim_track TRACK_LENGTH (bp_tail b @ [bp_position b])\<rparr> else b)"

definition new_bpla :: "UavInfo \<Rightarrow> bpla" where
  "new_bpla uav =
     bp_setPosition (info_lon uav, info_lat uav)
       \<lparr>bp_position = (info_lon uav, info_lat uav), bp_altitude = info_alt uav, bp_speed = info_speed uav,
        bp_angle = info_yaw uav, bp_latStddev = Fin 0, bp_lonStddev = Fin 0, bp_tail = [], bp_slices = [],
        bp_sourceId = info_source uav, bp_historical = info_historical uav, bp_tailEnabled = True, bp_autoTail = True\<rparr>"

text \<open>A point of the tail has the latitude first.\<close>

definition bp_setTail :: "point list \<Rightarrow> 'x bpla_scheme \<Rightarrow> 'x bpla_scheme" where
  "bp_setTail tail b = b\<lparr>bp_tail := map (\<lambda>p. (snd p, fst p)) tail @ [bp_position b]\<rparr>"

definition bp_setSlice :: "point \<Rightarrow> 'x bpla_scheme \<Rightarrow> 'x bpla_scheme" where
  "bp_setSlice p b = b\<lparr>bp_slices := trim_track TRACK_LENGTH (bp_slices b @ [p])\<rparr>"

definition bp_update :: "(point \<Rightarrow> point \<Rightarrow> bool) \<Rightarrow> UavInfo \<Rightarrow> 'x bpla_scheme \<Rightarrow> 'x bpla_scheme" where
  "bp_update same uav b =
     (let p = (info_lon uav, info_lat uav);
          b = (if \<not> same p (bp_position b) then bp_setPosition p b else b);
          b = (if \<not> d_eq (info_alt uav) (bp_altitude b) then b\<lparr>bp_altitude := info_alt uav\<rparr> else b);
          b = (if \<not> d_eq (info_yaw uav) (bp_angle b) then b\<lparr>bp_angle := info_yaw uav\<rparr> else b);
          b = (if \<not> d_eq (info_speed uav) (bp_speed b) then b\<lparr>bp_speed := info_speed uav\<rparr> else b);
          b = (if \<not> d_eq (info_latStddev uav) (bp_latStddev b) then b\<lparr>bp_latStddev := info_latStddev uav\<rparr> else b);
          b = (if \<not> d_eq (info_lonStddev uav) (bp_lonStddev b) then b\<lparr>bp_lonStddev := info_lonStddev uav\<rparr> else b)
      in b)"

definition bp_updateMap :: "feature_id \<Rightarrow> map_event list" where
  "bp_updateMap f = [UpdateMap f MarkerPart, UpdateMap f TailPart, UpdateMap f SlicesPart]"

definition bp_removeFromMap :: "feature_id \<Rightarrow> map_event list" where
  "bp_removeFromMap f = [RemoveFromMap f TailPart, RemoveFromMap f SlicesPart, RemoveFromMap f MarkerPart]"

text \<open>The destructors of \<open>BplaAbstract\<close> and \<open>Marker\<close>.\<close>

definition bp_delete :: "feature_id \<Rightarrow> map_event list" where
  "bp_delete f = [RemoveFromMap f TailPart, RemoveFromMap f SlicesPart, RemoveFromMap f MarkerPart]"

section \<open>Enemies\<close>

definition LIFETIME_1 :: int where "LIFETIME_1 = 20000"
definition LIFETIME_2 :: int where "LIFETIME_2 = 3000"

record enemy_bpla = bpla +
  eb_styleName :: string
  eb_lifetime :: int
  eb_timer :: "int option"

definition getEnemyBplaStyleName :: "u32 \<Rightarrow> string" where
  "getEnemyBplaStyleName source = ''EmenyBPLA_'' @ qnumber source"

definition new_enemy_bpla :: "UavInfo \<Rightarrow> enemy_bpla" where
  "new_enemy_bpla uav =
     (let b = new_bpla uav; source = info_source uav;
          b = (if \<not> info_historical uav then b\<lparr>bp_autoTail := False\<rparr> else b);
          b = (if source = UAV_SOLVER_SINGLE_1_SOURCE \<or> source = UAV_SOLVER_SINGLE_2_SOURCE
               then b\<lparr>bp_tailEnabled := False\<rparr> else b)
      in bpla.extend b \<lparr>eb_styleName = getEnemyBplaStyleName source,
           eb_lifetime = (if source = 100 \<or> source = 101 then LIFETIME_1 else LIFETIME_2), eb_timer = None\<rparr>)"

definition eb_update :: "(point \<Rightarrow> point \<Rightarrow> bool) \<Rightarrow> UavInfo \<Rightarrow> enemy_bpla \<Rightarrow> enemy_bpla" where
  "eb_update same uav b =
     (if bp_sourceId b \<noteq> info_source uav then b
      else (bp_update same uav b)\<lparr>eb_timer := Some (eb_lifetime b)\<rparr>)"

section \<open>Direction finders\<close>

text \<open>The angles of the sector are \<open>None\<close> until they are set for the first time.\<close>

record pelengator =
  pl_position :: point
  pl_angle :: double
  pl_radius :: double
  pl_sector :: "(double \<times> double) option"

definition new_pelengator :: "point \<Rightarrow> double \<Rightarrow> pelengator" where
  "new_pelengator position angle =
     \<lparr>pl_position = position, pl_angle = angle, pl_radius = Fin 170000, pl_sector = None\<rparr>"

definition pl_setAngle :: "double \<Rightarrow> pelengator \<Rightarrow> pelengator" where
  "pl_setAngle angle p =
     (let startAngle = d_add (d_mul angle (d_of_int (- 1))) (d_of_int 90)
      in p\<lparr>pl_angle := angle, pl_sector := Some (startAngle, d_add startAngle (d_of_int 1))\<rparr>)"

definition pl_updateMap :: "int \<Rightarrow> pelengator \<Rightarrow> map_event list" where
  "pl_updateMap i p = (if d_le (pl_radius p) (Fin 0) then [] else [UpdateMap (PelengatorF i) SectorPart])"

definition pl_update :: "(point \<Rightarrow> point \<Rightarrow> bool) \<Rightarrow> int \<Rightarrow> point \<Rightarrow> double \<Rightarrow> pelengator \<Rightarrow> map_event list \<times> pelengator" where
  "pl_update same i position angle p =
     (let moved = \<not> same position (pl_position p);
          p = (if moved then p\<lparr>pl_position := position\<rparr> else p);
          turned = \<not> d_eq angle (pl_angle p);
          p = (if turned then pl_setAngle angle p else p)
      in (if moved \<or> turned then pl_updateMap i p else [], p))"

section \<open>Zones of the NIIPP\<close>

text \<open>The mode of the feature is the type of the antenna: 0 is directed, 1 is not directed.\<close>

record niipp_zone =
  nz_position :: point
  nz_mode :: int
  nz_radius :: double
  nz_angle :: double
  nz_sector :: "double \<times> double"

definition nz_setAngle :: "double \<Rightarrow> niipp_zone \<Rightarrow> niipp_zone" where
  "nz_setAngle v z =
     (let startAngle = d_add v (Fin (25 / 2));
          startAngle = (if d_less startAngle (Fin 0) then d_add (d_of_int 360) startAngle else startAngle);
          startAngle = d_add (d_mul startAngle (d_of_int (- 1))) (d_of_int 90)
      in z\<lparr>nz_angle := v, nz_sector := (startAngle, d_add startAngle (d_of_int 25))\<rparr>)"

text \<open>The point of a NIIPP has the latitude first.\<close>

definition new_zone :: "niipp \<Rightarrow> niipp_zone" where
  "new_zone n = nz_setAngle (np_angle n)
     \<lparr>nz_position = (snd (np_latlon n), fst (np_latlon n)), nz_mode = np_antenaType n, nz_radius = np_getRadius n,
      nz_angle = Fin 0, nz_sector = (Fin 0, Fin 0)\<rparr>"

definition nz_updateMap :: "int \<Rightarrow> niipp_zone \<Rightarrow> map_event list" where
  "nz_updateMap i z =
     (if d_le (nz_radius z) (Fin 0) then []
      else if nz_mode z = 0 then [UpdateMap (NiippF i) SectorPart]
      else if nz_mode z = 1 then [UpdateMap (NiippF i) CirclePart]
      else [])"

definition nz_setMode :: "int \<Rightarrow> int \<Rightarrow> niipp_zone \<Rightarrow> map_event list \<times> niipp_zone" where
  "nz_setMode i m z =
     (if m = 0 then [RemoveFromMap (NiippF i) CirclePart]
      else if m = 1 then [RemoveFromMap (NiippF i) SectorPart] else [],
      z\<lparr>nz_mode := m\<rparr>)"

text \<open>A new angle decides alone whether the zone is drawn again: it overwrites the flag.\<close>

definition nz_update :: "(point \<Rightarrow> point \<Rightarrow> bool) \<Rightarrow> niipp \<Rightarrow> niipp_zone \<Rightarrow> map_event list \<times> niipp_zone" where
  "nz_update same n z =
     (let position = (snd (np_latlon n), fst (np_latlon n)); changed = False;
          (changed, z) = (if \<not> same position (nz_position z) then (True, z\<lparr>nz_position := position\<rparr>) else (changed, z));
          (changed, es, z) = (if np_antenaType n \<noteq> nz_mode z
                              then let (es, z) = nz_setMode (np_id n) (np_antenaType n) z in (True, es, z)
                              else (changed, [], z));
          (changed, z) = (if \<not> d_eq (np_getRadius n) (nz_radius z) then (True, z\<lparr>nz_radius := np_getRadius n\<rparr>) else (changed, z));
          (changed, z) = (if \<not> d_eq (np_angle n) (nz_angle z) then (nz_mode z = 0, nz_setAngle (np_angle n) z) else (changed, z))
      in (es @ (if changed then nz_updateMap (np_id n) z else []), z))"

section \<open>Interception areas\<close>

record interception =
  ic_position :: point
  ic_height :: double
  ic_radius :: double
  ic_course :: double
  ic_speed :: double

definition ic_updateMap :: "string \<Rightarrow> interception \<Rightarrow> map_event list" where
  "ic_updateMap key c = (if d_le (ic_radius c) (Fin 0) then [] else [UpdateMap (InterceptionF key) CirclePart])"

definition ic_update :: "(point \<Rightarrow> point \<Rightarrow> bool) \<Rightarrow> string \<Rightarrow> interception \<Rightarrow> interception \<Rightarrow> map_event list \<times> interception" where
  "ic_update same key v c =
     (let moved = \<not> same (ic_position v) (ic_position c);
          changed = (moved \<or> \<not> d_eq (ic_height v) (ic_height c) \<or> \<not> d_eq (ic_radius v) (ic_radius c)
            \<or> \<not> d_eq (ic_course v) (ic_course c) \<or> \<not> d_eq (ic_speed v) (ic_speed c));
          c = \<lparr>ic_position = (if moved then ic_position v else ic_position c),
               ic_height = (if d_eq (ic_height v) (ic_height c) then ic_height c else ic_height v),
               ic_radius = (if d_eq (ic_radius v) (ic_radius c) then ic_radius c else ic_radius v),
               ic_course = (if d_eq (ic_course v) (ic_course c) then ic_course c else ic_course v),
               ic_speed = (if d_eq (ic_speed v) (ic_speed c) then ic_speed c else ic_speed v)\<rparr>
      in (if changed then ic_updateMap key c else [], c))"

section \<open>Ships, planes and hyperbolas\<close>

record ais =
  as_position :: point
  as_course :: double

record adsb_plane =
  ad_position :: point
  ad_tail :: "point list"
  ad_timer :: "int option"

definition LIFETIME_ADSB :: int where "LIFETIME_ADSB = 60000"

definition new_plane :: "point \<Rightarrow> adsb_plane" where
  "new_plane pos = \<lparr>ad_position = pos, ad_tail = [], ad_timer = None\<rparr>"

definition ad_update :: "point \<Rightarrow> adsb_plane \<Rightarrow> adsb_plane" where
  "ad_update pos p = p\<lparr>ad_position := pos, ad_tail := trim_track ADSB_TRACK_LENGTH (ad_tail p @ [pos]), ad_timer := Some LIFETIME_ADSB\<rparr>"

text \<open>A hyperbola is its path and the time of its measurement; a point of the path has the latitude first.\<close>

record hyperbole =
  hy_path :: "point list"
  hy_time :: qtime

definition hy_updatePath :: "nat \<Rightarrow> point list \<Rightarrow> qtime \<Rightarrow> map_event list \<times> hyperbole" where
  "hy_updatePath i polyline time =
     ([UpdateMap (HyperboleF i) PathPart], \<lparr>hy_path = map (\<lambda>p. (snd p, fst p)) polyline, hy_time = time\<rparr>)"

section \<open>Tracks\<close>

lemma trim_track_drop: "trim_track n xs = drop (length xs - n) xs"
  by (induction n xs rule: trim_track.induct) (auto simp: Suc_diff_le)

lemma length_trim_track: "length (trim_track n xs) = min n (length xs)"
  by (simp add: trim_track_drop)

lemma last_trim_track: "0 < n \<Longrightarrow> xs \<noteq> [] \<Longrightarrow> trim_track n xs \<noteq> [] \<and> last (trim_track n xs) = last xs"
proof -
  assume "0 < n" "xs \<noteq> []"
  then have "length xs - n < length xs" by simp
  then show ?thesis by (simp add: trim_track_drop last_drop)
qed

end
