(* ===== verification/Settings.thy ===== *)
theory Settings
  imports KtrCoder
begin

text \<open>
  A settings file (\<open>QSettings\<close> of Qt in the format of ini files): its groups and its values by key. A
  value is a text: the lists \<open>QSettings\<close> makes of values with commas are not modelled.
\<close>

record ini =
  ini_groups :: "string list"
  ini_value :: "string \<Rightarrow> string option"

definition entry :: "(string \<Rightarrow> string option) \<Rightarrow> string \<Rightarrow> string \<Rightarrow> string \<Rightarrow> string" where
  "entry get g key d = (case get (g @ ''/'' @ key) of Some v \<Rightarrow> v | None \<Rightarrow> d)"

text \<open>A number, converted by \<open>toInt\<close>, which gives 0 for a text that is no number.\<close>

definition entry_int :: "(string \<Rightarrow> string option) \<Rightarrow> string \<Rightarrow> string \<Rightarrow> int \<Rightarrow> int" where
  "entry_int get g key d = (case get (g @ ''/'' @ key) of Some v \<Rightarrow> text_toInt v | None \<Rightarrow> d)"

end
