(* ===== verification/MapClient.thy ===== *)
theory MapClient
  imports MapFeatures UavHistory Settings
begin

text \<open>
  \<open>MapClient1\<close> (\<open>view/core/Map/MapClient1.cpp\<close>): the tables of the features on the map. A feature is in at
  most one table, under one key, so the tables hold the features themselves. The signals of the client
  to itself are delivered at once. The set of sources is iterated in the order of its list, which in Qt
  is not specified. \<open>None\<close> stands for a read out of range and for a null pointer that is followed.
\<close>

section \<open>State\<close>

record map_client =
  mc_layers :: "(int, string) qmap"
  mc_niippPoint :: "point option"
  mc_friends :: "(string, bpla) qmap"
  mc_enemies :: "(string, enemy_bpla) qmap"
  mc_niipps :: "(int, niipp_zone) qmap"
  mc_pelengators :: "(int, pelengator) qmap"
  mc_interceptions :: "(string, interception) qmap"
  mc_ais :: "(string, ais) qmap"
  mc_adsb :: "(string, adsb_plane) qmap"
  mc_stations :: "(string, point) qmap"
  mc_checkPoints :: "(string \<times> point) list"
  mc_hyperbolas :: "hyperbole list"
  mc_sources :: "u32 list"
  mc_battle :: "(int, int) qmap"
  mc_inits :: nat

definition new_map_client :: map_client where
  "new_map_client = \<lparr>mc_layers = [], mc_niippPoint = Some (Fin 0, Fin 0), mc_friends = [], mc_enemies = [], mc_niipps = [],
     mc_pelengators = [], mc_interceptions = [], mc_ais = [], mc_adsb = [], mc_stations = [], mc_checkPoints = [],
     mc_hyperbolas = [], mc_sources = [], mc_battle = [], mc_inits = 0\<rparr>"

section \<open>Our UAVs and enemies\<close>

definition note_source :: "u32 \<Rightarrow> map_client \<Rightarrow> map_client" where
  "note_source s m = m\<lparr>mc_sources := (if s \<in> set (mc_sources m) then mc_sources m else mc_sources m @ [s])\<rparr>"

definition extended_id :: "UavInfo \<Rightarrow> string" where
  "extended_id uav = getExtendedId (info_uavId uav) (info_source uav) (info_historical uav)"

definition addFriendBplaInternal :: "(point \<Rightarrow> point \<Rightarrow> bool) \<Rightarrow> UavInfo \<Rightarrow> map_client \<Rightarrow> map_event list \<times> map_client" where
  "addFriendBplaInternal same uav m =
     (let i = extended_id uav; m = note_source (info_source uav) m
      in if info_source uav = UavTree.UAV_SLICES_SOURCE \<or> info_source uav = UavTree.UAV_AUTOPILOT_SOURCE then
           (case qlookup (mc_friends m) i of
              None \<Rightarrow> ([NewFeature (FriendF i)], m\<lparr>mc_friends := qinsert i (new_bpla uav) (mc_friends m)\<rparr>)
            | Some b \<Rightarrow>
                ([], m\<lparr>mc_friends := qinsert i
                   (if info_source uav = UavTree.UAV_SLICES_SOURCE then bp_setSlice (info_lon uav, info_lat uav) b
                    else bp_update same uav b) (mc_friends m)\<rparr>))
         else ([], m))"

definition addEnemyBplaInternal :: "(point \<Rightarrow> point \<Rightarrow> bool) \<Rightarrow> UavInfo \<Rightarrow> point list \<Rightarrow> map_client \<Rightarrow> map_event list \<times> map_client" where
  "addEnemyBplaInternal same uav tail m =
     (let i = extended_id uav; m = note_source (info_source uav) m;
          (es, b) = (case qlookup (mc_enemies m) i of
                       Some b \<Rightarrow> ([], eb_update same uav b)
                     | None \<Rightarrow> ([NewFeature (EnemyF i)], new_enemy_bpla uav));
          b = (if \<not> info_historical uav then bp_setTail tail b else b)
      in (es @ bp_updateMap (EnemyF i), m\<lparr>mc_enemies := qinsert i b (mc_enemies m)\<rparr>))"

definition remove_source :: "Uav \<Rightarrow> u32 \<Rightarrow> map_client \<Rightarrow> map_event list \<times> map_client" where
  "remove_source uav source m =
     (let i = getExtendedId (uav_uavId uav) source (uav_historical uav);
          (es, m) = (if qcontains (mc_friends m) i
                     then (bp_delete (FriendF i), m\<lparr>mc_friends := qremove i (mc_friends m)\<rparr>) else ([], m));
          (es', m) = (if qcontains (mc_enemies m) i
                      then (bp_delete (EnemyF i), m\<lparr>mc_enemies := qremove i (mc_enemies m)\<rparr>) else ([], m))
      in (es @ es', m))"

fun remove_sources :: "Uav \<Rightarrow> u32 list \<Rightarrow> map_client \<Rightarrow> map_event list \<times> map_client" where
  "remove_sources uav [] m = ([], m)"
| "remove_sources uav (s # ss) m =
     (let (es, m) = remove_source uav s m; (es', m) = remove_sources uav ss m in (es @ es', m))"

definition removeBplaInternal :: "Uav \<Rightarrow> map_client \<Rightarrow> map_event list \<times> map_client" where
  "removeBplaInternal uav m = remove_sources uav (mc_sources m) m"

text \<open>The timer of an enemy takes it from the map, not out of the table.\<close>

definition enemy_timeout :: "string \<Rightarrow> map_client \<Rightarrow> map_event list" where
  "enemy_timeout i m =
     (case qlookup (mc_enemies m) i of
        Some b \<Rightarrow> if eb_timer b \<noteq> None then bp_removeFromMap (EnemyF i) else []
      | None \<Rightarrow> [])"

definition removeAllonePointTimer :: "map_client \<Rightarrow> map_event list \<times> map_client" where
  "removeAllonePointTimer m =
     (let gone = (\<lambda>(i, b). eb_styleName b = getEnemyBplaStyleName 104)
      in (concat (map (\<lambda>(i, b). bp_removeFromMap (EnemyF i)) (filter gone (mc_enemies m))),
          m\<lparr>mc_enemies := filter (\<lambda>x. \<not> gone x) (mc_enemies m)\<rparr>))"

definition redrawAllBpla :: "map_client \<Rightarrow> map_event list" where
  "redrawAllBpla m = concat (map (\<lambda>i. bp_updateMap (FriendF i)) (qkeys (mc_friends m)))"

section \<open>Direction finders, zones and interceptions\<close>

definition addPeleng :: "(point \<Rightarrow> point \<Rightarrow> bool) \<Rightarrow> int \<Rightarrow> double \<Rightarrow> double \<Rightarrow> double \<Rightarrow> map_client \<Rightarrow> map_event list \<times> map_client" where
  "addPeleng same idPost lat lon direction m =
     (case qlookup (mc_pelengators m) idPost of
        Some p \<Rightarrow>
          let (es, p) = pl_update same idPost (lon, lat) direction p
          in (es, m\<lparr>mc_pelengators := qinsert idPost p (mc_pelengators m)\<rparr>)
      | None \<Rightarrow>
          let p = new_pelengator (lon, lat) direction
          in (NewFeature (PelengatorF idPost) # pl_updateMap idPost p,
              m\<lparr>mc_pelengators := qinsert idPost p (mc_pelengators m)\<rparr>))"

definition addNiipInternal :: "(point \<Rightarrow> point \<Rightarrow> bool) \<Rightarrow> niipp \<Rightarrow> map_client \<Rightarrow> map_event list \<times> map_client" where
  "addNiipInternal same n m =
     (case qlookup (mc_niipps m) (np_id n) of
        Some z \<Rightarrow>
          let (es, z) = nz_update same n z in (es, m\<lparr>mc_niipps := qinsert (np_id n) z (mc_niipps m)\<rparr>)
      | None \<Rightarrow>
          let z = new_zone n
          in (NewFeature (NiippF (np_id n)) # nz_updateMap (np_id n) z, m\<lparr>mc_niipps := qinsert (np_id n) z (mc_niipps m)\<rparr>))"

definition interception_key :: "int \<Rightarrow> int \<Rightarrow> string" where
  "interception_key friendBplaId enemyBplaId = number_int friendBplaId @ ''-'' @ number_int enemyBplaId"

definition addInterceptionPointData ::
  "(point \<Rightarrow> point \<Rightarrow> bool) \<Rightarrow> int \<Rightarrow> int \<Rightarrow> interception \<Rightarrow> map_client \<Rightarrow> map_event list \<times> map_client" where
  "addInterceptionPointData same friendBplaId enemyBplaId v m =
     (let key = interception_key friendBplaId enemyBplaId
      in case qlookup (mc_interceptions m) key of
           Some c \<Rightarrow>
             let (es, c) = ic_update same key v c in (es, m\<lparr>mc_interceptions := qinsert key c (mc_interceptions m)\<rparr>)
         | None \<Rightarrow> (NewFeature (InterceptionF key) # ic_updateMap key v,
                    m\<lparr>mc_interceptions := qinsert key v (mc_interceptions m)\<rparr>))"

definition removeInterceptionData :: "int \<Rightarrow> int \<Rightarrow> map_client \<Rightarrow> map_event list \<times> map_client" where
  "removeInterceptionData friendBplaId enemyBplaId m =
     (let m = m\<lparr>mc_battle := qremove friendBplaId (mc_battle m)\<rparr>;
          key = interception_key friendBplaId enemyBplaId
      in if qcontains (mc_interceptions m) key
         then ([RemoveFromMap (InterceptionF key) CirclePart], m\<lparr>mc_interceptions := qremove key (mc_interceptions m)\<rparr>)
         else ([], m))"

text \<open>The last samples of both UAVs; an empty list is read out of range.\<close>

definition addPerehvatData :: "int \<Rightarrow> int \<Rightarrow> UavInfo list \<Rightarrow> UavInfo list \<Rightarrow> map_client \<Rightarrow> (map_event list \<times> map_client) option" where
  "addPerehvatData bla_id bpla_id blas bplas m =
     (if blas = [] \<or> bplas = [] then None
      else
        let a = last blas; b = last bplas; sko = (info_lon b, info_lat b);
            per = [TokPoint (info_lon a, info_lat a), TokDouble (info_alt a), TokDouble (info_speed a), TokDouble (info_yaw a), TokInt 1];
            target = [TokInt 1, TokInt 1, TokPoint sko] @ write_vector (\<lambda>p. [TokPoint p]) [sko]
              @ [TokDouble (info_speed b), TokDouble (info_alt b), TokDouble (info_yaw b)]
        in Some ([SetInterception bla_id bpla_id per target], m\<lparr>mc_battle := qinsert bla_id bpla_id (mc_battle m)\<rparr>))"

section \<open>The point of diversion\<close>

definition addNiippPoint :: "point \<Rightarrow> map_client \<Rightarrow> map_event list \<times> map_client" where
  "addNiippPoint p m =
     ((if mc_niippPoint m = None then [NewFeature NiippPointF] else []) @ [UpdateMap NiippPointF MarkerPart],
      m\<lparr>mc_niippPoint := Some p\<rparr>)"

definition mc_removeNiippPoint :: "map_client \<Rightarrow> map_event list \<times> map_client" where
  "mc_removeNiippPoint m =
     (if mc_niippPoint m \<noteq> None then [RemoveFromMap NiippPointF MarkerPart] else [], m\<lparr>mc_niippPoint := None\<rparr>)"

section \<open>Ships\<close>

text \<open>\<open>QString::toDouble\<close> with its flag.\<close>

definition text_double :: "string \<Rightarrow> double option" where
  "text_double s =
     (let (neg, t) = sign_of (trimmed s) in map_option (\<lambda>d. if neg then d_neg d else d) (unsigned_double t))"

text \<open>Texts 1, 2 and 5 of a row: longitude, latitude and course. The outer \<open>None\<close> is a row that is too short.\<close>

definition ais_number :: "string list \<Rightarrow> nat \<Rightarrow> double option option" where
  "ais_number row j = map_option text_double (element_at row j)"

definition ais_row :: "string list \<Rightarrow> (string \<times> point \<times> double) option option" where
  "ais_row row =
     (case ais_number row 1 of
        None \<Rightarrow> None
      | Some None \<Rightarrow> Some None
      | Some (Some lon) \<Rightarrow>
          (case ais_number row 2 of
             None \<Rightarrow> None
           | Some None \<Rightarrow> Some None
           | Some (Some lat) \<Rightarrow>
               (case ais_number row 5 of
                  None \<Rightarrow> None
                | Some None \<Rightarrow> Some None
                | Some (Some course) \<Rightarrow> Some (Some (row ! 0, (lon, lat), course)))))"

definition ais_turn :: "(point \<Rightarrow> point \<Rightarrow> bool) \<Rightarrow> string \<times> point \<times> double \<Rightarrow> (string, ais) qmap \<times> (string, ais) qmap
    \<Rightarrow> map_event list \<times> (string, ais) qmap \<times> (string, ais) qmap" where
  "ais_turn same r tabs =
     (let (name, position, course) = r; (old, new) = tabs
      in case qlookup old name of
           None \<Rightarrow> ([NewFeature (AisF name)], old, qinsert name \<lparr>as_position = position, as_course = course\<rparr> new)
         | Some a \<Rightarrow>
             if same (as_position a) position \<and> d_eq (as_course a) course
             then ([], qremove name old, qinsert name a new)
             else ([UpdateMap (AisF name) MarkerPart], qremove name old,
                   qinsert name \<lparr>as_position = position, as_course = course\<rparr> new))"

fun ais_rows :: "(point \<Rightarrow> point \<Rightarrow> bool) \<Rightarrow> string list list \<Rightarrow> (string, ais) qmap \<times> (string, ais) qmap
    \<Rightarrow> (map_event list \<times> (string, ais) qmap \<times> (string, ais) qmap) option" where
  "ais_rows same [] tabs = Some ([], tabs)"
| "ais_rows same (row # rows) tabs =
     (case ais_row row of
        None \<Rightarrow> None
      | Some None \<Rightarrow> ais_rows same rows tabs
      | Some (Some r) \<Rightarrow>
          (let (es, tabs) = ais_turn same r tabs
           in map_option (\<lambda>(es', tabs). (es @ es', tabs)) (ais_rows same rows tabs)))"

definition setAisData :: "(point \<Rightarrow> point \<Rightarrow> bool) \<Rightarrow> (int, string list) qmap \<Rightarrow> map_client \<Rightarrow> (map_event list \<times> map_client) option" where
  "setAisData same data m =
     map_option (\<lambda>(es, old, new). (es @ map (\<lambda>i. RemoveFromMap (AisF i) MarkerPart) (qkeys old), m\<lparr>mc_ais := new\<rparr>))
       (ais_rows same (qvalues data) (mc_ais m, []))"

section \<open>Planes\<close>

text \<open>Both branches of the code check the coordinates the same way; \<open>lat != lat\<close> finds a NaN.\<close>

definition on_earth :: "double \<Rightarrow> double \<Rightarrow> bool" where
  "on_earth lon lat \<longleftrightarrow> \<not> (d_less (Fin 180) lon \<or> d_less lon (Fin (- 180))) \<and> \<not> (d_less (Fin 90) lat \<or> d_less lat (Fin (- 90)))
     \<and> \<not> (\<not> d_eq lat lat \<or> \<not> d_eq lon lon)"

definition setAdsbData :: "stream \<Rightarrow> map_client \<Rightarrow> map_event list \<times> map_client" where
  "setAdsbData d m =
     (let (i, d) = getText d; (lon, d) = getDouble d; (lat, d) = getDouble d
      in if \<not> on_earth lon lat then ([], m)
         else case qlookup (mc_adsb m) i of
                Some p \<Rightarrow> ([UpdateMap (AdsbF i) MarkerPart], m\<lparr>mc_adsb := qinsert i (ad_update (lon, lat) p) (mc_adsb m)\<rparr>)
              | None \<Rightarrow> ([NewFeature (AdsbF i), UpdateMap (AdsbF i) MarkerPart],
                         m\<lparr>mc_adsb := qinsert i (new_plane (lon, lat)) (mc_adsb m)\<rparr>))"

definition removeAdsb :: "string \<Rightarrow> map_client \<Rightarrow> map_event list \<times> map_client" where
  "removeAdsb i m =
     (if qcontains (mc_adsb m) i then [RemoveFromMap (AdsbF i) MarkerPart] else [], m\<lparr>mc_adsb := qremove i (mc_adsb m)\<rparr>)"

text \<open>The timer of a plane: \<open>removeFeature\<close>, whose signal reaches \<open>removeAdsb\<close>.\<close>

definition plane_timeout :: "string \<Rightarrow> map_client \<Rightarrow> map_event list \<times> map_client" where
  "plane_timeout i m =
     (case qlookup (mc_adsb m) i of
        Some p \<Rightarrow>
          if ad_timer p \<noteq> None
          then let (es, m) = removeAdsb i m in ([RemoveFromMap (AdsbF i) MarkerPart, RemoveFromMap (AdsbF i) TailPart] @ es, m)
          else ([], m)
      | None \<Rightarrow> ([], m))"

section \<open>Hyperbolas\<close>

text \<open>A \<open>QList\<close> of vectors from a stream: reading stops at the end of the data.\<close>

fun read_paths :: "nat \<Rightarrow> stream \<Rightarrow> point list list" where
  "read_paths 0 ts = []"
| "read_paths (Suc n) ts =
     (let (x, ts) = read_vector (\<lambda>_. getPoint) (Fin 0, Fin 0) ts in x # (if ts = [] then [] else read_paths n ts))"

fun show_paths :: "nat \<Rightarrow> qtime \<Rightarrow> point list list \<Rightarrow> hyperbole list \<Rightarrow> map_event list \<times> hyperbole list" where
  "show_paths i time [] hs = ([], hs)"
| "show_paths i time (p # ps) [] =
     (let (es, h) = hy_updatePath i p time; (es', hs) = show_paths (i + 1) time ps []
      in (NewFeature (HyperboleF i) # es @ es', h # hs))"
| "show_paths i time (p # ps) (h # hs) =
     (let (es, h) = hy_updatePath i p time; (es', hs) = show_paths (i + 1) time ps hs in (es @ es', h # hs))"

definition addHyperboleInternal :: "stream \<Rightarrow> map_client \<Rightarrow> map_event list \<times> map_client" where
  "addHyperboleInternal d m =
     (let (frequency, d) = getDouble d; (time, d) = getTime d; (n, d) = get32 d; ps = read_paths (unat n) d;
          hidden = map (\<lambda>i. RemoveFromMap (HyperboleF i) PathPart) [length ps ..< length (mc_hyperbolas m)];
          (es, hs) = show_paths 0 time ps (mc_hyperbolas m)
      in (hidden @ es, m\<lparr>mc_hyperbolas := hs\<rparr>))"

definition removeAllHyperbole :: "map_client \<Rightarrow> map_event list" where
  "removeAllHyperbole m = map (\<lambda>i. RemoveFromMap (HyperboleF i) PathPart) [0 ..< length (mc_hyperbolas m)]"

section \<open>Everything from the map\<close>

text \<open>The tables of ships, UAVs, zones and objects are emptied; the planes stay.\<close>

definition removed :: "('k \<Rightarrow> feature_id) \<Rightarrow> feature_part list \<Rightarrow> 'k list \<Rightarrow> map_event list" where
  "removed f parts ks = concat (map (\<lambda>k. map (RemoveFromMap (f k)) parts) ks)"

definition removeAll :: "map_client \<Rightarrow> map_event list \<times> map_client" where
  "removeAll m =
     (removed AisF [MarkerPart] (qkeys (mc_ais m))
        @ removed FriendF [TailPart, SlicesPart, MarkerPart] (qkeys (mc_friends m))
        @ removed EnemyF [TailPart, SlicesPart, MarkerPart] (qkeys (mc_enemies m))
        @ removed NiippF [CirclePart, SectorPart] (qkeys (mc_niipps m))
        @ removed PelengatorF [SectorPart] (qkeys (mc_pelengators m))
        @ removed InterceptionF [CirclePart] (qkeys (mc_interceptions m))
        @ removed StationF [MarkerPart] (qkeys (mc_stations m))
        @ removed CheckPointF [PathPart] [0 ..< length (mc_checkPoints m)]
        @ removed HyperboleF [PathPart] [0 ..< length (mc_hyperbolas m)],
      m\<lparr>mc_ais := [], mc_friends := [], mc_enemies := [], mc_niipps := [], mc_pelengators := [],
        mc_interceptions := [], mc_stations := [], mc_checkPoints := [], mc_hyperbolas := []\<rparr>)"

section \<open>The start of a map\<close>

definition marker_layers :: "(int \<times> string) list" where
  "marker_layers =
     [(0, ''OP''), (6, ''Atlant''), (7, ''Atlant_target''), (8, ''Grid''), (9, ''Checkpoints''),
      (10, ''Interception_point''), (11, ''Civil_ships''), (12, ''Diversion_points''), (13, ''SPIP_DD''),
      (14, ''Hyperbole''), (15, ''History''), (101, ''UAV_enemy_track_manual''), (100, ''UAV_enemy_manual''),
      (103, ''UAV_enemy_track_auto''), (102, ''UAV_enemy_auto''), (104, ''UAV_enemy_single''),
      (5, ''UAV_track_KTR''), (4, ''UAV_track_autopilot''), (3, ''UAV''), (202, ''ADSB''), (203, ''ADSBtrack'')]"

definition addMarkerLayer :: "int \<Rightarrow> string \<Rightarrow> map_client \<Rightarrow> map_event list \<times> map_client" where
  "addMarkerLayer i layerId m = ([AddLayer layerId], m\<lparr>mc_layers := qinsert i layerId (mc_layers m)\<rparr>)"

fun add_layers :: "(int \<times> string) list \<Rightarrow> map_client \<Rightarrow> map_event list \<times> map_client" where
  "add_layers [] m = ([], m)"
| "add_layers ((i, l) # ls) m =
     (let (es, m) = addMarkerLayer i l m; (es', m) = add_layers ls m in (es @ es', m))"

definition showLayer :: "int \<Rightarrow> bool \<Rightarrow> map_client \<Rightarrow> map_event list" where
  "showLayer index state m =
     (case qlookup (mc_layers m) index of Some l \<Rightarrow> [LayerVisible l state] | None \<Rightarrow> [])"

definition init_layers :: "map_client \<Rightarrow> map_event list \<times> map_client" where
  "init_layers m =
     (let (es, m) = removeAll (m\<lparr>mc_layers := []\<rparr>); (es', m) = add_layers marker_layers m
      in (es @ es' @ showLayer 8 False m, m))"

text \<open>Every start connects the signals of ships, directions and planes to their slots once more.\<close>

definition connect_again :: "map_client \<Rightarrow> map_client" where
  "connect_again m = m\<lparr>mc_inits := mc_inits m + 1\<rparr>"

definition mc_init :: "map_client \<Rightarrow> map_event list \<times> map_client" where
  "mc_init m = (let (es, m) = init_layers m in (es @ [AddLayer ''NIIPP''], connect_again m))"

text \<open>A signal that is connected \<open>n\<close> times runs its slot \<open>n\<close> times.\<close>

fun delivered :: "nat \<Rightarrow> ('s \<Rightarrow> ('e list \<times> 's) option) \<Rightarrow> 's \<Rightarrow> ('e list \<times> 's) option" where
  "delivered 0 f s = Some ([], s)"
| "delivered (Suc n) f s =
     (case f s of None \<Rightarrow> None | Some (es, s) \<Rightarrow> map_option (\<lambda>(es', s). (es @ es', s)) (delivered n f s))"

definition addAis :: "(point \<Rightarrow> point \<Rightarrow> bool) \<Rightarrow> (int, string list) qmap \<Rightarrow> map_client \<Rightarrow> (map_event list \<times> map_client) option" where
  "addAis same v m = delivered (mc_inits m) (setAisData same v) m"

definition addAdsb :: "stream \<Rightarrow> map_client \<Rightarrow> (map_event list \<times> map_client) option" where
  "addAdsb d m = delivered (mc_inits m) (\<lambda>m. Some (setAdsbData d m)) m"

definition updatePeleng :: "(point \<Rightarrow> point \<Rightarrow> bool) \<Rightarrow> int \<Rightarrow> double \<Rightarrow> double \<Rightarrow> double \<Rightarrow> map_client
    \<Rightarrow> (map_event list \<times> map_client) option" where
  "updatePeleng same idPost lat lon direction m =
     delivered (mc_inits m) (\<lambda>m. Some (addPeleng same idPost lat lon direction m)) m"

section \<open>Stations and check points\<close>

text \<open>\<open>prefix\<close> is the group that is open: a point without its values leaves its group open.\<close>

fun check_points :: "(string \<Rightarrow> string option) \<Rightarrow> string \<Rightarrow> string list \<Rightarrow> (string \<times> point) list" where
  "check_points get prefix [] = []"
| "check_points get prefix (g # gs) =
     (let group = prefix @ g @ ''/''
      in case (get (group @ ''Name''), get (group @ ''Latitude''), get (group @ ''Longitude'')) of
           (Some name, Some lat, Some lon) \<Rightarrow> (name, (text_toDouble lon, text_toDouble lat)) # check_points get prefix gs
         | _ \<Rightarrow> check_points get group gs)"

definition readCheckPointsFromFile :: "ini \<Rightarrow> map_client \<Rightarrow> map_event list \<times> map_client" where
  "readCheckPointsFromFile f m =
     (let ps = check_points (ini_value f) [] (ini_groups f); n = length (mc_checkPoints m)
      in (concat (map (\<lambda>i. [NewFeature (CheckPointF i), UpdateMap (CheckPointF i) PathPart]) [n ..< n + length ps]),
          m\<lparr>mc_checkPoints := mc_checkPoints m @ ps\<rparr>))"

text \<open>\<open>if( station = NULL )\<close> assigns: a station is always made anew.\<close>

fun stations :: "string \<Rightarrow> (string \<Rightarrow> string option) \<Rightarrow> string list \<Rightarrow> (string, point) qmap \<Rightarrow> map_event list \<times> (string, point) qmap" where
  "stations ingur get [] m = ([], m)"
| "stations ingur get (g # gs) m =
     (let name = entry get g ''Name'' ''0'';
          position = (text_toDouble (entry get g ''Longitude'' ''0''), text_toDouble (entry get g ''Latitude'' ''0''));
          (es, m) = (if name \<noteq> ingur
                     then ([NewFeature (StationF name), UpdateMap (StationF name) MarkerPart], qinsert name position m)
                     else ([], m));
          (es', m) = stations ingur get gs m
      in (es @ es', m))"

text \<open>\<open>ingur\<close> is the translation of \<open>Ingur\<close>.\<close>

definition readStationsFromFile :: "string \<Rightarrow> ini \<Rightarrow> map_client \<Rightarrow> map_event list \<times> map_client" where
  "readStationsFromFile ingur f m =
     (let (es, ss) = stations ingur (ini_value f) (ini_groups f) (mc_stations m) in (es, m\<lparr>mc_stations := ss\<rparr>))"

definition mc_setPoint :: "string \<Rightarrow> (string \<Rightarrow> ini) \<Rightarrow> string \<Rightarrow> map_client \<Rightarrow> map_event list \<times> map_client" where
  "mc_setPoint ingur file applicationDirPath m =
     (let (es, m) = readStationsFromFile ingur (file (applicationDirPath @ ''/Map/map_objects.ini'')) m;
          (es', m) = readCheckPointsFromFile (file (applicationDirPath @ ''/Map/map_points.ini'')) m
      in (es @ es', m))"

end
