(* ===== verification/MapController.thy ===== *)
theory MapController
  imports MapClient RpcServer
begin

text \<open>
  The map of the client as its controllers use it: \<open>Map\<close> (\<open>view/core/Map/Map.cpp\<close>), the clients by
  station, and \<open>MapController\<close> (\<open>view/core/Map/MapController.cpp\<close>), which hands the UAVs of the manager,
  the messages of the server and the clicks of the operator on to client 1 and to the NIIPP
  controllers. \<open>None\<close> stands for a crash of the code, as in \<open>MapClient\<close>.
\<close>

section \<open>Clients by station\<close>

text \<open>Asking for a client that is not there enters a null pointer under its number.\<close>

type_synonym map_clients = "(int, map_client option) qmap"

definition mp_init :: "int list \<Rightarrow> map_clients \<Rightarrow> map_clients" where
  "mp_init ids cs = fold (\<lambda>i cs. qinsert i (Some new_map_client) cs) ids cs"

definition mp_getMapClient :: "int \<Rightarrow> map_clients \<Rightarrow> map_client option \<times> map_clients" where
  "mp_getMapClient i cs =
     (case qlookup cs i of Some c \<Rightarrow> (c, cs) | None \<Rightarrow> (None, qinsert i None cs))"

definition mp_setStationVisible :: "bool \<Rightarrow> map_clients \<Rightarrow> map_event list option" where
  "mp_setStationVisible state cs =
     (case qlookup cs 1 of Some (Some c) \<Rightarrow> Some (showLayer 0 state c) | _ \<Rightarrow> None)"

text \<open>A map is ready: every client starts, then every client reads its points.\<close>

fun each_client :: "(map_client \<Rightarrow> map_event list \<times> map_client) \<Rightarrow> map_clients \<Rightarrow> map_event list \<times> map_clients" where
  "each_client f [] = ([], [])"
| "each_client f ((i, None) # cs) = (let (es, cs) = each_client f cs in (es, (i, None) # cs))"
| "each_client f ((i, Some c) # cs) =
     (let (es, c) = f c; (es', cs) = each_client f cs in (es @ es', (i, Some c) # cs))"

definition mp_onMapReady :: "(map_client \<Rightarrow> map_event list \<times> map_client) \<Rightarrow> map_clients \<Rightarrow> map_event list \<times> map_clients" where
  "mp_onMapReady setPoint cs =
     (let (es, cs) = each_client mc_init cs; (es', cs) = each_client setPoint cs in (es @ es', cs))"

section \<open>The controller\<close>

text \<open>\<open>QRectF\<close>: its corner, its width and its height.\<close>

record rect =
  rc_x :: double
  rc_y :: double
  rc_w :: double
  rc_h :: double

definition null_rect :: rect where
  "null_rect = \<lparr>rc_x = Fin 0, rc_y = Fin 0, rc_w = Fin 0, rc_h = Fin 0\<rparr>"

definition corners :: "point \<Rightarrow> point \<Rightarrow> rect" where
  "corners a b = \<lparr>rc_x = fst a, rc_y = snd a, rc_w = d_add (fst b) (d_neg (fst a)), rc_h = d_add (snd b) (d_neg (snd a))\<rparr>"

definition rect_null :: "rect \<Rightarrow> bool" where
  "rect_null r \<longleftrightarrow> d_eq (rc_w r) (Fin 0) \<and> d_eq (rc_h r) (Fin 0)"

definition q_max :: "double \<Rightarrow> double \<Rightarrow> double" where
  "q_max a b = (if d_less a b then b else a)"

definition q_min :: "double \<Rightarrow> double \<Rightarrow> double" where
  "q_min a b = (if d_less a b then a else b)"

record map_controller =
  ct_clients :: map_clients
  ct_niipps :: "(int, niipp) qmap"
  ct_pelengIds :: "(int, int) qmap"
  ct_pelengCount :: int
  ct_viewport :: rect

definition new_controller :: map_controller where
  "new_controller = \<lparr>ct_clients = [], ct_niipps = [], ct_pelengIds = [], ct_pelengCount = 0, ct_viewport = null_rect\<rparr>"

datatype display_event =
    OnMap map_event
  | OnNiipp int control_event
  | ZoomMapTo double double double double
  | MapOpened

text \<open>The four numbers of the settings; every corner is overwritten before the one it is compared with is read.\<close>

definition setViewport :: "string \<Rightarrow> map_controller \<Rightarrow> map_controller" where
  "setViewport viewport c =
     (let c = c\<lparr>ct_viewport := null_rect\<rparr>
      in case map text_double (take 4 (text_split '' '' viewport)) of
           [Some west, Some north, Some east, Some south] \<Rightarrow>
             let north = q_max north south; west = q_min west east; east = q_max west east; south = q_min north south
             in c\<lparr>ct_viewport := corners (west, north) (east, south)\<rparr>
         | _ \<Rightarrow> c)"

definition ct_onMapReady :: "map_controller \<Rightarrow> display_event list" where
  "ct_onMapReady c =
     (let v = ct_viewport c
      in (if \<not> rect_null v
          then [ZoomMapTo (rc_x v) (rc_y v) (d_add (rc_x v) (rc_w v)) (d_add (rc_y v) (rc_h v))] else [])
         @ [MapOpened])"

text \<open>Client 1 runs an operation; nothing happens without it.\<close>

definition with_client :: "(map_client \<Rightarrow> (map_event list \<times> map_client) option) \<Rightarrow> map_controller
    \<Rightarrow> (display_event list \<times> map_controller) option" where
  "with_client f c =
     (let (client, cs) = mp_getMapClient 1 (ct_clients c)
      in case client of
           None \<Rightarrow> Some ([], c\<lparr>ct_clients := cs\<rparr>)
         | Some m \<Rightarrow> map_option (\<lambda>(es, m). (map OnMap es, c\<lparr>ct_clients := qinsert 1 (Some m) cs\<rparr>)) (f m))"

text \<open>The controllers of both NIIPP and the map draw the point that was clicked.\<close>

definition niipp_point :: "int \<Rightarrow> point \<Rightarrow> map_controller \<Rightarrow> display_event list \<times> map_controller" where
  "niipp_point i p c =
     (case qlookup (ct_niipps c) i of
        Some n \<Rightarrow> let (es, n) = nc_setPoint p n in (map (OnNiipp i) es, c\<lparr>ct_niipps := qinsert i n (ct_niipps c)\<rparr>)
      | None \<Rightarrow> ([], c))"

definition onMapClicked :: "double \<Rightarrow> double \<Rightarrow> map_controller \<Rightarrow> (display_event list \<times> map_controller) option" where
  "onMapClicked lon lat c =
     (if fst (mp_getMapClient 1 (ct_clients c)) = None then with_client (\<lambda>m. Some ([], m)) c
      else
        let p = (lon, lat)
        in map_option (\<lambda>(es, c).
             let (es', c) = niipp_point 100 p c; (es'', c) = niipp_point 101 p c in (es @ es' @ es'', c))
             (with_client (\<lambda>m. Some (addNiippPoint p m)) c))"

definition setNiippController :: "niipp \<Rightarrow> map_controller \<Rightarrow> map_controller" where
  "setNiippController n c = c\<lparr>ct_niipps := qinsert (np_id n) n (ct_niipps c)\<rparr>"

definition updateNiippPowerZone :: "(point \<Rightarrow> point \<Rightarrow> bool) \<Rightarrow> niipp \<Rightarrow> map_controller \<Rightarrow> (display_event list \<times> map_controller) option" where
  "updateNiippPowerZone same n c = with_client (\<lambda>m. Some (addNiipInternal same n m)) c"

definition ct_removeNiippPoint :: "map_controller \<Rightarrow> (display_event list \<times> map_controller) option" where
  "ct_removeNiippPoint c = with_client (\<lambda>m. Some (mc_removeNiippPoint m)) c"

definition ct_setStationVisible :: "bool \<Rightarrow> map_controller \<Rightarrow> display_event list option" where
  "ct_setStationVisible state c = map_option (map OnMap) (mp_setStationVisible state (ct_clients c))"

section \<open>The UAVs of the manager\<close>

definition ct_onUavRemoved :: "Uav \<Rightarrow> map_controller \<Rightarrow> (display_event list \<times> map_controller) option" where
  "ct_onUavRemoved uav c = with_client (\<lambda>m. Some (removeBplaInternal uav m)) c"

definition ct_onUavInfoChanged :: "(point \<Rightarrow> point \<Rightarrow> bool) \<Rightarrow> UavInfo \<Rightarrow> string \<Rightarrow> point list \<Rightarrow> map_controller
    \<Rightarrow> (display_event list \<times> map_controller) option" where
  "ct_onUavInfoChanged same uavInfo uavRole tail c =
     with_client (\<lambda>m. Some (if uavRole = OUR_UAV_ROLE then addFriendBplaInternal same uavInfo m
        else if uavRole = ENEMY_UAV_ROLE then addEnemyBplaInternal same uavInfo tail m
        else ([], m))) c"

section \<open>The messages of the server\<close>

text \<open>
  A map of ships from a stream: the map is empty when the data end early. The sender writes a map,
  so that no number occurs twice.
\<close>

fun get_texts :: "nat \<Rightarrow> stream \<Rightarrow> (string list \<times> stream) option" where
  "get_texts 0 ts = Some ([], ts)"
| "get_texts (Suc n) (TokText s # ts) = map_option (\<lambda>(ss, ts). (s # ss, ts)) (get_texts n ts)"
| "get_texts (Suc n) _ = None"

fun get_rows :: "nat \<Rightarrow> stream \<Rightarrow> (int, string list) qmap option" where
  "get_rows 0 ts = Some []"
| "get_rows (Suc n) (TokInt k # Tok32 l # ts) =
     (case get_texts (unat l) ts of
        None \<Rightarrow> None
      | Some (ss, ts) \<Rightarrow> map_option (qinsert k ss) (get_rows n ts))"
| "get_rows (Suc n) _ = None"

definition read_ais :: "stream \<Rightarrow> (int, string list) qmap" where
  "read_ais ds =
     (case ds of
        Tok32 n # ts \<Rightarrow> (case get_rows (unat n) ts of Some m \<Rightarrow> m | None \<Rightarrow> [])
      | _ \<Rightarrow> [])"

text \<open>The last character of the name of the post is its number.\<close>

definition text_right1 :: "string \<Rightarrow> string" where
  "text_right1 s = drop (length s - 1) s"

text \<open>A direction: the number of the post, its latitude, its longitude and the direction.\<close>

definition read_direction :: "stream \<Rightarrow> int \<times> double \<times> double \<times> double" where
  "read_direction ds =
     (let (requestId, ds) = getInt ds; (sourceId, ds) = getInt ds; (dateTime, ds) = get64 ds; (post, ds) = getText ds;
          (postLatitude, ds) = getDouble ds; (postLongitude, ds) = getDouble ds; (postHeight, ds) = getDouble ds;
          (frequency, ds) = getDouble ds; (widht, ds) = getDouble ds; (direction, ds) = getDouble ds
      in (text_toInt (text_right1 post), postLatitude, postLongitude, direction))"

text \<open>The numbers of the sources on the map; a new source takes the next one.\<close>

definition peleng_number :: "int \<Rightarrow> map_controller \<Rightarrow> int \<times> map_controller" where
  "peleng_number sourceId c =
     (let c = (if \<not> qcontains (ct_pelengIds c) sourceId then
                 let n = ct_pelengCount c + 1;
                     c = c\<lparr>ct_pelengIds := qinsert sourceId n (ct_pelengIds c), ct_pelengCount := n\<rparr>
                 in if n > 49 then c\<lparr>ct_pelengCount := 0, ct_pelengIds := []\<rparr> else c
               else c)
      in (qvalue (ct_pelengIds c) 0 sourceId, c))"

text \<open>\<open>unset\<close> is the memory of the fields that are not set.\<close>

definition atlant_position :: "(point \<Rightarrow> point \<Rightarrow> bool) \<Rightarrow> UavInfo \<Rightarrow> stream \<Rightarrow> map_controller
    \<Rightarrow> (display_event list \<times> map_controller) option" where
  "atlant_position same unset ds c =
     (let (requestId, ds) = getInt ds; (sourceId, ds) = getInt ds; (dateTime, ds) = get64 ds;
          (latitude, ds) = getDouble ds; (longitude, ds) = getDouble ds; (quality, ds) = getDouble ds;
          (n, c) = peleng_number sourceId c;
          uav = unset\<lparr>info_uavId := to_uint n, info_lon := longitude, info_lat := latitude, info_historical := False\<rparr>
      in with_client (\<lambda>m. Some (addEnemyBplaInternal same uav [] m)) c)"


definition ct_onMethodCalled :: "(point \<Rightarrow> point \<Rightarrow> bool) \<Rightarrow> UavInfo \<Rightarrow> string \<Rightarrow> stream \<Rightarrow> map_controller
    \<Rightarrow> (display_event list \<times> map_controller) option" where
  "ct_onMethodCalled same unset method d c =
     (if fst (mp_getMapClient 1 (ct_clients c)) = None then with_client (\<lambda>m. Some ([], m)) c
      else if method = RPC_SLOT_SERVER_SEND_AIS_DATA then with_client (addAis same (read_ais d)) c
      else if method = RPC_SLOT_SERVER_SEND_ADSB_DATA then with_client (addAdsb d) c
      else if method = RPC_SLOT_SERVER_SEND_ATLANT_DIRECTION then
        (let (id_post, lat, lon, direction) = read_direction d in with_client (updatePeleng same id_post lat lon direction) c)
      else if method = RPC_SLOT_SERVER_SEND_ATLANT_POSITION then atlant_position same unset d c
      else if method = RPC_SLOT_SERVER_SEND_HYPERBOLA then with_client (\<lambda>m. Some (addHyperboleInternal d m)) c
      else Some ([], c))"

end
