(* ===== verification/MapProps.thy ===== *)
theory MapProps
  imports MapController UavTreeProps
begin

text \<open>
  The map on top of the manager and of the messages of the server: which UAVs are shown, their tracks,
  the refresh of ships, the numbers of radio sources and the file of check points.
\<close>

section \<open>The map as a listener of the manager\<close>

fun map_step :: "(point \<Rightarrow> point \<Rightarrow> bool) \<Rightarrow> 'l \<Rightarrow> 'l UavManager.manager_event \<Rightarrow> map_controller \<Rightarrow> map_controller option" where
  "map_step same l (UavInfoChanged k i r a d) c = (if k = l then map_option snd (ct_onUavInfoChanged same i r a c) else Some c)"
| "map_step same l (UavRemoved k u r) c = (if k = l then map_option snd (ct_onUavRemoved u c) else Some c)"
| "map_step same l _ c = Some c"

fun map_run :: "(point \<Rightarrow> point \<Rightarrow> bool) \<Rightarrow> 'l \<Rightarrow> 'l UavManager.manager_event list \<Rightarrow> map_controller \<Rightarrow> map_controller option" where
  "map_run same l [] c = Some c"
| "map_run same l (e # es) c = (case map_step same l e c of None \<Rightarrow> None | Some c \<Rightarrow> map_run same l es c)"

definition client1 :: "map_controller \<Rightarrow> map_client option" where
  "client1 c = (case qlookup (ct_clients c) 1 of Some (Some m) \<Rightarrow> Some m | _ \<Rightarrow> None)"

lemma with_client1:
  assumes "client1 c = Some m"
  shows "with_client (\<lambda>m. Some (f m)) c
    = Some (map OnMap (fst (f m)), c\<lparr>ct_clients := qinsert 1 (Some (snd (f m))) (ct_clients c)\<rparr>)"
proof -
  have "qlookup (ct_clients c) 1 = Some (Some m)" using assms by (simp add: client1_def split: option.splits)
  then show ?thesis by (simp add: with_client_def mp_getMapClient_def split: prod.split)
qed

lemma client1_insert [simp]: "client1 (c\<lparr>ct_clients := qinsert 1 (Some m) cs\<rparr>) = Some m"
  by (simp add: client1_def)

text \<open>What a sample and a removal do to the tables.\<close>

definition on_sample :: "(point \<Rightarrow> point \<Rightarrow> bool) \<Rightarrow> UavInfo \<Rightarrow> string \<Rightarrow> point list \<Rightarrow> map_client \<Rightarrow> map_client" where
  "on_sample same i r a m = snd (if r = OUR_UAV_ROLE then addFriendBplaInternal same i m
     else if r = ENEMY_UAV_ROLE then addEnemyBplaInternal same i a m else ([], m))"

fun client_step :: "(point \<Rightarrow> point \<Rightarrow> bool) \<Rightarrow> 'l \<Rightarrow> 'l UavManager.manager_event \<Rightarrow> map_client \<Rightarrow> map_client" where
  "client_step same l (UavInfoChanged k i r a d) m = (if k = l then on_sample same i r a m else m)"
| "client_step same l (UavRemoved k u r) m = (if k = l then snd (removeBplaInternal u m) else m)"
| "client_step same l _ m = m"

lemma map_step_client:
  assumes "client1 c = Some m"
  shows "\<exists>c'. map_step same l e c = Some c' \<and> client1 c' = Some (client_step same l e m)"
  using assms
  by (cases e) (auto simp: ct_onUavInfoChanged_def ct_onUavRemoved_def with_client1 on_sample_def)

lemma map_run_client:
  assumes "client1 c = Some m"
  shows "\<exists>c'. map_run same l es c = Some c' \<and> client1 c' = Some (fold (client_step same l) es m)"
  using assms
proof (induction es arbitrary: c m)
  case (Cons e es)
  obtain c' where "map_step same l e c = Some c'" "client1 c' = Some (client_step same l e m)"
    using map_step_client [OF Cons.prems, of same l e] by auto
  with Cons.IH show ?case by auto
qed simp

section \<open>The UAVs on the map\<close>

text \<open>Every feature belongs to one of the UAVs, under one of the known sources.\<close>

definition shows_only :: "u32 set \<Rightarrow> map_client \<Rightarrow> bool" where
  "shows_only S m \<longleftrightarrow> (\<forall>k. qlookup (mc_friends m) k \<noteq> None \<or> qlookup (mc_enemies m) k \<noteq> None
     \<longrightarrow> (\<exists>i \<in> S. \<exists>s \<in> set (mc_sources m). k = getExtendedId i s False))"

definition known_key :: "u32 set \<Rightarrow> u32 set \<Rightarrow> string \<Rightarrow> bool" where
  "known_key S A k \<longleftrightarrow> (\<exists>i \<in> S. \<exists>s \<in> A. k = getExtendedId i s False)"

definition known_keys :: "u32 set \<Rightarrow> u32 set \<Rightarrow> (string \<Rightarrow> 'a option) \<Rightarrow> bool" where
  "known_keys S A t \<longleftrightarrow> (\<forall>k. t k \<noteq> None \<longrightarrow> known_key S A k)"

lemma shows_only_keys:
  "shows_only S m \<longleftrightarrow> known_keys S (set (mc_sources m)) (qlookup (mc_friends m))
     \<and> known_keys S (set (mc_sources m)) (qlookup (mc_enemies m))"
  by (auto simp: shows_only_def known_key_def known_keys_def)

lemma known_key_more: "known_key S A k \<Longrightarrow> known_key S (insert s A) k"
  unfolding known_key_def by blast

lemma known_keys_more: "known_keys S A t \<Longrightarrow> known_keys S (insert s A) t"
  by (simp add: known_keys_def known_key_more)

lemma known_keys_put: "known_keys S A t \<Longrightarrow> known_key S A k \<Longrightarrow> known_keys S A (t(k \<mapsto> v))"
  by (simp add: known_keys_def)

lemma note_source_fields [simp]:
  "mc_friends (note_source s m) = mc_friends m" "mc_enemies (note_source s m) = mc_enemies m"
  "set (mc_sources (note_source s m)) = insert s (set (mc_sources m))"
  by (auto simp: note_source_def)

lemma friend_tables:
  "mc_enemies (snd (addFriendBplaInternal same i m)) = mc_enemies m"
  "set (mc_sources (snd (addFriendBplaInternal same i m))) = insert (info_source i) (set (mc_sources m))"
  by (auto simp: addFriendBplaInternal_def Let_def split: option.split)

lemma friend_friends:
  "qlookup (mc_friends (snd (addFriendBplaInternal same i m))) =
    (if info_source i = UavTree.UAV_SLICES_SOURCE \<or> info_source i = UavTree.UAV_AUTOPILOT_SOURCE
     then (qlookup (mc_friends m))(extended_id i \<mapsto> (case qlookup (mc_friends m) (extended_id i) of
         None \<Rightarrow> new_bpla i
       | Some b \<Rightarrow> if info_source i = UavTree.UAV_SLICES_SOURCE then bp_setSlice (info_lon i, info_lat i) b
                   else bp_update same i b))
     else qlookup (mc_friends m))"
  by (auto simp: addFriendBplaInternal_def Let_def split: option.split)

definition enemy_after :: "(point \<Rightarrow> point \<Rightarrow> bool) \<Rightarrow> UavInfo \<Rightarrow> point list \<Rightarrow> enemy_bpla option \<Rightarrow> enemy_bpla" where
  "enemy_after same i a e =
     (let b = (case e of Some b \<Rightarrow> eb_update same i b | None \<Rightarrow> new_enemy_bpla i)
      in if \<not> info_historical i then bp_setTail a b else b)"

lemma enemy_tables:
  "mc_friends (snd (addEnemyBplaInternal same i a m)) = mc_friends m"
  "set (mc_sources (snd (addEnemyBplaInternal same i a m))) = insert (info_source i) (set (mc_sources m))"
  "qlookup (mc_enemies (snd (addEnemyBplaInternal same i a m)))
    = (qlookup (mc_enemies m))(extended_id i \<mapsto> enemy_after same i a (qlookup (mc_enemies m) (extended_id i)))"
  by (auto simp: addEnemyBplaInternal_def enemy_after_def Let_def split: option.split)

lemma sample_shows_only:
  assumes "shows_only S m" and "info_uavId i \<in> S" and "\<not> info_historical i"
  shows "shows_only S (on_sample same i r a m)"
proof -
  define A where "A = insert (info_source i) (set (mc_sources m))"
  have "known_key S A (extended_id i)"
    using assms(2,3) by (auto simp: known_key_def extended_id_def A_def)
  moreover have "known_keys S A (qlookup (mc_friends m))" "known_keys S A (qlookup (mc_enemies m))"
    using assms(1) by (simp_all add: shows_only_keys A_def known_keys_more)
  moreover have "set (mc_sources (snd (addFriendBplaInternal same i m))) = A"
    "set (mc_sources (snd (addEnemyBplaInternal same i a m))) = A"
    by (simp_all add: friend_tables enemy_tables A_def)
  ultimately show ?thesis
    using assms(1)
    by (simp add: shows_only_keys on_sample_def friend_tables(1) friend_friends enemy_tables(1,3) known_keys_put)
qed

lemma remove_source_tables:
  "mc_sources (snd (remove_source u s m)) = mc_sources m"
  "qlookup (mc_friends (snd (remove_source u s m))) k
    = (if k = getExtendedId (uav_uavId u) s (uav_historical u) then None else qlookup (mc_friends m) k)"
  "qlookup (mc_enemies (snd (remove_source u s m))) k
    = (if k = getExtendedId (uav_uavId u) s (uav_historical u) then None else qlookup (mc_enemies m) k)"
  by (auto simp: remove_source_def qcontains_def Let_def)

lemma remove_sources_tables:
  "mc_sources (snd (remove_sources u ss m)) = mc_sources m
    \<and> qlookup (mc_friends (snd (remove_sources u ss m))) k
      = (if \<exists>s \<in> set ss. k = getExtendedId (uav_uavId u) s (uav_historical u) then None else qlookup (mc_friends m) k)
    \<and> qlookup (mc_enemies (snd (remove_sources u ss m))) k
      = (if \<exists>s \<in> set ss. k = getExtendedId (uav_uavId u) s (uav_historical u) then None else qlookup (mc_enemies m) k)"
  by (induction ss arbitrary: m) (simp_all add: split_beta remove_source_tables)

lemma known_keys_removed:
  assumes "known_keys S A t" and "\<And>k. t' k = (if \<exists>s \<in> A. k = getExtendedId i s False then None else t k)"
  shows "known_keys (S - {i}) A t'"
  unfolding known_keys_def
proof (intro allI impI)
  fix k assume "t' k \<noteq> None"
  with assms(2) have k: "\<not> (\<exists>s \<in> A. k = getExtendedId i s False)" "t k \<noteq> None"
    by (auto split: if_splits)
  with assms(1) show "known_key (S - {i}) A k" unfolding known_keys_def known_key_def by blast
qed

lemma removal_shows_only:
  assumes "shows_only S m" and "\<not> uav_historical u"
  shows "shows_only (S - {uav_uavId u}) (snd (removeBplaInternal u m))"
  using assms unfolding shows_only_keys removeBplaInternal_def
  by (simp add: remove_sources_tables known_keys_removed [of _ _ "qlookup (mc_friends m)"]
      known_keys_removed [of _ _ "qlookup (mc_enemies m)"])


text \<open>Samples and removals of UAVs that are not historical: what the manager sends.\<close>

fun live :: "'l UavManager.manager_event \<Rightarrow> bool" where
  "live (UavInfoChanged k i r a d) \<longleftrightarrow> \<not> info_historical i"
| "live (UavRemoved k u r) \<longleftrightarrow> \<not> uav_historical u"
| "live _ \<longleftrightarrow> True"

lemma known_keys_mono: "known_keys S A t \<Longrightarrow> S \<subseteq> T \<Longrightarrow> known_keys T A t"
  unfolding known_keys_def known_key_def by blast

lemma shows_only_mono: "shows_only S m \<Longrightarrow> S \<subseteq> T \<Longrightarrow> shows_only T m"
  by (auto simp: shows_only_keys intro: known_keys_mono)

lemma run_shows_only:
  assumes "follows l S es = Some S'" and "\<forall>e \<in> set es. live e" and "shows_only S m"
  shows "shows_only S' (fold (client_step same l) es m)"
  using assms
proof (induction l S es arbitrary: m rule: follows.induct)
  case (2 l S k u r es)
  then show ?case
    using shows_only_mono [of S m "insert (uav_uavId u) S"] by (cases "k = l") (auto split: if_splits)
next
  case (3 l S k i r a d es)
  then show ?case using sample_shows_only [of S m i same r a] by (cases "k = l") (auto split: if_splits)
next
  case (4 l S k u r es)
  then show ?case using removal_shows_only [of S m u] by (cases "k = l") (auto split: if_splits)
qed simp_all

definition started_map :: map_controller where
  "started_map = new_controller\<lparr>ct_clients := mp_init [1] []\<rparr>"

lemma client1_started: "client1 started_map = Some new_map_client"
  by (simp add: started_map_def client1_def mp_init_def)

text \<open>
  C31: A map that listens to the manager from its start never stops at an event, and after any run of the
  manager every UAV on it, ours or an enemy, is one the manager knows, under a source the map has heard
  of, provided that the samples and the removals are not historical: a removal takes all features of a
  UAV from the map, whatever their sources, and those of no other UAV come with it.
\<close>
theorem map_shows_only_known_uavs:
  assumes "manager_run db en positions enemies (um_init c time\<lparr>um_listeners := ls\<rparr>) es m'"
    and "distinct ls" and "l \<in> set ls" and "\<forall>e \<in> set es. live e"
  shows "\<exists>c' m. map_run same l es started_map = Some c' \<and> client1 c' = Some m
    \<and> (\<forall>k. qlookup (mc_friends m) k \<noteq> None \<or> qlookup (mc_enemies m) k \<noteq> None
        \<longrightarrow> (\<exists>i s. qlookup (um_known m') i \<noteq> None \<and> s \<in> set (mc_sources m) \<and> k = getExtendedId i s False))"
proof -
  have "um_inv (um_init c time\<lparr>um_listeners := ls\<rparr>)" "shown (um_init c time\<lparr>um_listeners := ls\<rparr>) = {}"
    "um_listeners (um_init c time\<lparr>um_listeners := ls\<rparr>) = ls"
    by (simp_all add: um_init_def setLifeTime_def um_inv_def shown_def Let_def)
  with manager_run_good [OF assms(1)] assms(2,3) have "follows l {} es = Some (shown m')" by (simp add: good_step_def)
  moreover have "shows_only {} new_map_client" by (simp add: shows_only_def new_map_client_def)
  ultimately have only: "shows_only (shown m') (fold (client_step same l) es new_map_client)"
    using assms(4) by (intro run_shows_only)
  obtain c' where "map_run same l es started_map = Some c'"
    "client1 c' = Some (fold (client_step same l) es new_map_client)"
    using map_run_client [OF client1_started, of same l es] by auto
  with only show ?thesis unfolding shows_only_def shown_def by blast
qed

section \<open>Tracks\<close>
















section \<open>Ships\<close>











section \<open>Numbers of radio sources\<close>







section \<open>Check points\<close>

definition point_in :: "(string \<Rightarrow> string option) \<Rightarrow> string \<Rightarrow> (string \<times> point) option" where
  "point_in get g = (case (get (g @ ''/Name''), get (g @ ''/Latitude''), get (g @ ''/Longitude'')) of
       (Some name, Some lat, Some lon) \<Rightarrow> Some (name, text_toDouble lon, text_toDouble lat)
     | _ \<Rightarrow> None)"

lemma check_points_nested:
  assumes "\<And>h k. get (g @ ''/'' @ h @ ''/'' @ k) = None"
  shows "check_points get (g @ ''/'') gs = []"
proof -
  have "check_points get (g @ ''/'' @ h) gs = []" for h
  proof (induction gs arbitrary: h)
    case (Cons x gs)
    have "get (g @ ''/'' @ (h @ x) @ ''/'' @ k) = None" for k by (rule assms)
    then show ?case using Cons [of "h @ x @ ''/''"] by (simp add: Let_def)
  qed simp
  from this [of "[]"] show ?thesis by simp
qed

text \<open>
  C35: A file of check points whose groups are not nested is read up to the first group that misses its
  name, its latitude or its longitude: that group stays open, and every point after it is lost.
\<close>
theorem points_after_a_bad_one_are_lost:
  assumes "\<forall>g \<in> set (ini_groups f). \<forall>h k. ini_value f (g @ ''/'' @ h @ ''/'' @ k) = None"
  shows "mc_checkPoints (snd (readCheckPointsFromFile f m))
    = mc_checkPoints m @ map (\<lambda>g. the (point_in (ini_value f) g))
        (takeWhile (\<lambda>g. point_in (ini_value f) g \<noteq> None) (ini_groups f))"
proof -
  have "check_points (ini_value f) [] gs
      = map (\<lambda>g. the (point_in (ini_value f) g)) (takeWhile (\<lambda>g. point_in (ini_value f) g \<noteq> None) gs)"
    if "\<forall>g \<in> set gs. \<forall>h k. ini_value f (g @ ''/'' @ h @ ''/'' @ k) = None" for gs
    using that
  proof (induction gs)
    case (Cons g gs)
    have "check_points (ini_value f) (g @ ''/'') gs = []" using Cons.prems by (intro check_points_nested) simp
    with Cons show ?case by (auto simp: point_in_def Let_def split: option.split)
  qed simp
  with assms show ?thesis by (simp add: readCheckPointsFromFile_def Let_def)
qed


section \<open>Applications\<close>

lemma map_shows_only_known_uavs_witness:
  "\<exists>c' m. map_run (=) 1 (fst one_sample) started_map = Some c' \<and> client1 c' = Some m
    \<and> (\<forall>k. qlookup (mc_friends m) k \<noteq> None \<longrightarrow> (\<exists>s. k = getExtendedId 5 s False))"
proof -
  have "list_all live (fst one_sample)" by code_simp
  then have live: "\<forall>e \<in> set (fst one_sample). live e" by (simp only: list_all_iff)
  have five: "qlookup (um_known (snd one_sample)) i \<noteq> None \<longleftrightarrow> i = 5" for i
    using one_sample_run(2) by (auto simp: dom_def)
  from map_shows_only_known_uavs [OF one_sample_run(1) _ _ live, of 1 "(=)"]
  obtain c' m where "map_run (=) 1 (fst one_sample) started_map = Some c'" "client1 c' = Some m"
    "\<forall>k. qlookup (mc_friends m) k \<noteq> None \<or> qlookup (mc_enemies m) k \<noteq> None
      \<longrightarrow> (\<exists>i s. i = 5 \<and> s \<in> set (mc_sources m) \<and> k = getExtendedId i s False)" unfolding five by auto
  then show ?thesis by blast
qed





definition points_file :: ini where
  "points_file = \<lparr>ini_groups = [''a'', ''b''],
     ini_value = map_of [(''a/Latitude'', ''43''), (''b/Name'', ''B''), (''b/Latitude'', ''43''), (''b/Longitude'', ''44'')]\<rparr>"

lemma points_after_a_bad_one_are_lost_witness:
  "mc_checkPoints (snd (readCheckPointsFromFile points_file new_map_client)) = []"
proof -
  have *: "count_list x CHR ''/'' = 1" if "ini_value points_file x = Some v" for x v
  proof -
    have "x \<in> {''a/Latitude'', ''b/Name'', ''b/Latitude'', ''b/Longitude''}"
      using that by (auto simp: points_file_def split: if_splits)
    then show ?thesis by auto
  qed
  have "ini_value points_file (g @ ''/'' @ h @ ''/'' @ k) = None" for g h k
  proof (cases "ini_value points_file (g @ ''/'' @ h @ ''/'' @ k)")
    case (Some v)
    with * [OF Some] show ?thesis by (simp add: count_list_append)
  qed simp
  then have "\<forall>g \<in> set (ini_groups points_file). \<forall>h k. ini_value points_file (g @ ''/'' @ h @ ''/'' @ k) = None" by blast
  from points_after_a_bad_one_are_lost [OF this, of new_map_client] show ?thesis
    by (simp add: points_file_def point_in_def new_map_client_def)
qed

end
