(* ===== verification/TcpClient.thy ===== *)
theory TcpClient
  imports Subjects Prelude
begin

text \<open>
  \<open>BaseTcpClient\<close> (\<open>CISCommonLib/src/Tcp/BaseTcpClient.cpp\<close>): a socket that connects again by a timer.
  The socket belongs to Qt: it is connected or not, what becomes of an attempt to connect within its
  second is given with the operation, and its signals run the slots of the client at once. A refused
  attempt ends with an error signal, one that takes too long ends without. A timer of the object has a
  number that is not 0 and not that of a running timer.
\<close>

section \<open>State\<close>

datatype connect_outcome = Connects | Refused | TimesOut

record 'l tcp_client =
  tc_host :: string
  tc_port :: u32
  tc_connected :: bool
  tc_open :: bool
  tc_timer :: nat
  tc_timeout :: u32
  tc_running :: "nat list"
  tc_receivers :: "'l subject"

datatype 'l client_event =
    HostStatus int
  | DataTo 'l "u8 list"
  | SocketWrite "u8 list"

definition BASE_TCP_RECONNECT_TIMEOUT :: u32 where "BASE_TCP_RECONNECT_TIMEOUT = 3000"

definition new_tcp_client :: "'l tcp_client" where
  "new_tcp_client = \<lparr>tc_host = ''127.0.0.1'', tc_port = 0, tc_connected = False, tc_open = False, tc_timer = 0,
     tc_timeout = BASE_TCP_RECONNECT_TIMEOUT, tc_running = [], tc_receivers = []\<rparr>"

definition isConnected :: "'l tcp_client \<Rightarrow> bool" where
  "isConnected c \<longleftrightarrow> tc_open c \<and> tc_connected c"

definition getHost :: "'l tcp_client \<Rightarrow> string" where
  "getHost c = tc_host c @ '':'' @ qnumber (tc_port c)"

definition setReconnectInterval :: "u32 \<Rightarrow> 'l tcp_client \<Rightarrow> 'l tcp_client" where
  "setReconnectInterval timeMsec c = c\<lparr>tc_timeout := timeMsec\<rparr>"

section \<open>Timers\<close>

definition unused :: "nat list \<Rightarrow> nat" where
  "unused ts = fold max ts 0 + 1"

definition startTimer :: "'l tcp_client \<Rightarrow> 'l tcp_client" where
  "startTimer c = (let t = unused (tc_running c) in c\<lparr>tc_running := tc_running c @ [t], tc_timer := t\<rparr>)"

definition killTimerSlot :: "'l tcp_client \<Rightarrow> 'l tcp_client" where
  "killTimerSlot c =
     (if tc_timer c \<noteq> 0 then c\<lparr>tc_running := remove1 (tc_timer c) (tc_running c), tc_timer := 0\<rparr> else c)"

section \<open>Signals of the socket\<close>

definition onSocketConnected :: "'l tcp_client \<Rightarrow> 'l client_event list \<times> 'l tcp_client" where
  "onSocketConnected c = ([HostStatus 1], (killTimerSlot c)\<lparr>tc_open := True\<rparr>)"

definition onSocketDisconnected :: "'l tcp_client \<Rightarrow> 'l client_event list \<times> 'l tcp_client" where
  "onSocketDisconnected c = ([HostStatus 0], c\<lparr>tc_open := False\<rparr>)"

definition onSocketReadyRead :: "u8 list \<Rightarrow> 'l tcp_client \<Rightarrow> 'l client_event list" where
  "onSocketReadyRead d c = notify (\<lambda>r. DataTo r d) (tc_receivers c)"

definition onSocketDisplayError :: "'l tcp_client \<Rightarrow> 'l tcp_client" where
  "onSocketDisplayError c =
     (let c = c\<lparr>tc_open := False\<rparr> in if tc_timer c = 0 then startTimer c else c)"

section \<open>Connecting\<close>

text \<open>
  \<open>connectToHost\<close> of the socket and the wait of a second; it does nothing on a socket that is connected.
\<close>

definition socket_connect :: "connect_outcome \<Rightarrow> 'l tcp_client \<Rightarrow> bool \<times> 'l client_event list \<times> 'l tcp_client" where
  "socket_connect outcome c =
     (if tc_connected c then (True, [], c)
      else case outcome of
             Connects \<Rightarrow> (let (es, c) = onSocketConnected (c\<lparr>tc_connected := True\<rparr>) in (True, es, c))
           | Refused \<Rightarrow> (False, [], onSocketDisplayError c)
           | TimesOut \<Rightarrow> (False, [], c))"

text \<open>\<open>abort\<close> of the socket, which tells of a connection it ends.\<close>

definition socket_abort :: "'l tcp_client \<Rightarrow> 'l client_event list \<times> 'l tcp_client" where
  "socket_abort c = (if tc_connected c then onSocketDisconnected (c\<lparr>tc_connected := False\<rparr>) else ([], c))"

definition tc_close :: "'l tcp_client \<Rightarrow> 'l client_event list \<times> 'l tcp_client" where
  "tc_close c = (let (es, c) = socket_abort c in (es, c\<lparr>tc_open := False\<rparr>))"

definition connectToHostInternalSlot :: "string \<Rightarrow> u32 \<Rightarrow> connect_outcome \<Rightarrow> 'l tcp_client \<Rightarrow> 'l client_event list \<times> 'l tcp_client" where
  "connectToHostInternalSlot host port outcome c =
     (let c = killTimerSlot (c\<lparr>tc_host := host, tc_port := port\<rparr>);
          (ok, es, c) = socket_connect outcome c
      in if \<not> ok then (es @ [HostStatus 0], startTimer c) else (es, c))"

definition connectToHostSync :: "string \<Rightarrow> u32 \<Rightarrow> connect_outcome \<Rightarrow> 'l tcp_client \<Rightarrow> bool \<times> 'l client_event list \<times> 'l tcp_client" where
  "connectToHostSync host port outcome c =
     (let (es, c) = connectToHostInternalSlot host port outcome c in (isConnected c, es, c))"

definition disconnectFromHostInternalSlot :: "'l tcp_client \<Rightarrow> 'l client_event list \<times> 'l tcp_client" where
  "disconnectFromHostInternalSlot c = tc_close (killTimerSlot c)"

definition disconnectFromHostSync :: "'l tcp_client \<Rightarrow> bool \<times> 'l client_event list \<times> 'l tcp_client" where
  "disconnectFromHostSync c = (let (es, c) = disconnectFromHostInternalSlot c in (isConnected c, es, c))"

definition onSocketReconnectSlot :: "connect_outcome \<Rightarrow> 'l tcp_client \<Rightarrow> 'l client_event list \<times> 'l tcp_client" where
  "onSocketReconnectSlot outcome c =
     (if tc_connected c then ([], c)
      else let (es, c) = tc_close c; (ok, es', c) = socket_connect outcome c in (es @ es', c))"

definition timerEvent :: "nat \<Rightarrow> connect_outcome \<Rightarrow> 'l tcp_client \<Rightarrow> 'l client_event list \<times> 'l tcp_client" where
  "timerEvent i outcome c = (if i = tc_timer c then onSocketReconnectSlot outcome c else ([], c))"

text \<open>Writing: \<open>QIODevice::write\<close> refuses a device that is not open.\<close>

definition tc_write :: "u8 list \<Rightarrow> 'l tcp_client \<Rightarrow> 'l client_event list" where
  "tc_write d c = (if tc_open c then [SocketWrite d] else [])"

text \<open>The other side closes the connection: an error and the end of the connection.\<close>

definition remote_closed :: "'l tcp_client \<Rightarrow> 'l client_event list \<times> 'l tcp_client" where
  "remote_closed c =
     (if tc_connected c then onSocketDisconnected (onSocketDisplayError (c\<lparr>tc_connected := False\<rparr>)) else ([], c))"

section \<open>Runs\<close>

datatype tcp_action =
    ConnectTo string u32 connect_outcome
  | Disconnect
  | TimerFires nat connect_outcome
  | RemoteCloses
  | Arrives "u8 list"
  | Writes "u8 list"

fun tc_do :: "tcp_action \<Rightarrow> 'l tcp_client \<Rightarrow> 'l client_event list \<times> 'l tcp_client" where
  "tc_do (ConnectTo h p o') c = connectToHostInternalSlot h p o' c"
| "tc_do Disconnect c = disconnectFromHostInternalSlot c"
| "tc_do (TimerFires i o') c = (if i \<in> set (tc_running c) then timerEvent i o' c else ([], c))"
| "tc_do RemoteCloses c = remote_closed c"
| "tc_do (Arrives d) c = (if tc_connected c then onSocketReadyRead d c else [], c)"
| "tc_do (Writes d) c = (tc_write d c, c)"

fun tc_run :: "tcp_action list \<Rightarrow> 'l tcp_client \<Rightarrow> 'l client_event list \<times> 'l tcp_client" where
  "tc_run [] c = ([], c)"
| "tc_run (a # as) c = (let (es, c) = tc_do a c; (es', c) = tc_run as c in (es @ es', c))"

text \<open>Whether the last request was to connect.\<close>

fun wanted :: "bool \<Rightarrow> tcp_action list \<Rightarrow> bool" where
  "wanted w [] = w"
| "wanted w (ConnectTo h p o' # as) = wanted True as"
| "wanted w (Disconnect # as) = wanted False as"
| "wanted w (_ # as) = wanted w as"

text \<open>The status that was told last.\<close>

fun told :: "int \<Rightarrow> 'l client_event list \<Rightarrow> int" where
  "told s [] = s"
| "told s (HostStatus t # es) = told t es"
| "told s (_ # es) = told s es"

text \<open>The requests to connect that were refused while there was no connection.\<close>

fun refusals :: "tcp_action list \<Rightarrow> 'l tcp_client \<Rightarrow> nat" where
  "refusals [] c = 0"
| "refusals (a # as) c =
     (case a of ConnectTo h p Refused \<Rightarrow> if tc_connected c then 0 else 1 | _ \<Rightarrow> 0) + refusals as (snd (tc_do a c))"

section \<open>What holds between the operations\<close>

definition timer_inv :: "nat \<Rightarrow> nat \<Rightarrow> nat list \<Rightarrow> bool" where
  "timer_inv n t ts \<longleftrightarrow> (t \<noteq> 0 \<longrightarrow> t \<in> set ts) \<and> 0 \<notin> set ts \<and> distinct ts \<and> length ts = n + (if t \<noteq> 0 then 1 else 0)"

definition tc_inv :: "bool \<Rightarrow> nat \<Rightarrow> int \<Rightarrow> 'l tcp_client \<Rightarrow> bool" where
  "tc_inv w n s c \<longleftrightarrow> (tc_open c \<longleftrightarrow> tc_connected c) \<and> s = (if tc_connected c then 1 else 0)
     \<and> (tc_timer c \<noteq> 0 \<longleftrightarrow> w \<and> \<not> tc_connected c) \<and> (tc_connected c \<longrightarrow> w)
     \<and> timer_inv n (tc_timer c) (tc_running c)"

lemma fold_max: "x \<in> set ts \<or> x \<le> m \<Longrightarrow> x \<le> fold max ts (m :: nat)"
  by (induction ts arbitrary: m) (auto simp: le_max_iff_disj)

lemma unused_new: "unused ts \<notin> set ts" "unused ts \<noteq> 0"
  using fold_max [of "unused ts" ts 0] by (auto simp: unused_def)

lemma unused_pos [simp]: "0 < unused ts"
  by (simp add: unused_def)

lemma timer_kill: "timer_inv n t ts \<Longrightarrow> t \<noteq> 0 \<Longrightarrow> timer_inv n 0 (remove1 t ts)"
  by (auto simp: timer_inv_def length_remove1)

lemma timer_start: "timer_inv n 0 ts \<Longrightarrow> timer_inv n (unused ts) (ts @ [unused ts])"
  using unused_new [of ts] by (simp add: timer_inv_def)

lemma timer_lost: "timer_inv n t ts \<Longrightarrow> t \<noteq> 0 \<Longrightarrow> timer_inv (Suc n) (unused ts) (ts @ [unused ts])"
  using unused_new [of ts] by (simp add: timer_inv_def)

lemma startTimer_fields [simp]:
  "tc_connected (startTimer c) = tc_connected c" "tc_open (startTimer c) = tc_open c"
  "tc_timer (startTimer c) = unused (tc_running c)" "tc_running (startTimer c) = tc_running c @ [unused (tc_running c)]"
  "tc_host (startTimer c) = tc_host c" "tc_port (startTimer c) = tc_port c"
  by (simp_all add: startTimer_def Let_def)

lemma killTimer_fields [simp]:
  "tc_connected (killTimerSlot c) = tc_connected c" "tc_open (killTimerSlot c) = tc_open c" "tc_timer (killTimerSlot c) = 0"
  "tc_running (killTimerSlot c) = (if tc_timer c \<noteq> 0 then remove1 (tc_timer c) (tc_running c) else tc_running c)"
  "tc_host (killTimerSlot c) = tc_host c" "tc_port (killTimerSlot c) = tc_port c"
  by (simp_all add: killTimerSlot_def)

lemma told_append: "told s (es @ es') = told (told s es) es'"
  by (induction s es rule: told.induct) simp_all

lemma told_data [simp]: "told s (notify (\<lambda>r. DataTo r d) rs) = s"
  by (induction rs) (simp_all add: notify_def)

lemma tc_run_split:
  "fst (tc_run (a # as) c) = fst (tc_do a c) @ fst (tc_run as (snd (tc_do a c)))"
  "snd (tc_run (a # as) c) = snd (tc_run as (snd (tc_do a c)))"
  by (simp_all add: split_beta)

lemmas slots = connectToHostInternalSlot_def disconnectFromHostInternalSlot_def timerEvent_def onSocketReconnectSlot_def
  remote_closed_def socket_connect_def tc_close_def socket_abort_def onSocketConnected_def onSocketDisconnected_def
  onSocketDisplayError_def onSocketReadyRead_def tc_write_def

definition refused_now :: "tcp_action \<Rightarrow> 'l tcp_client \<Rightarrow> nat" where
  "refused_now a c = (case a of ConnectTo h p Refused \<Rightarrow> if tc_connected c then 0 else 1 | _ \<Rightarrow> 0)"

lemma connect_inv:
  assumes "tc_inv w n s c"
  shows "tc_inv True (n + refused_now (ConnectTo h p r) c) (told s (fst (tc_do (ConnectTo h p r) c))) (snd (tc_do (ConnectTo h p r) c))"
proof -
  let ?ts = "if tc_timer c \<noteq> 0 then remove1 (tc_timer c) (tc_running c) else tc_running c"
  have "timer_inv n 0 ?ts" using assms timer_kill [of n "tc_timer c" "tc_running c"] by (auto simp: tc_inv_def)
  moreover note timer_start [OF this] timer_lost [OF timer_start [OF this] unused_new(2)]
  ultimately show ?thesis
    using assms by (cases r) (auto simp: tc_inv_def slots refused_now_def Let_def unused_new)
qed

lemma disconnect_inv:
  assumes "tc_inv w n s c"
  shows "tc_inv False n (told s (fst (tc_do Disconnect c))) (snd (tc_do Disconnect c))"
  using assms timer_kill [of n "tc_timer c" "tc_running c"] by (auto simp: tc_inv_def slots Let_def)

lemma timer_fires_inv:
  assumes "tc_inv w n s c"
  shows "tc_inv w n (told s (fst (tc_do (TimerFires i r) c))) (snd (tc_do (TimerFires i r) c))"
proof -
  have "tc_timer c \<noteq> 0" if "i \<in> set (tc_running c)" "i = tc_timer c"
    using assms that by (auto simp: tc_inv_def timer_inv_def)
  then show ?thesis
    using assms timer_kill [of n "tc_timer c" "tc_running c"]
    by (cases r) (auto simp: tc_inv_def slots Let_def)
qed

lemma remote_inv:
  assumes "tc_inv w n s c"
  shows "tc_inv w n (told s (fst (tc_do RemoteCloses c))) (snd (tc_do RemoteCloses c))"
  using assms timer_start [of n "tc_running c"] unused_new(2) [of "tc_running c"] by (auto simp: tc_inv_def slots Let_def)

lemma run_inv:
  assumes "tc_inv w n s c"
  shows "tc_inv (wanted w as) (n + refusals as c) (told s (fst (tc_run as c))) (snd (tc_run as c))"
  using assms
proof (induction as arbitrary: w n s c)
  case (Cons a as)
  have "tc_inv (wanted w [a]) (n + refused_now a c) (told s (fst (tc_do a c))) (snd (tc_do a c))"
  proof (cases a)
    case (ConnectTo h p r)
    then show ?thesis using connect_inv [OF Cons.prems] by simp
  next
    case Disconnect
    then show ?thesis using disconnect_inv [OF Cons.prems] by (simp add: refused_now_def)
  next
    case (TimerFires i r)
    then show ?thesis using timer_fires_inv [OF Cons.prems] by (simp add: refused_now_def)
  next
    case RemoteCloses
    then show ?thesis using remote_inv [OF Cons.prems] by (simp add: refused_now_def)
  qed (use Cons.prems in \<open>auto simp: refused_now_def slots\<close>)
  moreover have "wanted w (a # as) = wanted (wanted w [a]) as" by (cases a) simp_all
  moreover have "refusals (a # as) c = refused_now a c + refusals as (snd (tc_do a c))" by (simp add: refused_now_def)
  ultimately show ?case
    using Cons.IH [of "wanted w [a]" "n + refused_now a c" "told s (fst (tc_do a c))" "snd (tc_do a c)"]
    by (simp only: tc_run_split told_append add.assoc)
qed simp

text \<open>
  C36: Whatever happens to a client, after any run: it is open exactly while its socket is connected, and
  the status it told last is that of the socket. After a request to connect, and until one to disconnect,
  it is connected or its timer runs, and the timer connects it as soon as the other side accepts; after
  a request to disconnect it is not connected and no timer does anything. But every request to connect
  that is refused leaves one timer running for ever that nothing stops.
\<close>
theorem client_keeps_trying:
  fixes es :: "'l client_event list"
  assumes "tc_run as new_tcp_client = (es, c)"
  shows "(tc_open c \<longleftrightarrow> tc_connected c) \<and> told 0 es = (if tc_connected c then 1 else 0)
    \<and> (wanted False as \<and> \<not> tc_connected c
        \<longrightarrow> tc_timer c \<in> set (tc_running c) \<and> isConnected (snd (timerEvent (tc_timer c) Connects c)))
    \<and> (\<not> wanted False as
        \<longrightarrow> \<not> tc_connected c \<and> (\<forall>i r. i \<in> set (tc_running c) \<longrightarrow> timerEvent i r c = ([], c)))
    \<and> length (tc_running c) = refusals as (new_tcp_client :: 'l tcp_client) + (if tc_timer c \<noteq> 0 then 1 else 0)"
proof -
  have "tc_inv False 0 0 (new_tcp_client :: 'l tcp_client)" by (simp add: tc_inv_def timer_inv_def new_tcp_client_def)
  then have inv: "tc_inv (wanted False as) (refusals as (new_tcp_client :: 'l tcp_client)) (told 0 es) c"
    using run_inv [of False 0 0 "new_tcp_client :: 'l tcp_client" as] by (simp add: assms)
  have "isConnected (snd (timerEvent (tc_timer c) Connects c))" if "\<not> tc_connected c"
    using that by (simp add: slots isConnected_def Let_def)
  moreover have "timerEvent i r c = ([], c)" if "i \<in> set (tc_running c)" "tc_timer c = 0" for i r
    using that inv by (auto simp: timerEvent_def tc_inv_def timer_inv_def)
  ultimately show ?thesis using inv unfolding tc_inv_def timer_inv_def by auto
qed

lemma client_keeps_trying_witness:
  "length (tc_running (snd (tc_run [ConnectTo ''host'' 1 Refused, Disconnect] (new_tcp_client :: nat tcp_client)))) = 1"
  using client_keeps_trying [of "[ConnectTo ''host'' 1 Refused, Disconnect]"
      "fst (tc_run [ConnectTo ''host'' 1 Refused, Disconnect] (new_tcp_client :: nat tcp_client))"
      "snd (tc_run [ConnectTo ''host'' 1 Refused, Disconnect] new_tcp_client)"]
  by (simp add: new_tcp_client_def slots Let_def)

end
