(* ===== verification/TcpDevices.thy ===== *)
theory TcpDevices
  imports TcpManager TcpClient Settings
begin

text \<open>
  The controllers of the device types (\<open>TcpKTRController.cpp\<close>, \<open>TcpNIIPPController.cpp\<close>,
  \<open>TcpArmrClientController.cpp\<close> under \<open>server/core/TCP\<close>) on top of \<open>BaseTcpDeviceController\<close>: their settings,
  their client and what they tell of its connection, and the start of the station from its settings
  files (\<open>TcpSettingsManager.cpp\<close>, \<open>ARM_OD_Srv.cpp\<close>).
\<close>

section \<open>Controllers\<close>

record device_controller =
  dc_name :: string
  dc_type :: u32
  dc_host :: string
  dc_port :: u32
  dc_id :: int
  dc_interval :: u32
  dc_client :: "unit tcp_client option"

text \<open>The memory of the fields that no constructor sets: the id and the interval.\<close>

type_synonym device_memory = "int \<times> u32"

definition base_device :: "device_memory \<Rightarrow> string \<Rightarrow> device_controller" where
  "base_device j name = \<lparr>dc_name = name, dc_type = 0, dc_host = [], dc_port = 0, dc_id = fst j, dc_interval = snd j, dc_client = None\<rparr>"

text \<open>The first group with the name of the device; \<open>port\<close> and \<open>interval\<close> are the defaults.\<close>

fun find_group :: "(string \<Rightarrow> string option) \<Rightarrow> string \<Rightarrow> string list \<Rightarrow> string option" where
  "find_group get name [] = None"
| "find_group get name (g # gs) = (if entry get g ''name'' ''Unknown'' = name then Some g else find_group get name gs)"

definition read_settings :: "ini \<Rightarrow> int \<Rightarrow> int \<Rightarrow> device_controller \<Rightarrow> device_controller option" where
  "read_settings f port interval c =
     map_option (\<lambda>g. c\<lparr>dc_host := entry (ini_value f) g ''ip'' ''127.0.0.1'',
         dc_port := to_uint (entry_int (ini_value f) g ''port'' port),
         dc_interval := to_uint (entry_int (ini_value f) g ''reconnectInterval'' interval)\<rparr>)
       (find_group (ini_value f) (dc_name c) (ini_groups f))"

definition ktr_controller :: "device_memory \<Rightarrow> ini \<Rightarrow> string \<Rightarrow> device_controller" where
  "ktr_controller j f name =
     (let c = (base_device j name)\<lparr>dc_type := KTR_TCP_DEVICE\<rparr>
      in case read_settings f 2323 1000 c of Some c \<Rightarrow> c | None \<Rightarrow> c)"

definition niipp_controller :: "device_memory \<Rightarrow> ini \<Rightarrow> string \<Rightarrow> device_controller" where
  "niipp_controller j f name =
     (let c = base_device j name
      in case (find_group (ini_value f) name (ini_groups f), read_settings f 2323 3000 c) of
           (Some g, Some c) \<Rightarrow> c\<lparr>dc_id := entry_int (ini_value f) g ''id'' 0, dc_type := NIIPP_TCP_DEVICE\<rparr>
         | _ \<Rightarrow> c)"

definition armr_controller :: "device_memory \<Rightarrow> ini \<Rightarrow> string \<Rightarrow> device_controller" where
  "armr_controller j f name =
     (let c = base_device j name
      in case read_settings f 6662 1000 c of Some c \<Rightarrow> c\<lparr>dc_type := ARMR_TCP_CLIENT\<rparr> | None \<Rightarrow> c)"

definition ais_settings :: "device_memory \<Rightarrow> ini \<Rightarrow> string \<Rightarrow> device_controller" where
  "ais_settings j f name =
     (let c = base_device j name
      in case read_settings f 2323 1000 c of Some c \<Rightarrow> c\<lparr>dc_type := AIS_TCP_DEVICE\<rparr> | None \<Rightarrow> c)"

section \<open>Their clients\<close>

definition createTcpClient :: "device_controller \<Rightarrow> device_controller" where
  "createTcpClient c = c\<lparr>dc_client := Some (new_tcp_client\<lparr>tc_receivers := registerReceiver () []\<rparr>)\<rparr>"

definition dc_setReconnectInterval :: "u32 \<Rightarrow> device_controller \<Rightarrow> device_controller" where
  "dc_setReconnectInterval timeMsec c = c\<lparr>dc_client := map_option (setReconnectInterval timeMsec) (dc_client c)\<rparr>"

definition create_with_interval :: "device_controller \<Rightarrow> device_controller" where
  "create_with_interval c = dc_setReconnectInterval (dc_interval c) (createTcpClient c)"

text \<open>An operation of the client; nothing without a client.\<close>

definition on_client :: "tcp_action \<Rightarrow> device_controller \<Rightarrow> unit client_event list \<times> device_controller" where
  "on_client a c =
     (case dc_client c of
        None \<Rightarrow> ([], c)
      | Some t \<Rightarrow> let (es, t) = tc_do a t in (es, c\<lparr>dc_client := Some t\<rparr>))"

definition connectToHost :: "connect_outcome \<Rightarrow> device_controller \<Rightarrow> unit client_event list \<times> device_controller" where
  "connectToHost r c = on_client (ConnectTo (dc_host c) (dc_port c) r) c"

text \<open>Without a client a null pointer is followed.\<close>

definition disconnectFromHost :: "device_controller \<Rightarrow> (unit client_event list \<times> device_controller) option" where
  "disconnectFromHost c = (if dc_client c = None then None else Some (on_client Disconnect c))"

definition dc_isConnected :: "device_controller \<Rightarrow> bool" where
  "dc_isConnected c = (case dc_client c of None \<Rightarrow> False | Some t \<Rightarrow> isConnected t)"

definition dc_getHost :: "device_controller \<Rightarrow> string" where
  "dc_getHost c = (case dc_client c of None \<Rightarrow> [] | Some t \<Rightarrow> getHost t)"

section \<open>The state of the connection\<close>

definition ktr_status_message :: "int \<Rightarrow> message" where
  "ktr_status_message st = \<lparr>msg_type = TCP_KTR_ANSWER_CONNECTION_STATUS, msg_data = [TokInt st]\<rparr>"

definition niipp_status_message :: "device_controller \<Rightarrow> int \<Rightarrow> message" where
  "niipp_status_message c st = \<lparr>msg_type = TCP_NIIPP_ANSWER_CONNECTION_STATUS, msg_data = [TokInt (dc_id c), TokInt st]\<rparr>"

text \<open>What the listeners of a controller of a NIIPP get when its client tells of an event.\<close>

fun niipp_messages :: "device_controller \<Rightarrow> unit client_event \<Rightarrow> message list" where
  "niipp_messages c (HostStatus st) = [niipp_status_message c st]"
| "niipp_messages c _ = []"

section \<open>The start of the station\<close>

text \<open>The devices of a settings file: names with types; a later group of the same name replaces an earlier one.\<close>

fun device_types_of :: "(string \<Rightarrow> string option) \<Rightarrow> string list \<Rightarrow> (string, u32) qmap \<Rightarrow> (string, u32) qmap" where
  "device_types_of get [] m = m"
| "device_types_of get (g # gs) m =
     (let type = entry_int get g ''type'' 0
      in device_types_of get gs (if type > 0 then qinsert (entry get g ''name'' []) (to_uint type) m else m))"

definition getAllInfo :: "ini \<Rightarrow> (string, u32) qmap" where
  "getAllInfo f = device_types_of (ini_value f) (ini_groups f) []"

text \<open>Host and port the new controller finds: \<open>devices\<close> and \<open>armr\<close> are the two settings files.\<close>

definition device_conf :: "device_memory \<Rightarrow> ini \<Rightarrow> ini \<Rightarrow> u32 \<Rightarrow> string \<Rightarrow> string \<times> u32" where
  "device_conf j devices armr type name =
     (let c = (if type = NIIPP_TCP_DEVICE then niipp_controller j devices name
               else if type = KTR_TCP_DEVICE then ktr_controller j devices name
               else if type = AIS_TCP_DEVICE then ais_settings j devices name
               else armr_controller j armr name)
      in (dc_host c, dc_port c))"

fun add_devices :: "(u32 \<Rightarrow> string \<Rightarrow> string \<times> u32) \<Rightarrow> (string, u32) qmap \<Rightarrow> tcp_manager \<Rightarrow> manager_event list \<times> tcp_manager" where
  "add_devices conf [] s = ([], s)"
| "add_devices conf ((name, type) # ds) s =
     (let (es, s) = addTcpDevice conf name type s; (es', s) = add_devices conf ds s in (es @ es', s))"

definition addTcpArmrConnection :: "(u32 \<Rightarrow> string \<Rightarrow> string \<times> u32) \<Rightarrow> ini \<Rightarrow> tcp_manager \<Rightarrow> manager_event list \<times> tcp_manager" where
  "addTcpArmrConnection conf armr s = add_devices conf (getAllInfo armr) s"

text \<open>\<open>mode\<close> is how the solver is connected: by TCP (0), by RPC (1) or not at all.\<close>

definition start_devices :: "device_memory \<Rightarrow> ini \<Rightarrow> ini \<Rightarrow> u32 \<Rightarrow> tcp_manager \<Rightarrow> manager_event list \<times> tcp_manager" where
  "start_devices j devices armr mode s =
     (let conf = device_conf j devices armr;
          (es, s) = add_devices conf (getAllInfo devices) s;
          (es', s) = (if mode = 0 then addTcpArmrConnection conf armr s else ([], s))
      in (es @ es', s))"

end
