(* ===== verification/TcpDevicesProps.thy ===== *)
theory TcpDevicesProps
  imports TcpDevices NiippControlProps
begin

text \<open>
  The start of the station from its settings, and the way of the state of a connection from the socket
  of a device to the operator.
\<close>

section \<open>The devices of the settings\<close>















section \<open>The state of a connection on its way to the operator\<close>









end
