(* ===== verification/AisCoder.thy ===== *)
theory AisCoder
  imports TcpDevices
begin

text \<open>
  The source of air traffic (\<open>TcpAISController.cpp\<close>, \<open>TcpAISZoneManager.cpp\<close>, \<open>TcpAISCoder.cpp\<close> under
  \<open>server/core/TCP\<close>): the region that is asked for and the coder that picks the planes of the zone out of
  the answer. The coder keeps the places of brackets and commas in a structure that is declared anew,
  without a value, for every character: \<open>fresh\<close> is what the new one holds, given the one before it.
  \<open>None\<close> is a comma beyond the end of the array.
\<close>

section \<open>Zones\<close>

record AISZone =
  latitudeMax :: double
  longitudeMin :: double
  latitudeMin :: double
  longitudeMax :: double

text \<open>A region: its name and its borders, written in hundredths.\<close>

definition region :: "string \<Rightarrow> int \<Rightarrow> int \<Rightarrow> int \<Rightarrow> int \<Rightarrow> string \<times> AISZone" where
  "region url latMin latMax lonMin lonMax =
     (let d = (\<lambda>i. dround (of_int i / 100))
      in (url, \<lparr>latitudeMax = d latMax, longitudeMin = d lonMin, latitudeMin = d latMin, longitudeMax = d lonMax\<rparr>))"

definition TCP_AIS_URL_FULL_MAP :: string where "TCP_AIS_URL_FULL_MAP = ''full_all.js''"
definition TCP_AIS_URL_STANDART :: string where "TCP_AIS_URL_STANDART = ''http://bma.fr24.com/zones/''"

definition regions :: "(string \<times> AISZone) list" where
  "regions =
     [region ''europe_all.js'' 3357 7257 (- 1696) 5505,
      region ''northamerica_all.js'' 300 7500 (- 18000) (- 5200),
      region ''southamerica_all.js'' (- 5700) 1600 (- 9600) (- 3100),
      region ''oceania_all.js'' (- 5508) 1962 8840 18000,
      region ''asia_all.js'' 1248 7998 4091 17977,
      region ''africa_all.js'' (- 3900) 3900 (- 2900) 5500,
      region ''atlantic_all.js'' 1562 5269 (- 5090) (- 475),
      region ''maldives_all.js'' (- 608) 1072 6310 8653,
      region ''northatlantic_all.js'' 5902 8262 (- 8453) 445]"

definition inside :: "AISZone \<Rightarrow> AISZone \<Rightarrow> bool" where
  "inside z r \<longleftrightarrow> d_less (latitudeMax z) (latitudeMax r) \<and> d_less (latitudeMin r) (latitudeMin z)
     \<and> d_less (longitudeMin r) (longitudeMin z) \<and> d_less (longitudeMax z) (longitudeMax r)"

definition getZone :: "AISZone \<Rightarrow> string" where
  "getZone z = fold (\<lambda>(url, r) zone. if inside z r then url else zone) regions TCP_AIS_URL_FULL_MAP"

definition zone_of :: "string \<Rightarrow> AISZone option" where
  "zone_of host =
     (case text_split '':'' host of
        [a, b, c, d] \<Rightarrow> Some \<lparr>latitudeMax = text_toDouble a, longitudeMin = text_toDouble b,
            latitudeMin = text_toDouble c, longitudeMax = text_toDouble d\<rparr>
      | _ \<Rightarrow> None)"

text \<open>
  The request: the client of AIS inherits \<open>connectToHostSync\<close> from \<open>BaseTcpClient\<close>, so that the address
  of the page is taken for the name of a host.
\<close>

definition connectToHostAISInternalSlot :: "string \<Rightarrow> u32 \<Rightarrow> connect_outcome \<Rightarrow> AISZone \<Rightarrow> device_controller
    \<Rightarrow> unit client_event list \<times> AISZone \<times> device_controller" where
  "connectToHostAISInternalSlot host port r lastZone c =
     (case zone_of host of
        None \<Rightarrow> ([], lastZone, c)
      | Some z \<Rightarrow>
          let (es, c) = on_client (ConnectTo (TCP_AIS_URL_STANDART @ getZone z) port r) c in (es, z, c))"

section \<open>Brackets and commas\<close>

record bracketed =
  br1 :: int
  br2 :: int
  comma :: "int list"

fun scan :: "(bracketed \<Rightarrow> bracketed) \<Rightarrow> nat \<Rightarrow> string \<Rightarrow> bracketed \<Rightarrow> nat \<Rightarrow> bool \<Rightarrow> bracketed list option" where
  "scan fresh i [] b c inList = Some []"
| "scan fresh i (x # xs) b c inList =
     (let b = fresh b;
          b = (if x = CHR ''['' then b\<lparr>br1 := int i\<rparr> else b);
          inList = (if x = CHR ''['' then True else inList)
      in if x = CHR '','' \<and> inList then
           (if c < 17 then scan fresh (i + 1) xs (b\<lparr>comma := (comma b)[c := int i]\<rparr>) (c + 1) inList else None)
         else if x = CHR '']'' then
           map_option (\<lambda>bs. b\<lparr>br2 := int i\<rparr> # bs) (scan fresh (i + 1) xs (b\<lparr>br2 := int i\<rparr>) 0 False)
         else scan fresh (i + 1) xs b c inList)"

text \<open>\<open>QString::mid\<close>.\<close>

definition mid :: "string \<Rightarrow> int \<Rightarrow> int \<Rightarrow> string" where
  "mid s p n =
     (let l = int (length s)
      in if p > l then []
         else if p < 0 then
           (if n < 0 \<or> n + p \<ge> l then s else if n + p \<le> 0 then [] else take (nat (n + p)) s)
         else if n < 0 \<or> n > l - p then drop (nat p) s
         else take (nat n) (drop (nat p) s))"

text \<open>The text between two places.\<close>

definition between :: "string \<Rightarrow> int \<Rightarrow> int \<Rightarrow> string" where
  "between d x1 x2 = mid d x1 (x2 - x1)"

definition in_zone :: "AISZone \<Rightarrow> double \<Rightarrow> double \<Rightarrow> bool" where
  "in_zone z lat lon \<longleftrightarrow> d_le lat (latitudeMax z) \<and> d_le (latitudeMin z) lat
     \<and> d_le (longitudeMin z) lon \<and> d_le lon (longitudeMax z)"

text \<open>A plane is a row of texts; \<open>number\<close> is the text of a double. Places that were never set are any
  numbers: the sums made of them are not wrapped.\<close>

definition plane_row :: "(double \<Rightarrow> string) \<Rightarrow> AISZone \<Rightarrow> string \<Rightarrow> bracketed \<Rightarrow> string list option" where
  "plane_row number z d b =
     (let p = (\<lambda>k. comma b ! k);
          latitude = between d (p 0 + 1) (p 1);
          longinude = between d (p 1 + 1) (p 2)
      in if in_zone z (text_toDouble latitude) (text_toDouble longinude) then
           let course = between d (p 2 + 1) (p 3);
               altitude = between d (p 3 + 1) (p 4);
               h = d_mul (text_toDouble altitude) (dround (3048 / 10000));
               speed = between d (p 4 + 1) (p 5);
               namePlane = between d (p 15 + 2) (p 16 - 1)
           in Some [namePlane, longinude, latitude, speed, number h, course]
         else None)"

fun plane_rows :: "(double \<Rightarrow> string) \<Rightarrow> AISZone \<Rightarrow> string \<Rightarrow> int \<Rightarrow> bracketed list \<Rightarrow> (int, string list) qmap" where
  "plane_rows number z d i [] = []"
| "plane_rows number z d i (b # bs) =
     (case plane_row number z d b of
        None \<Rightarrow> plane_rows number z d (i + 1) bs
      | Some r \<Rightarrow> (i, r) # plane_rows number z d (i + 1) bs)"

definition filter_rows :: "(double \<Rightarrow> string) \<Rightarrow> (bracketed \<Rightarrow> bracketed) \<Rightarrow> bracketed \<Rightarrow> AISZone \<Rightarrow> string \<Rightarrow> (int, string list) qmap option" where
  "filter_rows number fresh b0 z d = map_option (plane_rows number z d 0) (scan fresh 0 d b0 0 False)"

text \<open>A map is streamed from its last entry to its first.\<close>

definition write_rows :: "(int, string list) qmap \<Rightarrow> stream" where
  "write_rows m = Tok32 (word_of_nat (length m)) # concat (map (\<lambda>(k, v). TokInt k # write_vector (\<lambda>s. [TokText s]) v) (rev m))"

definition filterData :: "(double \<Rightarrow> string) \<Rightarrow> (bracketed \<Rightarrow> bracketed) \<Rightarrow> bracketed \<Rightarrow> AISZone \<Rightarrow> string \<Rightarrow> message option" where
  "filterData number fresh b0 z d =
     map_option (\<lambda>m. \<lparr>msg_type = TCP_AIS_ANSWER_DATA, msg_data = write_rows m\<rparr>) (filter_rows number fresh b0 z d)"

definition ais_encode :: "(double \<Rightarrow> string) \<Rightarrow> (bracketed \<Rightarrow> bracketed) \<Rightarrow> bracketed \<Rightarrow> AISZone \<Rightarrow> stream \<Rightarrow> message option" where
  "ais_encode number fresh b0 z ds =
     (let answer = fst (getText ds)
      in if answer = [] then Some empty_message else filterData number fresh b0 z answer)"

end
