(* ===== verification/AisProps.thy ===== *)
theory AisProps
  imports AisCoder MapProps
begin

text \<open>
  The planes of a zone from the answer of the source to the map: what the coder picks out of a text, as
  long as the memory of its structure happens to be kept, and what makes it write out of range.
\<close>

section \<open>Texts of planes\<close>

text \<open>A record in brackets: a first field and further ones, each after a comma.\<close>

definition chunk :: "string \<Rightarrow> string" where
  "chunk f = CHR '','' # f"

definition record_text :: "string \<Rightarrow> string list \<Rightarrow> string" where
  "record_text f fs = CHR ''['' # f @ concat (map chunk fs) @ [CHR '']'']"

definition plain :: "string \<Rightarrow> bool" where
  "plain f \<longleftrightarrow> CHR ''['' \<notin> set f \<and> CHR '','' \<notin> set f \<and> CHR '']'' \<notin> set f"

fun places :: "nat \<Rightarrow> string list \<Rightarrow> int list" where
  "places i [] = []"
| "places i (f # fs) = int i # places (i + 1 + length f) fs"

lemma length_places [simp]: "length (places i fs) = length fs"
  by (induction i fs rule: places.induct) simp_all

lemma places_nth: "k < length fs \<Longrightarrow> places i fs ! k = int (i + length (concat (map chunk (take k fs))))"
proof (induction i fs arbitrary: k rule: places.induct)
  case (2 i f fs)
  then show ?case by (cases k) (simp_all add: chunk_def)
qed simp

lemma scan_plain:
  assumes "plain f"
  shows "scan (\<lambda>b. b) i (f @ xs) b c inList = scan (\<lambda>b. b) (i + length f) xs b c inList"
  using assms by (induction f arbitrary: i) (auto simp: plain_def)

lemma scan_outside:
  assumes "CHR ''['' \<notin> set f" and "CHR '']'' \<notin> set f"
  shows "scan (\<lambda>b. b) i (f @ xs) b c False = scan (\<lambda>b. b) (i + length f) xs b c False"
  using assms by (induction f arbitrary: i) auto

lemma scan_chunks:
  assumes "\<forall>f \<in> set fs. plain f" and "c + length fs \<le> 17" and "length (comma b) = 17"
  shows "scan (\<lambda>b. b) i (concat (map chunk fs) @ xs) b c True
    = scan (\<lambda>b. b) (i + length (concat (map chunk fs))) xs
        (b\<lparr>comma := take c (comma b) @ places i fs @ drop (c + length fs) (comma b)\<rparr>) (c + length fs) True"
  using assms
proof (induction fs arbitrary: i b c)
  case (Cons f fs)
  let ?b = "b\<lparr>comma := (comma b)[c := int i]\<rparr>"
  have c: "c < length (comma b)" using Cons.prems by simp
  have "scan (\<lambda>b. b) i (concat (map chunk (f # fs)) @ xs) b c True
      = scan (\<lambda>b. b) (i + 1) (f @ concat (map chunk fs) @ xs) ?b (c + 1) True"
    using Cons.prems by (simp add: chunk_def)
  also have "\<dots> = scan (\<lambda>b. b) (i + 1 + length f) (concat (map chunk fs) @ xs) ?b (c + 1) True"
    using Cons.prems by (intro scan_plain) simp
  also have "\<dots> = scan (\<lambda>b. b) (i + 1 + length f + length (concat (map chunk fs))) xs
        (?b\<lparr>comma := take (c + 1) (comma ?b) @ places (i + 1 + length f) fs @ drop (c + 1 + length fs) (comma ?b)\<rparr>) (c + 1 + length fs) True"
    using Cons.prems by (intro Cons.IH) simp_all
  also have "take (c + 1) (comma ?b) = take c (comma b) @ [int i]"
    using c by (simp add: take_Suc_conv_app_nth)
  finally show ?case using c by (simp add: chunk_def add.assoc)
qed simp


lemma scan_record:
  assumes "plain f" and "\<forall>g \<in> set fs. plain g" and "length fs = 17" and "length (comma b) = 17"
  shows "\<exists>b'. comma b' = places (i + 1 + length f) fs
    \<and> scan (\<lambda>b. b) i (record_text f fs @ xs) b 0 False
      = map_option (\<lambda>bs. b' # bs) (scan (\<lambda>b. b) (i + length (record_text f fs)) xs b' 0 False)"
proof -
  let ?b = "b\<lparr>br1 := int i\<rparr>" and ?n = "length (concat (map chunk fs))"
  have "scan (\<lambda>b. b) i (record_text f fs @ xs) b 0 False
      = scan (\<lambda>b. b) (i + 1) (f @ concat (map chunk fs) @ CHR '']'' # xs) ?b 0 True"
    by (simp add: record_text_def)
  also have "\<dots> = scan (\<lambda>b. b) (i + 1 + length f) (concat (map chunk fs) @ CHR '']'' # xs) ?b 0 True"
    using assms(1) by (rule scan_plain)
  also have "\<dots> = scan (\<lambda>b. b) (i + 1 + length f + ?n) (CHR '']'' # xs) (?b\<lparr>comma := places (i + 1 + length f) fs\<rparr>) 17 True"
    using scan_chunks [of fs 0 ?b "i + 1 + length f" "CHR '']'' # xs"] assms by simp
  finally have *: "scan (\<lambda>b. b) i (record_text f fs @ xs) b 0 False
      = scan (\<lambda>b. b) (i + 1 + length f + ?n) (CHR '']'' # xs) (?b\<lparr>comma := places (i + 1 + length f) fs\<rparr>) 17 True" .
  have n: "length (record_text f fs) = length f + ?n + 2" by (simp add: record_text_def)
  let ?e = "?b\<lparr>comma := places (i + 1 + length f) fs, br2 := int (i + 1 + length f + ?n)\<rparr>"
  have "scan (\<lambda>b. b) i (record_text f fs @ xs) b 0 False
      = map_option (\<lambda>bs. ?e # bs) (scan (\<lambda>b. b) (i + length (record_text f fs)) xs ?e 0 False)"
    unfolding * n by (simp add: Let_def ac_simps)
  then show ?thesis by (intro exI [of _ ?e]) simp
qed

text \<open>A text of records: before each one there is a text without brackets.\<close>

type_synonym plane_text = "string \<times> string \<times> string list"

definition plane_ok :: "plane_text \<Rightarrow> bool" where
  "plane_ok r \<longleftrightarrow> (case r of (sep, f, fs) \<Rightarrow> CHR ''['' \<notin> set sep \<and> CHR '']'' \<notin> set sep \<and> plain f
     \<and> (\<forall>g \<in> set fs. plain g) \<and> length fs = 17 \<and> 2 \<le> length (fs ! 15))"

fun planes_text :: "plane_text list \<Rightarrow> string \<Rightarrow> string" where
  "planes_text [] t = t"
| "planes_text ((sep, f, fs) # rs) t = sep @ record_text f fs @ planes_text rs t"

fun commas :: "nat \<Rightarrow> plane_text list \<Rightarrow> int list list" where
  "commas i [] = []"
| "commas i ((sep, f, fs) # rs) =
     places (i + length sep + 1 + length f) fs # commas (i + length sep + length (record_text f fs)) rs"

lemma scan_text:
  assumes "\<forall>r \<in> set rs. plane_ok r" and "CHR ''['' \<notin> set t" and "CHR '']'' \<notin> set t" and "length (comma b) = 17"
  shows "\<exists>bs. scan (\<lambda>b. b) i (planes_text rs t) b 0 False = Some bs \<and> map comma bs = commas i rs"
  using assms
proof (induction rs arbitrary: i b)
  case Nil
  then show ?case using scan_outside [of t i "[]" b 0] by simp
next
  case (Cons r rs)
  obtain sep f fs where r: "r = (sep, f, fs)" by (cases r)
  note ok = Cons.prems(1) [unfolded r plane_ok_def]
  obtain b' where b': "comma b' = places (i + length sep + 1 + length f) fs"
    and eq: "scan (\<lambda>b. b) (i + length sep) (record_text f fs @ planes_text rs t) b 0 False
      = map_option (\<lambda>bs. b' # bs) (scan (\<lambda>b. b) (i + length sep + length (record_text f fs)) (planes_text rs t) b' 0 False)"
    using scan_record [of f fs b "i + length sep" "planes_text rs t"] ok Cons.prems(4) by auto
  have "scan (\<lambda>b. b) i (planes_text (r # rs) t) b 0 False
      = scan (\<lambda>b. b) (i + length sep) (record_text f fs @ planes_text rs t) b 0 False"
    using ok by (simp add: r scan_outside)
  moreover obtain bs where "scan (\<lambda>b. b) (i + length sep + length (record_text f fs)) (planes_text rs t) b' 0 False = Some bs"
    "map comma bs = commas (i + length sep + length (record_text f fs)) rs"
    using Cons.IH [of b' "i + length sep + length (record_text f fs)"] Cons.prems b' ok by auto
  ultimately show ?case using eq b' by (simp add: r)
qed

section \<open>Fields\<close>

lemma mid_middle: "mid (u @ v @ w) (int (length u)) (int (length v)) = v"
  by (simp add: mid_def)

lemma between_fields:
  assumes "d = u @ concat (map chunk fs) @ w" and "Suc k < length fs"
  defines "p \<equiv> places (length u) fs"
  shows "between d (p ! k + 1) (p ! Suc k) = fs ! k"
    and "2 \<le> length (fs ! k) \<Longrightarrow> between d (p ! k + 2) (p ! Suc k - 1) = butlast (tl (fs ! k))"
proof -
  let ?u = "u @ concat (map chunk (take k fs))" and ?w = "concat (map chunk (drop (Suc k) fs)) @ w"
  have "fs = take k fs @ fs ! k # drop (Suc k) fs" using assms(2) by (simp add: id_take_nth_drop)
  then have "concat (map chunk fs) = concat (map chunk (take k fs)) @ chunk (fs ! k) @ concat (map chunk (drop (Suc k) fs))"
    by (metis concat.simps(2) concat_append list.simps(9) map_append)
  then have d: "d = ?u @ CHR '','' # fs ! k @ ?w" using assms(1) by (simp add: chunk_def)
  have pk: "p ! k = int (length ?u)" unfolding p_def using assms(2) by (simp add: places_nth)
  have "take (Suc k) fs = take k fs @ [fs ! k]" using assms(2) by (simp add: take_Suc_conv_app_nth)
  then have pk1: "p ! Suc k = int (length ?u) + 1 + int (length (fs ! k))"
    unfolding p_def using assms(2) by (simp add: places_nth chunk_def)
  show "between d (p ! k + 1) (p ! Suc k) = fs ! k"
    using mid_middle [of "?u @ [CHR '','']" "fs ! k" ?w] unfolding between_def d pk pk1 by (simp add: ac_simps)
  assume two: "2 \<le> length (fs ! k)"
  then obtain q r where "fs ! k = q # r" "r \<noteq> []" by (cases "fs ! k") (auto simp: Suc_le_length_iff)
  then obtain v q' where f: "fs ! k = q # v @ [q']" by (cases r rule: rev_cases) auto
  show "between d (p ! k + 2) (p ! Suc k - 1) = butlast (tl (fs ! k))"
    using mid_middle [of "?u @ [CHR '','', q]" v "[q'] @ ?w"] unfolding between_def d pk pk1 f by (simp add: ac_simps)
qed


section \<open>The planes of a zone\<close>

text \<open>What a record says of its plane: name, longitude, latitude, speed, altitude in meters and course.\<close>

definition stated_row :: "(double \<Rightarrow> string) \<Rightarrow> string list \<Rightarrow> string list" where
  "stated_row number fs = [butlast (tl (fs ! 15)), fs ! 1, fs ! 0, fs ! 4,
     number (d_mul (text_toDouble (fs ! 3)) (dround (3048 / 10000))), fs ! 2]"

fun stated_rows :: "(double \<Rightarrow> string) \<Rightarrow> AISZone \<Rightarrow> int \<Rightarrow> plane_text list \<Rightarrow> (int, string list) qmap" where
  "stated_rows number z i [] = []"
| "stated_rows number z i ((sep, f, fs) # rs) =
     (if in_zone z (text_toDouble (fs ! 0)) (text_toDouble (fs ! 1)) then [(i, stated_row number fs)] else [])
       @ stated_rows number z (i + 1) rs"

lemma plane_row_stated:
  assumes "d = u @ concat (map chunk fs) @ w" and "length fs = 17" and "2 \<le> length (fs ! 15)"
    and "comma b = places (length u) fs"
  shows "plane_row number z d b =
    (if in_zone z (text_toDouble (fs ! 0)) (text_toDouble (fs ! 1)) then Some (stated_row number fs) else None)"
proof -
  note field = between_fields [OF assms(1), folded assms(4)]
  have "between d (comma b ! 0 + 1) (comma b ! 1) = fs ! 0" "between d (comma b ! 1 + 1) (comma b ! 2) = fs ! 1"
    "between d (comma b ! 2 + 1) (comma b ! 3) = fs ! 2" "between d (comma b ! 3 + 1) (comma b ! 4) = fs ! 3"
    "between d (comma b ! 4 + 1) (comma b ! 5) = fs ! 4"
    using field(1) [of 0] field(1) [of 1] field(1) [of 2] field(1) [of 3] field(1) [of 4] assms(2)
    by (simp_all add: numeral_eq_Suc)
  moreover have "between d (comma b ! 15 + 2) (comma b ! 16 - 1) = butlast (tl (fs ! 15))"
    using field(2) [of 15] assms(2,3) by simp
  ultimately show ?thesis by (simp add: plane_row_def stated_row_def)
qed

lemma plane_rows_stated:
  assumes "\<forall>r \<in> set rs. plane_ok r" and "d = u @ planes_text rs t" and "map comma bs = commas (length u) rs"
  shows "plane_rows number z d i bs = stated_rows number z i rs"
  using assms
proof (induction rs arbitrary: u i bs)
  case (Cons r rs)
  obtain sep f fs where r: "r = (sep, f, fs)" by (cases r)
  note ok = Cons.prems(1) [unfolded r plane_ok_def]
  let ?u = "u @ sep @ CHR ''['' # f"
  obtain b bs' where bs: "bs = b # bs'" and b: "comma b = places (length ?u) fs"
    and bs': "map comma bs' = commas (length (u @ sep @ record_text f fs)) rs"
    using Cons.prems(3) by (auto simp: r add.assoc)
  have "d = ?u @ concat (map chunk fs) @ CHR '']'' # planes_text rs t"
    using Cons.prems(2) by (simp add: r record_text_def)
  from plane_row_stated [OF this _ _ b] ok
  have "plane_row number z d b =
      (if in_zone z (text_toDouble (fs ! 0)) (text_toDouble (fs ! 1)) then Some (stated_row number fs) else None)"
    by simp
  moreover have "plane_rows number z d (i + 1) bs' = stated_rows number z (i + 1) rs"
    using Cons.IH [OF _ _ bs', of "i + 1"] Cons.prems(1,2) by (simp add: r)
  ultimately show ?case by (simp add: bs r)
qed simp

section \<open>The rows as a stream\<close>

lemma qinsert_after: "\<forall>a \<in> fst ` set m. a < k \<Longrightarrow> qinsert k v m = m @ [(k, v)]"
  by (induction m) auto

lemma get_texts_write: "get_texts (length ss) (map TokText ss @ ts) = Some (ss, ts)"
  by (induction ss) simp_all

lemma get_rows_write:
  assumes "sorted_wrt (<) (map fst m)" and "\<forall>v \<in> snd ` set m. length v < 2 ^ 32"
  shows "get_rows (length m) (concat (map (\<lambda>(k, v). TokInt k # write_vector (\<lambda>s. [TokText s]) v) (rev m))) = Some m"
  using assms
proof (induction m rule: rev_induct)
  case (snoc kv m)
  obtain k v where kv: "kv = (k, v)" by (cases kv)
  have "unat (word_of_nat (length v) :: u32) = length v"
    using snoc.prems(2) by (simp add: kv unat_of_nat)
  moreover have "qinsert k v m = m @ [(k, v)]"
    using snoc.prems(1) by (intro qinsert_after) (auto simp: kv sorted_wrt_append)
  ultimately show ?case
    using snoc by (simp add: kv write_vector_def get_texts_write sorted_wrt_append)
qed simp

lemma read_ais_write:
  assumes "sorted_wrt (<) (map fst m)" and "\<forall>v \<in> snd ` set m. length v < 2 ^ 32" and "length m < 2 ^ 32"
  shows "read_ais (write_rows m) = m"
proof -
  have "unat (word_of_nat (length m) :: u32) = length m" using assms(3) by (simp add: unat_of_nat)
  then show ?thesis by (simp add: read_ais_def write_rows_def get_rows_write [OF assms(1,2)])
qed

lemma stated_rows_keys: "(k, v) \<in> set (stated_rows number z i rs) \<Longrightarrow> i \<le> k"
  by (induction number z i rs rule: stated_rows.induct) (fastforce split: if_splits)+

lemma stated_rows_sorted: "sorted_wrt (<) (map fst (stated_rows number z i rs))"
proof (induction number z i rs rule: stated_rows.induct)
  case (2 number z i sep f fs rs)
  have "i < k" if "(k, v) \<in> set (stated_rows number z (i + 1) rs)" for k v
    using stated_rows_keys [OF that] by simp
  with 2 show ?case by fastforce
qed simp

lemma stated_rows_lengths: "\<forall>v \<in> snd ` set (stated_rows number z i rs). length v = 6"
  by (induction number z i rs rule: stated_rows.induct) (auto simp: stated_row_def)

lemma length_stated_rows: "length (stated_rows number z i rs) \<le> length rs"
  by (induction number z i rs rule: stated_rows.induct) simp_all

lemma read_stated_rows:
  "length rs < 2 ^ 32 \<Longrightarrow> read_ais (write_rows (stated_rows number z i rs)) = stated_rows number z i rs"
  using stated_rows_lengths [of number z i rs] length_stated_rows [of number z i rs]
  by (intro read_ais_write stated_rows_sorted) (auto simp del: image_iff)

section \<open>Memory that is not kept\<close>

text \<open>When every new structure holds the same foreign values, all planes are read at the places they name.\<close>

lemma scan_foreign: "scan (\<lambda>_. g) i xs b c inList = Some bs \<Longrightarrow> b' \<in> set bs \<Longrightarrow> comma b' = comma g"
proof (induction xs arbitrary: i b c inList bs)
  case (Cons x xs)
  then show ?case by (auto simp: Let_def split: if_splits)
qed simp

lemma foreign_rows:
  assumes "filter_rows number (\<lambda>_. g) b0 z d = Some m" and "(k, r) \<in> set m"
  shows "plane_row number z d g = Some r"
proof -
  obtain bs where bs: "scan (\<lambda>_. g) 0 d b0 0 False = Some bs" and m: "m = plane_rows number z d 0 bs"
    using assms(1) by (auto simp: filter_rows_def)
  have "plane_row number z d g = Some r" if "\<forall>b \<in> set bs. comma b = comma g" "(k, r) \<in> set (plane_rows number z d i bs)" for i bs
    using that by (induction number z d i bs rule: plane_rows.induct) (auto simp: plane_row_def Let_def split: option.splits if_splits)
  then show ?thesis using scan_foreign [OF bs] assms(2) m by blast
qed

section \<open>Commas out of range\<close>

lemma crowded_step:
  "(\<exists>u v. x # xs = u @ CHR ''['' # v \<and> P v) \<longleftrightarrow> (x = CHR ''['' \<and> P xs) \<or> (\<exists>u v. xs = u @ CHR ''['' # v \<and> P v)"
  by (auto simp: Cons_eq_append_conv)

lemma scan_none:
  assumes "c \<le> 17" and "\<not> inList \<longrightarrow> c = 0"
  shows "scan fresh i xs b c inList = None \<longleftrightarrow>
    (inList \<and> 17 < c + count_list (takeWhile (\<lambda>x. x \<noteq> CHR '']'') xs) CHR '','')
    \<or> (\<exists>u v. xs = u @ CHR ''['' # v \<and> 17 < count_list (takeWhile (\<lambda>x. x \<noteq> CHR '']'') v) CHR '','')"
  using assms
proof (induction xs arbitrary: i b c inList)
  case (Cons x xs)
  show ?case
    unfolding crowded_step using Cons.prems by (auto simp: Let_def Cons.IH)
qed simp

text \<open>
  C39: From a text of records with seventeen further fields each, separated by anything without brackets, the
  coder picks the planes inside the zone: the map reads for each of them its number in the text and its
  name without quotes, longitude, latitude, speed, altitude in meters and course, and reads no other
  plane. This needs that the structure that is declared anew for every character keeps the memory of
  the one before.
\<close>
theorem planes_of_the_zone_reach_the_map:
  assumes "\<forall>r \<in> set rs. plane_ok r" and "CHR ''['' \<notin> set t" and "CHR '']'' \<notin> set t"
    and "length (comma b0) = 17" and "length rs < 2 ^ 32"
  shows "map_option (\<lambda>m. (msg_type m, read_ais (msg_data m))) (filterData number (\<lambda>b. b) b0 z (planes_text rs t))
    = Some (TCP_AIS_ANSWER_DATA, stated_rows number z 0 rs)"
proof -
  obtain bs where "scan (\<lambda>b. b) 0 (planes_text rs t) b0 0 False = Some bs" and "map comma bs = commas 0 rs"
    using scan_text [OF assms(1-4)] by blast
  then have "filter_rows number (\<lambda>b. b) b0 z (planes_text rs t) = Some (stated_rows number z 0 rs)"
    using plane_rows_stated [OF assms(1), of _ "[]" t bs] by (simp add: filter_rows_def)
  then show ?thesis using assms(5) by (simp add: filterData_def read_stated_rows)
qed

text \<open>
  C40: The coder writes beyond its array of seventeen commas, whatever its memory holds, exactly if some
  opening bracket of the answer is followed by eighteen commas before the next closing one.
\<close>
theorem eighteen_commas_overflow:
  "filterData number fresh b0 z d = None \<longleftrightarrow>
    (\<exists>u v. d = u @ CHR ''['' # v \<and> 17 < count_list (takeWhile (\<lambda>x. x \<noteq> CHR '']'') v) CHR '','')"
  by (simp add: filterData_def filter_rows_def scan_none)

definition one_plane :: "plane_text list" where
  "one_plane = [([], ''id'', [''0'', ''0'', ''90'', ''0'', ''400'', [], [], [], [], [], [], [], [], [], [], ''qSU1q'', []])]"

definition everywhere :: AISZone where
  "everywhere = \<lparr>latitudeMax = Fin 90, longitudeMin = Fin (- 180), latitudeMin = Fin (- 90), longitudeMax = Fin 180\<rparr>"

lemma zero_text: "text_toDouble ''0'' = Fin 0"
  by (simp add: text_toDouble_def sign_of_def trimmed_def is_space_def unsigned_double_def mantissa_def is_exponent_mark_def
      is_digit_def char_digit_def scale10_def dround_def Let_def)

lemma planes_of_the_zone_reach_the_map_witness:
  "map_option (\<lambda>m. read_ais (msg_data m))
      (filterData (\<lambda>_. ''0'') (\<lambda>b. b) \<lparr>br1 = 0, br2 = 0, comma = replicate 17 0\<rparr> everywhere (planes_text one_plane []))
    = Some [(0, [''SU1'', ''0'', ''0'', ''400'', ''0'', ''90''])]"
proof -
  have "stated_rows (\<lambda>_. ''0'') everywhere 0 one_plane = [(0, [''SU1'', ''0'', ''0'', ''400'', ''0'', ''90''])]"
    by (simp add: one_plane_def stated_row_def in_zone_def everywhere_def zero_text d_le_def)
  moreover have "\<forall>r \<in> set one_plane. plane_ok r" by (simp add: one_plane_def plane_ok_def plain_def)
  ultimately show ?thesis
    using planes_of_the_zone_reach_the_map [of one_plane "[]" "\<lparr>br1 = 0, br2 = 0, comma = replicate 17 0\<rparr>" "\<lambda>_. ''0''" everywhere]
    by (simp add: option.map_comp comp_def one_plane_def) fastforce
qed

end
