(* ===== verification/Spec2Isabelle.thy ===== *)
theory Spec2Isabelle
  imports UavManagerDb UavHistoryProps TcpManagerProps CheckSums NiippControlProps MapProps TcpDevicesProps AisProps
begin

text \<open>
  ARM OD: the model of a station that follows unmanned aircraft.

  \<^bold>\<open>The program.\<close> A server (\<open>src/src/server\<close>) keeps TCP connections to devices: the KTR radios with
  their boards, the NIIPP, AIS, ADS-B receivers and the solver. A controller per device hands incoming
  bytes to a coder; the decoded messages go to \<open>TcpManager\<close>, which labels them and hands them to the
  RPC server under the name of a remote method. A client (\<open>src/src/view\<close>) receives the calls, stores
  the samples in a MySQL database through \<open>DbUavManager\<close> and \<open>DbUavController\<close> and tells its listeners
  (tree, map) which UAVs there are; \<open>UavHistory\<close> plays stored samples back. Both sides share the
  library \<open>CISCommonLib\<close> with the routed RPC server, the subjects and the bidirectional map.

  \<^bold>\<open>Theories, in the order of the layers.\<close>
  \<^item> \<open>Prelude\<close>: machine integers, decimal texts, the comparisons of doubles. \<open>QtContainers\<close>: \<open>QMap\<close> as
    an association list sorted by key (locales \<open>ordered_map\<close>, \<open>mirrored_maps\<close>), \<open>QList\<close> and \<open>QVector\<close>.
    \<open>IeeeDouble\<close>: rounding and the operations of doubles, with the error of a rounding.
  \<^item> \<open>BiMap\<close> (\<open>Templates/BiMap.h\<close>), \<open>Subjects\<close> (\<open>Templates/BaseSubject.h\<close>, \<open>BaseSubjectEx.h\<close>; locale
    \<open>observer\<close>), \<open>RpcRouting\<close> (\<open>Rpc/RpcRoutedServer.cpp\<close>, \<open>RpcRoutedClient.cpp\<close>): the tables of clients
    and listeners and the table of the joined pairs.
  \<^item> \<open>Database\<close>: the SQL server as a record of operations, with the locale \<open>sql_server\<close> of what the code
    relies on, and the schema (\<open>sql/arm_od_uav_tables.sql\<close>). \<open>DatabaseMemory\<close>: a server in memory that
    satisfies the laws. \<open>UavTables\<close>, \<open>UavController\<close>: the records and every operation of
    \<open>DbUavController.cpp\<close>; \<open>UavControllerLaws\<close>, \<open>UavControllerProps\<close>, \<open>UavStorageProps\<close>: what they
    promise on every lawful server. \<open>Dictionary\<close>, \<open>UavDictionaries\<close>: the contract of the dictionary
    tables, provided by the controller and used by the manager; the reconnection.
  \<^item> \<open>UavManager\<close>, \<open>UavSamples\<close> (\<open>DbUavManager.cpp\<close>): the known UAVs, life timers, the storing of samples
    over an interface record \<open>uav_db\<close>. \<open>UavManagerProps\<close>, \<open>UavSolverProps\<close>: what listeners see;
    \<open>UavManagerDb\<close>: the manager on top of the controller.
  \<^item> \<open>UavHistory\<close>, \<open>UavHistoryProps\<close> (\<open>UavHistory.cpp\<close>): the player and the export.
  \<^item> \<open>Subscriptions\<close> (\<open>server/core/Common/Subscriber.cpp\<close>, locale \<open>subscriber\<close>), \<open>RpcServer\<close>,
    \<open>RpcServerProps\<close> (\<open>server/core/RPC\<close>): connections, client objects and delivery.
  \<^item> \<open>PositionStream\<close> (\<open>common/src/UAVDefines.h\<close>, locale \<open>streamed\<close>): positions and their streams.
    \<open>KtrCoder\<close> (\<open>TcpKTRCoder.cpp\<close>), \<open>NiippCoder\<close> (\<open>TcpNIIPPCoder.cpp\<close>): the protocols of the devices.
    \<open>DeviceController\<close> (\<open>Tcp/BaseTcpDeviceController.cpp\<close>, locale \<open>quiet_coder\<close>): data on the way through
    a coder. \<open>KtrManager\<close>, \<open>KtrManagerProps\<close> (\<open>TcpKTRManager.cpp\<close>): controllers and life timers of boards.
    \<open>TcpManager\<close>, \<open>TcpManagerProps\<close> (\<open>TcpManager.cpp\<close>): all devices, and the way of a position from a
    board to the clients. \<open>KtrSim\<close>, \<open>KtrProps\<close> (\<open>KtrSimulator.cpp\<close>): the simulated KTR against the coder.
    \<open>NiippProps\<close>: the texts of the NIIPP.
  \<^item> \<open>TreeModel\<close> (\<open>TreeModel/TreeItem.cpp\<close>, \<open>TreeModelBase.cpp\<close>): a tree behind Qt's item models, with
    pointers as paths. \<open>UavTree\<close>, \<open>UavTreeProps\<close> (\<open>Tabs/Tree/UavTreeModel.cpp\<close>): the tree of UAVs of one
    role that listens to the manager.

  \<^item> \<open>CheckSums\<close> (\<open>server/core/Common/CRCs.cpp\<close>). \<open>NiippControl\<close> (\<open>view/core/NIIPP\<close>), \<open>ViewClient\<close>
    (\<open>Rpc/RpcClientBase.cpp\<close>, \<open>Tabs/RPC\<close>), \<open>NiippControlProps\<close>: the control of a NIIPP by the operator, from
    the sample of an enemy to the bytes for the device and back from its answer to the zone.
  \<^item> \<open>MapFeatures\<close> (\<open>view/core/Map/Features\<close>), \<open>MapClient\<close> (\<open>MapClient1.cpp\<close>), \<open>MapController\<close> (\<open>Map.cpp\<close>,
    \<open>MapController.cpp\<close>): what is on the map, changed by the UAVs of the manager and the messages of the
    server. Objects of the map library are events. \<open>MapProps\<close>: the map as a listener of the manager.

  \<^item> \<open>Settings\<close>: values of settings files. \<open>TcpClient\<close> (\<open>Tcp/BaseTcpClient.cpp\<close>): a socket with its timer of
    reconnection. \<open>TcpDevices\<close>, \<open>TcpDevicesProps\<close> (\<open>TcpKTRController.cpp\<close>, \<open>TcpNIIPPController.cpp\<close>,
    \<open>TcpArmrClientController.cpp\<close>, \<open>TcpSettingsManager.cpp\<close>, \<open>ARM_OD_Srv.cpp\<close>): the controllers of the device
    types, the start of the station and the state of a connection on its way to the operator.
    \<open>AisCoder\<close> (\<open>TcpAISCoder.cpp\<close>, \<open>TcpAISZoneManager.cpp\<close>, \<open>TcpAISController.cpp\<close>), \<open>AisProps\<close>: the planes of a
    zone from the answer of their source to the map.

  \<^bold>\<open>How state and effects are modelled.\<close> A class is a record of its fields, an operation a function that
  returns the changed record. What an operation asks of others (calls of listeners, of the RPC peer, of
  timers and controllers) is the list of events it returns, in order. The value \<open>None\<close> of an operation
  is undefined behaviour of the code: a null pointer, a deleted object, a list read out of range.
  Integers have their width where it matters, doubles are exact rational numbers that are rounded as
  IEEE 754 says. Addresses of new objects, the current time, uninitialised memory, the server of the
  database and the formatting of dates are parameters; a hypothesis about one is a locale or a named
  predicate, and a witness applies it to concrete values.

  \<^bold>\<open>What the lemmas show.\<close> Invariants of reachable states by rule induction (routes, known UAVs, player
  and listener, tables of the KTR manager, indexes and stations of the trees); refinements (\<open>BiMap\<close> of a
  partial bijection, subscriptions of a relation, the manager of a display, the display of a tree and of a map); the
  behaviour of every operation on every lawful database server, errors included; round trips of the
  protocols between coder and simulator; bounds of the floating point conversions; and compositions: a
  sample from RPC to the tables, a board from the list of its KTR to its registration, a position from
  the bytes of a board to the remote call. Where the code does something else than it means to, the
  property states what it does.

  \<^bold>\<open>Loops and bounds.\<close> Loops over containers are structural recursion or folds. Two loops may run
  forever and are partial functions into \<open>option\<close>: \<open>read_loop\<close> of the simulator (which ends on every
  sequence of commands, and never on other data of 22 bytes or more) and \<open>drain\<close> of the device controller
  (which ends at once for a coder that has no message without data, the locale \<open>quiet_coder\<close>; the NIIPP
  coder is not one). Playback is bounded by the rows that are left. No fuel is used.

  \<^bold>\<open>Not modelled.\<close> Threads and mutexes (operations are atomic, in one order; the wait for the connection
  of a board is left out) and the sockets inside Qt; log lines; the server side of TCP; the closed map library with the
  styles and names handed to it, the widgets and windows of the client; the ADS-B receiver and the coder of
  the solver, which wrap an external process and protobuf; the vendored libraries, tests and build files. In the simulator the track of the
  boards uses trigonometric functions and random numbers, whose results are parameters.
\<close>

end
